(* ===== verification/Prelude.thy ===== *)
theory Prelude
  imports Main "HOL-Library.Word" "HOL-Library.Monad_Syntax" "HOL-Library.Char_ord"
begin

unbundle bit_operations_syntax

text \<open>
  The common vocabulary of the development: Go's fixed-width integers as words, Go strings and
  byte slices as byte lists, the slice expression with its bounds check, big-endian integers
  (the part of \<^verbatim>\<open>encoding/binary\<close> that package \<^verbatim>\<open>pkg\<close> uses), the text formatting and parsing
  verbs of \<^verbatim>\<open>fmt\<close>, \<^verbatim>\<open>strconv\<close> and \<^verbatim>\<open>encoding/hex\<close> that the code calls, and the lemma
  collections that the component theories add to.

  A Go run-time panic (slice or index out of range, close of a closed channel) is \<open>None\<close>: an
  operation that may panic has an option type, and the do-notation of the option monad gives
  the propagation of the panic to the caller.
\<close>

section \<open>Types\<close>

type_synonym byte = "8 word"
type_synonym u16 = "16 word"
type_synonym u32 = "32 word"
type_synonym gostring = "byte list"

named_theorems wire_simps \<open>equations that run a writer or a reader on a well-formed field\<close>
named_theorems length_simps \<open>sizes of encoded values\<close>

text \<open>The bytes of an ASCII string literal of the source.\<close>

definition bytes_of :: "string \<Rightarrow> gostring" where
  "bytes_of s = map of_char s"

lemma length_bytes_of [simp]: "length (bytes_of s) = length s"
  by (simp add: bytes_of_def)

section \<open>Slices\<close>

text \<open>
  The slice expression \<open>xs[lo:hi]\<close>: a panic unless \<open>lo \<le> hi \<le> len xs\<close>. (For a slice whose
  capacity exceeds its length Go compares \<open>hi\<close> with the capacity; each use below says why
  the two agree there.)
\<close>

definition go_slice :: "'a list \<Rightarrow> nat \<Rightarrow> nat \<Rightarrow> 'a list option" where
  "go_slice xs lo hi = (if lo \<le> hi \<and> hi \<le> length xs then Some (take (hi - lo) (drop lo xs)) else None)"

text \<open>The slice expression \<open>xs[lo:]\<close>.\<close>

definition go_slice_from :: "'a list \<Rightarrow> nat \<Rightarrow> 'a list option" where
  "go_slice_from xs lo = go_slice xs lo (length xs)"

text \<open>The index expression \<open>xs[i]\<close>.\<close>

definition go_index :: "'a list \<Rightarrow> nat \<Rightarrow> 'a option" where
  "go_index xs i = (if i < length xs then Some (xs ! i) else None)"

lemma go_slice_from_eq: "go_slice_from xs lo = (if lo \<le> length xs then Some (drop lo xs) else None)"
  by (simp add: go_slice_from_def go_slice_def)

lemma go_slice_SomeI: "lo \<le> hi \<Longrightarrow> hi \<le> length xs \<Longrightarrow> go_slice xs lo hi = Some (take (hi - lo) (drop lo xs))"
  by (simp add: go_slice_def)

lemma go_slice_eq_None_iff: "go_slice xs lo hi = None \<longleftrightarrow> hi < lo \<or> length xs < hi"
  by (auto simp: go_slice_def)

lemma go_slice_append_left:
  "length as = lo \<Longrightarrow> hi = lo + length bs \<Longrightarrow> go_slice (as @ bs @ cs) lo hi = Some bs"
  by (auto simp: go_slice_def)

section \<open>Big-endian integers\<close>

definition packUi16 :: "u16 \<Rightarrow> byte list" where
  "packUi16 n = [ucast (drop_bit 8 n), ucast n]"

definition PutUint32 :: "u32 \<Rightarrow> byte list" where
  "PutUint32 n = [ucast (drop_bit 24 n), ucast (drop_bit 16 n), ucast (drop_bit 8 n), ucast n]"

definition Uint16 :: "byte \<Rightarrow> byte \<Rightarrow> u16" where
  "Uint16 b0 b1 = push_bit 8 (ucast b0) OR ucast b1"

definition Uint32 :: "byte \<Rightarrow> byte \<Rightarrow> byte \<Rightarrow> byte \<Rightarrow> u32" where
  "Uint32 b0 b1 b2 b3 =
     push_bit 24 (ucast b0) OR push_bit 16 (ucast b1) OR push_bit 8 (ucast b2) OR ucast b3"

lemma Uint16_pack [simp]: "Uint16 (ucast (drop_bit 8 n)) (ucast n) = n"
  unfolding Uint16_def
  by (rule bit_word_eqI) (auto simp: bit_simps)

lemma packUi16_Uint16: "packUi16 (Uint16 b0 b1) = [b0, b1]"
proof -
  have "ucast (drop_bit 8 (Uint16 b0 b1)) = b0"
    unfolding Uint16_def by (rule bit_word_eqI) (auto simp: bit_simps dest: bit_imp_le_length)
  moreover have "ucast (Uint16 b0 b1) = b1"
    unfolding Uint16_def by (rule bit_word_eqI) (auto simp: bit_simps)
  ultimately show ?thesis by (simp add: packUi16_def)
qed

lemma Uint32_Put [simp]:
  "Uint32 (ucast (drop_bit 24 n)) (ucast (drop_bit 16 n)) (ucast (drop_bit 8 n)) (ucast n) = n"
  unfolding Uint32_def
proof (rule bit_word_eqI)
  fix k
  assume "k < LENGTH(32)"
  then show "bit (push_bit 24 (ucast (ucast (drop_bit 24 n) :: byte))
      OR push_bit 16 (ucast (ucast (drop_bit 16 n) :: byte))
      OR push_bit 8 (ucast (ucast (drop_bit 8 n) :: byte)) OR ucast (ucast n :: byte) :: u32) k = bit n k"
    by (cases "k < 8"; cases "k < 16"; cases "k < 24") (auto simp: bit_simps)
qed

lemma length_packUi16 [simp, length_simps]: "length (packUi16 n) = 2"
  by (simp add: packUi16_def)

lemma length_PutUint32 [simp, length_simps]: "length (PutUint32 n) = 4"
  by (simp add: PutUint32_def)

section \<open>Running programs symbolically\<close>

text \<open>
  Congruence rules that make the simplifier run a do-block or a sequence of lets from its first
  operation on: it does not look into the rest of the program before the value bound is known.
\<close>

lemma option_bind_cong_weak: "m = m' \<Longrightarrow> Option.bind m f = Option.bind m' f"
  by simp

lemmas run_cong = option_bind_cong_weak let_weak_cong prod.case_cong_weak sum.case_cong_weak
  option.case_cong_weak if_weak_cong

end
