(* ===== verification/Go_Text.thy ===== *)
theory Go_Text
  imports Prelude
begin

text \<open>
  The text verbs of Go's standard library that \<^verbatim>\<open>pkg\<close> calls: \<^verbatim>\<open>%d\<close>, \<^verbatim>\<open>%02d\<close>, \<^verbatim>\<open>%010d\<close> and
  \<^verbatim>\<open>%06x\<close> of \<^verbatim>\<open>fmt.Sprintf\<close>, \<^verbatim>\<open>strconv.Itoa\<close>, \<^verbatim>\<open>strconv.ParseInt\<close>, \<^verbatim>\<open>strconv.ParseUint\<close>,
  \<^verbatim>\<open>hex.EncodeToString\<close> and \<^verbatim>\<open>hex.DecodeString\<close>, with their inverse laws.
\<close>

section \<open>Positional numerals\<close>

definition digit_char :: "nat \<Rightarrow> byte" where
  "digit_char d = (if d < 10 then of_nat (48 + d) else of_nat (87 + d))"

definition digit_val :: "byte \<Rightarrow> nat option" where
  "digit_val c = (let n = unat c in
     if 48 \<le> n \<and> n \<le> 57 then Some (n - 48)
     else if 97 \<le> n \<and> n \<le> 122 then Some (n - 87)
     else if 65 \<le> n \<and> n \<le> 90 then Some (n - 55)
     else None)"

fun digits :: "nat \<Rightarrow> nat \<Rightarrow> gostring" where
  "digits b n = (if b < 2 \<or> n < b then [digit_char n] else digits b (n div b) @ [digit_char (n mod b)])"

declare digits.simps [simp del]

definition pad0 :: "nat \<Rightarrow> gostring \<Rightarrow> gostring" where
  "pad0 w s = replicate (w - length s) 48 @ s"

text \<open>\<^verbatim>\<open>%d\<close> and \<^verbatim>\<open>%0wd\<close> of an unsigned value, \<^verbatim>\<open>strconv.Itoa\<close> of an \<open>int\<close>.\<close>

definition Sprintf_0d :: "nat \<Rightarrow> nat \<Rightarrow> gostring" where
  "Sprintf_0d w n = pad0 w (digits 10 n)"

definition Itoa :: "int \<Rightarrow> gostring" where
  "Itoa i = (if i < 0 then 45 # digits 10 (nat (- i)) else digits 10 (nat i))"

text \<open>\<^verbatim>\<open>%0wx\<close> of a signed value: the sign takes one of the \<open>w\<close> places.\<close>

definition Sprintf_0x :: "nat \<Rightarrow> int \<Rightarrow> gostring" where
  "Sprintf_0x w i = (if i < 0 then 45 # pad0 (w - 1) (digits 16 (nat (- i))) else pad0 w (digits 16 (nat i)))"

lemma unat_digit_char: "d < 36 \<Longrightarrow> unat (digit_char d) = (if d < 10 then 48 + d else 87 + d)"
  by (auto simp: digit_char_def unat_of_nat simp del: of_nat_add)

lemma digit_val_char [simp]: "d < 36 \<Longrightarrow> digit_val (digit_char d) = Some d"
  by (auto simp: digit_val_def Let_def unat_digit_char)

lemma digit_char_neq_0 [simp]: "d < 36 \<Longrightarrow> digit_char d \<noteq> 0"
  using unat_digit_char [of d] by (auto split: if_splits)

lemma digits_neq_Nil [simp]: "digits b n \<noteq> []"
  by (subst digits.simps) simp

lemma length_digits:
  "n < b ^ w \<Longrightarrow> 2 \<le> b \<Longrightarrow> 0 < w \<Longrightarrow> length (digits b n) \<le> w"
proof (induction b n arbitrary: w rule: digits.induct)
  case (1 b n)
  show ?case
  proof (cases "n < b")
    case True
    with 1 show ?thesis by (subst digits.simps) simp
  next
    case False
    with 1 obtain v where w: "w = Suc v" "0 < v"
      by (cases w; cases "w - 1") auto
    with 1 have "n div b < b ^ v"
      by (simp add: less_mult_imp_div_less mult.commute)
    with 1 False w have "length (digits b (n div b)) \<le> v" by simp
    with 1 False w show ?thesis by (subst digits.simps) simp
  qed
qed

lemma length_pad0 [length_simps]: "length (pad0 w s) = max w (length s)"
  by (simp add: pad0_def)

lemma length_pad0_digits [length_simps]:
  "n < b ^ w \<Longrightarrow> 2 \<le> b \<Longrightarrow> 0 < w \<Longrightarrow> length (pad0 w (digits b n)) = w"
  by (simp add: length_pad0 length_digits max_absorb1)

section \<open>Parsing numbers\<close>

datatype num_error = ErrSyntax | ErrRange

fun ParseUint_loop :: "nat \<Rightarrow> nat \<Rightarrow> nat \<Rightarrow> gostring \<Rightarrow> nat \<times> num_error option" where
  "ParseUint_loop base maxVal n [] = (n, None)"
| "ParseUint_loop base maxVal n (c # s) =
     (case digit_val c of
        None \<Rightarrow> (0, Some ErrSyntax)
      | Some d \<Rightarrow>
          if base \<le> d then (0, Some ErrSyntax)
          else if maxVal < n * base + d then (maxVal, Some ErrRange)
          else ParseUint_loop base maxVal (n * base + d) s)"

definition ParseUint :: "gostring \<Rightarrow> nat \<Rightarrow> nat \<Rightarrow> nat \<times> num_error option" where
  "ParseUint s base bitSize =
     (if s = [] then (0, Some ErrSyntax) else ParseUint_loop base (2 ^ bitSize - 1) 0 s)"

definition ParseInt :: "gostring \<Rightarrow> nat \<Rightarrow> nat \<Rightarrow> int \<times> num_error option" where
  "ParseInt s base bitSize =
     (if s = [] then (0, Some ErrSyntax)
      else
        let neg = (hd s = 45);
            t = (if hd s = 43 \<or> hd s = 45 then tl s else s);
            (un, err) = ParseUint t base bitSize;
            cutoff = 2 ^ (bitSize - 1)
        in if err = Some ErrSyntax then (0, err)
           else if \<not> neg \<and> cutoff \<le> un then (int (cutoff - 1), Some ErrRange)
           else if neg \<and> cutoff < un then (- int cutoff, Some ErrRange)
           else (if neg then - int un else int un, None))"

text \<open>
  The loop reads a concatenation piece by piece as long as the value read so far stays in
  range: reading the digits of \<open>n\<close> after the value \<open>a\<close> gives \<open>a * b ^ k + n\<close>.
\<close>

lemma ParseUint_loop_digit:
  "d < b \<Longrightarrow> b \<le> 36 \<Longrightarrow> a * b + d \<le> m \<Longrightarrow>
   ParseUint_loop b m a (digit_char d # s) = ParseUint_loop b m (a * b + d) s"
  by simp

lemma ParseUint_loop_digits_0:
  "n \<le> m \<Longrightarrow> 2 \<le> b \<Longrightarrow> b \<le> 36 \<Longrightarrow>
   ParseUint_loop b m 0 (digits b n @ s) = ParseUint_loop b m n s"
proof (induction b n arbitrary: s rule: digits.induct)
  case (1 b n)
  show ?case
  proof (cases "n < b")
    case True
    with 1 show ?thesis by (subst digits.simps) simp
  next
    case False
    have "n div b \<le> m" using 1 by (meson div_le_dividend le_trans)
    with 1 False have "ParseUint_loop b m 0 (digits b n @ s)
        = ParseUint_loop b m (n div b) (digit_char (n mod b) # s)"
      by (subst digits.simps) simp
    also have "\<dots> = ParseUint_loop b m (n div b * b + n mod b) s"
      using 1 by (intro ParseUint_loop_digit) auto
    finally show ?thesis by simp
  qed
qed

lemma ParseUint_loop_zeros:
  "2 \<le> b \<Longrightarrow> ParseUint_loop b m 0 (replicate k 48 @ s) = ParseUint_loop b m 0 s"
  by (induction k) (auto simp: digit_val_def)

lemma ParseUint_pad0_digits:
  assumes "n < 2 ^ bits" "2 \<le> b" "b \<le> 36"
  shows "ParseUint (pad0 w (digits b n)) b bits = (n, None)"
proof -
  have "ParseUint_loop b (2 ^ bits - 1) 0 (digits b n @ []) = (n, None)"
    using assms by (subst ParseUint_loop_digits_0) auto
  then show ?thesis
    using assms by (simp add: ParseUint_def pad0_def ParseUint_loop_zeros)
qed

section \<open>Hexadecimal strings\<close>

fun EncodeToString :: "byte list \<Rightarrow> gostring" where
  "EncodeToString [] = []"
| "EncodeToString (b # bs) =
     digit_char (unat (drop_bit 4 b)) # digit_char (unat (b AND 15)) # EncodeToString bs"

definition fromHexChar :: "byte \<Rightarrow> byte option" where
  "fromHexChar c = (case digit_val c of None \<Rightarrow> None | Some d \<Rightarrow> if d < 16 then Some (of_nat d) else None)"

text \<open>
  \<^verbatim>\<open>hex.DecodeString\<close> returns the bytes decoded before the first error together with the error;
  every caller in \<^verbatim>\<open>pkg\<close> drops the error, so the model returns the bytes.
\<close>

fun DecodeString :: "gostring \<Rightarrow> byte list" where
  "DecodeString (c # d # s) =
     (case fromHexChar c of
        None \<Rightarrow> []
      | Some a \<Rightarrow>
         (case fromHexChar d of
            None \<Rightarrow> []
          | Some b \<Rightarrow> (push_bit 4 a OR b) # DecodeString s))"
| "DecodeString s = []"

lemma length_EncodeToString [simp, length_simps]: "length (EncodeToString bs) = 2 * length bs"
  by (induction bs) auto

lemma nibble_bounds: "unat (drop_bit 4 (b :: byte)) < 16" "unat (b AND 15) < 16"
proof -
  have "b AND 15 \<le> 15" by (rule word_and_le1)
  then show "unat (b AND 15) < 16" by (simp add: word_le_nat_alt)
  have "unat b < 256" using unsigned_less [of b] by simp
  then show "unat (drop_bit 4 b) < 16" by (simp add: drop_bit_eq_div unat_div)
qed

lemma nibbles_join: "push_bit 4 (drop_bit 4 b) OR (b AND 15) = (b :: byte)"
proof (rule bit_word_eqI)
  fix k
  assume "k < LENGTH(8)"
  moreover have "b AND 15 = take_bit 4 b"
    by (simp add: take_bit_eq_mask mask_eq_exp_minus_1)
  ultimately show "bit (push_bit 4 (drop_bit 4 b) OR b AND 15) k = bit b k"
    by (cases "k < 4") (auto simp: bit_simps)
qed

lemma fromHexChar_digit [simp]: "d < 16 \<Longrightarrow> fromHexChar (digit_char d) = Some (of_nat d)"
  by (simp add: fromHexChar_def)

lemma DecodeString_EncodeToString [simp]: "DecodeString (EncodeToString bs) = bs"
  by (induction bs) (auto simp: nibble_bounds nibbles_join)

lemma length_DecodeString: "length (DecodeString s) \<le> length s div 2"
  by (induction s rule: DecodeString.induct) (auto split: option.splits)

text \<open>Strings of lower-case hexadecimal digits, which the decoder inverts.\<close>

definition hex_string :: "gostring \<Rightarrow> bool" where
  "hex_string s \<longleftrightarrow> (\<forall>c \<in> set s. \<exists>d < 16. c = digit_char d)"

lemma hex_string_append [simp]: "hex_string (s @ t) \<longleftrightarrow> hex_string s \<and> hex_string t"
  by (auto simp: hex_string_def)

lemma hex_string_digit [simp]: "d < 16 \<Longrightarrow> hex_string [digit_char d]"
  by (auto simp: hex_string_def)

lemma hex_string_digits: "2 \<le> b \<Longrightarrow> b \<le> 16 \<Longrightarrow> hex_string (digits b n)"
proof (induction b n rule: digits.induct)
  case (1 b n)
  have "n mod b < 16"
    using 1 mod_less_divisor [of b n] by linarith
  with 1 show ?case
    by (subst digits.simps) auto
qed

lemma hex_string_pad0:
  assumes "hex_string s"
  shows "hex_string (pad0 w s)"
proof -
  have "(48 :: byte) = digit_char 0" by (simp add: digit_char_def)
  then have "hex_string (replicate k 48)" for k
    unfolding hex_string_def by (metis in_set_replicate zero_less_numeral)
  with assms show ?thesis by (simp add: pad0_def)
qed

lemma nibble_join_split:
  assumes "a < 16" "b < 16"
  shows "unat (drop_bit 4 (push_bit 4 (of_nat a) OR of_nat b :: byte)) = a"
    and "unat ((push_bit 4 (of_nat a) OR of_nat b :: byte) AND 15) = b"
proof -
  have m: "take_bit 4 (of_nat x) = (of_nat x :: byte)" if "x < 16" for x
    using that by (simp add: word_unat_eq_iff unsigned_take_bit_eq unat_of_nat take_bit_nat_eq_self)
  have "drop_bit 4 (push_bit 4 (take_bit 4 (of_nat a :: byte)) OR take_bit 4 (of_nat b)) = take_bit 4 (of_nat a)"
    by (rule bit_word_eqI) (auto simp: bit_simps)
  then have "drop_bit 4 (push_bit 4 (of_nat a) OR of_nat b :: byte) = of_nat a"
    unfolding m [OF assms(1)] m [OF assms(2)] .
  then show "unat (drop_bit 4 (push_bit 4 (of_nat a) OR of_nat b :: byte)) = a"
    using assms by (simp add: unat_of_nat)
  have "take_bit 4 (push_bit 4 (of_nat a) OR of_nat b :: byte) = take_bit 4 (of_nat b)"
    by (rule bit_word_eqI) (auto simp: bit_simps)
  then have "(push_bit 4 (of_nat a) OR of_nat b :: byte) AND 15 = of_nat b"
    using m [OF assms(2)] by (simp add: take_bit_eq_mask mask_eq_exp_minus_1)
  then show "unat ((push_bit 4 (of_nat a) OR of_nat b :: byte) AND 15) = b"
    using assms by (simp add: unat_of_nat)
qed

lemma EncodeToString_DecodeString:
  "hex_string s \<Longrightarrow> even (length s) \<Longrightarrow> EncodeToString (DecodeString s) = s"
proof (induction s rule: DecodeString.induct)
  case (1 c d s)
  then obtain a b where "a < 16" "c = digit_char a" "b < 16" "d = digit_char b"
    by (auto simp: hex_string_def)
  moreover from 1 this have "EncodeToString (DecodeString s) = s"
    by (simp add: hex_string_def)
  ultimately show ?case
    using nibble_join_split [of a b] by (simp del: drop_bit_or)
qed simp_all

lemma length_DecodeString_hex:
  "hex_string s \<Longrightarrow> length (DecodeString s) = length s div 2"
  by (induction s rule: DecodeString.induct) (auto simp: hex_string_def)

end
