(* ===== verification/Errors.thy ===== *)
theory Errors
  imports Go_Text
begin

text \<open>
  The error values of the program: the sentinel errors of \<^verbatim>\<open>pkg/error.go\<close>, \<^verbatim>\<open>pkg/options.go\<close>,
  \<^verbatim>\<open>client/client.go\<close> and \<^verbatim>\<open>server/server.go\<close>, the standard library's \<^verbatim>\<open>io.EOF\<close> and
  \<^verbatim>\<open>io.ErrUnexpectedEOF\<close>, the texts made by \<^verbatim>\<open>fmt.Errorf\<close> and \<^verbatim>\<open>errors.New\<close>, the errors of
  the network with the answer of their \<^verbatim>\<open>Timeout()\<close> method, and \<^verbatim>\<open>*pkg.OpError\<close>. A nil error is
  \<open>None\<close> where the code returns an error alone, and \<open>Inr\<close> where it returns a value and an error.
  Every call of \<^verbatim>\<open>NewOpError\<close> in the program passes a non-nil error, so the wrapped error is
  not an option.
\<close>

datatype error =
    ErrMethodParamsInvalid
  | ErrTotalLengthInvalid
  | ErrRequestIDInvalid
  | ErrRequestIDNotSupported
  | ErrConnIsClosed
  | ErrReadHeaderTimeout
  | ErrReadPktBodyTimeout
  | ErrLength
  | ErrRespNotMatch
  | ErrEmptyServerAddr
  | ErrNoHandlers
  | ErrUnsupportedPkt
  | ErrUnsupportedVersion
  | EOF
  | ErrUnexpectedEOF
  | ErrText gostring
  | NetError bool gostring
  | OpErr OpError
and OpError = OpError (err: error) (op: gostring)

definition NewOpError :: "error \<Rightarrow> gostring \<Rightarrow> OpError" where
  "NewOpError e oper = OpError e oper"

definition OpError_Cause :: "OpError \<Rightarrow> error" where
  "OpError_Cause e = err e"

definition OpError_Op :: "OpError \<Rightarrow> gostring" where
  "OpError_Op e = op e"

text \<open>The \<^verbatim>\<open>Error()\<close> texts.\<close>

primrec Error :: "error \<Rightarrow> gostring" and OpError_Error :: "OpError \<Rightarrow> gostring" where
  "Error ErrMethodParamsInvalid = bytes_of ''params passed to method is invalid''"
| "Error ErrTotalLengthInvalid = bytes_of ''PacketLength in Packet data is invalid''"
| "Error ErrRequestIDInvalid = bytes_of ''RequestID in Packet data is invalid''"
| "Error ErrRequestIDNotSupported = bytes_of ''RequestID in Packet data is not supported''"
| "Error ErrConnIsClosed = bytes_of ''connection is closed''"
| "Error ErrReadHeaderTimeout = bytes_of ''read header timeout''"
| "Error ErrReadPktBodyTimeout = bytes_of ''read packet body timeout''"
| "Error ErrLength = bytes_of ''Options: error length''"
| "Error ErrRespNotMatch = bytes_of ''the response is not matched with the request''"
| "Error ErrEmptyServerAddr = bytes_of ''smgp server listen: empty server addr''"
| "Error ErrNoHandlers = bytes_of ''smgp server: no connection handler''"
| "Error ErrUnsupportedPkt = bytes_of ''smgp server read packet: receive a unsupported pkt''"
| "Error ErrUnsupportedVersion = bytes_of ''smgp server read packet: receive a unsupported version''"
| "Error EOF = bytes_of ''EOF''"
| "Error ErrUnexpectedEOF = bytes_of ''unexpected EOF''"
| "Error (ErrText s) = s"
| "Error (NetError tmo s) = s"
| "Error (OpErr e) = OpError_Error e"
| "OpError_Error (OpError e oper) = oper @ bytes_of '' error: '' @ Error e"

lemma OpError_selectors [simp]:
  "OpError_Cause (NewOpError e oper) = e" "OpError_Op (NewOpError e oper) = oper"
  by (simp_all add: OpError_Cause_def OpError_Op_def NewOpError_def)

lemma err_NewOpError [simp]: "err (NewOpError e oper) = e"
  by (simp add: NewOpError_def)

end
