(* ===== verification/Wire.thy ===== *)
theory Wire
  imports Errors
begin

text \<open>
  \<^verbatim>\<open>pkg/packet.go\<close> and \<^verbatim>\<open>pkg/header.go\<close>: the packet writer and the packet reader, each a buffer
  with a sticky error, and the 12-byte packet header. A \<^verbatim>\<open>bytes.Buffer\<close> never fails to write, so
  the branches of the writer that handle such a failure cannot be taken and are left out; reading
  from it fails at its end only.

  The locale \<open>field_codec\<close> is the contract that the packet bodies rely on: what a writer operation
  appends, the matching reader operation takes off again, and both do nothing once an error is set.
\<close>

section \<open>The writer\<close>

record pkgWriter =
  w_b :: "byte list"
  w_err :: "OpError option"

definition newPkgWriter :: "u32 \<Rightarrow> pkgWriter" where
  "newPkgWriter initSize = \<lparr>w_b = [], w_err = None\<rparr>"

definition Bytes :: "pkgWriter \<Rightarrow> error + byte list" where
  "Bytes w = (case w_err w of Some e \<Rightarrow> Inl (err e) | None \<Rightarrow> Inr (w_b w))"

definition WriteByte :: "byte \<Rightarrow> pkgWriter \<Rightarrow> pkgWriter" where
  "WriteByte b w = (if w_err w \<noteq> None then w else w\<lparr>w_b := w_b w @ [b]\<rparr>)"

definition WriteBytes :: "byte list \<Rightarrow> pkgWriter \<Rightarrow> pkgWriter" where
  "WriteBytes b w = (if w_err w \<noteq> None then w else w\<lparr>w_b := w_b w @ b\<rparr>)"

definition WriteString :: "gostring \<Rightarrow> pkgWriter \<Rightarrow> pkgWriter" where
  "WriteString s w = (if w_err w \<noteq> None then w else w\<lparr>w_b := w_b w @ s\<rparr>)"

definition WriteFixedSizeString :: "gostring \<Rightarrow> nat \<Rightarrow> pkgWriter \<Rightarrow> pkgWriter" where
  "WriteFixedSizeString s sz w =
     (if w_err w \<noteq> None then w
      else let l1 = length s; l2 = (if l1 > 10 then 10 else l1) in
        if l1 > sz then
          w\<lparr>w_err := Some (NewOpError ErrMethodParamsInvalid
              (bytes_of ''pkgWriter.WriteFixedSizeString writes: '' @ take l2 s))\<rparr>
        else WriteString (s @ replicate (sz - l1) 0) w)"

text \<open>The integers handed to \<^verbatim>\<open>binary.Write\<close> with \<^verbatim>\<open>binary.BigEndian\<close>.\<close>

datatype go_int = U8 byte | U16 u16 | U32 u32

fun BigEndian :: "go_int \<Rightarrow> byte list" where
  "BigEndian (U8 b) = [b]"
| "BigEndian (U16 n) = packUi16 n"
| "BigEndian (U32 n) = PutUint32 n"

definition WriteInt :: "go_int \<Rightarrow> pkgWriter \<Rightarrow> pkgWriter" where
  "WriteInt data w = (if w_err w \<noteq> None then w else w\<lparr>w_b := w_b w @ BigEndian data\<rparr>)"

definition WriteHeader :: "u32 \<Rightarrow> u32 \<Rightarrow> u32 \<Rightarrow> pkgWriter \<Rightarrow> pkgWriter" where
  "WriteHeader pktLen seqId requestId w =
     (let w = WriteInt (U32 pktLen) w;
          w = WriteInt (U32 requestId) w
      in WriteInt (U32 seqId) w)"

section \<open>The reader\<close>

definition maxCStringSize :: nat where
  "maxCStringSize = 160"

record pkgReader =
  r_rb :: "byte list"
  r_err :: "OpError option"
  r_cbuf :: "byte list"

definition newPkgReader :: "byte list \<Rightarrow> pkgReader" where
  "newPkgReader data = \<lparr>r_rb = data, r_err = None, r_cbuf = replicate maxCStringSize 0\<rparr>"

text \<open>\<^verbatim>\<open>(*bytes.Buffer).Read\<close> into a slice of length \<open>n\<close>: the bytes copied and the rest.\<close>

definition buf_Read :: "nat \<Rightarrow> byte list \<Rightarrow> error + byte list \<times> byte list" where
  "buf_Read n b = (if b = [] \<and> n \<noteq> 0 then Inl EOF else Inr (take n b, drop n b))"

text \<open>\<^verbatim>\<open>io.ReadFull\<close> on a \<^verbatim>\<open>bytes.Buffer\<close>, as \<^verbatim>\<open>binary.Read\<close> calls it; a short buffer is drained.\<close>

definition buf_ReadFull :: "nat \<Rightarrow> byte list \<Rightarrow> (error + byte list) \<times> byte list" where
  "buf_ReadFull n b =
     (if n \<le> length b then (Inr (take n b), drop n b)
      else (Inl (if b = [] then EOF else ErrUnexpectedEOF), []))"

definition ReadByte :: "pkgReader \<Rightarrow> byte \<times> pkgReader" where
  "ReadByte r =
     (if r_err r \<noteq> None then (0, r)
      else case r_rb r of
        [] \<Rightarrow> (0, r\<lparr>r_err := Some (NewOpError EOF (bytes_of ''pkgReader.ReadByte''))\<rparr>)
      | b # rest \<Rightarrow> (b, r\<lparr>r_rb := rest\<rparr>))"

text \<open>
  \<^verbatim>\<open>ReadInt\<close> reads through a pointer: the variable keeps its old value when the read fails. One
  definition for each width that the packets read.
\<close>

definition ReadInt8 :: "byte \<Rightarrow> pkgReader \<Rightarrow> byte \<times> pkgReader" where
  "ReadInt8 old r =
     (if r_err r \<noteq> None then (old, r)
      else case buf_ReadFull 1 (r_rb r) of
        (Inl e, rest) \<Rightarrow> (old, r\<lparr>r_rb := rest, r_err := Some (NewOpError e (bytes_of ''pkgReader.ReadInt''))\<rparr>)
      | (Inr bs, rest) \<Rightarrow> (bs ! 0, r\<lparr>r_rb := rest\<rparr>))"

definition ReadInt32 :: "u32 \<Rightarrow> pkgReader \<Rightarrow> u32 \<times> pkgReader" where
  "ReadInt32 old r =
     (if r_err r \<noteq> None then (old, r)
      else case buf_ReadFull 4 (r_rb r) of
        (Inl e, rest) \<Rightarrow> (old, r\<lparr>r_rb := rest, r_err := Some (NewOpError e (bytes_of ''pkgReader.ReadInt''))\<rparr>)
      | (Inr bs, rest) \<Rightarrow> (Uint32 (bs ! 0) (bs ! 1) (bs ! 2) (bs ! 3), r\<lparr>r_rb := rest\<rparr>))"

text \<open>\<^verbatim>\<open>ReadBytes\<close> fills the slice \<open>s\<close>; the result is the slice's contents afterwards.\<close>

definition ReadBytes :: "byte list \<Rightarrow> pkgReader \<Rightarrow> byte list \<times> pkgReader" where
  "ReadBytes s r =
     (if r_err r \<noteq> None then (s, r)
      else case buf_Read (length s) (r_rb r) of
        Inl e \<Rightarrow> (s, r\<lparr>r_err := Some (NewOpError e (bytes_of ''pkgReader.ReadBytes''))\<rparr>)
      | Inr (got, rest) \<Rightarrow>
          let n = length got; s' = got @ drop n s; r' = r\<lparr>r_rb := rest\<rparr> in
          if n \<noteq> length s then
            (s', r'\<lparr>r_err := Some (NewOpError
                (ErrText (bytes_of ''ReadBytes reads '' @ digits 10 n @
                   bytes_of '' bytes, not equal to '' @ digits 10 (length s) @ bytes_of '' we expected''))
                (bytes_of ''pkgWriter.ReadBytes''))\<rparr>)
          else (s', r'))"

text \<open>
  \<^verbatim>\<open>ReadCString\<close> reads into the front of the reader's own array \<^verbatim>\<open>cbuf\<close> and returns a slice of it
  up to the first zero byte. The slice aliases \<^verbatim>\<open>cbuf\<close>, but every caller copies it at once (a
  conversion to string, or the hex encoder), so its contents at the time of the call are the
  result. Slicing \<^verbatim>\<open>cbuf\<close> beyond its 160 bytes is a panic.
\<close>

definition ReadCString :: "nat \<Rightarrow> pkgReader \<Rightarrow> (gostring \<times> pkgReader) option" where
  "ReadCString len r =
     (if r_err r \<noteq> None then Some ([], r)
      else if maxCStringSize < len then None
      else case buf_Read len (r_rb r) of
        Inl e \<Rightarrow> Some ([], r\<lparr>r_err := Some (NewOpError e (bytes_of ''pkgReader.ReadCString''))\<rparr>)
      | Inr (got, rest) \<Rightarrow>
          let n = length got; cbuf = got @ drop n (r_cbuf r); tmp = take len cbuf;
              r' = r\<lparr>r_rb := rest, r_cbuf := cbuf\<rparr> in
          if n \<noteq> len then
            Some ([], r'\<lparr>r_err := Some (NewOpError
                (ErrText (bytes_of ''ReadCString reads '' @ digits 10 n @
                   bytes_of '' bytes, not equal to '' @ digits 10 len @ bytes_of '' we expected''))
                (bytes_of ''pkgWriter.ReadCString''))\<rparr>)
          else Some (takeWhile (\<lambda>b. b \<noteq> 0) tmp, r'))"

definition Reader_Error :: "pkgReader \<Rightarrow> error option" where
  "Reader_Error r = map_option OpErr (r_err r)"

text \<open>
  The loop \<^verbatim>\<open>for i := 0; i < n; i++ { xs = append(xs, get(r)) }\<close>, which the submit packet runs over
  its receiver numbers.
\<close>

fun read_times :: "(pkgReader \<Rightarrow> ('a \<times> pkgReader) option) \<Rightarrow> nat \<Rightarrow> 'a list \<Rightarrow> pkgReader
    \<Rightarrow> ('a list \<times> pkgReader) option" where
  "read_times get 0 xs r = Some (xs, r)"
| "read_times get (Suc n) xs r = do { (x, r) \<leftarrow> get r; read_times get n (xs @ [x]) r }"

section \<open>The header\<close>

record Header =
  PacketLength :: u32
  RequestID :: u32
  SequenceID :: u32

definition Header_Pack :: "pkgWriter \<Rightarrow> u32 \<Rightarrow> u32 \<Rightarrow> u32 \<Rightarrow> pkgWriter" where
  "Header_Pack w pktLen requestId seqId =
     (let w = WriteInt (U32 pktLen) w;
          w = WriteInt (U32 requestId) w
      in WriteInt (U32 seqId) w)"

definition Header_Unpack :: "Header \<Rightarrow> pkgReader \<Rightarrow> Header \<times> pkgReader" where
  "Header_Unpack p r =
     (let (v, r) = ReadInt32 (PacketLength p) r; p = p\<lparr>PacketLength := v\<rparr>;
          (v, r) = ReadInt32 (RequestID p) r; p = p\<lparr>RequestID := v\<rparr>;
          (v, r) = ReadInt32 (SequenceID p) r; p = p\<lparr>SequenceID := v\<rparr>
      in (p, r))"

section \<open>Running the writer\<close>

text \<open>A string padded with zero bytes to a fixed width, as it stands on the wire.\<close>

definition fixed :: "nat \<Rightarrow> gostring \<Rightarrow> byte list" where
  "fixed n s = s @ replicate (n - length s) 0"

lemma length_fixed: "length s \<le> n \<Longrightarrow> length (fixed n s) = n"
  by (simp add: fixed_def)

lemma fixed_full [simp]: "length s = n \<Longrightarrow> fixed n s = s"
  by (simp add: fixed_def)

text \<open>A string that fits its field and survives it: no zero byte, which ends it for the reader.\<close>

definition fits :: "nat \<Rightarrow> gostring \<Rightarrow> bool" where
  "fits n s \<longleftrightarrow> length s \<le> n \<and> 0 \<notin> set s"

lemma length_fixed_fits [length_simps]: "fits n s \<Longrightarrow> length (fixed n s) = n"
  by (simp add: fits_def length_fixed)

lemma newPkgWriter_run [wire_simps]: "newPkgWriter n = \<lparr>w_b = [], w_err = None\<rparr>"
  by (simp add: newPkgWriter_def)

lemma Bytes_run [wire_simps]:
  "Bytes \<lparr>w_b = b, w_err = None\<rparr> = Inr b"
  "Bytes \<lparr>w_b = b, w_err = Some e\<rparr> = Inl (err e)"
  by (simp_all add: Bytes_def)

lemma writer_run [wire_simps]:
  "WriteByte x \<lparr>w_b = b, w_err = None\<rparr> = \<lparr>w_b = b @ [x], w_err = None\<rparr>"
  "WriteBytes xs \<lparr>w_b = b, w_err = None\<rparr> = \<lparr>w_b = b @ xs, w_err = None\<rparr>"
  "WriteString xs \<lparr>w_b = b, w_err = None\<rparr> = \<lparr>w_b = b @ xs, w_err = None\<rparr>"
  "WriteInt v \<lparr>w_b = b, w_err = None\<rparr> = \<lparr>w_b = b @ BigEndian v, w_err = None\<rparr>"
  by (simp_all add: WriteByte_def WriteBytes_def WriteString_def WriteInt_def)

lemma WriteFixedSizeString_run:
  "length s \<le> n \<Longrightarrow>
   WriteFixedSizeString s n \<lparr>w_b = b, w_err = None\<rparr> = \<lparr>w_b = b @ fixed n s, w_err = None\<rparr>"
  by (simp add: WriteFixedSizeString_def WriteString_def fixed_def)

lemma WriteFixedSizeString_fits [wire_simps]:
  "fits n s \<Longrightarrow>
   WriteFixedSizeString s n \<lparr>w_b = b, w_err = None\<rparr> = \<lparr>w_b = b @ fixed n s, w_err = None\<rparr>"
  by (simp add: fits_def WriteFixedSizeString_run)

lemma WriteHeader_run [wire_simps]:
  "WriteHeader len seq req \<lparr>w_b = b, w_err = None\<rparr> =
   \<lparr>w_b = b @ PutUint32 len @ PutUint32 req @ PutUint32 seq, w_err = None\<rparr>"
  by (simp add: WriteHeader_def writer_run)

lemma writer_sticky:
  assumes "w_err w = Some e"
  shows "WriteByte x w = w" "WriteBytes xs w = w" "WriteString s w = w" "WriteInt v w = w"
    "WriteFixedSizeString s n w = w" "WriteHeader len seq req w = w"
  using assms
  by (simp_all add: WriteByte_def WriteBytes_def WriteString_def WriteInt_def
      WriteFixedSizeString_def WriteHeader_def)

text \<open>An oversized string sets the error, and nothing else does.\<close>

lemma WriteFixedSizeString_err:
  "w_err (WriteFixedSizeString s n w) = None \<longleftrightarrow> w_err w = None \<and> length s \<le> n"
  by (auto simp: WriteFixedSizeString_def WriteString_def Let_def)

lemma WriteFixedSizeString_cause:
  "w_err w = None \<Longrightarrow> n < length s \<Longrightarrow>
   \<exists>oper. w_err (WriteFixedSizeString s n w) = Some (OpError ErrMethodParamsInvalid oper)"
  by (auto simp: WriteFixedSizeString_def Let_def NewOpError_def)

text \<open>
  The only error a writer can collect is that of an oversized string; \<open>err_simps\<close> computes whether
  a sequence of writes ends without error.
\<close>

named_theorems err_simps \<open>when a writer has an error, and which\<close>

definition w_cause :: "pkgWriter \<Rightarrow> bool" where
  "w_cause w \<longleftrightarrow> (\<forall>e. w_err w = Some e \<longrightarrow> err e = ErrMethodParamsInvalid)"

lemma writer_err [err_simps]:
  "w_err (newPkgWriter n) = None"
  "w_err (WriteByte x w) = w_err w"
  "w_err (WriteBytes xs w) = w_err w"
  "w_err (WriteString s w) = w_err w"
  "w_err (WriteInt v w) = w_err w"
  "w_err (WriteHeader len seq req w) = w_err w"
  by (simp_all add: newPkgWriter_def WriteByte_def WriteBytes_def WriteString_def WriteInt_def WriteHeader_def)

lemma writer_cause [err_simps]:
  "w_cause (newPkgWriter n)"
  "w_cause (WriteByte x w) \<longleftrightarrow> w_cause w"
  "w_cause (WriteBytes xs w) \<longleftrightarrow> w_cause w"
  "w_cause (WriteString s w) \<longleftrightarrow> w_cause w"
  "w_cause (WriteInt v w) \<longleftrightarrow> w_cause w"
  "w_cause (WriteHeader len seq req w) \<longleftrightarrow> w_cause w"
  by (simp_all add: w_cause_def writer_err)

lemma WriteFixedSizeString_w_cause [err_simps]: "w_cause w \<Longrightarrow> w_cause (WriteFixedSizeString s n w)"
  by (auto simp: w_cause_def WriteFixedSizeString_def WriteString_def Let_def)

lemmas WriteFixedSizeString_err_simps [err_simps] = WriteFixedSizeString_err

lemma fold_strings_err [err_simps]:
  "w_err (fold (\<lambda>s. WriteFixedSizeString s n) ss w) = None \<longleftrightarrow>
   w_err w = None \<and> (\<forall>s \<in> set ss. length s \<le> n)"
  by (induction ss arbitrary: w) (auto simp: WriteFixedSizeString_err)

lemma fold_strings_cause [err_simps]:
  "w_cause w \<Longrightarrow> w_cause (fold (\<lambda>s. WriteFixedSizeString s n) ss w)"
  by (induction ss arbitrary: w) (auto simp: err_simps)

lemma Bytes_Inl_iff: "w_cause w \<Longrightarrow> Bytes w = Inl e \<longleftrightarrow> w_err w \<noteq> None \<and> e = ErrMethodParamsInvalid"
  by (auto simp: Bytes_def w_cause_def split: option.splits)

section \<open>Running the reader\<close>

lemma buf_Read_append [simp]: "n = length xs \<Longrightarrow> buf_Read n (xs @ rest) = Inr (xs, rest)"
  by (auto simp: buf_Read_def)

lemma buf_ReadFull_append [simp]: "n = length xs \<Longrightarrow> buf_ReadFull n (xs @ rest) = (Inr xs, rest)"
  by (simp add: buf_ReadFull_def)

lemma ReadByte_run [wire_simps]:
  "ReadByte \<lparr>r_rb = x # rest, r_err = None, r_cbuf = c\<rparr> = (x, \<lparr>r_rb = rest, r_err = None, r_cbuf = c\<rparr>)"
  by (simp add: ReadByte_def)

lemma ReadInt8_run [wire_simps]:
  "ReadInt8 old \<lparr>r_rb = x # rest, r_err = None, r_cbuf = c\<rparr> = (x, \<lparr>r_rb = rest, r_err = None, r_cbuf = c\<rparr>)"
  by (simp add: ReadInt8_def buf_ReadFull_def)

lemma ReadInt32_run [wire_simps]:
  "ReadInt32 old \<lparr>r_rb = PutUint32 v @ rest, r_err = None, r_cbuf = c\<rparr> =
   (v, \<lparr>r_rb = rest, r_err = None, r_cbuf = c\<rparr>)"
  by (simp add: ReadInt32_def) (simp add: PutUint32_def)

lemma ReadBytes_run [wire_simps]:
  "length xs = length s \<Longrightarrow>
   ReadBytes s \<lparr>r_rb = xs @ rest, r_err = None, r_cbuf = c\<rparr> =
   (xs, \<lparr>r_rb = rest, r_err = None, r_cbuf = c\<rparr>)"
  by (simp add: ReadBytes_def)

lemma takeWhile_fixed: "0 \<notin> set s \<Longrightarrow> takeWhile (\<lambda>b. b \<noteq> 0) (fixed n s) = s"
  unfolding fixed_def
  by (subst takeWhile_append2) (auto simp: takeWhile_eq_Nil_iff)

text \<open>
  The string read back does not depend on what earlier reads left in \<^verbatim>\<open>cbuf\<close>, whose new contents
  \<open>cbuf_put\<close> keeps folded.
\<close>

definition cbuf_put :: "byte list \<Rightarrow> byte list \<Rightarrow> byte list" where
  "cbuf_put xs c = xs @ drop (length xs) c"

lemma ReadCString_run [wire_simps]:
  "n \<le> maxCStringSize \<Longrightarrow> fits n s \<Longrightarrow>
   ReadCString n \<lparr>r_rb = fixed n s @ rest, r_err = None, r_cbuf = c\<rparr> =
   Some (s, \<lparr>r_rb = rest, r_err = None, r_cbuf = cbuf_put (fixed n s) c\<rparr>)"
  by (simp add: fits_def ReadCString_def cbuf_put_def length_fixed takeWhile_fixed)

text \<open>Bytes that may hold zeros come back up to the first one only.\<close>

lemma ReadCString_raw:
  "n \<le> maxCStringSize \<Longrightarrow> length xs = n \<Longrightarrow>
   ReadCString n \<lparr>r_rb = xs @ rest, r_err = None, r_cbuf = c\<rparr> =
   Some (takeWhile (\<lambda>b. b \<noteq> 0) xs, \<lparr>r_rb = rest, r_err = None, r_cbuf = cbuf_put xs c\<rparr>)"
  by (auto simp: ReadCString_def cbuf_put_def)

lemmas reader_run_end [wire_simps] =
  ReadInt32_run [where rest = "[]", simplified]
  ReadBytes_run [where rest = "[]", simplified]
  ReadCString_run [where rest = "[]", simplified]

lemma maxCStringSize_simps [wire_simps]: "numeral n \<le> maxCStringSize \<longleftrightarrow> numeral n \<le> (160 :: nat)"
  by (simp add: maxCStringSize_def)

lemma newPkgReader_run [wire_simps]:
  "newPkgReader data = \<lparr>r_rb = data, r_err = None, r_cbuf = replicate maxCStringSize 0\<rparr>"
  by (simp add: newPkgReader_def)

section \<open>The position of a reader\<close>

text \<open>
  \<open>pos data k r\<close>: the reader \<open>r\<close> over \<open>data\<close> has been asked for \<open>k\<close> bytes. It is in error exactly
  when \<open>data\<close> has fewer, and else stands at position \<open>k\<close>. Every read asks for its width, whatever it
  finds, so the position after a sequence of reads is known without looking at the data.
\<close>

definition pos :: "byte list \<Rightarrow> nat \<Rightarrow> pkgReader \<Rightarrow> bool" where
  "pos data k r \<longleftrightarrow> (if k \<le> length data then r_err r = None \<and> r_rb r = drop k data else r_err r \<noteq> None)"

text \<open>The byte at a position, or the zero that \<^verbatim>\<open>ReadByte\<close> returns in error.\<close>

definition byte_at :: "byte list \<Rightarrow> nat \<Rightarrow> byte" where
  "byte_at data k = (if k < length data then data ! k else 0)"

lemma pos_newPkgReader: "pos data 0 (newPkgReader data)"
  by (simp add: pos_def newPkgReader_def)

lemma Reader_Error_pos: "pos data k r \<Longrightarrow> Reader_Error r = None \<longleftrightarrow> k \<le> length data"
  by (auto simp: Reader_Error_def pos_def split: if_splits)

lemma ReadByte_pos:
  "ReadByte r = (x, r') \<Longrightarrow> pos data k r \<Longrightarrow> pos data (k + 1) r' \<and> x = byte_at data k"
proof (cases "k < length data")
  case True
  then have "drop k data = data ! k # drop (Suc k) data"
    by (simp add: Cons_nth_drop_Suc)
  with True show "ReadByte r = (x, r') \<Longrightarrow> pos data k r \<Longrightarrow> pos data (k + 1) r' \<and> x = byte_at data k"
    by (auto simp: ReadByte_def pos_def byte_at_def)
qed (auto simp: ReadByte_def pos_def byte_at_def split: if_splits list.splits)

lemma ReadInt8_pos: "ReadInt8 old r = (x, r') \<Longrightarrow> pos data k r \<Longrightarrow> pos data (k + 1) r'"
  by (auto simp: ReadInt8_def buf_ReadFull_def pos_def split: if_splits)

lemma ReadInt32_pos: "ReadInt32 old r = (x, r') \<Longrightarrow> pos data k r \<Longrightarrow> pos data (k + 4) r'"
  by (auto simp: ReadInt32_def buf_ReadFull_def pos_def add.commute split: if_splits)

lemma ReadBytes_pos: "ReadBytes s r = (x, r') \<Longrightarrow> pos data k r \<Longrightarrow> pos data (k + length s) r'"
  by (auto simp: ReadBytes_def buf_Read_def pos_def Let_def add.commute split: if_splits)

lemma ReadCString_pos: "ReadCString n r = Some (x, r') \<Longrightarrow> pos data k r \<Longrightarrow> pos data (k + n) r'"
  by (auto simp: ReadCString_def buf_Read_def pos_def Let_def add.commute split: if_splits)

lemma ReadCString_total: "n \<le> maxCStringSize \<Longrightarrow> \<exists>s r'. ReadCString n r = Some (s, r')"
  by (auto simp: ReadCString_def buf_Read_def Let_def)

lemma ReadCString_eq_None_iff:
  "ReadCString n r = None \<longleftrightarrow> r_err r = None \<and> maxCStringSize < n"
  by (auto simp: ReadCString_def buf_Read_def Let_def)

lemma length_ReadBytes: "ReadBytes s r = (x, r') \<Longrightarrow> length x = length s"
  by (auto simp: ReadBytes_def buf_Read_def Let_def split: if_splits)

section \<open>The contract of a field\<close>

locale field_codec =
  fixes put :: "'a \<Rightarrow> pkgWriter \<Rightarrow> pkgWriter"
    and get :: "pkgReader \<Rightarrow> ('a \<times> pkgReader) option"
    and enc :: "'a \<Rightarrow> byte list"
    and ok :: "'a \<Rightarrow> bool"
    and width :: nat
    and scratch :: "'a \<Rightarrow> byte list \<Rightarrow> byte list"
  assumes put_ok: "ok x \<Longrightarrow> put x \<lparr>w_b = b, w_err = None\<rparr> = \<lparr>w_b = b @ enc x, w_err = None\<rparr>"
    and put_sticky: "w_err w = Some e \<Longrightarrow> put x w = w"
    and get_ok: "ok x \<Longrightarrow> get \<lparr>r_rb = enc x @ rest, r_err = None, r_cbuf = c\<rparr> =
        Some (x, \<lparr>r_rb = rest, r_err = None, r_cbuf = scratch x c\<rparr>)"
    and get_total: "\<exists>x r'. get r = Some (x, r')"
    and get_pos: "get r = Some (x, r') \<Longrightarrow> pos data k r \<Longrightarrow> pos data (k + width) r'"
    and enc_width: "ok x \<Longrightarrow> length (enc x) = width"
begin

lemma put_all:
  "\<forall>x \<in> set xs. ok x \<Longrightarrow>
   fold put xs \<lparr>w_b = b, w_err = None\<rparr> = \<lparr>w_b = b @ concat (map enc xs), w_err = None\<rparr>"
  by (induction xs arbitrary: b) (auto simp: put_ok)

lemma put_all_sticky: "w_err w = Some e \<Longrightarrow> fold put xs w = w"
  by (induction xs) (auto simp: put_sticky)

lemma length_enc_all: "\<forall>x \<in> set xs. ok x \<Longrightarrow> length (concat (map enc xs)) = width * length xs"
  by (induction xs) (auto simp: enc_width)

lemma get_all:
  "\<forall>x \<in> set xs. ok x \<Longrightarrow> n = length xs \<Longrightarrow>
   read_times get n ys \<lparr>r_rb = concat (map enc xs) @ rest, r_err = None, r_cbuf = c\<rparr> =
   Some (ys @ xs, \<lparr>r_rb = rest, r_err = None, r_cbuf = fold scratch xs c\<rparr>)"
  by (induction xs arbitrary: n ys c) (auto simp: get_ok)

lemma get_all_total: "\<exists>xs r'. read_times get n ys r = Some (xs, r')"
proof (induction n arbitrary: ys r)
  case (Suc n)
  obtain x r1 where "get r = Some (x, r1)" using get_total by blast
  with Suc show ?case by simp
qed simp

lemma get_all_pos:
  "read_times get n ys r = Some (xs, r') \<Longrightarrow> pos data k r \<Longrightarrow> pos data (k + n * width) r'"
proof (induction n arbitrary: ys r k)
  case (Suc n)
  then obtain x r1 where "get r = Some (x, r1)" "read_times get n (ys @ [x]) r1 = Some (xs, r')"
    by (auto split: bind_splits)
  with Suc.IH [of "ys @ [x]" r1 "k + width"] Suc.prems(2) get_pos show ?case
    by (simp add: add.assoc)
qed simp

lemma get_all_length: "read_times get n ys r = Some (xs, r') \<Longrightarrow> length xs = length ys + n"
proof (induction n arbitrary: ys r)
  case (Suc n)
  then obtain x r1 where "read_times get n (ys @ [x]) r1 = Some (xs, r')"
    by (auto split: bind_splits)
  from Suc.IH [OF this] show ?case by simp
qed simp

end

interpretation byte_field: field_codec WriteByte "\<lambda>r. Some (ReadByte r)" "\<lambda>b. [b]" "\<lambda>b. True" 1
  "\<lambda>b c. c"
  by unfold_locales (auto simp: wire_simps writer_sticky dest: ReadByte_pos ReadInt32_pos intro: prod.exhaust)

interpretation u32_field: field_codec "\<lambda>v. WriteInt (U32 v)" "\<lambda>r. Some (ReadInt32 old r)" PutUint32
  "\<lambda>v. True" 4 "\<lambda>v c. c" for old
  by unfold_locales (auto simp: wire_simps writer_sticky dest: ReadByte_pos ReadInt32_pos intro: prod.exhaust)

interpretation term_id: field_codec "\<lambda>s. WriteFixedSizeString s 21" "ReadCString 21" "fixed 21"
  "fits 21" 21 "\<lambda>s. cbuf_put (fixed 21 s)"
  using ReadCString_total [of 21]
  by unfold_locales (auto simp: wire_simps writer_sticky length_simps dest: ReadCString_pos)

lemmas term_id_wire [wire_simps] = term_id.put_all term_id.get_all

section \<open>Rules for whole packets\<close>

text \<open>
  To prove a fact of the outcome of an \<^verbatim>\<open>Unpack\<close> method on arbitrary data, apply one rule for each
  read: it advances the position, and forgets the value unless it is a length.
\<close>

definition outcome :: "('a \<Rightarrow> bool) \<Rightarrow> 'a \<Rightarrow> bool" where
  "outcome Q m \<longleftrightarrow> Q m"

named_theorems outcome_rules \<open>one rule for each read operation\<close>

lemma outcome_newPkgReader:
  "(\<And>r. pos data 0 r \<Longrightarrow> outcome Q (f r)) \<Longrightarrow> outcome Q (f (newPkgReader data))"
  using pos_newPkgReader by simp

lemma outcome_ReadByte [outcome_rules]:
  "pos data k r \<Longrightarrow> (\<And>r'. pos data (k + 1) r' \<Longrightarrow> outcome Q (f (byte_at data k) r')) \<Longrightarrow>
   outcome Q (case ReadByte r of (x, r) \<Rightarrow> f x r)"
  by (auto dest: ReadByte_pos split: prod.split)

lemma outcome_ReadInt8 [outcome_rules]:
  "pos data k r \<Longrightarrow> (\<And>x r'. pos data (k + 1) r' \<Longrightarrow> outcome Q (f x r')) \<Longrightarrow>
   outcome Q (case ReadInt8 old r of (x, r) \<Rightarrow> f x r)"
  by (auto dest: ReadInt8_pos split: prod.split)

lemma outcome_ReadInt32 [outcome_rules]:
  "pos data k r \<Longrightarrow> (\<And>x r'. pos data (k + 4) r' \<Longrightarrow> outcome Q (f x r')) \<Longrightarrow>
   outcome Q (case ReadInt32 old r of (x, r) \<Rightarrow> f x r)"
  by (auto dest: ReadInt32_pos split: prod.split)

lemma outcome_ReadBytes [outcome_rules]:
  "pos data k r \<Longrightarrow>
   (\<And>x r'. pos data (k + length s) r' \<Longrightarrow> length x = length s \<Longrightarrow> outcome Q (f x r')) \<Longrightarrow>
   outcome Q (case ReadBytes s r of (x, r) \<Rightarrow> f x r)"
  by (auto dest: ReadBytes_pos length_ReadBytes split: prod.split)

lemma outcome_ReadCString:
  "pos data k r \<Longrightarrow> n \<le> 160 \<Longrightarrow> (\<And>x r'. pos data (k + n) r' \<Longrightarrow> outcome Q (f x r')) \<Longrightarrow>
   outcome Q (Option.bind (ReadCString n r) (\<lambda>(x, r). f x r))"
  using ReadCString_total [of n r] ReadCString_pos [of n r _ _ data k]
  by (force simp: maxCStringSize_def)

lemma outcome_read_term_ids [outcome_rules]:
  "pos data k r \<Longrightarrow> (\<And>x r'. pos data (k + n * 21) r' \<Longrightarrow> outcome Q (f x r')) \<Longrightarrow>
   outcome Q (Option.bind (read_times (ReadCString 21) n xs r) (\<lambda>(x, r). f x r))"
  using term_id.get_all_total [of n xs r] term_id.get_all_pos [of n xs r _ _ data k] by force

end
