(* ===== verification/Request.thy ===== *)
theory Request
  imports Go_Text
begin

text \<open>
  \<^verbatim>\<open>pkg/request.go\<close> and \<^verbatim>\<open>pkg/version.go\<close>: the request identifiers, their names, and the
  protocol constants. The \<open>i\<close>-th line of the constant block declares \<open>i\<close> and \<open>0x80000000 + i\<close>.
\<close>

section \<open>Request identifiers\<close>

definition SMGP_REQUEST_MIN :: u32 where "SMGP_REQUEST_MIN = 0"
definition SMGP_LOGIN :: u32 where "SMGP_LOGIN = 1"
definition SMGP_SUBMIT :: u32 where "SMGP_SUBMIT = 2"
definition SMGP_DELIVER :: u32 where "SMGP_DELIVER = 3"
definition SMGP_ACTIVE_TEST :: u32 where "SMGP_ACTIVE_TEST = 4"
definition SMGP_FORWARD :: u32 where "SMGP_FORWARD = 5"
definition SMGP_EXIT :: u32 where "SMGP_EXIT = 6"
definition SMGP_QUERY :: u32 where "SMGP_QUERY = 7"
definition SMGP_QUERY_TE_ROUTE :: u32 where "SMGP_QUERY_TE_ROUTE = 8"
definition SMGP_QUERY_SP_ROUTE :: u32 where "SMGP_QUERY_SP_ROUTE = 9"
definition SMGP_PAYMENT_REQUEST :: u32 where "SMGP_PAYMENT_REQUEST = 10"
definition SMGP_PAYMENT_AFFIRM :: u32 where "SMGP_PAYMENT_AFFIRM = 11"
definition SMGP_QUERY_USERSTATE :: u32 where "SMGP_QUERY_USERSTATE = 12"
definition SMGP_GET_ALL_TE_ROUTE :: u32 where "SMGP_GET_ALL_TE_ROUTE = 13"
definition SMGP_GET_ALL_SP_ROUTE :: u32 where "SMGP_GET_ALL_SP_ROUTE = 14"
definition SMGP_UPDATE_TE_ROUTE :: u32 where "SMGP_UPDATE_TE_ROUTE = 15"
definition SMGP_UPDATE_SP_ROUTE :: u32 where "SMGP_UPDATE_SP_ROUTE = 16"
definition SMGP_PUSH_UPDATE_TE_ROUTE :: u32 where "SMGP_PUSH_UPDATE_TE_ROUTE = 17"
definition SMGP_PUSH_UPDATE_SP_ROUTE :: u32 where "SMGP_PUSH_UPDATE_SP_ROUTE = 18"
definition SMGP_REQUEST_MAX :: u32 where "SMGP_REQUEST_MAX = 19"

definition SMGP_RESPONSE_MIN :: u32 where "SMGP_RESPONSE_MIN = 0x80000000 + 0"
definition SMGP_LOGIN_RESP :: u32 where "SMGP_LOGIN_RESP = 0x80000000 + 1"
definition SMGP_SUBMIT_RESP :: u32 where "SMGP_SUBMIT_RESP = 0x80000000 + 2"
definition SMGP_DELIVER_RESP :: u32 where "SMGP_DELIVER_RESP = 0x80000000 + 3"
definition SMGP_ACTIVE_TEST_RESP :: u32 where "SMGP_ACTIVE_TEST_RESP = 0x80000000 + 4"
definition SMGP_FORWARD_RESP :: u32 where "SMGP_FORWARD_RESP = 0x80000000 + 5"
definition SMGP_EXIT_RESP :: u32 where "SMGP_EXIT_RESP = 0x80000000 + 6"
definition SMGP_QUERY_RESP :: u32 where "SMGP_QUERY_RESP = 0x80000000 + 7"
definition SMGP_QUERY_TE_ROUTE_RESP :: u32 where "SMGP_QUERY_TE_ROUTE_RESP = 0x80000000 + 8"
definition SMGP_QUERY_SP_ROUTE_RESP :: u32 where "SMGP_QUERY_SP_ROUTE_RESP = 0x80000000 + 9"
definition SMGP_PAYMENT_REQUEST_RESP :: u32 where "SMGP_PAYMENT_REQUEST_RESP = 0x80000000 + 10"
definition SMGP_PAYMENT_AFFIRM_RESP :: u32 where "SMGP_PAYMENT_AFFIRM_RESP = 0x80000000 + 11"
definition SMGP_QUERY_USERSTATE_RESP :: u32 where "SMGP_QUERY_USERSTATE_RESP = 0x80000000 + 12"
definition SMGP_GET_ALL_TE_ROUTE_RESP :: u32 where "SMGP_GET_ALL_TE_ROUTE_RESP = 0x80000000 + 13"
definition SMGP_GET_ALL_SP_ROUTE_RESP :: u32 where "SMGP_GET_ALL_SP_ROUTE_RESP = 0x80000000 + 14"
definition SMGP_UPDATE_TE_ROUTE_RESP :: u32 where "SMGP_UPDATE_TE_ROUTE_RESP = 0x80000000 + 15"
definition SMGP_UPDATE_SP_ROUTE_RESP :: u32 where "SMGP_UPDATE_SP_ROUTE_RESP = 0x80000000 + 16"
definition SMGP_PUSH_UPDATE_TE_ROUTE_RESP :: u32 where "SMGP_PUSH_UPDATE_TE_ROUTE_RESP = 0x80000000 + 17"
definition SMGP_PUSH_UPDATE_SP_ROUTE_RESP :: u32 where "SMGP_PUSH_UPDATE_SP_ROUTE_RESP = 0x80000000 + 18"
definition SMGP_RESPONSE_MAX :: u32 where "SMGP_RESPONSE_MAX = 0x80000000 + 19"

lemmas request_defs =
  SMGP_REQUEST_MIN_def SMGP_LOGIN_def SMGP_SUBMIT_def SMGP_DELIVER_def SMGP_ACTIVE_TEST_def
  SMGP_FORWARD_def SMGP_EXIT_def SMGP_QUERY_def SMGP_QUERY_TE_ROUTE_def SMGP_QUERY_SP_ROUTE_def
  SMGP_PAYMENT_REQUEST_def SMGP_PAYMENT_AFFIRM_def SMGP_QUERY_USERSTATE_def
  SMGP_GET_ALL_TE_ROUTE_def SMGP_GET_ALL_SP_ROUTE_def SMGP_UPDATE_TE_ROUTE_def
  SMGP_UPDATE_SP_ROUTE_def SMGP_PUSH_UPDATE_TE_ROUTE_def SMGP_PUSH_UPDATE_SP_ROUTE_def
  SMGP_REQUEST_MAX_def SMGP_RESPONSE_MIN_def SMGP_LOGIN_RESP_def SMGP_SUBMIT_RESP_def
  SMGP_DELIVER_RESP_def SMGP_ACTIVE_TEST_RESP_def SMGP_FORWARD_RESP_def SMGP_EXIT_RESP_def
  SMGP_QUERY_RESP_def SMGP_QUERY_TE_ROUTE_RESP_def SMGP_QUERY_SP_ROUTE_RESP_def
  SMGP_PAYMENT_REQUEST_RESP_def SMGP_PAYMENT_AFFIRM_RESP_def SMGP_QUERY_USERSTATE_RESP_def
  SMGP_GET_ALL_TE_ROUTE_RESP_def SMGP_GET_ALL_SP_ROUTE_RESP_def SMGP_UPDATE_TE_ROUTE_RESP_def
  SMGP_UPDATE_SP_ROUTE_RESP_def SMGP_PUSH_UPDATE_TE_ROUTE_RESP_def
  SMGP_PUSH_UPDATE_SP_ROUTE_RESP_def SMGP_RESPONSE_MAX_def

text \<open>
  \<^verbatim>\<open>RequestID.String\<close>. The subtraction in the index wraps around in 32 bits, and an index out of
  range is a panic.
\<close>

definition RequestID_String :: "u32 \<Rightarrow> gostring option" where
  "RequestID_String rid =
     (if rid \<le> SMGP_QUERY \<and> rid > SMGP_REQUEST_MIN then
        go_index
         [bytes_of ''SMGP_LOGIN'',
          bytes_of ''SMGP_SUBMIT'',
          bytes_of ''SMGP_DELIVER'',
          bytes_of ''SMGP_ACTIVE_TEST'',
          bytes_of ''SMGP_FORWARD'',
          bytes_of ''SMGP_EXIT'',
          bytes_of ''SMGP_QUERY''] (unat (rid - 1))
      else if rid < SMGP_REQUEST_MAX then
        go_index
         [bytes_of ''SMGP_QUERY_TE_ROUTE'',
          bytes_of ''SMGP_QUERY_SP_ROUTE'',
          bytes_of ''SMGP_PAYMENT_REQUEST'',
          bytes_of ''SMGP_PAYMENT_AFFIRM'',
          bytes_of ''SMGP_QUERY_USERSTATE'',
          bytes_of ''SMGP_GET_ALL_TE_ROUTE'',
          bytes_of ''SMGP_GET_ALL_SP_ROUTE'',
          bytes_of ''SMGP_UPDATE_TE_ROUTE''] (unat (rid - 0x00000008))
      else if rid \<le> SMGP_QUERY_RESP \<and> rid > SMGP_RESPONSE_MIN then
        go_index
         [bytes_of ''SMGP_LOGIN_RESP'',
          bytes_of ''SMGP_SUBMIT_RESP'',
          bytes_of ''SMGP_DELIVER_RESP'',
          bytes_of ''SMGP_ACTIVE_TEST_RESP'',
          bytes_of ''SMGP_FORWARD_RESP'',
          bytes_of ''SMGP_EXIT_RESP'',
          bytes_of ''SMGP_QUERY_RESP''] (unat (rid - 0x80000001))
      else if rid < SMGP_RESPONSE_MAX then
        go_index
         [bytes_of ''SMGP_QUERY_TE_ROUTE_RESP'',
          bytes_of ''SMGP_QUERY_SP_ROUTE_RESP'',
          bytes_of ''SMGP_PAYMENT_REQUEST_RESP'',
          bytes_of ''SMGP_PAYMENT_AFFIRM_RESP'',
          bytes_of ''SMGP_QUERY_USERSTATE_RESP'',
          bytes_of ''SMGP_GET_ALL_TE_ROUTE_RESP'',
          bytes_of ''SMGP_GET_ALL_SP_ROUTE_RESP'',
          bytes_of ''SMGP_UPDATE_TE_ROUTE_RESP''] (unat (rid - 0x80000008))
      else Some (bytes_of ''unknown''))"

text \<open>The test of \<^verbatim>\<open>RecvAndUnpackPkt\<close> on the identifier of a received header.\<close>

definition request_id_valid :: "u32 \<Rightarrow> bool" where
  "request_id_valid rid \<longleftrightarrow>
     (rid > SMGP_REQUEST_MIN \<and> rid < SMGP_REQUEST_MAX) \<or> (rid > SMGP_RESPONSE_MIN \<and> rid < SMGP_RESPONSE_MAX)"

section \<open>Protocol constants\<close>

definition VERSION :: byte where "VERSION = 0x30"
definition SEND_MODE :: byte where "SEND_MODE = 0"
definition RECEIVE_MODE :: byte where "RECEIVE_MODE = 1"
definition TRANSMIT_MODE :: byte where "TRANSMIT_MODE = 2"
definition MO :: byte where "MO = 0"
definition MT :: byte where "MT = 6"
definition ASCII :: byte where "ASCII = 0"
definition BINARY :: byte where "BINARY = 4"
definition UCS2 :: byte where "UCS2 = 8"
definition GB18030 :: byte where "GB18030 = 15"
definition NOT_REPORT :: byte where "NOT_REPORT = 0"
definition IS_REPORT :: byte where "IS_REPORT = 1"
definition NO_NEED_REPORT :: byte where "NO_NEED_REPORT = 0"
definition NEED_REPORT :: byte where "NEED_REPORT = 1"
definition LOW_PRIORITY :: byte where "LOW_PRIORITY = 0"
definition NORMAL_PRIORITY :: byte where "NORMAL_PRIORITY = 1"
definition HIGHER_PRIORITY :: byte where "HIGHER_PRIORITY = 2"
definition HIGHEST_PRIORITY :: byte where "HIGHEST_PRIORITY = 3"

end
