(* ===== verification/Packer.thy ===== *)
theory Packer
  imports Wire Request
begin

text \<open>
  The Go interface \<^verbatim>\<open>Packer\<close> of \<^verbatim>\<open>pkg/packet.go\<close>, as the contract a packet type keeps towards the
  connection. \<open>pack\<close> is the method \<^verbatim>\<open>Pack\<close> (it returns the packet as the method leaves it, and the
  bytes or the error), \<open>unpack\<close> is \<^verbatim>\<open>Unpack\<close> (the packet it leaves and its error, or a panic), and
  \<open>fresh\<close> is the packet with nothing but its sequence number set that the receiver unpacks into.
  A well-formed packet packs to one frame, a header with the right length followed by its body,
  and unpacking that body gives the packet that was sent, as the receiver is to see it.
\<close>

definition frame :: "u32 \<Rightarrow> u32 \<Rightarrow> byte list \<Rightarrow> byte list" where
  "frame reqId seqId body = PutUint32 (of_nat (12 + length body)) @ PutUint32 reqId @ PutUint32 seqId @ body"

lemma length_frame [length_simps]: "length (frame r s b) = 12 + length b"
  by (simp add: frame_def)

definition HeaderPktLen :: u32 where "HeaderPktLen = 4 + 4 + 4"

locale packer =
  fixes pack :: "u32 \<Rightarrow> 'p \<Rightarrow> 'p \<times> (error + byte list)"
    and unpack :: "'p \<Rightarrow> byte list \<Rightarrow> ('p \<times> error option) option"
    and fresh :: "u32 \<Rightarrow> 'p"
    and wf :: "'p \<Rightarrow> bool"
    and reqId :: u32
    and body :: "'p \<Rightarrow> byte list"
    and sent :: "u32 \<Rightarrow> 'p \<Rightarrow> 'p"
  assumes pack_wf: "wf p \<Longrightarrow> snd (pack seq p) = Inr (frame reqId seq (body p))"
    and unpack_body: "wf p \<Longrightarrow> unpack (fresh seq) (body p) = Some (sent seq p, None)"
begin

lemma pack_length: "wf p \<Longrightarrow> snd (pack seq p) = Inr bs \<Longrightarrow> length bs = 12 + length (body p)"
  by (auto simp: pack_wf length_simps)

lemma pack_header:
  assumes "wf p" "snd (pack seq p) = Inr bs"
  shows "take 4 bs = PutUint32 (of_nat (length bs)) \<and> take 4 (drop 4 bs) = PutUint32 reqId \<and>
    take 4 (drop 8 bs) = PutUint32 seq \<and> drop 12 bs = body p"
proof -
  have "bs = frame reqId seq (body p)"
    using assms by (simp add: pack_wf)
  then show ?thesis
    by (simp add: frame_def PutUint32_def)
qed

text \<open>What a packet becomes on the other side: packing and unpacking compose.\<close>

lemma unpack_pack:
  assumes "wf p" "snd (pack seq p) = Inr bs"
  shows "unpack (fresh s) (drop 12 bs) = Some (sent s p, None)"
  using assms pack_header unpack_body by simp

end

end
