(* ===== verification/Active_Exit.thy ===== *)
theory Active_Exit
  imports Packer
begin

text \<open>
  \<^verbatim>\<open>pkg/active.go\<close> and \<^verbatim>\<open>pkg/exit.go\<close>: the four packets that consist of a header only. The two
  exit packets are written with the identifiers of the active test, as in the source.
\<close>

definition SmgpActiveTestReqPktLen :: u32 where "SmgpActiveTestReqPktLen = 12"
definition SmgpActiveTestRespPktLen :: u32 where "SmgpActiveTestRespPktLen = 12"
definition SmgpExitReqPktLen :: u32 where "SmgpExitReqPktLen = 12"
definition SmgpExitRespPktLen :: u32 where "SmgpExitRespPktLen = 12"

record SmgpActiveTestReqPkt = SequenceID :: u32
record SmgpActiveTestRespPkt = SequenceID :: u32
record SmgpExitReqPkt = SequenceID :: u32
record SmgpExitRespPkt = SequenceID :: u32

definition SmgpActiveTestReqPkt_Pack ::
  "u32 \<Rightarrow> SmgpActiveTestReqPkt \<Rightarrow> SmgpActiveTestReqPkt \<times> (error + byte list)" where
  "SmgpActiveTestReqPkt_Pack seqId p =
     (let w = newPkgWriter SmgpActiveTestReqPktLen;
          w = WriteHeader SmgpActiveTestReqPktLen seqId SMGP_ACTIVE_TEST w;
          p = p\<lparr>SmgpActiveTestReqPkt.SequenceID := seqId\<rparr>
      in (p, Bytes w))"

definition SmgpActiveTestReqPkt_Unpack ::
  "SmgpActiveTestReqPkt \<Rightarrow> byte list \<Rightarrow> (SmgpActiveTestReqPkt \<times> error option) option" where
  "SmgpActiveTestReqPkt_Unpack p data = Some (p, None)"

definition SmgpActiveTestRespPkt_Pack ::
  "u32 \<Rightarrow> SmgpActiveTestRespPkt \<Rightarrow> SmgpActiveTestRespPkt \<times> (error + byte list)" where
  "SmgpActiveTestRespPkt_Pack seqId p =
     (let w = newPkgWriter SmgpActiveTestRespPktLen;
          w = WriteHeader SmgpActiveTestRespPktLen seqId SMGP_ACTIVE_TEST_RESP w;
          p = p\<lparr>SmgpActiveTestRespPkt.SequenceID := seqId\<rparr>
      in (p, Bytes w))"

definition SmgpActiveTestRespPkt_Unpack ::
  "SmgpActiveTestRespPkt \<Rightarrow> byte list \<Rightarrow> (SmgpActiveTestRespPkt \<times> error option) option" where
  "SmgpActiveTestRespPkt_Unpack p data = Some (p, None)"

definition SmgpExitReqPkt_Pack ::
  "u32 \<Rightarrow> SmgpExitReqPkt \<Rightarrow> SmgpExitReqPkt \<times> (error + byte list)" where
  "SmgpExitReqPkt_Pack seqId p =
     (let w = newPkgWriter SmgpExitReqPktLen;
          w = WriteHeader SmgpExitReqPktLen seqId SMGP_ACTIVE_TEST w;
          p = p\<lparr>SmgpExitReqPkt.SequenceID := seqId\<rparr>
      in (p, Bytes w))"

definition SmgpExitReqPkt_Unpack ::
  "SmgpExitReqPkt \<Rightarrow> byte list \<Rightarrow> (SmgpExitReqPkt \<times> error option) option" where
  "SmgpExitReqPkt_Unpack p data = Some (p, None)"

definition SmgpExitRespPkt_Pack ::
  "u32 \<Rightarrow> SmgpExitRespPkt \<Rightarrow> SmgpExitRespPkt \<times> (error + byte list)" where
  "SmgpExitRespPkt_Pack seqId p =
     (let w = newPkgWriter SmgpExitRespPktLen;
          w = WriteHeader SmgpExitRespPktLen seqId SMGP_ACTIVE_TEST_RESP w;
          p = p\<lparr>SmgpExitRespPkt.SequenceID := seqId\<rparr>
      in (p, Bytes w))"

definition SmgpExitRespPkt_Unpack ::
  "SmgpExitRespPkt \<Rightarrow> byte list \<Rightarrow> (SmgpExitRespPkt \<times> error option) option" where
  "SmgpExitRespPkt_Unpack p data = Some (p, None)"

lemmas active_exit_defs =
  SmgpActiveTestReqPkt_Pack_def SmgpActiveTestReqPkt_Unpack_def SmgpActiveTestReqPktLen_def
  SmgpActiveTestRespPkt_Pack_def SmgpActiveTestRespPkt_Unpack_def SmgpActiveTestRespPktLen_def
  SmgpExitReqPkt_Pack_def SmgpExitReqPkt_Unpack_def SmgpExitReqPktLen_def
  SmgpExitRespPkt_Pack_def SmgpExitRespPkt_Unpack_def SmgpExitRespPktLen_def

interpretation active_req: packer SmgpActiveTestReqPkt_Pack SmgpActiveTestReqPkt_Unpack
  SmgpActiveTestReqPkt.make "\<lambda>p. True" SMGP_ACTIVE_TEST "\<lambda>p. []" "\<lambda>seq p. SmgpActiveTestReqPkt.make seq"
  by unfold_locales (simp_all add: active_exit_defs frame_def wire_simps)

interpretation active_resp: packer SmgpActiveTestRespPkt_Pack SmgpActiveTestRespPkt_Unpack
  SmgpActiveTestRespPkt.make "\<lambda>p. True" SMGP_ACTIVE_TEST_RESP "\<lambda>p. []" "\<lambda>seq p. SmgpActiveTestRespPkt.make seq"
  by unfold_locales (simp_all add: active_exit_defs frame_def wire_simps)

text \<open>The identifiers under which the exit packets keep the contract are those of the active test.\<close>

interpretation exit_req: packer SmgpExitReqPkt_Pack SmgpExitReqPkt_Unpack
  SmgpExitReqPkt.make "\<lambda>p. True" SMGP_ACTIVE_TEST "\<lambda>p. []" "\<lambda>seq p. SmgpExitReqPkt.make seq"
  by unfold_locales (simp_all add: active_exit_defs frame_def wire_simps)

interpretation exit_resp: packer SmgpExitRespPkt_Pack SmgpExitRespPkt_Unpack
  SmgpExitRespPkt.make "\<lambda>p. True" SMGP_ACTIVE_TEST_RESP "\<lambda>p. []" "\<lambda>seq p. SmgpExitRespPkt.make seq"
  by unfold_locales (simp_all add: active_exit_defs frame_def wire_simps)

end
