(* ===== verification/Md5.thy ===== *)
theory Md5
  imports Prelude
begin

text \<open>
  \<^verbatim>\<open>crypto/md5\<close> as the program uses it: \<^verbatim>\<open>md5.New\<close>, \<^verbatim>\<open>Write\<close> (which never fails) and \<^verbatim>\<open>Sum(nil)\<close>, or
  \<^verbatim>\<open>md5.Sum\<close>, of a complete message. The digest of RFC 1321, on 32-bit words.
\<close>

definition md5_K :: "u32 list" where
  "md5_K =
    [0xd76aa478, 0xe8c7b756, 0x242070db, 0xc1bdceee, 0xf57c0faf, 0x4787c62a,
     0xa8304613, 0xfd469501, 0x698098d8, 0x8b44f7af, 0xffff5bb1, 0x895cd7be,
     0x6b901122, 0xfd987193, 0xa679438e, 0x49b40821, 0xf61e2562, 0xc040b340,
     0x265e5a51, 0xe9b6c7aa, 0xd62f105d, 0x02441453, 0xd8a1e681, 0xe7d3fbc8,
     0x21e1cde6, 0xc33707d6, 0xf4d50d87, 0x455a14ed, 0xa9e3e905, 0xfcefa3f8,
     0x676f02d9, 0x8d2a4c8a, 0xfffa3942, 0x8771f681, 0x6d9d6122, 0xfde5380c,
     0xa4beea44, 0x4bdecfa9, 0xf6bb4b60, 0xbebfbc70, 0x289b7ec6, 0xeaa127fa,
     0xd4ef3085, 0x04881d05, 0xd9d4d039, 0xe6db99e5, 0x1fa27cf8, 0xc4ac5665,
     0xf4292244, 0x432aff97, 0xab9423a7, 0xfc93a039, 0x655b59c3, 0x8f0ccc92,
     0xffeff47d, 0x85845dd1, 0x6fa87e4f, 0xfe2ce6e0, 0xa3014314, 0x4e0811a1,
     0xf7537e82, 0xbd3af235, 0x2ad7d2bb, 0xeb86d391]"

definition md5_shifts :: "nat list" where
  "md5_shifts =
     concat (replicate 4 [7, 12, 17, 22]) @ concat (replicate 4 [5, 9, 14, 20]) @
     concat (replicate 4 [4, 11, 16, 23]) @ concat (replicate 4 [6, 10, 15, 21])"

definition rotl32 :: "nat \<Rightarrow> u32 \<Rightarrow> u32" where
  "rotl32 s x = push_bit s x OR drop_bit (32 - s) x"

text \<open>Little-endian words.\<close>

definition LE32 :: "u32 \<Rightarrow> byte list" where
  "LE32 n = [ucast n, ucast (drop_bit 8 n), ucast (drop_bit 16 n), ucast (drop_bit 24 n)]"

fun LE_words :: "byte list \<Rightarrow> u32 list" where
  "LE_words (b0 # b1 # b2 # b3 # bs) =
     (ucast b0 OR push_bit 8 (ucast b1) OR push_bit 16 (ucast b2) OR push_bit 24 (ucast b3)) # LE_words bs"
| "LE_words _ = []"

type_synonym md5_state = "u32 \<times> u32 \<times> u32 \<times> u32"

text \<open>One of the 64 operations of a block: the round function, the message word and the rotation.\<close>

fun md5_step :: "u32 list \<Rightarrow> nat \<times> u32 \<times> nat \<Rightarrow> md5_state \<Rightarrow> md5_state" where
  "md5_step M (i, k, s) (a, b, c, d) =
     (let (f, g) =
        (if i < 16 then ((b AND c) OR (NOT b AND d), i)
         else if i < 32 then ((d AND b) OR (NOT d AND c), (5 * i + 1) mod 16)
         else if i < 48 then (b XOR c XOR d, (3 * i + 5) mod 16)
         else (c XOR (b OR NOT d), (7 * i) mod 16))
      in (d, b + rotl32 s (f + a + k + M ! g), b, c))"

definition md5_ops :: "(nat \<times> u32 \<times> nat) list" where
  "md5_ops = zip [0..<64] (zip md5_K md5_shifts)"

definition md5_block :: "byte list \<Rightarrow> md5_state \<Rightarrow> md5_state" where
  "md5_block blk st =
     (let (a, b, c, d) = fold (md5_step (LE_words blk)) md5_ops st;
          (a0, b0, c0, d0) = st
      in (a0 + a, b0 + b, c0 + c, d0 + d))"

fun md5_blocks :: "nat \<Rightarrow> byte list \<Rightarrow> md5_state \<Rightarrow> md5_state" where
  "md5_blocks 0 msg st = st"
| "md5_blocks (Suc n) msg st = md5_blocks n (drop 64 msg) (md5_block (take 64 msg) st)"

definition md5_pad :: "byte list \<Rightarrow> byte list" where
  "md5_pad msg =
     (let len = length msg; zeros = (119 - len mod 64) mod 64; bits = 8 * int len
      in msg @ [0x80] @ replicate zeros 0 @ LE32 (word_of_int bits) @ LE32 (word_of_int (bits div 4294967296)))"

definition md5_Sum :: "byte list \<Rightarrow> byte list" where
  "md5_Sum msg =
     (let m = md5_pad msg;
          (a, b, c, d) = md5_blocks (length m div 64) m (0x67452301, 0xefcdab89, 0x98badcfe, 0x10325476)
      in LE32 a @ LE32 b @ LE32 c @ LE32 d)"

lemma length_md5_Sum [simp, length_simps]: "length (md5_Sum msg) = 16"
  by (simp add: md5_Sum_def LE32_def Let_def split: prod.split)

text \<open>The padded message is a whole number of blocks, so no byte of it is left out.\<close>

lemma length_md5_pad: "64 dvd length (md5_pad msg)"
proof -
  define r q where "r = length msg mod 64" and "q = length msg div 64"
  have len: "length msg = 64 * q + r" and r: "r < 64"
    by (simp_all add: r_def q_def)
  have "(119 - r) mod 64 = (if r \<le> 55 then 55 - r else 119 - r)"
    using r by (auto simp: mod_if)
  then have "length (md5_pad msg) = 64 * (q + (if r \<le> 55 then 1 else 2))"
    using r by (simp add: md5_pad_def LE32_def Let_def r_def [symmetric]) (simp add: len)
  then show ?thesis by simp
qed

text \<open>The test vector of RFC 1321 for the empty message, evaluated by the kernel.\<close>

lemma md5_Sum_Nil:
  "md5_Sum [] = [0xd4, 0x1d, 0x8c, 0xd9, 0x8f, 0x00, 0xb2, 0x04, 0xe9, 0x80, 0x09, 0x98, 0xec, 0xf8, 0x42, 0x7e]"
  by code_simp

end
