(* ===== verification/Octet.thy ===== *)
theory Octet
  imports Wire
begin

text \<open>
  \<^verbatim>\<open>pkg/types.go\<close>: the fixed-length octet string with its three conversions, and the
  tag-length-value triple of an optional parameter. The length arguments are constants of the
  program, never negative, so they are natural numbers.
\<close>

section \<open>Octet strings\<close>

definition OctetString_String :: "gostring \<Rightarrow> nat \<Rightarrow> gostring" where
  "OctetString_String s fixedLength =
     (let len = length s in
      if len = fixedLength then s
      else if len > fixedLength then drop (len - fixedLength) s
      else s @ replicate (fixedLength - len) 0)"

definition OctetString_Byte :: "gostring \<Rightarrow> nat \<Rightarrow> byte list" where
  "OctetString_Byte s fixedLength =
     (let data = s;
          data = (if length data < fixedLength then data @ replicate (fixedLength - length data) 0 else data)
      in if length data > fixedLength then take fixedLength data else data)"

definition OctetString_FixedString :: "gostring \<Rightarrow> nat \<Rightarrow> gostring" where
  "OctetString_FixedString s fixedLength =
     (let len = length s in
      if len = fixedLength then s
      else if len > fixedLength then drop (len - fixedLength) s
      else replicate (fixedLength - len) 48 @ s)"

lemma length_OctetString [simp, length_simps]:
  "length (OctetString_String s n) = n"
  "length (OctetString_Byte s n) = n"
  "length (OctetString_FixedString s n) = n"
  by (auto simp: OctetString_String_def OctetString_Byte_def OctetString_FixedString_def Let_def)

text \<open>
  A string that fits is padded on the right by \<open>String\<close> and \<open>Byte\<close> and on the left by
  \<open>FixedString\<close>; of a longer one \<open>Byte\<close> keeps the front, \<open>String\<close> and \<open>FixedString\<close> the end.
\<close>

lemma OctetString_Byte_fixed: "length s \<le> n \<Longrightarrow> OctetString_Byte s n = fixed n s"
  by (auto simp: OctetString_Byte_def fixed_def Let_def)

lemma OctetString_Byte_take: "n \<le> length s \<Longrightarrow> OctetString_Byte s n = take n s"
  by (auto simp: OctetString_Byte_def Let_def)

lemma OctetString_Byte_id [simp]: "length s = n \<Longrightarrow> OctetString_Byte s n = s"
  by (simp add: OctetString_Byte_def)

lemma OctetString_String_id [simp]: "length s = n \<Longrightarrow> OctetString_String s n = s"
  by (simp add: OctetString_String_def)

lemma OctetString_FixedString_pad0: "length s \<le> n \<Longrightarrow> OctetString_FixedString s n = pad0 n s"
  by (auto simp: OctetString_FixedString_def pad0_def Let_def)

text \<open>A message identifier, a string of hexadecimal digits, as it arrives: ten bytes, padded or cut, printed in hexadecimal.\<close>

definition msg_id_sent :: "gostring \<Rightarrow> gostring" where
  "msg_id_sent i = EncodeToString (OctetString_Byte (DecodeString i) 10)"

lemma msg_id_sent_id: "hex_string i \<Longrightarrow> length i = 20 \<Longrightarrow> msg_id_sent i = i"
  by (simp add: msg_id_sent_def length_DecodeString_hex EncodeToString_DecodeString)

section \<open>Optional parameters\<close>

record TLV =
  Tag :: u16
  Length :: u16
  Value :: "byte list"

definition NewTLV :: "u16 \<Rightarrow> byte list \<Rightarrow> TLV" where
  "NewTLV tag value = \<lparr>Tag = tag, Length = of_nat (length value), Value = value\<rparr>"

text \<open>\<^verbatim>\<open>tlvLen\<close> is computed in \<^verbatim>\<open>uint16\<close> and is only the initial capacity of the buffer.\<close>

definition TLV_Byte :: "TLV \<Rightarrow> error + byte list" where
  "TLV_Byte t =
     (let tlvLen = 2 + 2 + Length t;
          w = newPkgWriter (ucast tlvLen);
          w = WriteBytes (packUi16 (Tag t)) w;
          w = WriteBytes (packUi16 (Length t)) w;
          w = WriteBytes (Value t) w
      in Bytes w)"

text \<open>
  The wire form of a parameter, and the invariant that its length field is the length of its
  value, which \<open>NewTLV\<close> establishes for every value that 16 bits can measure.
\<close>

definition tlv_bytes :: "TLV \<Rightarrow> byte list" where
  "tlv_bytes t = packUi16 (Tag t) @ packUi16 (Length t) @ Value t"

definition tlv_wf :: "TLV \<Rightarrow> bool" where
  "tlv_wf t \<longleftrightarrow> unat (Length t) = length (Value t)"

lemma TLV_Byte_eq: "TLV_Byte t = Inr (tlv_bytes t)"
  by (simp add: TLV_Byte_def tlv_bytes_def wire_simps)

lemma length_tlv_bytes [length_simps]: "length (tlv_bytes t) = 4 + length (Value t)"
  by (simp add: tlv_bytes_def)

lemma NewTLV_simps [simp]:
  "Tag (NewTLV tag v) = tag" "Value (NewTLV tag v) = v" "Length (NewTLV tag v) = of_nat (length v)"
  by (simp_all add: NewTLV_def)

lemma tlv_wf_NewTLV: "tlv_wf (NewTLV tag v) \<longleftrightarrow> length v < 2 ^ 16"
  by (simp add: tlv_wf_def unat_of_nat) (metis mod_less mod_less_divisor zero_less_numeral)

lemma NewTLV_collapse: "tlv_wf t \<Longrightarrow> NewTLV (Tag t) (Value t) = t"
  by (cases t) (simp add: tlv_wf_def NewTLV_def, metis ucast_id of_nat_unat)

lemma tlv_wf_int: "tlv_wf t \<Longrightarrow> int (length (Value t)) = uint (Length t)"
  by (metis of_nat_unat tlv_wf_def)

end
