(* ===== verification/Auth.thy ===== *)
theory Auth
  imports Errors Md5 Octet
begin

text \<open>
  The clock and authenticator part of \<^verbatim>\<open>pkg/utils.go\<close>: the time stamps and the two MD5
  authenticators of the login exchange. The clock is a parameter: a record with the fields that
  \<^verbatim>\<open>time.Time.Format\<close> prints.
\<close>

section \<open>Time stamps\<close>

record Time =
  year :: nat
  month :: nat
  day :: nat
  hour :: nat
  minute :: nat
  second :: nat

definition valid_time :: "Time \<Rightarrow> bool" where
  "valid_time t \<longleftrightarrow> year t < 10000 \<and> 1 \<le> month t \<and> month t \<le> 12 \<and> 1 \<le> day t \<and> day t \<le> 31 \<and>
     hour t < 24 \<and> minute t < 60 \<and> second t < 60"

text \<open>The layouts \<^verbatim>\<open>0102150405\<close>, \<^verbatim>\<open>20060102150405\<close> and \<^verbatim>\<open>0601021504\<close> of \<^verbatim>\<open>Format\<close>.\<close>

definition Format_MMDDhhmmss :: "Time \<Rightarrow> gostring" where
  "Format_MMDDhhmmss t = Sprintf_0d 2 (month t) @ Sprintf_0d 2 (day t) @ Sprintf_0d 2 (hour t) @
     Sprintf_0d 2 (minute t) @ Sprintf_0d 2 (second t)"

definition Format_YYYYMMDDhhmmss :: "Time \<Rightarrow> gostring" where
  "Format_YYYYMMDDhhmmss t = Sprintf_0d 4 (year t) @ Format_MMDDhhmmss t"

definition Format_YYMMDDhhmm :: "Time \<Rightarrow> gostring" where
  "Format_YYMMDDhhmm t = Sprintf_0d 2 (year t mod 100) @ Sprintf_0d 2 (month t) @ Sprintf_0d 2 (day t) @
     Sprintf_0d 2 (hour t) @ Sprintf_0d 2 (minute t)"

definition GenTimestamp :: "Time \<Rightarrow> u32" where
  "GenTimestamp now = (let s = Format_MMDDhhmmss now; i = fst (ParseInt s 10 64) in word_of_int i)"

definition GenNowTimeYYYYStr :: "Time \<Rightarrow> gostring" where
  "GenNowTimeYYYYStr now = Format_YYYYMMDDhhmmss now"

definition GenNowTimeYYStr :: "Time \<Rightarrow> gostring" where
  "GenNowTimeYYStr now = Format_YYMMDDhhmm now"

section \<open>Authenticators\<close>

definition GenAuthenticatorClient :: "gostring \<Rightarrow> gostring \<Rightarrow> u32 \<Rightarrow> error + byte list" where
  "GenAuthenticatorClient clientId secret timestamp =
     (let buf = [];
          buf = buf @ clientId;
          buf = buf @ [0, 0, 0, 0, 0, 0, 0];
          buf = buf @ secret;
          buf = buf @ Sprintf_0d 10 (unat timestamp)
      in Inr (md5_Sum buf))"

text \<open>The status is written little-endian into the first four of eight bytes.\<close>

definition GenAuthenticatorServer :: "u32 \<Rightarrow> gostring \<Rightarrow> gostring \<Rightarrow> error + byte list" where
  "GenAuthenticatorServer status secret AuthenticatorClient =
     (let b = LE32 status @ replicate 4 0;
          buf = [];
          buf = buf @ b;
          buf = buf @ AuthenticatorClient;
          buf = buf @ secret
      in Inr (md5_Sum buf))"

text \<open>The authenticators with the error, which cannot occur, taken off.\<close>

definition auth_client :: "gostring \<Rightarrow> gostring \<Rightarrow> u32 \<Rightarrow> byte list" where
  "auth_client clientId secret timestamp =
     md5_Sum (clientId @ replicate 7 0 @ secret @ Sprintf_0d 10 (unat timestamp))"

lemma GenAuthenticatorClient_eq: "GenAuthenticatorClient c s t = Inr (auth_client c s t)"
  by (simp add: GenAuthenticatorClient_def auth_client_def numeral_eq_Suc)

lemma length_auth_client [simp, length_simps]: "length (auth_client c s t) = 16"
  by (simp add: auth_client_def)

section \<open>The numbers behind the time stamps\<close>

definition join2 :: "nat \<Rightarrow> nat \<Rightarrow> nat" where
  "join2 a n = a * 100 + n"

lemma join2_leD: "join2 a n \<le> m \<Longrightarrow> a \<le> m"
  by (simp add: join2_def)

lemma Sprintf_02d:
  assumes "n < 100"
  shows "Sprintf_0d 2 n = [digit_char (n div 10), digit_char (n mod 10)]"
proof (cases "n < 10")
  case True
  then show ?thesis
    by (subst Sprintf_0d_def, subst digits.simps) (simp add: pad0_def digit_char_def)
next
  case False
  with assms have "digits 10 n = [digit_char (n div 10), digit_char (n mod 10)]"
    by (subst digits.simps, subst digits.simps) simp
  then show ?thesis by (simp add: Sprintf_0d_def pad0_def)
qed

lemma ParseUint_loop_digit2:
  assumes "n < 100" "join2 a n \<le> m"
  shows "ParseUint_loop 10 m a (Sprintf_0d 2 n @ s) = ParseUint_loop 10 m (join2 a n) s"
proof -
  note [simp] = join2_def
  have "ParseUint_loop 10 m a (Sprintf_0d 2 n @ s)
      = ParseUint_loop 10 m a (digit_char (n div 10) # digit_char (n mod 10) # s)"
    by (simp only: Sprintf_02d [OF assms(1)] append.simps)
  also have "\<dots> = ParseUint_loop 10 m (a * 10 + n div 10) (digit_char (n mod 10) # s)"
    using assms by (intro ParseUint_loop_digit) auto
  also have "\<dots> = ParseUint_loop 10 m ((a * 10 + n div 10) * 10 + n mod 10) s"
    using assms by (intro ParseUint_loop_digit) auto
  also have "(a * 10 + n div 10) * 10 + n mod 10 = join2 a n"
    by (simp add: algebra_simps)
  finally show ?thesis .
qed

text \<open>A number of several two-digit groups is printed group by group.\<close>

lemma Sprintf_0d_split:
  assumes "n < 100" "0 < w"
  shows "Sprintf_0d (w + 2) (join2 a n) = Sprintf_0d w a @ Sprintf_0d 2 n"
proof (cases "a = 0")
  case False
  obtain q r where qr: "q = a * 10 + n div 10" "r = n mod 10" by blast
  then have "join2 a n = 10 * q + r" "r < 10"
    by (simp_all add: join2_def algebra_simps)
  then have "join2 a n div 10 = a * 10 + n div 10" "join2 a n mod 10 = n mod 10"
    by (simp_all flip: qr)
  moreover have "(a * 10 + n div 10) div 10 = a" "(a * 10 + n div 10) mod 10 = n div 10"
    using assms(1) by auto
  moreover have "\<not> join2 a n < 10" "\<not> a * 10 + n div 10 < 10"
    using False by (auto simp: join2_def)
  ultimately have "digits 10 (join2 a n) = digits 10 a @ [digit_char (n div 10), digit_char (n mod 10)]"
    by (subst digits.simps, simp, subst digits.simps, simp)
  then show ?thesis
    unfolding Sprintf_02d [OF assms(1)] by (simp add: Sprintf_0d_def pad0_def)
next
  case True
  have zero: "digits 10 0 = [48]"
    by (subst digits.simps) (simp add: digit_char_def)
  obtain v where "w = Suc v" using assms(2) by (cases w) auto
  then have "Sprintf_0d w 0 = replicate w 48"
    by (simp add: Sprintf_0d_def pad0_def zero replicate_append_same)
  moreover have "Sprintf_0d (w + 2) n = replicate w 48 @ Sprintf_0d 2 n"
    using length_digits [of n 10 2] assms
    by (simp add: Sprintf_0d_def pad0_def flip: replicate_add append_assoc)
  ultimately show ?thesis using True by (simp add: join2_def)
qed

lemma length_Sprintf_0d [length_simps]: "n < 10 ^ w \<Longrightarrow> 0 < w \<Longrightarrow> length (Sprintf_0d w n) = w"
  by (simp add: Sprintf_0d_def length_pad0_digits)

lemma length_Format:
  assumes "valid_time t"
  shows "length (Format_MMDDhhmmss t) = 10" "length (Format_YYYYMMDDhhmmss t) = 14"
    "length (Format_YYMMDDhhmm t) = 10"
  using assms
  by (simp_all add: valid_time_def Format_MMDDhhmmss_def Format_YYYYMMDDhhmmss_def Format_YYMMDDhhmm_def
      length_simps)

definition timestamp_value :: "Time \<Rightarrow> nat" where
  "timestamp_value t =
     join2 (join2 (join2 (join2 (month t) (day t)) (hour t)) (minute t)) (second t)"

lemma timestamp_value_bound: "valid_time t \<Longrightarrow> timestamp_value t < 2 ^ 32"
  by (simp add: valid_time_def timestamp_value_def join2_def)

text \<open>
  The time stamp is the decimal number \<^verbatim>\<open>MMDDhhmmss\<close>: \<^verbatim>\<open>Atoi\<close> reads it without error, it fits
  32 bits, and printing it with ten places gives the text back.
\<close>

lemma ParseUint_loop_timestamp:
  assumes "valid_time t" "timestamp_value t \<le> m"
  shows "ParseUint_loop 10 m 0 (Format_MMDDhhmmss t) = (timestamp_value t, None)"
proof -
  have first: "join2 0 (month t) = month t"
    by (simp add: join2_def)
  note le = assms(2) [unfolded timestamp_value_def]
  note le = le le [THEN join2_leD] le [THEN join2_leD, THEN join2_leD]
    le [THEN join2_leD, THEN join2_leD, THEN join2_leD]
    le [THEN join2_leD, THEN join2_leD, THEN join2_leD, THEN join2_leD]
  have "ParseUint_loop 10 m 0 (Format_MMDDhhmmss t @ []) = ParseUint_loop 10 m (timestamp_value t) []"
    unfolding Format_MMDDhhmmss_def append_assoc using assms(1) le
    by (simp add: valid_time_def timestamp_value_def ParseUint_loop_digit2 ParseUint_loop_digit2 [where s = "[]", simplified] first)
  then show ?thesis by simp
qed

lemma hd_Format: "valid_time t \<Longrightarrow> \<exists>d < 10. \<exists>s. Format_MMDDhhmmss t = digit_char d # s"
  by (intro exI [of _ "month t div 10"]) (auto simp: Format_MMDDhhmmss_def valid_time_def Sprintf_02d)

lemma unat_GenTimestamp:
  assumes "valid_time t"
  shows "unat (GenTimestamp t) = timestamp_value t"
proof -
  obtain d s where d: "d < 10" "Format_MMDDhhmmss t = digit_char d # s"
    using hd_Format [OF assms] by blast
  have "digit_char d \<noteq> 43" "digit_char d \<noteq> 45"
    using unat_digit_char [of d] d(1) by auto
  moreover have "timestamp_value t < 2 ^ 32"
    using assms by (rule timestamp_value_bound)
  ultimately have "ParseInt (Format_MMDDhhmmss t) 10 64 = (int (timestamp_value t), None)"
    using ParseUint_loop_timestamp [OF assms, of "2 ^ 64 - 1"]
    by (simp add: ParseInt_def ParseUint_def d(2) Let_def del: ParseUint_loop.simps)
  with \<open>timestamp_value t < 2 ^ 32\<close> show ?thesis
    by (simp add: GenTimestamp_def unat_of_nat)
qed

lemma Sprintf_GenTimestamp:
  assumes "valid_time t"
  shows "Sprintf_0d 10 (unat (GenTimestamp t)) = Format_MMDDhhmmss t"
  using assms Sprintf_0d_split [of "second t" 8] Sprintf_0d_split [of "minute t" 6]
    Sprintf_0d_split [of "hour t" 4] Sprintf_0d_split [of "day t" 2]
  by (simp add: unat_GenTimestamp timestamp_value_def valid_time_def Format_MMDDhhmmss_def)

end
