(* ===== verification/Status.thy ===== *)
theory Status
  imports Errors
begin

text \<open>
  \<^verbatim>\<open>pkg/status.go\<close>: the status codes of the responses and their messages. The source's messages
  are Chinese; the table holds their UTF-8 bytes, in the order of the switch. An \<^verbatim>\<open>int\<close> has 64 bits,
  so converting a status to it keeps its value.
\<close>

definition STAT_OK :: u32 where "STAT_OK = 0"

definition status_messages :: "(u32 \<times> gostring) list" where
  "status_messages =
     [(0, [0xe6, 0x88, 0x90, 0xe5, 0x8a, 0x9f]),
      (1, [0xe7, 0xb3, 0xbb, 0xe7, 0xbb, 0x9f, 0xe5, 0xbf, 0x99]),
      (2, [0xe8, 0xb6, 0x85, 0xe8, 0xbf, 0x87, 0xe6, 0x9c, 0x80, 0xe5, 0xa4, 0xa7, 0xe8, 0xbf,
        0x9e, 0xe6, 0x8e, 0xa5, 0xe6, 0x95, 0xb0]),
      (10, [0xe6, 0xb6, 0x88, 0xe6, 0x81, 0xaf, 0xe7, 0xbb, 0x93, 0xe6, 0x9e, 0x84, 0xe9, 0x94,
        0x99]),
      (11, [0xe5, 0x91, 0xbd, 0xe4, 0xbb, 0xa4, 0xe5, 0xad, 0x97, 0xe9, 0x94, 0x99]),
      (12, [0xe5, 0xba, 0x8f, 0xe5, 0x88, 0x97, 0xe5, 0x8f, 0xb7, 0xe9, 0x87, 0x8d, 0xe5, 0xa4,
        0x8d]),
      (20, [0x49, 0x50, 0xe5, 0x9c, 0xb0, 0xe5, 0x9d, 0x80, 0xe9, 0x94, 0x99]),
      (21, [0xe8, 0xae, 0xa4, 0xe8, 0xaf, 0x81, 0xe9, 0x94, 0x99]),
      (22, [0xe7, 0x89, 0x88, 0xe6, 0x9c, 0xac, 0xe5, 0xa4, 0xaa, 0xe9, 0xab, 0x98]),
      (30, [0xe9, 0x9d, 0x9e, 0xe6, 0xb3, 0x95, 0xe6, 0xb6, 0x88, 0xe6, 0x81, 0xaf, 0xe7, 0xb1,
        0xbb, 0xe5, 0x9e, 0x8b, 0xef, 0xbc, 0x88, 0x4d, 0x73, 0x67, 0x54, 0x79, 0x70, 0x65, 0xef,
        0xbc, 0x89]),
      (31, [0xe9, 0x9d, 0x9e, 0xe6, 0xb3, 0x95, 0xe4, 0xbc, 0x98, 0xe5, 0x85, 0x88, 0xe7, 0xba,
        0xa7, 0xef, 0xbc, 0x88, 0x50, 0x72, 0x69, 0x6f, 0x72, 0x69, 0x74, 0x79, 0xef, 0xbc, 0x89]),
      (32, [0xe9, 0x9d, 0x9e, 0xe6, 0xb3, 0x95, 0xe8, 0xb5, 0x84, 0xe8, 0xb4, 0xb9, 0xe7, 0xb1,
        0xbb, 0xe5, 0x9e, 0x8b, 0xef, 0xbc, 0x88, 0x46, 0x65, 0x65, 0x54, 0x79, 0x70, 0x65, 0xef,
        0xbc, 0x89]),
      (33, [0xe9, 0x9d, 0x9e, 0xe6, 0xb3, 0x95, 0xe8, 0xb5, 0x84, 0xe8, 0xb4, 0xb9, 0xe4, 0xbb,
        0xa3, 0xe7, 0xa0, 0x81, 0xef, 0xbc, 0x88, 0x46, 0x65, 0x65, 0x43, 0x6f, 0x64, 0x65, 0xef,
        0xbc, 0x89]),
      (34, [0xe9, 0x9d, 0x9e, 0xe6, 0xb3, 0x95, 0xe7, 0x9f, 0xad, 0xe6, 0xb6, 0x88, 0xe6, 0x81,
        0xaf, 0xe6, 0xa0, 0xbc, 0xe5, 0xbc, 0x8f, 0xef, 0xbc, 0x88, 0x4d, 0x73, 0x67, 0x46, 0x6f,
        0x72, 0x6d, 0x61, 0x74, 0xef, 0xbc, 0x89]),
      (35, [0xe9, 0x9d, 0x9e, 0xe6, 0xb3, 0x95, 0xe6, 0x97, 0xb6, 0xe9, 0x97, 0xb4, 0xe6, 0xa0,
        0xbc, 0xe5, 0xbc, 0x8f]),
      (36, [0xe9, 0x9d, 0x9e, 0xe6, 0xb3, 0x95, 0xe7, 0x9f, 0xad, 0xe6, 0xb6, 0x88, 0xe6, 0x81,
        0xaf, 0xe9, 0x95, 0xbf, 0xe5, 0xba, 0xa6, 0xef, 0xbc, 0x88, 0x4d, 0x73, 0x67, 0x4c, 0x65,
        0x6e, 0x67, 0x74, 0x68, 0xef, 0xbc, 0x89]),
      (37, [0xe6, 0x9c, 0x89, 0xe6, 0x95, 0x88, 0xe6, 0x9c, 0x9f, 0xe5, 0xb7, 0xb2, 0xe8, 0xbf,
        0x87]),
      (38, [0xe9, 0x9d, 0x9e, 0xe6, 0xb3, 0x95, 0xe6, 0x9f, 0xa5, 0xe8, 0xaf, 0xa2, 0xe7, 0xb1,
        0xbb, 0xe5, 0x88, 0xab, 0xef, 0xbc, 0x88, 0x51, 0x75, 0x65, 0x72, 0x79, 0x54, 0x79, 0x70,
        0x65, 0xef, 0xbc, 0x89]),
      (39, [0xe8, 0xb7, 0xaf, 0xe7, 0x94, 0xb1, 0xe9, 0x94, 0x99, 0xe8, 0xaf, 0xaf]),
      (40, [0xe9, 0x9d, 0x9e, 0xe6, 0xb3, 0x95, 0xe5, 0x8c, 0x85, 0xe6, 0x9c, 0x88, 0xe8, 0xb4,
        0xb9, 0x2f, 0xe5, 0xb0, 0x81, 0xe9, 0xa1, 0xb6, 0xe8, 0xb4, 0xb9, 0xef, 0xbc, 0x88, 0x46,
        0x69, 0x78, 0x65, 0x64, 0x46, 0x65, 0x65, 0xef, 0xbc, 0x89]),
      (41, [0xe9, 0x9d, 0x9e, 0xe6, 0xb3, 0x95, 0xe6, 0x9b, 0xb4, 0xe6, 0x96, 0xb0, 0xe7, 0xb1,
        0xbb, 0xe5, 0x9e, 0x8b, 0xef, 0xbc, 0x88, 0x55, 0x70, 0x64, 0x61, 0x74, 0x65, 0x54, 0x79,
        0x70, 0x65, 0xef, 0xbc, 0x89]),
      (42, [0xe9, 0x9d, 0x9e, 0xe6, 0xb3, 0x95, 0xe8, 0xb7, 0xaf, 0xe7, 0x94, 0xb1, 0xe7, 0xbc,
        0x96, 0xe5, 0x8f, 0xb7, 0xef, 0xbc, 0x88, 0x52, 0x6f, 0x75, 0x74, 0x65, 0x49, 0x64, 0xef,
        0xbc, 0x89]),
      (43, [0xe9, 0x9d, 0x9e, 0xe6, 0xb3, 0x95, 0xe6, 0x9c, 0x8d, 0xe5, 0x8a, 0xa1, 0xe4, 0xbb,
        0xa3, 0xe7, 0xa0, 0x81, 0xef, 0xbc, 0x88, 0x53, 0x65, 0x72, 0x76, 0x69, 0x63, 0x65, 0x49,
        0x64, 0xef, 0xbc, 0x89]),
      (44, [0xe9, 0x9d, 0x9e, 0xe6, 0xb3, 0x95, 0xe6, 0x9c, 0x89, 0xe6, 0x95, 0x88, 0xe6, 0x9c,
        0x9f, 0xef, 0xbc, 0x88, 0x56, 0x61, 0x6c, 0x69, 0x64, 0x54, 0x69, 0x6d, 0x65, 0xef, 0xbc,
        0x89]),
      (45, [0xe9, 0x9d, 0x9e, 0xe6, 0xb3, 0x95, 0xe5, 0xae, 0x9a, 0xe6, 0x97, 0xb6, 0xe5, 0x8f,
        0x91, 0xe9, 0x80, 0x81, 0xe6, 0x97, 0xb6, 0xe9, 0x97, 0xb4, 0xef, 0xbc, 0x88, 0x41, 0x74,
        0x54, 0x69, 0x6d, 0x65, 0xef, 0xbc, 0x89]),
      (46, [0xe9, 0x9d, 0x9e, 0xe6, 0xb3, 0x95, 0xe5, 0x8f, 0x91, 0xe9, 0x80, 0x81, 0xe7, 0x94,
        0xa8, 0xe6, 0x88, 0xb7, 0xe5, 0x8f, 0xb7, 0xe7, 0xa0, 0x81, 0xef, 0xbc, 0x88, 0x53, 0x72,
        0x63, 0x54, 0x65, 0x72, 0x6d, 0x49, 0x64, 0xef, 0xbc, 0x89]),
      (47, [0xe9, 0x9d, 0x9e, 0xe6, 0xb3, 0x95, 0xe6, 0x8e, 0xa5, 0xe6, 0x94, 0xb6, 0xe7, 0x94,
        0xa8, 0xe6, 0x88, 0xb7, 0xe5, 0x8f, 0xb7, 0xe7, 0xa0, 0x81, 0xef, 0xbc, 0x88, 0x44, 0x65,
        0x73, 0x74, 0x54, 0x65, 0x72, 0x6d, 0x49, 0x64, 0xef, 0xbc, 0x89]),
      (48, [0xe9, 0x9d, 0x9e, 0xe6, 0xb3, 0x95, 0xe8, 0xae, 0xa1, 0xe8, 0xb4, 0xb9, 0xe7, 0x94,
        0xa8, 0xe6, 0x88, 0xb7, 0xe5, 0x8f, 0xb7, 0xe7, 0xa0, 0x81, 0xef, 0xbc, 0x88, 0x43, 0x68,
        0x61, 0x72, 0x67, 0x65, 0x54, 0x65, 0x72, 0x6d, 0x49, 0x64, 0xef, 0xbc, 0x89]),
      (49, [0xe9, 0x9d, 0x9e, 0xe6, 0xb3, 0x95, 0x53, 0x50, 0xe6, 0x9c, 0x8d, 0xe5, 0x8a, 0xa1,
        0xe4, 0xbb, 0xa3, 0xe7, 0xa0, 0x81, 0xef, 0xbc, 0x88, 0x53, 0x50, 0x43, 0x6f, 0x64, 0x65,
        0xef, 0xbc, 0x89]),
      (56, [0xe9, 0x9d, 0x9e, 0xe6, 0xb3, 0x95, 0xe6, 0xba, 0x90, 0xe7, 0xbd, 0x91, 0xe5, 0x85,
        0xb3, 0xe4, 0xbb, 0xa3, 0xe7, 0xa0, 0x81, 0xef, 0xbc, 0x88, 0x53, 0x72, 0x63, 0x47, 0x61,
        0x74, 0x65, 0x77, 0x61, 0x79, 0x49, 0x44, 0xef, 0xbc, 0x89]),
      (57, [0xe9, 0x9d, 0x9e, 0xe6, 0xb3, 0x95, 0xe6, 0x9f, 0xa5, 0xe8, 0xaf, 0xa2, 0xe5, 0x8f,
        0xb7, 0xe7, 0xa0, 0x81, 0xef, 0xbc, 0x88, 0x51, 0x75, 0x65, 0x72, 0x79, 0x54, 0x65, 0x72,
        0x6d, 0x49, 0x44, 0xef, 0xbc, 0x89]),
      (58, [0xe6, 0xb2, 0xa1, 0xe6, 0x9c, 0x89, 0xe5, 0x8c, 0xb9, 0xe9, 0x85, 0x8d, 0xe8, 0xb7,
        0xaf, 0xe7, 0x94, 0xb1]),
      (59, [0xe9, 0x9d, 0x9e, 0xe6, 0xb3, 0x95, 0x53, 0x50, 0xe7, 0xb1, 0xbb, 0xe5, 0x9e, 0x8b,
        0xef, 0xbc, 0x88, 0x53, 0x50, 0x54, 0x79, 0x70, 0x65, 0xef, 0xbc, 0x89]),
      (60, [0xe9, 0x9d, 0x9e, 0xe6, 0xb3, 0x95, 0xe4, 0xb8, 0x8a, 0xe4, 0xb8, 0x80, 0xe6, 0x9d,
        0xa1, 0xe8, 0xb7, 0xaf, 0xe7, 0x94, 0xb1, 0xe7, 0xbc, 0x96, 0xe5, 0x8f, 0xb7, 0xef, 0xbc,
        0x88, 0x4c, 0x61, 0x73, 0x74, 0x52, 0x6f, 0x75, 0x74, 0x65, 0x49, 0x44, 0xef, 0xbc, 0x89]),
      (61, [0xe9, 0x9d, 0x9e, 0xe6, 0xb3, 0x95, 0xe8, 0xb7, 0xaf, 0xe7, 0x94, 0xb1, 0xe7, 0xb1,
        0xbb, 0xe5, 0x9e, 0x8b, 0xef, 0xbc, 0x88, 0x52, 0x6f, 0x75, 0x74, 0x65, 0x54, 0x79, 0x70,
        0x65, 0xef, 0xbc, 0x89]),
      (62, [0xe9, 0x9d, 0x9e, 0xe6, 0xb3, 0x95, 0xe7, 0x9b, 0xae, 0xe6, 0xa0, 0x87, 0xe7, 0xbd,
        0x91, 0xe5, 0x85, 0xb3, 0xe4, 0xbb, 0xa3, 0xe7, 0xa0, 0x81, 0xef, 0xbc, 0x88, 0x44, 0x65,
        0x73, 0x74, 0x47, 0x61, 0x74, 0x65, 0x77, 0x61, 0x79, 0x49, 0x44, 0xef, 0xbc, 0x89]),
      (63, [0xe9, 0x9d, 0x9e, 0xe6, 0xb3, 0x95, 0xe7, 0x9b, 0xae, 0xe6, 0xa0, 0x87, 0xe7, 0xbd,
        0x91, 0xe5, 0x85, 0xb3, 0x49, 0x50, 0xef, 0xbc, 0x88, 0x44, 0x65, 0x73, 0x74, 0x47, 0x61,
        0x74, 0x65, 0x77, 0x61, 0x79, 0x49, 0x50, 0xef, 0xbc, 0x89]),
      (64, [0xe9, 0x9d, 0x9e, 0xe6, 0xb3, 0x95, 0xe7, 0x9b, 0xae, 0xe6, 0xa0, 0x87, 0xe7, 0xbd,
        0x91, 0xe5, 0x85, 0xb3, 0xe7, 0xab, 0xaf, 0xe5, 0x8f, 0xa3, 0xef, 0xbc, 0x88, 0x44, 0x65,
        0x73, 0x74, 0x47, 0x61, 0x74, 0x65, 0x77, 0x61, 0x79, 0x50, 0x6f, 0x72, 0x74, 0xef, 0xbc,
        0x89]),
      (65, [0xe9, 0x9d, 0x9e, 0xe6, 0xb3, 0x95, 0xe8, 0xb7, 0xaf, 0xe7, 0x94, 0xb1, 0xe5, 0x8f,
        0xb7, 0xe7, 0xa0, 0x81, 0xe6, 0xae, 0xb5, 0xef, 0xbc, 0x88, 0x54, 0x65, 0x72, 0x6d, 0x52,
        0x61, 0x6e, 0x67, 0x65, 0x49, 0x44, 0xef, 0xbc, 0x89]),
      (66, [0xe9, 0x9d, 0x9e, 0xe6, 0xb3, 0x95, 0xe7, 0xbb, 0x88, 0xe7, 0xab, 0xaf, 0xe6, 0x89,
        0x80, 0xe5, 0xb1, 0x9e, 0xe7, 0x9c, 0x81, 0xe4, 0xbb, 0xa3, 0xe7, 0xa0, 0x81, 0xef, 0xbc,
        0x88, 0x50, 0x72, 0x6f, 0x76, 0x69, 0x6e, 0x63, 0x65, 0x43, 0x6f, 0x64, 0x65, 0xef, 0xbc,
        0x89]),
      (67, [0xe9, 0x9d, 0x9e, 0xe6, 0xb3, 0x95, 0xe7, 0x94, 0xa8, 0xe6, 0x88, 0xb7, 0xe7, 0xb1,
        0xbb, 0xe5, 0x9e, 0x8b, 0xef, 0xbc, 0x88, 0x55, 0x73, 0x65, 0x72, 0x54, 0x79, 0x70, 0x65,
        0xef, 0xbc, 0x89]),
      (68, [0xe6, 0x9c, 0xac, 0xe8, 0x8a, 0x82, 0xe7, 0x82, 0xb9, 0xe4, 0xb8, 0x8d, 0xe6, 0x94,
        0xaf, 0xe6, 0x8c, 0x81, 0xe8, 0xb7, 0xaf, 0xe7, 0x94, 0xb1, 0xe6, 0x9b, 0xb4, 0xe6, 0x96,
        0xb0]),
      (69, [0xe9, 0x9d, 0x9e, 0xe6, 0xb3, 0x95, 0x53, 0x50, 0xe4, 0xbc, 0x81, 0xe4, 0xb8, 0x9a,
        0xe4, 0xbb, 0xa3, 0xe7, 0xa0, 0x81, 0xef, 0xbc, 0x88, 0x53, 0x50, 0x49, 0x44, 0xef, 0xbc,
        0x89]),
      (70, [0xe9, 0x9d, 0x9e, 0xe6, 0xb3, 0x95, 0x53, 0x50, 0xe6, 0x8e, 0xa5, 0xe5, 0x85, 0xa5,
        0xe7, 0xb1, 0xbb, 0xe5, 0x9e, 0x8b, 0xef, 0xbc, 0x88, 0x53, 0x50, 0x41, 0x63, 0x63, 0x65,
        0x73, 0x73, 0x54, 0x79, 0x70, 0x65, 0xef, 0xbc, 0x89]),
      (71, [0xe8, 0xb7, 0xaf, 0xe7, 0x94, 0xb1, 0xe4, 0xbf, 0xa1, 0xe6, 0x81, 0xaf, 0xe6, 0x9b,
        0xb4, 0xe6, 0x96, 0xb0, 0xe5, 0xa4, 0xb1, 0xe8, 0xb4, 0xa5]),
      (72, [0xe9, 0x9d, 0x9e, 0xe6, 0xb3, 0x95, 0xe6, 0x97, 0xb6, 0xe9, 0x97, 0xb4, 0xe6, 0x88,
        0xb3, 0xef, 0xbc, 0x88, 0x54, 0x69, 0x6d, 0x65, 0xef, 0xbc, 0x89]),
      (73, [0xe9, 0x9d, 0x9e, 0xe6, 0xb3, 0x95, 0xe4, 0xb8, 0x9a, 0xe5, 0x8a, 0xa1, 0xe4, 0xbb,
        0xa3, 0xe7, 0xa0, 0x81, 0xef, 0xbc, 0x88, 0x4d, 0x53, 0x65, 0x72, 0x76, 0x69, 0x63, 0x65,
        0x49, 0x44, 0xef, 0xbc, 0x89]),
      (74, [0x53, 0x50, 0xe7, 0xa6, 0x81, 0xe6, 0xad, 0xa2, 0xe4, 0xb8, 0x8b, 0xe5, 0x8f, 0x91,
        0xe6, 0x97, 0xb6, 0xe6, 0xae, 0xb5]),
      (75, [0x53, 0x50, 0xe5, 0x8f, 0x91, 0xe9, 0x80, 0x81, 0xe8, 0xb6, 0x85, 0xe8, 0xbf, 0x87,
        0xe6, 0x97, 0xa5, 0xe6, 0xb5, 0x81, 0xe9, 0x87, 0x8f]),
      (76, [0x53, 0x50, 0xe5, 0xb8, 0x90, 0xe5, 0x8f, 0xb7, 0xe8, 0xbf, 0x87, 0xe6, 0x9c, 0x89,
        0xe6, 0x95, 0x88, 0xe6, 0x9c, 0x9f])]"

definition Status_String :: "u32 \<Rightarrow> gostring" where
  "Status_String s =
     (case map_of status_messages s of
        Some msg \<Rightarrow> msg
      | None \<Rightarrow> bytes_of ''Status Unknown: '' @ Itoa (uint s))"

definition Status_Data :: "u32 \<Rightarrow> u32" where
  "Status_Data s = s"

definition Status_Error :: "u32 \<Rightarrow> error" where
  "Status_Error s = ErrText (Itoa (uint s) @ bytes_of '' : '' @ Status_String s)"

end
