(* ===== verification/Login.thy ===== *)
theory Login
  imports Auth Packer Status
begin

text \<open>
  \<^verbatim>\<open>pkg/login.go\<close>: the login request and its response. The clock that \<open>Pack\<close> may ask for a time
  stamp is an argument.
\<close>

definition SmgpLoginReqPktLen :: u32 where "SmgpLoginReqPktLen = HeaderPktLen + 8 + 16 + 1 + 4 + 1"
definition SmgpLoginRespPktLen :: u32 where "SmgpLoginRespPktLen = HeaderPktLen + 4 + 16 + 1"

section \<open>The request\<close>

record SmgpLoginReqPkt =
  ClientID :: gostring
  AuthenticatorClient :: gostring
  LoginMode :: byte
  TimeStamp :: u32
  ClientVersion :: byte
  SequenceID :: u32
  Secret :: gostring

text \<open>
  The authenticator is made from the client identifier as it stands before padding and from the
  time stamp as it stands before a zero one is replaced.
\<close>

definition SmgpLoginReqPkt_Pack ::
  "Time \<Rightarrow> u32 \<Rightarrow> SmgpLoginReqPkt \<Rightarrow> SmgpLoginReqPkt \<times> (error + byte list)" where
  "SmgpLoginReqPkt_Pack now seqId p =
     (let w = newPkgWriter SmgpLoginReqPktLen;
          w = WriteHeader SmgpLoginReqPktLen seqId SMGP_LOGIN w;
          p = p\<lparr>SmgpLoginReqPkt.SequenceID := seqId\<rparr>
      in case GenAuthenticatorClient (ClientID p) (SmgpLoginReqPkt.Secret p) (TimeStamp p) of
        Inl e \<Rightarrow> (p, Inl e)
      | Inr auth \<Rightarrow>
          let p = p\<lparr>ClientID := OctetString_Byte (ClientID p) 8\<rparr>;
              w = WriteFixedSizeString (ClientID p) 8 w;
              p = (if TimeStamp p = 0 then p\<lparr>TimeStamp := GenTimestamp now\<rparr> else p);
              p = p\<lparr>SmgpLoginReqPkt.AuthenticatorClient := auth\<rparr>;
              w = WriteBytes auth w;
              w = WriteInt (U8 (LoginMode p)) w;
              w = WriteInt (U32 (TimeStamp p)) w;
              w = WriteInt (U8 (ClientVersion p)) w
          in (p, Bytes w))"

definition SmgpLoginReqPkt_Unpack ::
  "SmgpLoginReqPkt \<Rightarrow> byte list \<Rightarrow> (SmgpLoginReqPkt \<times> error option) option" where
  "SmgpLoginReqPkt_Unpack p data =
     (let r = newPkgReader data;
          (sa, r) = ReadBytes (replicate 8 0) r; p = p\<lparr>ClientID := sa\<rparr>;
          (as, r) = ReadBytes (replicate 16 0) r; p = p\<lparr>SmgpLoginReqPkt.AuthenticatorClient := as\<rparr>;
          (v, r) = ReadInt8 (LoginMode p) r; p = p\<lparr>LoginMode := v\<rparr>;
          (t, r) = ReadInt32 (TimeStamp p) r; p = p\<lparr>TimeStamp := t\<rparr>;
          (v, r) = ReadInt8 (ClientVersion p) r; p = p\<lparr>ClientVersion := v\<rparr>
      in Some (p, Reader_Error r))"

section \<open>The response\<close>

record SmgpLoginRespPkt =
  Status :: u32
  AuthenticatorServer :: gostring
  ServerVersion :: byte
  Secret :: gostring
  AuthenticatorClient :: gostring
  SequenceID :: u32

definition SmgpLoginRespPkt_Pack ::
  "u32 \<Rightarrow> SmgpLoginRespPkt \<Rightarrow> SmgpLoginRespPkt \<times> (error + byte list)" where
  "SmgpLoginRespPkt_Pack seqId p =
     (let w = newPkgWriter SmgpLoginRespPktLen;
          w = WriteHeader SmgpLoginRespPktLen seqId SMGP_LOGIN_RESP w;
          p = p\<lparr>SmgpLoginRespPkt.SequenceID := seqId\<rparr>;
          w = WriteInt (U32 (Status p)) w;
          authClient = OctetString_Byte (SmgpLoginRespPkt.AuthenticatorClient p) 16;
          auth = md5_Sum ([ucast (Status_Data (Status p))] @ authClient @ SmgpLoginRespPkt.Secret p);
          p = p\<lparr>AuthenticatorServer := auth\<rparr>;
          w = WriteString (OctetString_String (AuthenticatorServer p) 16) w;
          w = WriteInt (U8 (ServerVersion p)) w
      in (p, Bytes w))"

definition SmgpLoginRespPkt_Unpack ::
  "SmgpLoginRespPkt \<Rightarrow> byte list \<Rightarrow> (SmgpLoginRespPkt \<times> error option) option" where
  "SmgpLoginRespPkt_Unpack p data =
     (let r = newPkgReader data;
          (v, r) = ReadInt32 (Status p) r; p = p\<lparr>Status := v\<rparr>;
          (s, r) = ReadBytes (replicate 16 0) r; p = p\<lparr>AuthenticatorServer := s\<rparr>;
          (v, r) = ReadInt8 (ServerVersion p) r; p = p\<lparr>ServerVersion := v\<rparr>
      in Some (p, Reader_Error r))"

section \<open>The contract\<close>

definition login_timestamp :: "Time \<Rightarrow> SmgpLoginReqPkt \<Rightarrow> u32" where
  "login_timestamp now p = (if TimeStamp p = 0 then GenTimestamp now else TimeStamp p)"

definition login_auth :: "SmgpLoginReqPkt \<Rightarrow> byte list" where
  "login_auth p = auth_client (ClientID p) (SmgpLoginReqPkt.Secret p) (TimeStamp p)"

definition login_req_body :: "Time \<Rightarrow> SmgpLoginReqPkt \<Rightarrow> byte list" where
  "login_req_body now p =
     OctetString_Byte (ClientID p) 8 @ login_auth p @ [LoginMode p] @
     PutUint32 (login_timestamp now p) @ [ClientVersion p]"

text \<open>A packet with nothing but its sequence number set, as the receiver makes it.\<close>

definition SmgpLoginReqPkt_new :: "u32 \<Rightarrow> SmgpLoginReqPkt" where
  "SmgpLoginReqPkt_new seq = SmgpLoginReqPkt.make [] [] 0 0 0 seq []"

definition SmgpLoginRespPkt_new :: "u32 \<Rightarrow> SmgpLoginRespPkt" where
  "SmgpLoginRespPkt_new seq = SmgpLoginRespPkt.make 0 [] 0 [] [] seq"

definition login_req_sent :: "Time \<Rightarrow> u32 \<Rightarrow> SmgpLoginReqPkt \<Rightarrow> SmgpLoginReqPkt" where
  "login_req_sent now seq p =
     SmgpLoginReqPkt.make (OctetString_Byte (ClientID p) 8) (login_auth p) (LoginMode p)
       (login_timestamp now p) (ClientVersion p) seq []"

definition login_resp_auth :: "SmgpLoginRespPkt \<Rightarrow> byte list" where
  "login_resp_auth p =
     md5_Sum (ucast (Status p) # OctetString_Byte (SmgpLoginRespPkt.AuthenticatorClient p) 16 @
       SmgpLoginRespPkt.Secret p)"

definition login_resp_body :: "SmgpLoginRespPkt \<Rightarrow> byte list" where
  "login_resp_body p = PutUint32 (Status p) @ login_resp_auth p @ [ServerVersion p]"

definition login_resp_sent :: "u32 \<Rightarrow> SmgpLoginRespPkt \<Rightarrow> SmgpLoginRespPkt" where
  "login_resp_sent seq p = SmgpLoginRespPkt.make (Status p) (login_resp_auth p) (ServerVersion p) [] [] seq"

lemma SmgpLoginReqPkt_Pack_eq:
  "SmgpLoginReqPkt_Pack now seq p =
   (p\<lparr>ClientID := OctetString_Byte (ClientID p) 8, SmgpLoginReqPkt.AuthenticatorClient := login_auth p,
      TimeStamp := login_timestamp now p, SmgpLoginReqPkt.SequenceID := seq\<rparr>,
    Inr (frame SMGP_LOGIN seq (login_req_body now p)))"
  by (simp add: SmgpLoginReqPkt_Pack_def GenAuthenticatorClient_eq wire_simps WriteFixedSizeString_run Let_def frame_def
      login_req_body_def login_auth_def login_timestamp_def SmgpLoginReqPktLen_def HeaderPktLen_def)

lemma SmgpLoginReqPkt_Unpack_body:
  "SmgpLoginReqPkt_Unpack (SmgpLoginReqPkt_new seq) (login_req_body now p) = Some (login_req_sent now seq p, None)"
  by (simp add: SmgpLoginReqPkt_Unpack_def login_req_body_def wire_simps Let_def SmgpLoginReqPkt_new_def
      SmgpLoginReqPkt.defs login_req_sent_def login_auth_def Reader_Error_def)

lemma SmgpLoginRespPkt_Pack_eq:
  "SmgpLoginRespPkt_Pack seq p =
   (p\<lparr>AuthenticatorServer := login_resp_auth p, SmgpLoginRespPkt.SequenceID := seq\<rparr>,
    Inr (frame SMGP_LOGIN_RESP seq (login_resp_body p)))"
  by (simp add: SmgpLoginRespPkt_Pack_def wire_simps Let_def frame_def login_resp_body_def
      login_resp_auth_def SmgpLoginRespPktLen_def HeaderPktLen_def Status_Data_def)

lemma SmgpLoginRespPkt_Unpack_body:
  "SmgpLoginRespPkt_Unpack (SmgpLoginRespPkt_new seq) (login_resp_body p) = Some (login_resp_sent seq p, None)"
  by (simp add: SmgpLoginRespPkt_Unpack_def login_resp_body_def wire_simps Let_def SmgpLoginRespPkt_new_def
      SmgpLoginRespPkt.defs login_resp_sent_def login_resp_auth_def Reader_Error_def)

interpretation login_req: packer "SmgpLoginReqPkt_Pack now" SmgpLoginReqPkt_Unpack SmgpLoginReqPkt_new
  "\<lambda>p. True" SMGP_LOGIN "login_req_body now" "login_req_sent now" for now
  by unfold_locales (simp_all add: SmgpLoginReqPkt_Pack_eq SmgpLoginReqPkt_Unpack_body)

interpretation login_resp: packer SmgpLoginRespPkt_Pack SmgpLoginRespPkt_Unpack SmgpLoginRespPkt_new
  "\<lambda>p. True" SMGP_LOGIN_RESP login_resp_body login_resp_sent
  by unfold_locales (simp_all add: SmgpLoginRespPkt_Pack_eq SmgpLoginRespPkt_Unpack_body)

section \<open>Truncated bodies\<close>

text \<open>Unpacking never panics and reports an error exactly when the body is too short.\<close>

lemma SmgpLoginReqPkt_Unpack_outcome:
  "outcome (\<lambda>m. \<exists>p' e. m = Some (p', e) \<and> (e = None \<longleftrightarrow> 30 \<le> length data)) (SmgpLoginReqPkt_Unpack p data)"
  unfolding SmgpLoginReqPkt_Unpack_def Let_def
  by (rule outcome_newPkgReader, (rule outcome_rules, assumption)+) (auto simp: outcome_def Reader_Error_pos)

lemma SmgpLoginRespPkt_Unpack_outcome:
  "outcome (\<lambda>m. \<exists>p' e. m = Some (p', e) \<and> (e = None \<longleftrightarrow> 21 \<le> length data)) (SmgpLoginRespPkt_Unpack p data)"
  unfolding SmgpLoginRespPkt_Unpack_def Let_def
  by (rule outcome_newPkgReader, (rule outcome_rules, assumption)+) (auto simp: outcome_def Reader_Error_pos)

end
