(* ===== verification/Query.thy ===== *)
theory Query
  imports Packer
begin

text \<open>
  \<^verbatim>\<open>pkg/query.go\<close>: the query request and the query response, two packets of fixed size.
\<close>

definition SmgpQueryReqPktLen :: u32 where "SmgpQueryReqPktLen = HeaderPktLen + 8 + 1 + 10"
definition SmgpQueryRespPktLen :: u32 where "SmgpQueryRespPktLen = HeaderPktLen + 8 + 1 + 10 + 4 * 8 + 8"

section \<open>The request\<close>

record SmgpQueryReqPkt =
  QueryTime :: gostring
  QueryType :: byte
  QueryCode :: gostring
  SequenceID :: u32

definition SmgpQueryReqPkt_Pack ::
  "u32 \<Rightarrow> SmgpQueryReqPkt \<Rightarrow> SmgpQueryReqPkt \<times> (error + byte list)" where
  "SmgpQueryReqPkt_Pack seqId p =
     (let w = newPkgWriter SmgpQueryReqPktLen;
          w = WriteHeader SmgpQueryReqPktLen seqId SMGP_QUERY w;
          p = p\<lparr>SmgpQueryReqPkt.SequenceID := seqId\<rparr>;
          w = WriteFixedSizeString (SmgpQueryReqPkt.QueryTime p) 8 w;
          w = WriteByte (SmgpQueryReqPkt.QueryType p) w;
          w = WriteFixedSizeString (SmgpQueryReqPkt.QueryCode p) 10 w
      in (p, Bytes w))"

definition SmgpQueryReqPkt_Unpack ::
  "SmgpQueryReqPkt \<Rightarrow> byte list \<Rightarrow> (SmgpQueryReqPkt \<times> error option) option" where
  "SmgpQueryReqPkt_Unpack p data = do {
     let r = newPkgReader data;
     (s, r) \<leftarrow> ReadCString 8 r; let p = p\<lparr>SmgpQueryReqPkt.QueryTime := s\<rparr>;
     let (b, r) = ReadByte r; let p = p\<lparr>SmgpQueryReqPkt.QueryType := b\<rparr>;
     (s, r) \<leftarrow> ReadCString 10 r; let p = p\<lparr>SmgpQueryReqPkt.QueryCode := s\<rparr>;
     Some (p, Reader_Error r)
   }"

section \<open>The response\<close>

record SmgpQueryRespPkt =
  QueryTime :: gostring
  QueryType :: byte
  QueryCode :: gostring
  MT_TLMsg :: u32
  MT_Tlusr :: u32
  MT_Scs :: u32
  MT_WT :: u32
  MT_FL :: u32
  MO_Scs :: u32
  MO_WT :: u32
  MO_FL :: u32
  Reserve :: gostring
  SequenceID :: u32

definition SmgpQueryRespPkt_Pack ::
  "u32 \<Rightarrow> SmgpQueryRespPkt \<Rightarrow> SmgpQueryRespPkt \<times> (error + byte list)" where
  "SmgpQueryRespPkt_Pack seqId p =
     (let w = newPkgWriter SmgpQueryRespPktLen;
          w = WriteHeader SmgpQueryRespPktLen seqId SMGP_QUERY_RESP w;
          p = p\<lparr>SmgpQueryRespPkt.SequenceID := seqId\<rparr>;
          w = WriteFixedSizeString (SmgpQueryRespPkt.QueryTime p) 8 w;
          w = WriteByte (SmgpQueryRespPkt.QueryType p) w;
          w = WriteFixedSizeString (SmgpQueryRespPkt.QueryCode p) 10 w;
          w = WriteInt (U32 (MT_TLMsg p)) w;
          w = WriteInt (U32 (MT_Tlusr p)) w;
          w = WriteInt (U32 (MT_Scs p)) w;
          w = WriteInt (U32 (MT_WT p)) w;
          w = WriteInt (U32 (MT_FL p)) w;
          w = WriteInt (U32 (MO_Scs p)) w;
          w = WriteInt (U32 (MO_WT p)) w;
          w = WriteInt (U32 (MO_FL p)) w;
          w = WriteFixedSizeString (Reserve p) 8 w
      in (p, Bytes w))"

definition SmgpQueryRespPkt_Unpack ::
  "SmgpQueryRespPkt \<Rightarrow> byte list \<Rightarrow> (SmgpQueryRespPkt \<times> error option) option" where
  "SmgpQueryRespPkt_Unpack p data = do {
     let r = newPkgReader data;
     (s, r) \<leftarrow> ReadCString 8 r; let p = p\<lparr>SmgpQueryRespPkt.QueryTime := s\<rparr>;
     let (b, r) = ReadByte r; let p = p\<lparr>SmgpQueryRespPkt.QueryType := b\<rparr>;
     (s, r) \<leftarrow> ReadCString 10 r; let p = p\<lparr>SmgpQueryRespPkt.QueryCode := s\<rparr>;
     let (v, r) = ReadInt32 (MT_TLMsg p) r; let p = p\<lparr>MT_TLMsg := v\<rparr>;
     let (v, r) = ReadInt32 (MT_Tlusr p) r; let p = p\<lparr>MT_Tlusr := v\<rparr>;
     let (v, r) = ReadInt32 (MT_Scs p) r; let p = p\<lparr>MT_Scs := v\<rparr>;
     let (v, r) = ReadInt32 (MT_WT p) r; let p = p\<lparr>MT_WT := v\<rparr>;
     let (v, r) = ReadInt32 (MT_FL p) r; let p = p\<lparr>MT_FL := v\<rparr>;
     let (v, r) = ReadInt32 (MO_Scs p) r; let p = p\<lparr>MO_Scs := v\<rparr>;
     let (v, r) = ReadInt32 (MO_WT p) r; let p = p\<lparr>MO_WT := v\<rparr>;
     let (v, r) = ReadInt32 (MO_FL p) r; let p = p\<lparr>MO_FL := v\<rparr>;
     (s, r) \<leftarrow> ReadCString 8 r; let p = p\<lparr>Reserve := s\<rparr>;
     Some (p, Reader_Error r)
   }"

section \<open>The contract\<close>

definition SmgpQueryReqPkt_new :: "u32 \<Rightarrow> SmgpQueryReqPkt" where
  "SmgpQueryReqPkt_new seq = SmgpQueryReqPkt.make [] 0 [] seq"

definition SmgpQueryRespPkt_new :: "u32 \<Rightarrow> SmgpQueryRespPkt" where
  "SmgpQueryRespPkt_new seq = SmgpQueryRespPkt.make [] 0 [] 0 0 0 0 0 0 0 0 [] seq"

definition query_req_wf :: "SmgpQueryReqPkt \<Rightarrow> bool" where
  "query_req_wf p \<longleftrightarrow> fits 8 (SmgpQueryReqPkt.QueryTime p) \<and> fits 10 (SmgpQueryReqPkt.QueryCode p)"

definition query_req_body :: "SmgpQueryReqPkt \<Rightarrow> byte list" where
  "query_req_body p = fixed 8 (SmgpQueryReqPkt.QueryTime p) @ [SmgpQueryReqPkt.QueryType p] @
     fixed 10 (SmgpQueryReqPkt.QueryCode p)"

definition query_resp_wf :: "SmgpQueryRespPkt \<Rightarrow> bool" where
  "query_resp_wf p \<longleftrightarrow> fits 8 (SmgpQueryRespPkt.QueryTime p) \<and> fits 10 (SmgpQueryRespPkt.QueryCode p) \<and>
     fits 8 (Reserve p)"

definition query_resp_body :: "SmgpQueryRespPkt \<Rightarrow> byte list" where
  "query_resp_body p = fixed 8 (SmgpQueryRespPkt.QueryTime p) @ [SmgpQueryRespPkt.QueryType p] @
     fixed 10 (SmgpQueryRespPkt.QueryCode p) @ PutUint32 (MT_TLMsg p) @ PutUint32 (MT_Tlusr p) @
     PutUint32 (MT_Scs p) @ PutUint32 (MT_WT p) @ PutUint32 (MT_FL p) @ PutUint32 (MO_Scs p) @
     PutUint32 (MO_WT p) @ PutUint32 (MO_FL p) @ fixed 8 (Reserve p)"

lemma SmgpQueryReqPkt_Pack_wf:
  "query_req_wf p \<Longrightarrow> snd (SmgpQueryReqPkt_Pack seq p) = Inr (frame SMGP_QUERY seq (query_req_body p))"
  unfolding SmgpQueryReqPkt_Pack_def Let_def
  by (simp add: query_req_wf_def query_req_body_def wire_simps frame_def
      length_simps SmgpQueryReqPktLen_def HeaderPktLen_def)

lemma SmgpQueryReqPkt_Unpack_body:
  "query_req_wf p \<Longrightarrow> SmgpQueryReqPkt_Unpack (SmgpQueryReqPkt_new seq) (query_req_body p) =
     Some (p\<lparr>SmgpQueryReqPkt.SequenceID := seq\<rparr>, None)"
  unfolding SmgpQueryReqPkt_Unpack_def Let_def
  by (cases p) (simp add: query_req_wf_def query_req_body_def wire_simps
      SmgpQueryReqPkt_new_def SmgpQueryReqPkt.defs Reader_Error_def)

lemma SmgpQueryRespPkt_Pack_wf:
  "query_resp_wf p \<Longrightarrow> snd (SmgpQueryRespPkt_Pack seq p) = Inr (frame SMGP_QUERY_RESP seq (query_resp_body p))"
  unfolding SmgpQueryRespPkt_Pack_def Let_def
  by (simp add: query_resp_wf_def query_resp_body_def wire_simps frame_def
      length_simps SmgpQueryRespPktLen_def HeaderPktLen_def)

lemma SmgpQueryRespPkt_Unpack_body:
  "query_resp_wf p \<Longrightarrow> SmgpQueryRespPkt_Unpack (SmgpQueryRespPkt_new seq) (query_resp_body p) =
     Some (p\<lparr>SmgpQueryRespPkt.SequenceID := seq\<rparr>, None)"
  unfolding SmgpQueryRespPkt_Unpack_def Let_def
  by (cases p) (simp add: query_resp_wf_def query_resp_body_def wire_simps
      SmgpQueryRespPkt_new_def SmgpQueryRespPkt.defs Reader_Error_def)

interpretation query_req: packer SmgpQueryReqPkt_Pack SmgpQueryReqPkt_Unpack SmgpQueryReqPkt_new
  query_req_wf SMGP_QUERY query_req_body "\<lambda>seq p. p\<lparr>SmgpQueryReqPkt.SequenceID := seq\<rparr>"
  by unfold_locales (simp_all add: SmgpQueryReqPkt_Pack_wf SmgpQueryReqPkt_Unpack_body)

interpretation query_resp: packer SmgpQueryRespPkt_Pack SmgpQueryRespPkt_Unpack SmgpQueryRespPkt_new
  query_resp_wf SMGP_QUERY_RESP query_resp_body "\<lambda>seq p. p\<lparr>SmgpQueryRespPkt.SequenceID := seq\<rparr>"
  by unfold_locales (simp_all add: SmgpQueryRespPkt_Pack_wf SmgpQueryRespPkt_Unpack_body)

section \<open>Errors\<close>

lemma SmgpQueryReqPkt_Pack_Inl:
  "snd (SmgpQueryReqPkt_Pack seq p) = Inl e \<longleftrightarrow>
   \<not> (length (SmgpQueryReqPkt.QueryTime p) \<le> 8 \<and> length (SmgpQueryReqPkt.QueryCode p) \<le> 10) \<and>
   e = ErrMethodParamsInvalid"
  unfolding SmgpQueryReqPkt_Pack_def Let_def snd_conv
  by (subst Bytes_Inl_iff) (auto simp: err_simps)

lemma SmgpQueryRespPkt_Pack_Inl:
  "snd (SmgpQueryRespPkt_Pack seq p) = Inl e \<longleftrightarrow>
   \<not> (length (SmgpQueryRespPkt.QueryTime p) \<le> 8 \<and> length (SmgpQueryRespPkt.QueryCode p) \<le> 10 \<and>
      length (Reserve p) \<le> 8) \<and>
   e = ErrMethodParamsInvalid"
  unfolding SmgpQueryRespPkt_Pack_def Let_def snd_conv
  by (subst Bytes_Inl_iff) (auto simp: err_simps)

text \<open>Unpacking never panics and reports an error exactly when the body is too short.\<close>

lemma SmgpQueryReqPkt_Unpack_outcome:
  "outcome (\<lambda>m. \<exists>p' e. m = Some (p', e) \<and> (e = None \<longleftrightarrow> 19 \<le> length data)) (SmgpQueryReqPkt_Unpack p data)"
  unfolding SmgpQueryReqPkt_Unpack_def Let_def
  by (rule outcome_newPkgReader,
      ((rule outcome_ReadCString, assumption, simp) | (rule outcome_rules, assumption))+)
     (auto simp: outcome_def Reader_Error_pos)

lemma SmgpQueryRespPkt_Unpack_outcome:
  "outcome (\<lambda>m. \<exists>p' e. m = Some (p', e) \<and> (e = None \<longleftrightarrow> 59 \<le> length data)) (SmgpQueryRespPkt_Unpack p data)"
  unfolding SmgpQueryRespPkt_Unpack_def Let_def
  by (rule outcome_newPkgReader,
      ((rule outcome_ReadCString, assumption, simp) | (rule outcome_rules, assumption))+)
     (auto simp: outcome_def Reader_Error_pos)

end
