(* ===== verification/Options.thy ===== *)
theory Options
  imports Octet
begin

text \<open>
  \<^verbatim>\<open>pkg/options.go\<close>: the map of optional parameters, its length on the wire and its parser.

  Go visits a map in an order that is not determined, and may choose another one each time. A
  definition that ranges over the map takes the order as its argument, a list of tags; the order
  is possible when \<open>iterates\<close> holds of it. The pointers in the map are never nil: \<open>ParseOptions\<close>
  and \<open>GetMsgPkgs\<close> store results of \<open>NewTLV\<close> only.
\<close>

section \<open>Tags\<close>

definition TAG_TP_pid :: u16 where "TAG_TP_pid = 1"
definition TAG_TP_udhi :: u16 where "TAG_TP_udhi = 2"
definition TAG_LinkID :: u16 where "TAG_LinkID = 3"
definition TAG_ChargeUserType :: u16 where "TAG_ChargeUserType = 4"
definition TAG_ChargeTermType :: u16 where "TAG_ChargeTermType = 5"
definition TAG_ChargeTermPseudo :: u16 where "TAG_ChargeTermPseudo = 6"
definition TAG_DestTermType :: u16 where "TAG_DestTermType = 7"
definition TAG_DestTermPseudo :: u16 where "TAG_DestTermPseudo = 8"
definition TAG_PkTotal :: u16 where "TAG_PkTotal = 9"
definition TAG_PkNumber :: u16 where "TAG_PkNumber = 10"
definition TAG_SubmitMsgType :: u16 where "TAG_SubmitMsgType = 11"
definition TAG_SPDealResult :: u16 where "TAG_SPDealResult = 12"
definition TAG_SrcTermType :: u16 where "TAG_SrcTermType = 13"
definition TAG_SrcTermPseudo :: u16 where "TAG_SrcTermPseudo = 14"
definition TAG_NodesCount :: u16 where "TAG_NodesCount = 15"
definition TAG_MsgSrc :: u16 where "TAG_MsgSrc = 16"
definition TAG_SrcType :: u16 where "TAG_SrcType = 17"
definition TAG_MServiceID :: u16 where "TAG_MServiceID = 18"

lemmas tag_defs = TAG_TP_pid_def TAG_TP_udhi_def TAG_LinkID_def TAG_ChargeUserType_def
  TAG_ChargeTermType_def TAG_ChargeTermPseudo_def TAG_DestTermType_def TAG_DestTermPseudo_def
  TAG_PkTotal_def TAG_PkNumber_def TAG_SubmitMsgType_def TAG_SPDealResult_def
  TAG_SrcTermType_def TAG_SrcTermPseudo_def TAG_NodesCount_def TAG_MsgSrc_def TAG_SrcType_def
  TAG_MServiceID_def

text \<open>The names of the tags. One tag has none.\<close>

definition TagName :: "u16 \<rightharpoonup> gostring" where
  "TagName = map_of
     [(TAG_TP_pid, bytes_of ''TAG_TP_pid''),
      (TAG_TP_udhi, bytes_of ''TAG_TP_udhi''),
      (TAG_LinkID, bytes_of ''TAG_LinkID''),
      (TAG_ChargeUserType, bytes_of ''TAG_ChargeUserType''),
      (TAG_ChargeTermType, bytes_of ''TAG_ChargeTermType''),
      (TAG_ChargeTermPseudo, bytes_of ''TAG_ChargeTermPseudo''),
      (TAG_DestTermType, bytes_of ''TAG_DestTermType''),
      (TAG_PkTotal, bytes_of ''TAG_PkTotal''),
      (TAG_PkNumber, bytes_of ''TAG_PkNumber''),
      (TAG_SubmitMsgType, bytes_of ''TAG_SubmitMsgType''),
      (TAG_SPDealResult, bytes_of ''TAG_SPDealResult''),
      (TAG_SrcTermType, bytes_of ''TAG_SrcTermType''),
      (TAG_SrcTermPseudo, bytes_of ''TAG_SrcTermPseudo''),
      (TAG_NodesCount, bytes_of ''TAG_NodesCount''),
      (TAG_MsgSrc, bytes_of ''TAG_MsgSrc''),
      (TAG_SrcType, bytes_of ''TAG_SrcType''),
      (TAG_MServiceID, bytes_of ''TAG_MServiceID'')]"

section \<open>The map\<close>

type_synonym Options = "u16 \<rightharpoonup> TLV"

definition iterates :: "u16 list \<Rightarrow> Options \<Rightarrow> bool" where
  "iterates ks ops \<longleftrightarrow> distinct ks \<and> set ks = dom ops"

definition ranged :: "u16 list \<Rightarrow> Options \<Rightarrow> TLV list" where
  "ranged ks ops = List.map_filter ops ks"

definition Options_Len :: "u16 list \<Rightarrow> Options \<Rightarrow> int" where
  "Options_Len ks ops = foldl (\<lambda>length v. length + (2 + 2 + uint (Length v))) 0 (ranged ks ops)"

text \<open>The loop of the submit and deliver packets that writes the optional parameters.\<close>

definition WriteOptions :: "u16 list \<Rightarrow> Options \<Rightarrow> pkgWriter \<Rightarrow> pkgWriter" where
  "WriteOptions ks ops w =
     foldl (\<lambda>w v. WriteBytes (case TLV_Byte v of Inr b \<Rightarrow> b | Inl _ \<Rightarrow> []) w) w (ranged ks ops)"

text \<open>
  The loop of \<open>ParseOptions\<close>: \<open>p\<close> is the read position and \<open>ops\<close> the map built so far. The
  guards keep every index and slice in range.
\<close>

function ParseOptions_loop :: "byte list \<Rightarrow> nat \<Rightarrow> Options \<Rightarrow> error + Options" where
  "ParseOptions_loop rawData p ops =
     (if p < length rawData then
        if length rawData - p < 2 + 2 then Inl ErrLength
        else
          let tag = Uint16 (rawData ! p) (rawData ! (p + 1));
              p' = p + 2;
              vlen = Uint16 (rawData ! p') (rawData ! (p' + 1));
              p'' = p' + 2
          in if length rawData - p'' < unat vlen then Inl ErrLength
             else
               let value = take (unat vlen) (drop p'' rawData)
               in ParseOptions_loop rawData (p'' + unat vlen) (ops(tag \<mapsto> NewTLV tag value))
      else Inr ops)"
  by pat_completeness auto
termination
  by (relation "measure (\<lambda>(rawData, p, ops). length rawData - p)") auto

declare ParseOptions_loop.simps [simp del]

definition ParseOptions :: "byte list \<Rightarrow> error + Options" where
  "ParseOptions rawData = ParseOptions_loop rawData 0 Map.empty"

section \<open>Length and order\<close>

definition options_wf :: "Options \<Rightarrow> bool" where
  "options_wf ops \<longleftrightarrow> finite (dom ops) \<and> (\<forall>k v. ops k = Some v \<longrightarrow> Tag v = k \<and> tlv_wf v)"

lemma Options_Len_sum_list: "Options_Len ks ops = (\<Sum>v \<leftarrow> ranged ks ops. 4 + uint (Length v))"
proof -
  have "foldl (\<lambda>length v. length + (2 + 2 + uint (Length v))) a vs
      = a + (\<Sum>v \<leftarrow> vs. 4 + uint (Length v))" for a and vs :: "TLV list"
    by (induction vs arbitrary: a) auto
  then show ?thesis by (simp add: Options_Len_def)
qed

lemma WriteOptions_run [wire_simps]:
  "WriteOptions ks ops \<lparr>w_b = b, w_err = None\<rparr> =
   \<lparr>w_b = b @ concat (map tlv_bytes (ranged ks ops)), w_err = None\<rparr>"
proof -
  have "foldl (\<lambda>w v. WriteBytes (case TLV_Byte v of Inr b \<Rightarrow> b | Inl _ \<Rightarrow> []) w)
      \<lparr>w_b = b, w_err = None\<rparr> vs = \<lparr>w_b = b @ concat (map tlv_bytes vs), w_err = None\<rparr>" for vs
    by (induction vs arbitrary: b) (auto simp: TLV_Byte_eq wire_simps)
  then show ?thesis by (simp add: WriteOptions_def)
qed

lemma WriteOptions_sticky: "w_err w = Some e \<Longrightarrow> WriteOptions ks ops w = w"
proof -
  assume "w_err w = Some e"
  then have "foldl (\<lambda>w v. WriteBytes (case TLV_Byte v of Inr b \<Rightarrow> b | Inl _ \<Rightarrow> []) w) w vs = w" for vs
    by (induction vs) (auto simp: writer_sticky)
  then show ?thesis by (simp add: WriteOptions_def)
qed

lemma WriteOptions_err [err_simps]:
  "w_err (WriteOptions ks ops w) = w_err w" "w_cause (WriteOptions ks ops w) \<longleftrightarrow> w_cause w"
proof -
  have "w_err (foldl (\<lambda>w v. WriteBytes (case TLV_Byte v of Inr b \<Rightarrow> b | Inl _ \<Rightarrow> []) w) w vs) = w_err w" for vs
    by (induction vs arbitrary: w) (auto simp: err_simps)
  then show "w_err (WriteOptions ks ops w) = w_err w"
    by (simp add: WriteOptions_def)
  then show "w_cause (WriteOptions ks ops w) \<longleftrightarrow> w_cause w"
    by (simp add: w_cause_def)
qed

lemma ranged_eq_map: "set ks \<subseteq> dom ops \<Longrightarrow> ranged ks ops = map (\<lambda>k. the (ops k)) ks"
  by (induction ks) (auto simp: ranged_def map_filter_simps)

lemma sum_list_dom:
  "iterates ks ops \<Longrightarrow> (\<Sum>v \<leftarrow> ranged ks ops. f v) = (\<Sum>k \<in> dom ops. f (the (ops k)))"
  for f :: "TLV \<Rightarrow> 'b::comm_monoid_add"
  by (auto simp: iterates_def ranged_eq_map sum_list_distinct_conv_sum_set comp_def)

text \<open>The length does not depend on the order of the iteration.\<close>

lemma Options_Len_order:
  "iterates ks ops \<Longrightarrow> Options_Len ks ops = (\<Sum>k \<in> dom ops. 4 + uint (Length (the (ops k))))"
  by (simp add: Options_Len_sum_list sum_list_dom)

lemma in_ranged: "iterates ks ops \<Longrightarrow> v \<in> set (ranged ks ops) \<longleftrightarrow> (\<exists>k. ops k = Some v)"
  by (force simp: iterates_def ranged_eq_map image_iff dom_def)

lemma length_tlvs:
  "\<forall>v \<in> set vs. tlv_wf v \<Longrightarrow>
   int (length (concat (map tlv_bytes vs))) = (\<Sum>v \<leftarrow> vs. 4 + uint (Length v))"
  by (induction vs) (auto simp: length_simps tlv_wf_int)

lemma ranged_wf: "iterates ks ops \<Longrightarrow> options_wf ops \<Longrightarrow> v \<in> set (ranged ks ops) \<Longrightarrow> tlv_wf v"
  by (auto simp: in_ranged options_wf_def)

lemma length_options_bytes:
  assumes "iterates ks ops" "iterates ks' ops" "options_wf ops"
  shows "int (length (concat (map tlv_bytes (ranged ks ops)))) = Options_Len ks' ops"
proof -
  have "int (length (concat (map tlv_bytes (ranged ks ops)))) = Options_Len ks ops"
    using assms ranged_wf by (subst length_tlvs) (auto simp: Options_Len_sum_list)
  with assms show ?thesis by (simp add: Options_Len_order)
qed

section \<open>The parser\<close>

text \<open>
  The parser as a recursion on the bytes that are left, and the proof that the loop over the
  read position computes it.
\<close>

fun parse_tlvs :: "byte list \<Rightarrow> Options \<Rightarrow> error + Options" where
  "parse_tlvs [] ops = Inr ops"
| "parse_tlvs (t1 # t2 # l1 # l2 # rest) ops =
     (let tag = Uint16 t1 t2; n = unat (Uint16 l1 l2) in
      if length rest < n then Inl ErrLength
      else parse_tlvs (drop n rest) (ops(tag \<mapsto> NewTLV tag (take n rest))))"
| "parse_tlvs _ ops = Inl ErrLength"

lemma ParseOptions_loop_eq: "ParseOptions_loop raw p ops = parse_tlvs (drop p raw) ops"
proof (induction raw p ops rule: ParseOptions_loop.induct)
  case (1 raw p ops)
  consider "length raw \<le> p" | "p < length raw" "length raw - p < 4"
    | (four) t1 t2 l1 l2 rest where "drop p raw = t1 # t2 # l1 # l2 # rest"
    by (cases "(drop p raw, ops)" rule: parse_tlvs.cases) (auto simp: Suc_leI dest: arg_cong [of _ _ length])
  then show ?case
  proof cases
    case four
    have len: "length raw = p + 4 + length rest"
      using arg_cong [OF four, of length] by simp
    have nth: "raw ! (p + i) = drop p raw ! i" if "i < 4" for i
      using len that by simp
    have "raw ! p = t1" "raw ! (p + 1) = t2" "raw ! (p + 2) = l1" "raw ! (p + 2 + 1) = l2"
      using nth [of 0] nth [of 1] nth [of 2] nth [of 3] by (simp_all add: four numeral_3_eq_3)
    moreover have "drop (p + 2 + 2) raw = rest"
      using arg_cong [OF four, of "drop 4"] by (simp add: add.commute eval_nat_numeral)
    moreover have dr: "drop (p + 2 + 2 + n) raw = drop n rest" for n
      using arg_cong [OF four, of "drop (4 + n)"] by (simp add: ac_simps eval_nat_numeral)
    moreover have "length raw - (p + 2 + 2) = length rest" "p < length raw" "\<not> length raw - p < 2 + 2"
      using len by auto
    ultimately show ?thesis
      using "1.IH" [OF _ _ refl refl refl refl _ refl]
      by (subst ParseOptions_loop.simps, simp only: four parse_tlvs.simps Let_def if_True if_False split: if_split) blast
  next
    case 2
    then show ?thesis
      by (subst ParseOptions_loop.simps, cases "(drop p raw, ops)" rule: parse_tlvs.cases)
         (auto dest: arg_cong [of _ _ length])
  qed (subst ParseOptions_loop.simps, simp)
qed

lemma ParseOptions_eq: "ParseOptions raw = parse_tlvs raw Map.empty"
  by (simp add: ParseOptions_def ParseOptions_loop_eq)

definition store_tlv :: "TLV \<Rightarrow> Options \<Rightarrow> Options" where
  "store_tlv v ops = ops(Tag v \<mapsto> v)"

lemma store_NewTLV: "store_tlv (NewTLV tag x) ops = ops(tag \<mapsto> NewTLV tag x)"
  by (simp add: store_tlv_def)

lemma parse_tlvs_bytes:
  "tlv_wf v \<Longrightarrow> parse_tlvs (tlv_bytes v @ rest) ops = parse_tlvs rest (store_tlv v ops)"
  using NewTLV_collapse [of v]
  by (simp add: tlv_bytes_def packUi16_def tlv_wf_def store_tlv_def)

lemma parse_tlvs_all:
  "\<forall>v \<in> set vs. tlv_wf v \<Longrightarrow>
   parse_tlvs (concat (map tlv_bytes vs) @ rest) ops = parse_tlvs rest (fold store_tlv vs ops)"
  by (induction vs arbitrary: ops) (auto simp: parse_tlvs_bytes)

lemma parse_tlvs_sound:
  "parse_tlvs raw ops = Inr ops' \<Longrightarrow>
   \<exists>vs. raw = concat (map tlv_bytes vs) \<and> (\<forall>v \<in> set vs. tlv_wf v) \<and> ops' = fold store_tlv vs ops"
proof (induction raw ops rule: parse_tlvs.induct)
  case (1 ops)
  then show ?case by (intro exI [of _ "[]"]) simp
next
  case (2 t1 t2 l1 l2 rest ops)
  let ?tag = "Uint16 t1 t2" and ?n = "unat (Uint16 l1 l2)"
  let ?v = "NewTLV ?tag (take ?n rest)"
  from 2 have n: "?n \<le> length rest"
    by (auto simp: Let_def split: if_splits)
  with 2 have "parse_tlvs (drop ?n rest) (ops(?tag \<mapsto> ?v)) = Inr ops'"
    by (simp add: Let_def)
  from "2.IH" [OF refl refl _ this] n obtain vs where
      vs: "drop ?n rest = concat (map tlv_bytes vs)" "\<forall>v \<in> set vs. tlv_wf v"
        "ops' = fold store_tlv vs (ops(?tag \<mapsto> ?v))"
    by (meson not_less)
  have "packUi16 ?tag = [t1, t2]" "packUi16 (Uint16 l1 l2) = [l1, l2]"
    by (simp_all add: packUi16_Uint16)
  with n have "t1 # t2 # l1 # l2 # rest = tlv_bytes ?v @ drop ?n rest"
    by (simp add: tlv_bytes_def)
  moreover have "tlv_wf ?v"
    using n by (simp add: tlv_wf_def)
  ultimately show ?case
    using vs by (intro exI [of _ "?v # vs"]) (simp add: store_NewTLV)
qed auto

text \<open>Storing the parameters in any order of the iteration rebuilds the map.\<close>

lemma fold_store_ranged:
  assumes "iterates ks ops" "options_wf ops"
  shows "fold store_tlv (ranged ks ops) Map.empty = ops"
proof -
  have "fold store_tlv (map (\<lambda>k. the (ops k)) ks) m = (\<lambda>k. if k \<in> set ks then ops k else m k)"
    if "set ks \<subseteq> dom ops" for ks m
    using that assms(2)
    by (induction ks arbitrary: m) (auto simp: store_tlv_def options_wf_def fun_eq_iff)
  from this [of ks Map.empty] assms(1) show ?thesis
    by (auto simp: iterates_def ranged_eq_map fun_eq_iff)
qed

lemma ParseOptions_ranged:
  assumes "iterates ks ops" "options_wf ops"
  shows "ParseOptions (concat (map tlv_bytes (ranged ks ops))) = Inr ops"
  using parse_tlvs_all [of "ranged ks ops" "[]" Map.empty] assms ranged_wf
  by (simp add: ParseOptions_eq fold_store_ranged)

lemma options_wfD: "options_wf ops \<Longrightarrow> ops k = Some v \<Longrightarrow> Tag v = k \<and> tlv_wf v"
  by (simp add: options_wf_def)

lemma store_tlv_wf:
  assumes "tlv_wf v" "options_wf ops"
  shows "options_wf (store_tlv v ops)"
  unfolding options_wf_def
proof (intro conjI allI impI)
  show "finite (dom (store_tlv v ops))"
    using assms by (simp add: store_tlv_def options_wf_def)
  fix k u
  assume "store_tlv v ops k = Some u"
  with assms show "Tag u = k" "tlv_wf u"
    using options_wfD [of ops k u] by (auto simp: store_tlv_def split: if_splits)
qed

lemma fold_store_wf: "\<forall>v \<in> set vs. tlv_wf v \<Longrightarrow> options_wf ops \<Longrightarrow> options_wf (fold store_tlv vs ops)"
proof (induction vs arbitrary: ops)
  case (Cons v vs)
  then have "tlv_wf v" "options_wf ops" by auto
  then have "options_wf (store_tlv v ops)" by (rule store_tlv_wf)
  with Cons show ?case by simp
qed simp

end
