(* ===== verification/Submit.thy ===== *)
theory Submit
  imports Options Packer
begin

text \<open>
  \<^verbatim>\<open>pkg/submit.go\<close>: the submit request, with its list of receivers, its content and its optional
  parameters, and the submit response. \<open>lenOrd\<close> and \<open>wrOrd\<close> are the orders in which Go ranges over
  the map of optional parameters, once for the length and once for writing.
\<close>

definition SmgpSubmitRespPktLen :: u32 where "SmgpSubmitRespPktLen = HeaderPktLen + 10 + 4"

section \<open>The request\<close>

record SmgpSubmitReqPkt =
  MsgType :: byte
  NeedReport :: byte
  Priority :: byte
  ServiceID :: gostring
  FeeType :: gostring
  FeeCode :: gostring
  FixedFee :: gostring
  MsgFormat :: byte
  ValidTime :: gostring
  AtTime :: gostring
  SrcTermID :: gostring
  ChargeTermID :: gostring
  DestTermIDCount :: byte
  DestTermID :: "gostring list"
  MsgLength :: byte
  MsgContent :: gostring
  Reserve :: gostring
  Options :: Options
  SequenceID :: u32

definition submit_pktLen :: "u16 list \<Rightarrow> SmgpSubmitReqPkt \<Rightarrow> u32" where
  "submit_pktLen lenOrd p =
     HeaderPktLen + 114 + ucast (DestTermIDCount p) * 21 + ucast (MsgLength p) +
     word_of_int (Options_Len lenOrd (Options p))"

definition SmgpSubmitReqPkt_Pack ::
  "u16 list \<Rightarrow> u16 list \<Rightarrow> u32 \<Rightarrow> SmgpSubmitReqPkt \<Rightarrow> SmgpSubmitReqPkt \<times> (error + byte list)" where
  "SmgpSubmitReqPkt_Pack lenOrd wrOrd seqId p =
     (let pktLen = submit_pktLen lenOrd p;
          w = newPkgWriter pktLen;
          w = WriteHeader pktLen seqId SMGP_SUBMIT w;
          p = p\<lparr>SmgpSubmitReqPkt.SequenceID := seqId\<rparr>;
          w = WriteByte (MsgType p) w;
          w = WriteByte (NeedReport p) w;
          w = WriteByte (Priority p) w;
          w = WriteFixedSizeString (ServiceID p) 10 w;
          w = WriteFixedSizeString (FeeType p) 2 w;
          w = WriteFixedSizeString (FeeCode p) 6 w;
          w = WriteFixedSizeString (FixedFee p) 6 w;
          w = WriteByte (MsgFormat p) w;
          w = WriteFixedSizeString (ValidTime p) 17 w;
          w = WriteFixedSizeString (AtTime p) 17 w;
          w = WriteFixedSizeString (SrcTermID p) 21 w;
          w = WriteFixedSizeString (ChargeTermID p) 21 w;
          w = WriteByte (DestTermIDCount p) w;
          w = fold (\<lambda>d. WriteFixedSizeString d 21) (DestTermID p) w;
          w = WriteByte (MsgLength p) w;
          w = WriteString (MsgContent p) w;
          w = WriteFixedSizeString (Reserve p) 8 w;
          w = WriteOptions wrOrd (Options p) w
      in (p, Bytes w))"

text \<open>
  The optional parameters are cut out of \<^verbatim>\<open>data\<close> at an offset computed from the fields just read,
  before the reader's error is looked at.
\<close>

definition SmgpSubmitReqPkt_Unpack ::
  "SmgpSubmitReqPkt \<Rightarrow> byte list \<Rightarrow> (SmgpSubmitReqPkt \<times> error option) option" where
  "SmgpSubmitReqPkt_Unpack p data = do {
     let r = newPkgReader data;
     let offset = 0;
     let (b, r) = ReadByte r; let p = p\<lparr>MsgType := b\<rparr>;
     let (b, r) = ReadByte r; let p = p\<lparr>NeedReport := b\<rparr>;
     let (b, r) = ReadByte r; let p = p\<lparr>Priority := b\<rparr>;
     (s, r) \<leftarrow> ReadCString 10 r; let p = p\<lparr>ServiceID := s\<rparr>;
     (s, r) \<leftarrow> ReadCString 2 r; let p = p\<lparr>FeeType := s\<rparr>;
     (s, r) \<leftarrow> ReadCString 6 r; let p = p\<lparr>FeeCode := s\<rparr>;
     (s, r) \<leftarrow> ReadCString 6 r; let p = p\<lparr>FixedFee := s\<rparr>;
     let (b, r) = ReadByte r; let p = p\<lparr>MsgFormat := b\<rparr>;
     (s, r) \<leftarrow> ReadCString 17 r; let p = p\<lparr>ValidTime := s\<rparr>;
     (s, r) \<leftarrow> ReadCString 17 r; let p = p\<lparr>AtTime := s\<rparr>;
     (s, r) \<leftarrow> ReadCString 21 r; let p = p\<lparr>SrcTermID := s\<rparr>;
     (s, r) \<leftarrow> ReadCString 21 r; let p = p\<lparr>ChargeTermID := s\<rparr>;
     let (b, r) = ReadByte r; let p = p\<lparr>DestTermIDCount := b\<rparr>;
     let offset = offset + 1 + 1 + 1 + 10 + 2 + 6 + 6 + 1 + 17 + 17 + 21 + 21 + 1;
     (ds, r) \<leftarrow> read_times (ReadCString 21) (unat (DestTermIDCount p)) (DestTermID p) r;
     let p = p\<lparr>DestTermID := ds\<rparr>;
     let offset = offset + 21 * unat (DestTermIDCount p);
     let (b, r) = ReadByte r; let p = p\<lparr>MsgLength := b\<rparr>;
     let (s, r) = ReadBytes (replicate (unat (MsgLength p)) 0) r; let p = p\<lparr>MsgContent := s\<rparr>;
     (s, r) \<leftarrow> ReadCString 8 r; let p = p\<lparr>Reserve := s\<rparr>;
     let offset = offset + 1 + unat (MsgLength p) + 8;
     raw \<leftarrow> go_slice_from data offset;
     case ParseOptions raw of
       Inl e \<Rightarrow> Some (p, Some e)
     | Inr options \<Rightarrow> Some (p\<lparr>Options := options\<rparr>, Reader_Error r)
   }"

section \<open>The response\<close>

record SmgpSubmitRespPkt =
  MsgID :: gostring
  Status :: u32
  SequenceID :: u32

definition SmgpSubmitRespPkt_Pack ::
  "u32 \<Rightarrow> SmgpSubmitRespPkt \<Rightarrow> SmgpSubmitRespPkt \<times> (error + byte list)" where
  "SmgpSubmitRespPkt_Pack seqId p =
     (let w = newPkgWriter SmgpSubmitRespPktLen;
          w = WriteHeader SmgpSubmitRespPktLen seqId SMGP_SUBMIT_RESP w;
          p = p\<lparr>SmgpSubmitRespPkt.SequenceID := seqId\<rparr>;
          msgId = DecodeString (MsgID p);
          w = WriteBytes (OctetString_Byte msgId 10) w;
          w = WriteInt (U32 (Status p)) w
      in (p, Bytes w))"

definition SmgpSubmitRespPkt_Unpack ::
  "SmgpSubmitRespPkt \<Rightarrow> byte list \<Rightarrow> (SmgpSubmitRespPkt \<times> error option) option" where
  "SmgpSubmitRespPkt_Unpack p data =
     (let r = newPkgReader data;
          (s, r) = ReadBytes (replicate 10 0) r; p = p\<lparr>MsgID := EncodeToString s\<rparr>;
          (v, r) = ReadInt32 (Status p) r; p = p\<lparr>Status := v\<rparr>
      in Some (p, Reader_Error r))"

section \<open>The contract of the request\<close>

definition SmgpSubmitReqPkt_new :: "u32 \<Rightarrow> SmgpSubmitReqPkt" where
  "SmgpSubmitReqPkt_new seq =
     SmgpSubmitReqPkt.make 0 0 0 [] [] [] [] 0 [] [] [] [] 0 [] 0 [] [] Map.empty seq"

definition submit_wf :: "SmgpSubmitReqPkt \<Rightarrow> bool" where
  "submit_wf p \<longleftrightarrow>
     fits 10 (ServiceID p) \<and> fits 2 (FeeType p) \<and> fits 6 (FeeCode p) \<and> fits 6 (FixedFee p) \<and>
     fits 17 (ValidTime p) \<and> fits 17 (AtTime p) \<and> fits 21 (SrcTermID p) \<and> fits 21 (ChargeTermID p) \<and>
     unat (DestTermIDCount p) = length (DestTermID p) \<and> (\<forall>d \<in> set (DestTermID p). fits 21 d) \<and>
     unat (MsgLength p) = length (MsgContent p) \<and> fits 8 (Reserve p) \<and> options_wf (Options p)"

text \<open>The body up to the receivers, and from the receivers on.\<close>

definition submit_head :: "SmgpSubmitReqPkt \<Rightarrow> byte list \<Rightarrow> byte list" where
  "submit_head p rest =
     [MsgType p] @ [NeedReport p] @ [Priority p] @ fixed 10 (ServiceID p) @ fixed 2 (FeeType p) @
     fixed 6 (FeeCode p) @ fixed 6 (FixedFee p) @ [MsgFormat p] @ fixed 17 (ValidTime p) @
     fixed 17 (AtTime p) @ fixed 21 (SrcTermID p) @ fixed 21 (ChargeTermID p) @ [DestTermIDCount p] @ rest"

definition submit_tail :: "SmgpSubmitReqPkt \<Rightarrow> byte list \<Rightarrow> byte list" where
  "submit_tail p opts =
     concat (map (fixed 21) (DestTermID p)) @ [MsgLength p] @ MsgContent p @ fixed 8 (Reserve p) @ opts"

definition submit_body :: "u16 list \<Rightarrow> SmgpSubmitReqPkt \<Rightarrow> byte list" where
  "submit_body wrOrd p = submit_head p (submit_tail p (concat (map tlv_bytes (ranged wrOrd (Options p)))))"

lemma length_submit_body:
  assumes "submit_wf p"
  shows "length (submit_body wrOrd p) = 114 + 21 * length (DestTermID p) + length (MsgContent p) +
    length (concat (map tlv_bytes (ranged wrOrd (Options p))))"
proof -
  have "length (concat (map (fixed 21) (DestTermID p))) = 21 * length (DestTermID p)"
    using assms by (intro term_id.length_enc_all) (simp add: submit_wf_def)
  with assms show ?thesis
    by (simp add: submit_body_def submit_head_def submit_tail_def submit_wf_def length_simps
        del: length_concat)
qed

lemma submit_pktLen_eq:
  assumes "submit_wf p" "iterates lenOrd (Options p)" "iterates wrOrd (Options p)"
  shows "submit_pktLen lenOrd p = of_nat (12 + length (submit_body wrOrd p))"
proof -
  let ?n = "length (concat (map tlv_bytes (ranged wrOrd (Options p))))"
  have "int ?n = Options_Len lenOrd (Options p)"
    using assms by (intro length_options_bytes) (simp_all add: submit_wf_def)
  then have opts: "(word_of_int (Options_Len lenOrd (Options p)) :: u32) = of_nat ?n"
    by (metis of_int_of_nat_eq)
  have "unat (DestTermIDCount p) = length (DestTermID p)" "unat (MsgLength p) = length (MsgContent p)"
    using assms(1) by (simp_all add: submit_wf_def)
  then have "ucast (DestTermIDCount p) = (of_nat (length (DestTermID p)) :: u32)"
    "ucast (MsgLength p) = (of_nat (length (MsgContent p)) :: u32)"
    by (metis of_nat_unat)+
  then show ?thesis
    unfolding submit_pktLen_def length_submit_body [OF assms(1)] opts
    by (simp add: HeaderPktLen_def del: length_concat)
qed

lemma SmgpSubmitReqPkt_Pack_run:
  assumes "submit_wf p"
  shows "snd (SmgpSubmitReqPkt_Pack lenOrd wrOrd seq p) =
    Inr (PutUint32 (submit_pktLen lenOrd p) @ PutUint32 SMGP_SUBMIT @ PutUint32 seq @ submit_body wrOrd p)"
  using assms unfolding SmgpSubmitReqPkt_Pack_def Let_def
  by (simp add: submit_wf_def wire_simps submit_body_def submit_head_def submit_tail_def)

lemma SmgpSubmitReqPkt_Pack_wf:
  assumes "submit_wf p" "iterates lenOrd (Options p)" "iterates wrOrd (Options p)"
  shows "snd (SmgpSubmitReqPkt_Pack lenOrd wrOrd seq p) = Inr (frame SMGP_SUBMIT seq (submit_body wrOrd p))"
  unfolding SmgpSubmitReqPkt_Pack_run [OF assms(1)] submit_pktLen_eq [OF assms] frame_def ..

lemma go_slice_from_append: "n = length xs \<Longrightarrow> go_slice_from (xs @ ys) n = Some ys"
  by (simp add: go_slice_from_eq)

lemma submit_options_slice:
  assumes "submit_wf p"
  shows "go_slice_from (submit_head p (submit_tail p opts))
      (114 + 21 * unat (DestTermIDCount p) + unat (MsgLength p)) = Some opts"
proof -
  have "length (concat (map (fixed 21) (DestTermID p))) = 21 * length (DestTermID p)"
    using assms by (intro term_id.length_enc_all) (simp add: submit_wf_def)
  moreover obtain pre where pre: "submit_head p (submit_tail p opts) = pre @ opts"
    "pre = submit_head p (submit_tail p [])"
    by (simp add: submit_head_def submit_tail_def)
  ultimately have "length pre = 114 + 21 * unat (DestTermIDCount p) + unat (MsgLength p)"
    using assms by (simp add: submit_head_def submit_tail_def submit_wf_def length_simps del: length_concat)
  with pre show ?thesis by (simp add: go_slice_from_append)
qed

lemma SmgpSubmitReqPkt_collapse:
  "SmgpSubmitReqPkt.make (MsgType p) (NeedReport p) (Priority p) (ServiceID p) (FeeType p) (FeeCode p)
     (FixedFee p) (MsgFormat p) (ValidTime p) (AtTime p) (SrcTermID p) (ChargeTermID p)
     (DestTermIDCount p) (DestTermID p) (MsgLength p) (MsgContent p) (Reserve p) (Options p) seq =
   p\<lparr>SmgpSubmitReqPkt.SequenceID := seq\<rparr>"
  by (cases p) (simp add: SmgpSubmitReqPkt.defs)

lemma SmgpSubmitReqPkt_Unpack_run:
  assumes "submit_wf p" "ParseOptions opts = Inr (Options p)"
  shows "SmgpSubmitReqPkt_Unpack (SmgpSubmitReqPkt_new seq) (submit_head p (submit_tail p opts)) =
    Some (p\<lparr>SmgpSubmitReqPkt.SequenceID := seq\<rparr>, None)"
proof -
  have len: "length (MsgContent p) = unat (MsgLength p)" "length (DestTermID p) = unat (DestTermIDCount p)"
    using assms(1) by (simp_all add: submit_wf_def)
  have fits: "fits 10 (ServiceID p)" "fits 2 (FeeType p)" "fits 6 (FeeCode p)" "fits 6 (FixedFee p)"
    "fits 17 (ValidTime p)" "fits 17 (AtTime p)" "fits 21 (SrcTermID p)" "fits 21 (ChargeTermID p)"
    "fits 8 (Reserve p)" "\<forall>d \<in> set (DestTermID p). fits 21 d"
    using assms(1) by (simp_all add: submit_wf_def)
  note slice = submit_options_slice [OF assms(1), of opts, unfolded submit_head_def submit_tail_def append.simps add.assoc]
  show ?thesis
    unfolding SmgpSubmitReqPkt_Unpack_def submit_head_def submit_tail_def SmgpSubmitReqPkt_new_def
      SmgpSubmitReqPkt.defs SmgpSubmitReqPkt_collapse [symmetric]
    by (simp add: wire_simps fits len Let_def slice assms(2) Reader_Error_def del: length_concat cong: run_cong)
qed

lemma SmgpSubmitReqPkt_Unpack_body:
  assumes "submit_wf p" "iterates wrOrd (Options p)"
  shows "SmgpSubmitReqPkt_Unpack (SmgpSubmitReqPkt_new seq) (submit_body wrOrd p) =
    Some (p\<lparr>SmgpSubmitReqPkt.SequenceID := seq\<rparr>, None)"
  unfolding submit_body_def
  using assms by (intro SmgpSubmitReqPkt_Unpack_run ParseOptions_ranged) (simp_all add: submit_wf_def)

interpretation submit_req: packer "SmgpSubmitReqPkt_Pack lenOrd wrOrd" SmgpSubmitReqPkt_Unpack
  SmgpSubmitReqPkt_new
  "\<lambda>p. submit_wf p \<and> iterates lenOrd (Options p) \<and> iterates wrOrd (Options p)" SMGP_SUBMIT
  "submit_body wrOrd" "\<lambda>seq p. p\<lparr>SmgpSubmitReqPkt.SequenceID := seq\<rparr>" for lenOrd wrOrd
  by unfold_locales (simp_all add: SmgpSubmitReqPkt_Pack_wf SmgpSubmitReqPkt_Unpack_body)

section \<open>The errors of the request\<close>

text \<open>Packing fails exactly when a string is longer than its field.\<close>

definition submit_strings_fit :: "SmgpSubmitReqPkt \<Rightarrow> bool" where
  "submit_strings_fit p \<longleftrightarrow>
     length (ServiceID p) \<le> 10 \<and> length (FeeType p) \<le> 2 \<and> length (FeeCode p) \<le> 6 \<and>
     length (FixedFee p) \<le> 6 \<and> length (ValidTime p) \<le> 17 \<and> length (AtTime p) \<le> 17 \<and>
     length (SrcTermID p) \<le> 21 \<and> length (ChargeTermID p) \<le> 21 \<and>
     (\<forall>d \<in> set (DestTermID p). length d \<le> 21) \<and> length (Reserve p) \<le> 8"

lemma SmgpSubmitReqPkt_Pack_Inl:
  "snd (SmgpSubmitReqPkt_Pack lenOrd wrOrd seq p) = Inl e \<longleftrightarrow>
   \<not> submit_strings_fit p \<and> e = ErrMethodParamsInvalid"
  unfolding SmgpSubmitReqPkt_Pack_def Let_def snd_conv
  by (subst Bytes_Inl_iff) (auto simp: err_simps submit_strings_fit_def)

text \<open>
  The outcome of unpacking arbitrary data. \<open>submit_need\<close> is the offset of the optional parameters
  that the lengths in the data give. Data shorter than that is a panic, not an error: the slice
  expression is evaluated before the error of the reader is looked at. So the error of the reader,
  the last result of the method, is always nil.
\<close>

definition submit_need :: "byte list \<Rightarrow> nat" where
  "submit_need data =
     (let c = unat (byte_at data 104) in 114 + 21 * c + unat (byte_at data (105 + 21 * c)))"

lemma SmgpSubmitReqPkt_Unpack_outcome:
  "outcome (\<lambda>m. case m of
      None \<Rightarrow> length data < submit_need data
    | Some (p', e) \<Rightarrow> submit_need data \<le> length data \<and>
        (case ParseOptions (drop (submit_need data) data) of
           Inl e' \<Rightarrow> e = Some e'
         | Inr ops \<Rightarrow> e = None \<and> Options p' = ops))
   (SmgpSubmitReqPkt_Unpack p data)"
  unfolding SmgpSubmitReqPkt_Unpack_def Let_def
  by (rule outcome_newPkgReader,
      ((rule outcome_ReadCString, assumption, simp) | (rule outcome_rules, assumption))+)
     (auto simp: outcome_def go_slice_from_eq submit_need_def Let_def Reader_Error_pos ac_simps split: sum.splits)

section \<open>The contract of the response\<close>

definition SmgpSubmitRespPkt_new :: "u32 \<Rightarrow> SmgpSubmitRespPkt" where
  "SmgpSubmitRespPkt_new seq = SmgpSubmitRespPkt.make [] 0 seq"

definition submit_resp_body :: "SmgpSubmitRespPkt \<Rightarrow> byte list" where
  "submit_resp_body p = OctetString_Byte (DecodeString (MsgID p)) 10 @ PutUint32 (Status p)"

definition submit_resp_sent :: "u32 \<Rightarrow> SmgpSubmitRespPkt \<Rightarrow> SmgpSubmitRespPkt" where
  "submit_resp_sent seq p = SmgpSubmitRespPkt.make (msg_id_sent (MsgID p)) (Status p) seq"

lemma SmgpSubmitRespPkt_Pack_run:
  "snd (SmgpSubmitRespPkt_Pack seq p) = Inr (frame SMGP_SUBMIT_RESP seq (submit_resp_body p))"
  by (simp add: SmgpSubmitRespPkt_Pack_def wire_simps Let_def frame_def submit_resp_body_def
      SmgpSubmitRespPktLen_def HeaderPktLen_def)

lemma SmgpSubmitRespPkt_Unpack_body:
  "SmgpSubmitRespPkt_Unpack (SmgpSubmitRespPkt_new seq) (submit_resp_body p) = Some (submit_resp_sent seq p, None)"
  by (simp add: SmgpSubmitRespPkt_Unpack_def submit_resp_body_def wire_simps Let_def SmgpSubmitRespPkt_new_def
      SmgpSubmitRespPkt.defs submit_resp_sent_def msg_id_sent_def Reader_Error_def)

interpretation submit_resp: packer SmgpSubmitRespPkt_Pack SmgpSubmitRespPkt_Unpack SmgpSubmitRespPkt_new
  "\<lambda>p. True" SMGP_SUBMIT_RESP submit_resp_body submit_resp_sent
  by unfold_locales (simp_all add: SmgpSubmitRespPkt_Pack_run SmgpSubmitRespPkt_Unpack_body)

lemma SmgpSubmitRespPkt_Unpack_outcome:
  "outcome (\<lambda>m. \<exists>p' e. m = Some (p', e) \<and> (e = None \<longleftrightarrow> 14 \<le> length data)) (SmgpSubmitRespPkt_Unpack p data)"
  unfolding SmgpSubmitRespPkt_Unpack_def Let_def
  by (rule outcome_newPkgReader, (rule outcome_rules, assumption)+) (auto simp: outcome_def Reader_Error_pos)

end
