(* ===== verification/Deliver.thy ===== *)
theory Deliver
  imports Options Packer
begin

text \<open>
  \<^verbatim>\<open>pkg/deliver.go\<close>: the status report text and its two conversions, the deliver request and the
  deliver response. As for the submit request, \<open>lenOrd\<close> and \<open>wrOrd\<close> are the orders in which Go
  ranges over the optional parameters.
\<close>

definition SmgpDeliverRespPktLen :: u32 where "SmgpDeliverRespPktLen = HeaderPktLen + 10 + 4"

section \<open>The status report\<close>

record SmgpDeliverMsgContent =
  SubmitMsgID :: gostring
  Sub :: gostring
  Dlvrd :: gostring
  SubmitDate :: gostring
  DoneDate :: gostring
  Stat :: gostring
  Err :: gostring
  Txt :: gostring

definition Encode :: "SmgpDeliverMsgContent \<Rightarrow> gostring" where
  "Encode p =
     (let ident = DecodeString (SubmitMsgID p)
      in bytes_of ''id:'' @ ident @ bytes_of '' sub:'' @ Sub p @ bytes_of '' dlvrd:'' @ Dlvrd p @
         bytes_of '' submit_date:'' @ SubmitDate p @ bytes_of '' done_date:'' @ DoneDate p @
         bytes_of '' stat:'' @ Stat p @ bytes_of '' err:'' @ Err p @ bytes_of '' text:'' @ Txt p)"

text \<open>
  The slices of \<open>DecodeDeliverMsgContent\<close>. Some of them compare with the capacity of \<^verbatim>\<open>data\<close> rather
  than its length, but the last, \<^verbatim>\<open>data[102:]\<close>, is a panic for every slice shorter than 102 bytes,
  so the capacity makes no difference to the outcome.
\<close>

definition DecodeDeliverMsgContent :: "byte list \<Rightarrow> SmgpDeliverMsgContent option" where
  "DecodeDeliverMsgContent data = do {
     let p = SmgpDeliverMsgContent.make [] [] [] [] [] [] [] [];
     s \<leftarrow> go_slice data 3 13; let p = p\<lparr>SubmitMsgID := EncodeToString s\<rparr>;
     s \<leftarrow> go_slice data 18 21; let p = p\<lparr>Sub := s\<rparr>;
     s \<leftarrow> go_slice data 28 31; let p = p\<lparr>Dlvrd := s\<rparr>;
     s \<leftarrow> go_slice data 44 54; let p = p\<lparr>SubmitDate := s\<rparr>;
     s \<leftarrow> go_slice data 65 75; let p = p\<lparr>DoneDate := s\<rparr>;
     s \<leftarrow> go_slice data 81 88; let p = p\<lparr>Stat := s\<rparr>;
     s \<leftarrow> go_slice data 93 96; let p = p\<lparr>Err := s\<rparr>;
     s \<leftarrow> go_slice_from data 102; let p = p\<lparr>Txt := s\<rparr>;
     Some p
   }"

section \<open>The request\<close>

record SmgpDeliverReqPkt =
  MsgID :: gostring
  IsReport :: byte
  MsgFormat :: byte
  RecvTime :: gostring
  SrcTermID :: gostring
  DestTermID :: gostring
  MsgLength :: byte
  MsgContent :: "byte list"
  Reserve :: gostring
  Options :: Options
  SequenceID :: u32
  MsgStatContent :: "SmgpDeliverMsgContent option"

definition deliver_pktLen :: "u16 list \<Rightarrow> SmgpDeliverReqPkt \<Rightarrow> u32" where
  "deliver_pktLen lenOrd p =
     HeaderPktLen + 77 + ucast (MsgLength p) + word_of_int (Options_Len lenOrd (Options p))"

definition SmgpDeliverReqPkt_Pack ::
  "u16 list \<Rightarrow> u16 list \<Rightarrow> u32 \<Rightarrow> SmgpDeliverReqPkt \<Rightarrow> SmgpDeliverReqPkt \<times> (error + byte list)" where
  "SmgpDeliverReqPkt_Pack lenOrd wrOrd seqId p =
     (let pktLen = deliver_pktLen lenOrd p;
          w = newPkgWriter pktLen;
          w = WriteHeader pktLen seqId SMGP_DELIVER w;
          p = p\<lparr>SmgpDeliverReqPkt.SequenceID := seqId\<rparr>;
          msgId = DecodeString (SmgpDeliverReqPkt.MsgID p);
          w = WriteBytes (OctetString_Byte msgId 10) w;
          w = WriteByte (IsReport p) w;
          w = WriteByte (MsgFormat p) w;
          w = WriteFixedSizeString (RecvTime p) 14 w;
          w = WriteFixedSizeString (SrcTermID p) 21 w;
          w = WriteFixedSizeString (DestTermID p) 21 w;
          w = WriteByte (MsgLength p) w;
          w = WriteBytes (MsgContent p) w;
          w = WriteFixedSizeString (Reserve p) 8 w;
          w = WriteOptions wrOrd (Options p) w
      in (p, Bytes w))"

definition SmgpDeliverReqPkt_Unpack ::
  "SmgpDeliverReqPkt \<Rightarrow> byte list \<Rightarrow> (SmgpDeliverReqPkt \<times> error option) option" where
  "SmgpDeliverReqPkt_Unpack p data = do {
     let r = newPkgReader data;
     let offset = 0;
     (s, r) \<leftarrow> ReadCString 10 r; let p = p\<lparr>SmgpDeliverReqPkt.MsgID := EncodeToString s\<rparr>;
     let (b, r) = ReadByte r; let p = p\<lparr>IsReport := b\<rparr>;
     let (b, r) = ReadByte r; let p = p\<lparr>MsgFormat := b\<rparr>;
     (s, r) \<leftarrow> ReadCString 14 r; let p = p\<lparr>RecvTime := s\<rparr>;
     (s, r) \<leftarrow> ReadCString 21 r; let p = p\<lparr>SrcTermID := s\<rparr>;
     (s, r) \<leftarrow> ReadCString 21 r; let p = p\<lparr>DestTermID := s\<rparr>;
     let (b, r) = ReadByte r; let p = p\<lparr>MsgLength := b\<rparr>;
     let (s, r) = ReadBytes (replicate (unat (MsgLength p)) 0) r; let p = p\<lparr>MsgContent := s\<rparr>;
     p \<leftarrow> (if IsReport p = 1
           then do { c \<leftarrow> DecodeDeliverMsgContent (MsgContent p); Some (p\<lparr>MsgStatContent := Some c\<rparr>) }
           else Some p);
     (s, r) \<leftarrow> ReadCString 8 r; let p = p\<lparr>Reserve := s\<rparr>;
     let offset = offset + 10 + 1 + 1 + 14 + 21 + 21 + 1 + unat (MsgLength p) + 8;
     raw \<leftarrow> go_slice_from data offset;
     case ParseOptions raw of
       Inl e \<Rightarrow> Some (p, Some e)
     | Inr options \<Rightarrow> Some (p\<lparr>Options := options\<rparr>, Reader_Error r)
   }"

section \<open>The response\<close>

record SmgpDeliverRespPkt =
  MsgID :: gostring
  Status :: u32
  SequenceID :: u32

definition SmgpDeliverRespPkt_Pack ::
  "u32 \<Rightarrow> SmgpDeliverRespPkt \<Rightarrow> SmgpDeliverRespPkt \<times> (error + byte list)" where
  "SmgpDeliverRespPkt_Pack seqId p =
     (let w = newPkgWriter SmgpDeliverRespPktLen;
          w = WriteHeader SmgpDeliverRespPktLen seqId SMGP_DELIVER_RESP w;
          p = p\<lparr>SmgpDeliverRespPkt.SequenceID := seqId\<rparr>;
          msgId = DecodeString (SmgpDeliverRespPkt.MsgID p);
          w = WriteBytes (OctetString_Byte msgId 10) w;
          w = WriteInt (U32 (Status p)) w
      in (p, Bytes w))"

definition SmgpDeliverRespPkt_Unpack ::
  "SmgpDeliverRespPkt \<Rightarrow> byte list \<Rightarrow> (SmgpDeliverRespPkt \<times> error option) option" where
  "SmgpDeliverRespPkt_Unpack p data =
     (let r = newPkgReader data;
          (s, r) = ReadBytes (replicate 10 0) r; p = p\<lparr>SmgpDeliverRespPkt.MsgID := EncodeToString s\<rparr>;
          (v, r) = ReadInt32 (Status p) r; p = p\<lparr>Status := v\<rparr>
      in Some (p, Reader_Error r))"

section \<open>The status report on the wire\<close>

text \<open>The widths at which \<open>DecodeDeliverMsgContent\<close> expects the pieces that \<open>Encode\<close> writes.\<close>

definition report_wf :: "SmgpDeliverMsgContent \<Rightarrow> bool" where
  "report_wf p \<longleftrightarrow> hex_string (SubmitMsgID p) \<and> length (SubmitMsgID p) = 20 \<and> length (Sub p) = 3 \<and>
     length (Dlvrd p) = 3 \<and> length (SubmitDate p) = 10 \<and> length (DoneDate p) = 10 \<and>
     length (Stat p) = 7 \<and> length (Err p) = 3"

lemma DecodeDeliverMsgContent_pieces:
  assumes "length a0 = 3" "length a = 10" "length b0 = 5" "length b = 3" "length c0 = 7" "length c = 3"
    "length d0 = 13" "length d = 10" "length e0 = 11" "length e = 10" "length f0 = 6" "length f = 7"
    "length g0 = 5" "length g = 3" "length h0 = 6"
  shows "DecodeDeliverMsgContent (a0 @ a @ b0 @ b @ c0 @ c @ d0 @ d @ e0 @ e @ f0 @ f @ g0 @ g @ h0 @ h) =
    Some (SmgpDeliverMsgContent.make (EncodeToString a) b c d e f g h)"
  using assms
  by (simp add: DecodeDeliverMsgContent_def go_slice_def go_slice_from_eq Let_def
      SmgpDeliverMsgContent.defs cong: run_cong)

lemma DecodeDeliverMsgContent_Encode:
  assumes "report_wf p"
  shows "DecodeDeliverMsgContent (Encode p) = Some p"
proof -
  have "EncodeToString (DecodeString (SubmitMsgID p)) = SubmitMsgID p" "length (DecodeString (SubmitMsgID p)) = 10"
    using assms by (simp_all add: report_wf_def EncodeToString_DecodeString length_DecodeString_hex)
  then show ?thesis
    using assms unfolding Encode_def Let_def
    by (subst DecodeDeliverMsgContent_pieces) (cases p, simp_all add: report_wf_def SmgpDeliverMsgContent.defs)
qed

lemma length_Encode: "report_wf p \<Longrightarrow> length (Encode p) = 102 + length (Txt p)"
  by (simp add: Encode_def report_wf_def length_DecodeString_hex)

lemma DecodeDeliverMsgContent_panics_iff: "DecodeDeliverMsgContent data = None \<longleftrightarrow> length data < 102"
  by (auto simp: DecodeDeliverMsgContent_def go_slice_def go_slice_from_eq Let_def)

section \<open>The contract of the request\<close>

definition SmgpDeliverReqPkt_new :: "u32 \<Rightarrow> SmgpDeliverReqPkt" where
  "SmgpDeliverReqPkt_new seq = SmgpDeliverReqPkt.make [] 0 0 [] [] [] 0 [] [] Map.empty seq None"

definition deliver_wf :: "SmgpDeliverReqPkt \<Rightarrow> bool" where
  "deliver_wf p \<longleftrightarrow>
     fits 14 (RecvTime p) \<and> fits 21 (SrcTermID p) \<and> fits 21 (DestTermID p) \<and>
     unat (MsgLength p) = length (MsgContent p) \<and> (IsReport p = 1 \<longrightarrow> 102 \<le> length (MsgContent p)) \<and>
     fits 8 (Reserve p) \<and> options_wf (Options p)"

definition deliver_front :: "SmgpDeliverReqPkt \<Rightarrow> byte list \<Rightarrow> byte list" where
  "deliver_front p opts =
     OctetString_Byte (DecodeString (SmgpDeliverReqPkt.MsgID p)) 10 @ [IsReport p] @ [MsgFormat p] @
     fixed 14 (RecvTime p) @ fixed 21 (SrcTermID p) @ fixed 21 (DestTermID p) @ [MsgLength p] @
     MsgContent p @ fixed 8 (Reserve p) @ opts"

definition deliver_body :: "u16 list \<Rightarrow> SmgpDeliverReqPkt \<Rightarrow> byte list" where
  "deliver_body wrOrd p = deliver_front p (concat (map tlv_bytes (ranged wrOrd (Options p))))"

text \<open>
  The receiver reads the message identifier as a C string: the bytes after the first zero byte are
  lost.
\<close>

definition msg_id_cut :: "gostring \<Rightarrow> gostring" where
  "msg_id_cut i = EncodeToString (takeWhile (\<lambda>b. b \<noteq> 0) (OctetString_Byte (DecodeString i) 10))"

definition deliver_sent :: "u32 \<Rightarrow> SmgpDeliverReqPkt \<Rightarrow> SmgpDeliverReqPkt" where
  "deliver_sent seq p =
     p\<lparr>SmgpDeliverReqPkt.MsgID := msg_id_cut (SmgpDeliverReqPkt.MsgID p),
       SmgpDeliverReqPkt.SequenceID := seq,
       MsgStatContent := (if IsReport p = 1 then DecodeDeliverMsgContent (MsgContent p) else None)\<rparr>"

lemma length_deliver_body:
  assumes "deliver_wf p"
  shows "length (deliver_body wrOrd p) =
    77 + length (MsgContent p) + length (concat (map tlv_bytes (ranged wrOrd (Options p))))"
  using assms
  by (simp add: deliver_body_def deliver_front_def deliver_wf_def length_simps del: length_concat)

lemma deliver_pktLen_eq:
  assumes "deliver_wf p" "iterates lenOrd (Options p)" "iterates wrOrd (Options p)"
  shows "deliver_pktLen lenOrd p = of_nat (12 + length (deliver_body wrOrd p))"
proof -
  let ?n = "length (concat (map tlv_bytes (ranged wrOrd (Options p))))"
  have "int ?n = Options_Len lenOrd (Options p)"
    using assms by (intro length_options_bytes) (simp_all add: deliver_wf_def)
  then have opts: "(word_of_int (Options_Len lenOrd (Options p)) :: u32) = of_nat ?n"
    by (metis of_int_of_nat_eq)
  have "unat (MsgLength p) = length (MsgContent p)"
    using assms(1) by (simp add: deliver_wf_def)
  then have "ucast (MsgLength p) = (of_nat (length (MsgContent p)) :: u32)"
    by (metis of_nat_unat)
  then show ?thesis
    unfolding deliver_pktLen_def length_deliver_body [OF assms(1)] opts
    by (simp add: HeaderPktLen_def del: length_concat)
qed

lemma SmgpDeliverReqPkt_Pack_run:
  assumes "deliver_wf p"
  shows "snd (SmgpDeliverReqPkt_Pack lenOrd wrOrd seq p) =
    Inr (PutUint32 (deliver_pktLen lenOrd p) @ PutUint32 SMGP_DELIVER @ PutUint32 seq @ deliver_body wrOrd p)"
  using assms unfolding SmgpDeliverReqPkt_Pack_def Let_def
  by (simp add: deliver_wf_def wire_simps deliver_body_def deliver_front_def)

lemma SmgpDeliverReqPkt_Pack_wf:
  assumes "deliver_wf p" "iterates lenOrd (Options p)" "iterates wrOrd (Options p)"
  shows "snd (SmgpDeliverReqPkt_Pack lenOrd wrOrd seq p) = Inr (frame SMGP_DELIVER seq (deliver_body wrOrd p))"
  unfolding SmgpDeliverReqPkt_Pack_run [OF assms(1)] deliver_pktLen_eq [OF assms] frame_def ..

lemma deliver_options_slice:
  assumes "deliver_wf p"
  shows "go_slice_from (deliver_front p opts) (77 + unat (MsgLength p)) = Some opts"
proof -
  obtain pre where pre: "deliver_front p opts = pre @ opts" "pre = deliver_front p []"
    by (simp add: deliver_front_def)
  then have "length pre = 77 + unat (MsgLength p)"
    using assms by (simp add: deliver_front_def deliver_wf_def length_simps)
  with pre show ?thesis by (simp add: go_slice_from_eq)
qed

lemma deliver_sent_collapse:
  "deliver_sent seq p =
   SmgpDeliverReqPkt.make (msg_id_cut (SmgpDeliverReqPkt.MsgID p)) (IsReport p) (MsgFormat p) (RecvTime p)
     (SrcTermID p) (DestTermID p) (MsgLength p) (MsgContent p) (Reserve p) (Options p) seq
     (if IsReport p = 1 then DecodeDeliverMsgContent (MsgContent p) else None)"
  by (cases p) (simp add: SmgpDeliverReqPkt.defs deliver_sent_def)

lemma SmgpDeliverReqPkt_Unpack_run:
  assumes "deliver_wf p" "ParseOptions opts = Inr (Options p)"
  shows "SmgpDeliverReqPkt_Unpack (SmgpDeliverReqPkt_new seq) (deliver_front p opts) = Some (deliver_sent seq p, None)"
proof -
  have len: "length (MsgContent p) = unat (MsgLength p)"
    using assms(1) by (simp add: deliver_wf_def)
  have fits: "fits 14 (RecvTime p)" "fits 21 (SrcTermID p)" "fits 21 (DestTermID p)" "fits 8 (Reserve p)"
    using assms(1) by (simp_all add: deliver_wf_def)
  note slice = deliver_options_slice [OF assms(1), of opts, unfolded deliver_front_def append.simps add.assoc]
  show ?thesis
  proof (cases "IsReport p = 1")
    case True
    with assms(1) obtain c where c: "DecodeDeliverMsgContent (MsgContent p) = Some c"
      using DecodeDeliverMsgContent_panics_iff [of "MsgContent p"] by (auto simp: deliver_wf_def)
    with True show ?thesis
      unfolding SmgpDeliverReqPkt_Unpack_def deliver_front_def SmgpDeliverReqPkt_new_def
        SmgpDeliverReqPkt.defs deliver_sent_collapse
      by (simp add: wire_simps ReadCString_raw fits len Let_def slice [unfolded True] assms(2) Reader_Error_def msg_id_cut_def
          cong: run_cong)
  next
    case False
    then show ?thesis
      unfolding SmgpDeliverReqPkt_Unpack_def deliver_front_def SmgpDeliverReqPkt_new_def
        SmgpDeliverReqPkt.defs deliver_sent_collapse
      by (simp add: wire_simps ReadCString_raw fits len Let_def slice assms(2) Reader_Error_def msg_id_cut_def
          cong: run_cong)
  qed
qed

lemma SmgpDeliverReqPkt_Unpack_body:
  assumes "deliver_wf p" "iterates wrOrd (Options p)"
  shows "SmgpDeliverReqPkt_Unpack (SmgpDeliverReqPkt_new seq) (deliver_body wrOrd p) = Some (deliver_sent seq p, None)"
  unfolding deliver_body_def
  using assms by (intro SmgpDeliverReqPkt_Unpack_run ParseOptions_ranged) (simp_all add: deliver_wf_def)

interpretation deliver_req: packer "SmgpDeliverReqPkt_Pack lenOrd wrOrd" SmgpDeliverReqPkt_Unpack
  SmgpDeliverReqPkt_new
  "\<lambda>p. deliver_wf p \<and> iterates lenOrd (Options p) \<and> iterates wrOrd (Options p)" SMGP_DELIVER
  "deliver_body wrOrd" deliver_sent for lenOrd wrOrd
  by unfold_locales (simp_all add: SmgpDeliverReqPkt_Pack_wf SmgpDeliverReqPkt_Unpack_body)

section \<open>The errors of the request\<close>

lemma SmgpDeliverReqPkt_Pack_Inl:
  "snd (SmgpDeliverReqPkt_Pack lenOrd wrOrd seq p) = Inl e \<longleftrightarrow>
   \<not> (length (RecvTime p) \<le> 14 \<and> length (SrcTermID p) \<le> 21 \<and> length (DestTermID p) \<le> 21 \<and>
      length (Reserve p) \<le> 8) \<and> e = ErrMethodParamsInvalid"
  unfolding SmgpDeliverReqPkt_Pack_def Let_def snd_conv
  by (subst Bytes_Inl_iff) (auto simp: err_simps)

text \<open>
  The outcome of unpacking arbitrary data: a panic when the data is shorter than its own lengths
  say, and also when a status report has less than 102 bytes of content.
\<close>

definition deliver_need :: "byte list \<Rightarrow> nat" where
  "deliver_need data = 77 + unat (byte_at data 68)"

definition short_report :: "byte list \<Rightarrow> bool" where
  "short_report data \<longleftrightarrow> byte_at data 10 = 1 \<and> unat (byte_at data 68) < 102"

lemma outcome_report:
  assumes "\<And>p'. MsgLength p' = MsgLength p \<Longrightarrow> \<not> (isRep = 1 \<and> length content < 102) \<Longrightarrow> outcome Q (f p')"
    "isRep = 1 \<and> length content < 102 \<Longrightarrow> Q None"
  shows "outcome Q (Option.bind (if isRep = 1 then do { c \<leftarrow> DecodeDeliverMsgContent content;
    Some (p\<lparr>MsgStatContent := Some c\<rparr>) } else Some p) f)"
proof (cases "isRep = 1")
  case True
  with assms show ?thesis
    using DecodeDeliverMsgContent_panics_iff [of content]
    by (cases "DecodeDeliverMsgContent content") (auto simp: outcome_def)
qed (use assms in simp)

lemma SmgpDeliverReqPkt_Unpack_outcome:
  "outcome (\<lambda>m. case m of
      None \<Rightarrow> short_report data \<or> length data < deliver_need data
    | Some (p', e) \<Rightarrow> \<not> short_report data \<and> deliver_need data \<le> length data \<and>
        (case ParseOptions (drop (deliver_need data) data) of
           Inl e' \<Rightarrow> e = Some e'
         | Inr ops \<Rightarrow> e = None \<and> Options p' = ops))
   (SmgpDeliverReqPkt_Unpack p data)"
  unfolding SmgpDeliverReqPkt_Unpack_def Let_def SmgpDeliverReqPkt.simps
  by (rule outcome_newPkgReader,
      ((rule outcome_ReadCString, assumption, simp) | (rule outcome_rules, assumption) | (rule outcome_report))+)
    (auto simp: outcome_def go_slice_from_eq deliver_need_def short_report_def Reader_Error_pos ac_simps
      split: sum.splits)

section \<open>The contract of the response\<close>

definition SmgpDeliverRespPkt_new :: "u32 \<Rightarrow> SmgpDeliverRespPkt" where
  "SmgpDeliverRespPkt_new seq = SmgpDeliverRespPkt.make [] 0 seq"

definition deliver_resp_body :: "SmgpDeliverRespPkt \<Rightarrow> byte list" where
  "deliver_resp_body p = OctetString_Byte (DecodeString (SmgpDeliverRespPkt.MsgID p)) 10 @ PutUint32 (Status p)"

definition deliver_resp_sent :: "u32 \<Rightarrow> SmgpDeliverRespPkt \<Rightarrow> SmgpDeliverRespPkt" where
  "deliver_resp_sent seq p = SmgpDeliverRespPkt.make (msg_id_sent (SmgpDeliverRespPkt.MsgID p)) (Status p) seq"

lemma SmgpDeliverRespPkt_Pack_run:
  "snd (SmgpDeliverRespPkt_Pack seq p) = Inr (frame SMGP_DELIVER_RESP seq (deliver_resp_body p))"
  by (simp add: SmgpDeliverRespPkt_Pack_def wire_simps Let_def frame_def deliver_resp_body_def
      SmgpDeliverRespPktLen_def HeaderPktLen_def)

lemma SmgpDeliverRespPkt_Unpack_body:
  "SmgpDeliverRespPkt_Unpack (SmgpDeliverRespPkt_new seq) (deliver_resp_body p) = Some (deliver_resp_sent seq p, None)"
  by (simp add: SmgpDeliverRespPkt_Unpack_def deliver_resp_body_def wire_simps Let_def SmgpDeliverRespPkt_new_def
      SmgpDeliverRespPkt.defs deliver_resp_sent_def msg_id_sent_def Reader_Error_def)

interpretation deliver_resp: packer SmgpDeliverRespPkt_Pack SmgpDeliverRespPkt_Unpack SmgpDeliverRespPkt_new
  "\<lambda>p. True" SMGP_DELIVER_RESP deliver_resp_body deliver_resp_sent
  by unfold_locales (simp_all add: SmgpDeliverRespPkt_Pack_run SmgpDeliverRespPkt_Unpack_body)

lemma SmgpDeliverRespPkt_Unpack_outcome:
  "outcome (\<lambda>m. \<exists>p' e. m = Some (p', e) \<and> (e = None \<longleftrightarrow> 14 \<le> length data)) (SmgpDeliverRespPkt_Unpack p data)"
  unfolding SmgpDeliverRespPkt_Unpack_def Let_def
  by (rule outcome_newPkgReader, (rule outcome_rules, assumption)+) (auto simp: outcome_def Reader_Error_pos)

end
