(* ===== verification/Packets.thy ===== *)
theory Packets
  imports Active_Exit Login Query Submit Deliver
begin

text \<open>
  The Go interface \<^verbatim>\<open>Packer\<close> as a type: one constructor for each of the twelve packet types that
  implement it, with the dispatch of its two methods, and the part of \<^verbatim>\<open>RecvAndUnpackPkt\<close> that
  chooses the packet type for a request identifier and unpacks the body
  (\<^verbatim>\<open>pkg/connection.go\<close>, lines 186 to 225).

  \<open>pack_env\<close> holds what a call of \<^verbatim>\<open>Pack\<close> depends on besides the packet: the clock, and the orders in
  which Go ranges over the optional parameters.
\<close>

datatype packet =
    ActiveTestReq SmgpActiveTestReqPkt
  | ActiveTestResp SmgpActiveTestRespPkt
  | LoginReq SmgpLoginReqPkt
  | LoginResp SmgpLoginRespPkt
  | SubmitReq SmgpSubmitReqPkt
  | SubmitResp SmgpSubmitRespPkt
  | DeliverReq SmgpDeliverReqPkt
  | DeliverResp SmgpDeliverRespPkt
  | ExitReq SmgpExitReqPkt
  | ExitResp SmgpExitRespPkt
  | QueryReq SmgpQueryReqPkt
  | QueryResp SmgpQueryRespPkt

record pack_env =
  e_now :: Time
  e_lenOrd :: "u16 list"
  e_wrOrd :: "u16 list"

fun Packer_Pack :: "pack_env \<Rightarrow> u32 \<Rightarrow> packet \<Rightarrow> packet \<times> (error + byte list)" where
  "Packer_Pack env seqId (ActiveTestReq p) = map_prod ActiveTestReq id (SmgpActiveTestReqPkt_Pack seqId p)"
| "Packer_Pack env seqId (ActiveTestResp p) = map_prod ActiveTestResp id (SmgpActiveTestRespPkt_Pack seqId p)"
| "Packer_Pack env seqId (LoginReq p) = map_prod LoginReq id (SmgpLoginReqPkt_Pack (e_now env) seqId p)"
| "Packer_Pack env seqId (LoginResp p) = map_prod LoginResp id (SmgpLoginRespPkt_Pack seqId p)"
| "Packer_Pack env seqId (SubmitReq p) =
     map_prod SubmitReq id (SmgpSubmitReqPkt_Pack (e_lenOrd env) (e_wrOrd env) seqId p)"
| "Packer_Pack env seqId (SubmitResp p) = map_prod SubmitResp id (SmgpSubmitRespPkt_Pack seqId p)"
| "Packer_Pack env seqId (DeliverReq p) =
     map_prod DeliverReq id (SmgpDeliverReqPkt_Pack (e_lenOrd env) (e_wrOrd env) seqId p)"
| "Packer_Pack env seqId (DeliverResp p) = map_prod DeliverResp id (SmgpDeliverRespPkt_Pack seqId p)"
| "Packer_Pack env seqId (ExitReq p) = map_prod ExitReq id (SmgpExitReqPkt_Pack seqId p)"
| "Packer_Pack env seqId (ExitResp p) = map_prod ExitResp id (SmgpExitRespPkt_Pack seqId p)"
| "Packer_Pack env seqId (QueryReq p) = map_prod QueryReq id (SmgpQueryReqPkt_Pack seqId p)"
| "Packer_Pack env seqId (QueryResp p) = map_prod QueryResp id (SmgpQueryRespPkt_Pack seqId p)"

definition unpacked :: "('p \<Rightarrow> packet) \<Rightarrow> ('p \<times> error option) option \<Rightarrow> (packet \<times> error option) option" where
  "unpacked con = map_option (map_prod con id)"

fun Packer_Unpack :: "packet \<Rightarrow> byte list \<Rightarrow> (packet \<times> error option) option" where
  "Packer_Unpack (ActiveTestReq p) data = unpacked ActiveTestReq (SmgpActiveTestReqPkt_Unpack p data)"
| "Packer_Unpack (ActiveTestResp p) data = unpacked ActiveTestResp (SmgpActiveTestRespPkt_Unpack p data)"
| "Packer_Unpack (LoginReq p) data = unpacked LoginReq (SmgpLoginReqPkt_Unpack p data)"
| "Packer_Unpack (LoginResp p) data = unpacked LoginResp (SmgpLoginRespPkt_Unpack p data)"
| "Packer_Unpack (SubmitReq p) data = unpacked SubmitReq (SmgpSubmitReqPkt_Unpack p data)"
| "Packer_Unpack (SubmitResp p) data = unpacked SubmitResp (SmgpSubmitRespPkt_Unpack p data)"
| "Packer_Unpack (DeliverReq p) data = unpacked DeliverReq (SmgpDeliverReqPkt_Unpack p data)"
| "Packer_Unpack (DeliverResp p) data = unpacked DeliverResp (SmgpDeliverRespPkt_Unpack p data)"
| "Packer_Unpack (ExitReq p) data = unpacked ExitReq (SmgpExitReqPkt_Unpack p data)"
| "Packer_Unpack (ExitResp p) data = unpacked ExitResp (SmgpExitRespPkt_Unpack p data)"
| "Packer_Unpack (QueryReq p) data = unpacked QueryReq (SmgpQueryReqPkt_Unpack p data)"
| "Packer_Unpack (QueryResp p) data = unpacked QueryResp (SmgpQueryRespPkt_Unpack p data)"

text \<open>The switch on the request identifier.\<close>

definition new_packet :: "u32 \<Rightarrow> u32 \<Rightarrow> packet option" where
  "new_packet requestId sequenceID =
     (if requestId = SMGP_ACTIVE_TEST then Some (ActiveTestReq (SmgpActiveTestReqPkt.make sequenceID))
      else if requestId = SMGP_ACTIVE_TEST_RESP then Some (ActiveTestResp (SmgpActiveTestRespPkt.make sequenceID))
      else if requestId = SMGP_LOGIN then Some (LoginReq (SmgpLoginReqPkt_new sequenceID))
      else if requestId = SMGP_LOGIN_RESP then Some (LoginResp (SmgpLoginRespPkt_new sequenceID))
      else if requestId = SMGP_SUBMIT then Some (SubmitReq (SmgpSubmitReqPkt_new sequenceID))
      else if requestId = SMGP_SUBMIT_RESP then Some (SubmitResp (SmgpSubmitRespPkt_new sequenceID))
      else if requestId = SMGP_DELIVER then Some (DeliverReq (SmgpDeliverReqPkt_new sequenceID))
      else if requestId = SMGP_DELIVER_RESP then Some (DeliverResp (SmgpDeliverRespPkt_new sequenceID))
      else if requestId = SMGP_EXIT then Some (ExitReq (SmgpExitReqPkt.make sequenceID))
      else if requestId = SMGP_EXIT_RESP then Some (ExitResp (SmgpExitRespPkt.make sequenceID))
      else if requestId = SMGP_QUERY then Some (QueryReq (SmgpQueryReqPkt_new sequenceID))
      else if requestId = SMGP_QUERY_RESP then Some (QueryResp (SmgpQueryRespPkt_new sequenceID))
      else None)"

text \<open>The packet, an error, or a panic.\<close>

definition decode_packet :: "u32 \<Rightarrow> u32 \<Rightarrow> byte list \<Rightarrow> (error + packet) option" where
  "decode_packet requestId sequenceID leftData =
     (case new_packet requestId sequenceID of
        None \<Rightarrow> Some (Inl ErrRequestIDNotSupported)
      | Some p \<Rightarrow> (case Packer_Unpack p leftData of
          None \<Rightarrow> None
        | Some (p', Some e) \<Rightarrow> Some (Inl e)
        | Some (p', None) \<Rightarrow> Some (Inr p')))"

section \<open>The contract at the interface\<close>

text \<open>Well-formedness, request identifier and body of a packet, and the packet that arrives.\<close>

fun packet_wf :: "pack_env \<Rightarrow> packet \<Rightarrow> bool" where
  "packet_wf env (SubmitReq p) \<longleftrightarrow>
     submit_wf p \<and> iterates (e_lenOrd env) (SmgpSubmitReqPkt.Options p) \<and> iterates (e_wrOrd env) (SmgpSubmitReqPkt.Options p)"
| "packet_wf env (DeliverReq p) \<longleftrightarrow>
     deliver_wf p \<and> iterates (e_lenOrd env) (SmgpDeliverReqPkt.Options p) \<and> iterates (e_wrOrd env) (SmgpDeliverReqPkt.Options p)"
| "packet_wf env (QueryReq p) \<longleftrightarrow> query_req_wf p"
| "packet_wf env (QueryResp p) \<longleftrightarrow> query_resp_wf p"
| "packet_wf env _ \<longleftrightarrow> True"

fun packet_reqId :: "packet \<Rightarrow> u32" where
  "packet_reqId (ActiveTestReq p) = SMGP_ACTIVE_TEST"
| "packet_reqId (ActiveTestResp p) = SMGP_ACTIVE_TEST_RESP"
| "packet_reqId (LoginReq p) = SMGP_LOGIN"
| "packet_reqId (LoginResp p) = SMGP_LOGIN_RESP"
| "packet_reqId (SubmitReq p) = SMGP_SUBMIT"
| "packet_reqId (SubmitResp p) = SMGP_SUBMIT_RESP"
| "packet_reqId (DeliverReq p) = SMGP_DELIVER"
| "packet_reqId (DeliverResp p) = SMGP_DELIVER_RESP"
| "packet_reqId (ExitReq p) = SMGP_ACTIVE_TEST"
| "packet_reqId (ExitResp p) = SMGP_ACTIVE_TEST_RESP"
| "packet_reqId (QueryReq p) = SMGP_QUERY"
| "packet_reqId (QueryResp p) = SMGP_QUERY_RESP"

fun packet_body :: "pack_env \<Rightarrow> packet \<Rightarrow> byte list" where
  "packet_body env (LoginReq p) = login_req_body (e_now env) p"
| "packet_body env (LoginResp p) = login_resp_body p"
| "packet_body env (SubmitReq p) = submit_body (e_wrOrd env) p"
| "packet_body env (SubmitResp p) = submit_resp_body p"
| "packet_body env (DeliverReq p) = deliver_body (e_wrOrd env) p"
| "packet_body env (DeliverResp p) = deliver_resp_body p"
| "packet_body env (QueryReq p) = query_req_body p"
| "packet_body env (QueryResp p) = query_resp_body p"
| "packet_body env _ = []"

fun packet_sent :: "pack_env \<Rightarrow> u32 \<Rightarrow> packet \<Rightarrow> packet" where
  "packet_sent env seq (ActiveTestReq p) = ActiveTestReq (SmgpActiveTestReqPkt.make seq)"
| "packet_sent env seq (ActiveTestResp p) = ActiveTestResp (SmgpActiveTestRespPkt.make seq)"
| "packet_sent env seq (LoginReq p) = LoginReq (login_req_sent (e_now env) seq p)"
| "packet_sent env seq (LoginResp p) = LoginResp (login_resp_sent seq p)"
| "packet_sent env seq (SubmitReq p) = SubmitReq (p\<lparr>SmgpSubmitReqPkt.SequenceID := seq\<rparr>)"
| "packet_sent env seq (SubmitResp p) = SubmitResp (submit_resp_sent seq p)"
| "packet_sent env seq (DeliverReq p) = DeliverReq (deliver_sent seq p)"
| "packet_sent env seq (DeliverResp p) = DeliverResp (deliver_resp_sent seq p)"
| "packet_sent env seq (ExitReq p) = ActiveTestReq (SmgpActiveTestReqPkt.make seq)"
| "packet_sent env seq (ExitResp p) = ActiveTestResp (SmgpActiveTestRespPkt.make seq)"
| "packet_sent env seq (QueryReq p) = QueryReq (p\<lparr>SmgpQueryReqPkt.SequenceID := seq\<rparr>)"
| "packet_sent env seq (QueryResp p) = QueryResp (p\<lparr>SmgpQueryRespPkt.SequenceID := seq\<rparr>)"

lemma Packer_Pack_wf:
  "packet_wf env p \<Longrightarrow>
   snd (Packer_Pack env seq p) = Inr (frame (packet_reqId p) seq (packet_body env p))"
  by (cases p)
     (simp_all add: active_req.pack_wf active_resp.pack_wf exit_req.pack_wf exit_resp.pack_wf
       login_req.pack_wf login_resp.pack_wf query_req.pack_wf query_resp.pack_wf
       submit_req.pack_wf submit_resp.pack_wf deliver_req.pack_wf deliver_resp.pack_wf)

lemma request_id_valid_packet: "request_id_valid (packet_reqId p)"
  by (cases p) (simp_all add: request_id_valid_def request_defs)

text \<open>The switch, one equation for each identifier.\<close>

lemma new_packet_simps [simp]:
  "new_packet SMGP_ACTIVE_TEST seq = Some (ActiveTestReq (SmgpActiveTestReqPkt.make seq))"
  "new_packet SMGP_ACTIVE_TEST_RESP seq = Some (ActiveTestResp (SmgpActiveTestRespPkt.make seq))"
  "new_packet SMGP_LOGIN seq = Some (LoginReq (SmgpLoginReqPkt_new seq))"
  "new_packet SMGP_LOGIN_RESP seq = Some (LoginResp (SmgpLoginRespPkt_new seq))"
  "new_packet SMGP_SUBMIT seq = Some (SubmitReq (SmgpSubmitReqPkt_new seq))"
  "new_packet SMGP_SUBMIT_RESP seq = Some (SubmitResp (SmgpSubmitRespPkt_new seq))"
  "new_packet SMGP_DELIVER seq = Some (DeliverReq (SmgpDeliverReqPkt_new seq))"
  "new_packet SMGP_DELIVER_RESP seq = Some (DeliverResp (SmgpDeliverRespPkt_new seq))"
  "new_packet SMGP_EXIT seq = Some (ExitReq (SmgpExitReqPkt.make seq))"
  "new_packet SMGP_EXIT_RESP seq = Some (ExitResp (SmgpExitRespPkt.make seq))"
  "new_packet SMGP_QUERY seq = Some (QueryReq (SmgpQueryReqPkt_new seq))"
  "new_packet SMGP_QUERY_RESP seq = Some (QueryResp (SmgpQueryRespPkt_new seq))"
  by (simp_all add: new_packet_def request_defs)

lemma decode_packet_body:
  "packet_wf env p \<Longrightarrow>
   decode_packet (packet_reqId p) seq (packet_body env p) = Some (Inr (packet_sent env seq p))"
  by (cases p)
     (simp_all add: decode_packet_def unpacked_def active_req.unpack_body active_resp.unpack_body
       login_req.unpack_body login_resp.unpack_body query_req.unpack_body query_resp.unpack_body
       SmgpSubmitReqPkt_Unpack_body submit_resp.unpack_body SmgpDeliverReqPkt_Unpack_body deliver_resp.unpack_body)

section \<open>Decoding arbitrary bodies\<close>

lemma new_packet_cases:
  assumes "new_packet rid seq = Some p"
  obtains "rid = SMGP_ACTIVE_TEST" "p = ActiveTestReq (SmgpActiveTestReqPkt.make seq)"
    | "rid = SMGP_ACTIVE_TEST_RESP" "p = ActiveTestResp (SmgpActiveTestRespPkt.make seq)"
    | "rid = SMGP_LOGIN" "p = LoginReq (SmgpLoginReqPkt_new seq)"
    | "rid = SMGP_LOGIN_RESP" "p = LoginResp (SmgpLoginRespPkt_new seq)"
    | "rid = SMGP_SUBMIT" "p = SubmitReq (SmgpSubmitReqPkt_new seq)"
    | "rid = SMGP_SUBMIT_RESP" "p = SubmitResp (SmgpSubmitRespPkt_new seq)"
    | "rid = SMGP_DELIVER" "p = DeliverReq (SmgpDeliverReqPkt_new seq)"
    | "rid = SMGP_DELIVER_RESP" "p = DeliverResp (SmgpDeliverRespPkt_new seq)"
    | "rid = SMGP_EXIT" "p = ExitReq (SmgpExitReqPkt.make seq)"
    | "rid = SMGP_EXIT_RESP" "p = ExitResp (SmgpExitRespPkt.make seq)"
    | "rid = SMGP_QUERY" "p = QueryReq (SmgpQueryReqPkt_new seq)"
    | "rid = SMGP_QUERY_RESP" "p = QueryResp (SmgpQueryRespPkt_new seq)"
  using assms by (auto simp: new_packet_def split: if_splits)

text \<open>The bodies on which decoding panics.\<close>

definition panicking_body :: "u32 \<Rightarrow> byte list \<Rightarrow> bool" where
  "panicking_body rid data \<longleftrightarrow>
     rid = SMGP_SUBMIT \<and> length data < submit_need data \<or>
     rid = SMGP_DELIVER \<and> (short_report data \<or> length data < deliver_need data)"

lemma unpack_panics:
  "SmgpActiveTestReqPkt_Unpack p1 data \<noteq> None" "SmgpActiveTestRespPkt_Unpack p2 data \<noteq> None"
  "SmgpExitReqPkt_Unpack p3 data \<noteq> None" "SmgpExitRespPkt_Unpack p4 data \<noteq> None"
  "SmgpLoginReqPkt_Unpack p5 data \<noteq> None" "SmgpLoginRespPkt_Unpack p6 data \<noteq> None"
  "SmgpQueryReqPkt_Unpack p7 data \<noteq> None" "SmgpQueryRespPkt_Unpack p8 data \<noteq> None"
  "SmgpSubmitRespPkt_Unpack p9 data \<noteq> None" "SmgpDeliverRespPkt_Unpack p10 data \<noteq> None"
  "SmgpSubmitReqPkt_Unpack p11 data = None \<longleftrightarrow> length data < submit_need data"
  "SmgpDeliverReqPkt_Unpack p12 data = None \<longleftrightarrow> short_report data \<or> length data < deliver_need data"
  using SmgpLoginReqPkt_Unpack_outcome [of data p5] SmgpLoginRespPkt_Unpack_outcome [of data p6]
    SmgpQueryReqPkt_Unpack_outcome [of data p7] SmgpQueryRespPkt_Unpack_outcome [of data p8]
    SmgpSubmitRespPkt_Unpack_outcome [of data p9] SmgpDeliverRespPkt_Unpack_outcome [of data p10]
    SmgpSubmitReqPkt_Unpack_outcome [of data p11] SmgpDeliverReqPkt_Unpack_outcome [of data p12]
  by (auto simp: outcome_def active_exit_defs split: option.splits)

lemma Packer_Unpack_panics:
  "new_packet rid seq = Some p \<Longrightarrow> Packer_Unpack p data = None \<longleftrightarrow> panicking_body rid data"
  by (erule new_packet_cases)
     (simp_all add: unpacked_def unpack_panics panicking_body_def, simp_all add: request_defs)

lemma decode_packet_panics: "decode_packet rid seq data = None \<longleftrightarrow> panicking_body rid data"
proof (cases "new_packet rid seq")
  case None
  then show ?thesis
    by (auto simp: decode_packet_def panicking_body_def new_packet_def split: if_splits)
next
  case (Some p)
  then show ?thesis
    using Packer_Unpack_panics [OF Some, of data] by (auto simp: decode_packet_def split: option.splits)
qed

text \<open>The sequence number of the header stays in the packet: no \<^verbatim>\<open>Unpack\<close> method touches it.\<close>

primrec packet_seq :: "packet \<Rightarrow> u32" where
  "packet_seq (ActiveTestReq p) = SmgpActiveTestReqPkt.SequenceID p"
| "packet_seq (ActiveTestResp p) = SmgpActiveTestRespPkt.SequenceID p"
| "packet_seq (LoginReq p) = SmgpLoginReqPkt.SequenceID p"
| "packet_seq (LoginResp p) = SmgpLoginRespPkt.SequenceID p"
| "packet_seq (SubmitReq p) = SmgpSubmitReqPkt.SequenceID p"
| "packet_seq (SubmitResp p) = SmgpSubmitRespPkt.SequenceID p"
| "packet_seq (DeliverReq p) = SmgpDeliverReqPkt.SequenceID p"
| "packet_seq (DeliverResp p) = SmgpDeliverRespPkt.SequenceID p"
| "packet_seq (ExitReq p) = SmgpExitReqPkt.SequenceID p"
| "packet_seq (ExitResp p) = SmgpExitRespPkt.SequenceID p"
| "packet_seq (QueryReq p) = SmgpQueryReqPkt.SequenceID p"
| "packet_seq (QueryResp p) = SmgpQueryRespPkt.SequenceID p"

definition keeps :: "('p \<Rightarrow> u32) \<Rightarrow> 'p \<Rightarrow> ('p \<times> error option) option \<Rightarrow> bool" where
  "keeps seq_of p m \<longleftrightarrow> (\<forall>p' e. m = Some (p', e) \<longrightarrow> seq_of p' = seq_of p)"

lemma keeps_simps [simp]:
  "keeps seq_of p (Some (p', e)) \<longleftrightarrow> seq_of p' = seq_of p" "keeps seq_of p None"
  by (auto simp: keeps_def)

lemma outcome_report_seq:
  assumes "\<And>p'. SmgpDeliverReqPkt.SequenceID p' = SmgpDeliverReqPkt.SequenceID p \<Longrightarrow> outcome (keeps seq_of q) (f p')"
  shows "outcome (keeps seq_of q) (Option.bind (if isRep = 1 then do { c \<leftarrow> DecodeDeliverMsgContent content;
    Some (p\<lparr>MsgStatContent := Some c\<rparr>) } else Some p) f)"
  using assms by (cases "DecodeDeliverMsgContent content") (auto simp: outcome_def)

lemma Unpack_keeps_seq:
  "outcome (keeps SmgpLoginReqPkt.SequenceID p1) (SmgpLoginReqPkt_Unpack p1 data)"
  "outcome (keeps SmgpLoginRespPkt.SequenceID p2) (SmgpLoginRespPkt_Unpack p2 data)"
  "outcome (keeps SmgpQueryReqPkt.SequenceID p3) (SmgpQueryReqPkt_Unpack p3 data)"
  "outcome (keeps SmgpQueryRespPkt.SequenceID p4) (SmgpQueryRespPkt_Unpack p4 data)"
  "outcome (keeps SmgpSubmitRespPkt.SequenceID p5) (SmgpSubmitRespPkt_Unpack p5 data)"
  "outcome (keeps SmgpDeliverRespPkt.SequenceID p6) (SmgpDeliverRespPkt_Unpack p6 data)"
  "outcome (keeps SmgpSubmitReqPkt.SequenceID p7) (SmgpSubmitReqPkt_Unpack p7 data)"
  "outcome (keeps SmgpDeliverReqPkt.SequenceID p8) (SmgpDeliverReqPkt_Unpack p8 data)"
  unfolding SmgpLoginReqPkt_Unpack_def SmgpLoginRespPkt_Unpack_def SmgpQueryReqPkt_Unpack_def
    SmgpQueryRespPkt_Unpack_def SmgpSubmitRespPkt_Unpack_def SmgpDeliverRespPkt_Unpack_def
    SmgpSubmitReqPkt_Unpack_def SmgpDeliverReqPkt_Unpack_def Let_def
  by (rule outcome_newPkgReader,
      ((rule outcome_ReadCString, assumption, simp) | (rule outcome_rules, assumption) | (rule outcome_report_seq))+,
      (auto simp: outcome_def keeps_def go_slice_from_eq split: sum.splits if_splits)[])+

lemma Packer_Unpack_seq:
  "Packer_Unpack p data = Some (p', e) \<Longrightarrow> packet_seq p' = packet_seq p"
  using Unpack_keeps_seq [of _ data]
  by (cases p) (auto simp: unpacked_def outcome_def keeps_def active_exit_defs)

lemma new_packet_seq: "new_packet rid seq = Some p \<Longrightarrow> packet_seq p = seq"
  by (erule new_packet_cases)
     (simp_all add: SmgpActiveTestReqPkt.defs SmgpActiveTestRespPkt.defs SmgpExitReqPkt.defs SmgpExitRespPkt.defs
       SmgpLoginReqPkt_new_def SmgpLoginReqPkt.defs SmgpLoginRespPkt_new_def SmgpLoginRespPkt.defs
       SmgpQueryReqPkt_new_def SmgpQueryReqPkt.defs SmgpQueryRespPkt_new_def SmgpQueryRespPkt.defs
       SmgpSubmitReqPkt_new_def SmgpSubmitReqPkt.defs SmgpSubmitRespPkt_new_def SmgpSubmitRespPkt.defs
       SmgpDeliverReqPkt_new_def SmgpDeliverReqPkt.defs SmgpDeliverRespPkt_new_def SmgpDeliverRespPkt.defs)

lemma decode_packet_seq: "decode_packet rid seq data = Some (Inr p) \<Longrightarrow> packet_seq p = seq"
  by (auto simp: decode_packet_def Packer_Unpack_seq new_packet_seq split: option.splits)

text \<open>The identifier for which the switch chooses the type of a packet.\<close>

primrec packet_id :: "packet \<Rightarrow> u32" where
  "packet_id (ActiveTestReq p) = SMGP_ACTIVE_TEST"
| "packet_id (ActiveTestResp p) = SMGP_ACTIVE_TEST_RESP"
| "packet_id (LoginReq p) = SMGP_LOGIN"
| "packet_id (LoginResp p) = SMGP_LOGIN_RESP"
| "packet_id (SubmitReq p) = SMGP_SUBMIT"
| "packet_id (SubmitResp p) = SMGP_SUBMIT_RESP"
| "packet_id (DeliverReq p) = SMGP_DELIVER"
| "packet_id (DeliverResp p) = SMGP_DELIVER_RESP"
| "packet_id (ExitReq p) = SMGP_EXIT"
| "packet_id (ExitResp p) = SMGP_EXIT_RESP"
| "packet_id (QueryReq p) = SMGP_QUERY"
| "packet_id (QueryResp p) = SMGP_QUERY_RESP"

lemma Packer_Unpack_id: "Packer_Unpack p data = Some (p', e) \<Longrightarrow> packet_id p' = packet_id p"
  by (cases p) (auto simp: unpacked_def)

lemma new_packet_id: "new_packet rid seq = Some p \<Longrightarrow> packet_id p = rid"
  by (erule new_packet_cases) simp_all

lemma decode_packet_id: "decode_packet rid seq data = Some (Inr p) \<Longrightarrow> packet_id p = rid"
  by (auto simp: decode_packet_def Packer_Unpack_id new_packet_id split: option.splits)

end
