(* ===== verification/Long_Sms.thy ===== *)
theory Long_Sms
  imports Complex_Main "HOL-Library.Multiset" Submit
begin

text \<open>
  \<^verbatim>\<open>pkg/utils.go\<close>, lines 111 to 236: the conversions of message text and the splitting of a long
  message into several submit packets. The character-set transformers come from the module
  \<^verbatim>\<open>golang.org/x/text\<close> and are arguments here: a function from the input to the whole output, or the
  error, that reading the transformed stream to its end gives.
\<close>

section \<open>Conversions\<close>

text \<open>\<^verbatim>\<open>utf8.ValidString\<close> of Go's standard library.\<close>

definition byte_in :: "byte \<Rightarrow> byte \<Rightarrow> byte \<Rightarrow> bool" where
  "byte_in lo hi b \<longleftrightarrow> lo \<le> b \<and> b \<le> hi"

definition continuation :: "byte \<Rightarrow> bool" where
  "continuation b \<longleftrightarrow> byte_in 0x80 0xBF b"

fun ValidString :: "gostring \<Rightarrow> bool" where
  "ValidString [] = True"
| "ValidString (a # s) =
     (if a < 0x80 then ValidString s
      else (case s of
        [] \<Rightarrow> False
      | b # s1 \<Rightarrow>
          if byte_in 0xC2 0xDF a then continuation b \<and> ValidString s1
          else (case s1 of
            [] \<Rightarrow> False
          | c # s2 \<Rightarrow>
              if byte_in 0xE0 0xEF a then
                byte_in (if a = 0xE0 then 0xA0 else 0x80) (if a = 0xED then 0x9F else 0xBF) b \<and>
                continuation c \<and> ValidString s2
              else (case s2 of
                [] \<Rightarrow> False
              | d # s3 \<Rightarrow>
                  byte_in 0xF0 0xF4 a \<and>
                  byte_in (if a = 0xF0 then 0x90 else 0x80) (if a = 0xF4 then 0x8F else 0xBF) b \<and>
                  continuation c \<and> continuation d \<and> ValidString s3))))"

type_synonym transformer = "byte list \<Rightarrow> error + byte list"

definition Utf8ToUcs2 :: "transformer \<Rightarrow> gostring \<Rightarrow> error + gostring" where
  "Utf8ToUcs2 utf16_encoder inp =
     (if \<not> ValidString inp then Inl (ErrText (bytes_of ''invalid utf8 runes''))
      else case utf16_encoder inp of Inl e \<Rightarrow> Inl e | Inr out \<Rightarrow> Inr out)"

definition Ucs2ToUtf8 :: "transformer \<Rightarrow> gostring \<Rightarrow> error + gostring" where
  "Ucs2ToUtf8 utf16_decoder inp = (case utf16_decoder inp of Inl e \<Rightarrow> Inl e | Inr out \<Rightarrow> Inr out)"

definition Utf8ToGB18030 :: "transformer \<Rightarrow> gostring \<Rightarrow> error + gostring" where
  "Utf8ToGB18030 gb18030_encoder inp =
     (if \<not> ValidString inp then Inl (ErrText (bytes_of ''invalid utf8 runes''))
      else case gb18030_encoder inp of Inl e \<Rightarrow> Inl e | Inr out \<Rightarrow> Inr out)"

definition GB18030ToUtf8 :: "transformer \<Rightarrow> gostring \<Rightarrow> error + gostring" where
  "GB18030ToUtf8 gb18030_decoder inp = (case gb18030_decoder inp of Inl e \<Rightarrow> Inl e | Inr out \<Rightarrow> Inr out)"

section \<open>Splitting\<close>

text \<open>
  The package variable \<^verbatim>\<open>TpUdhiSeq\<close> is passed in and its new value returned. The quotient of the
  lengths, a \<^verbatim>\<open>float64\<close> in the code, is a rational number here: the two have the same ceiling
  for every length below 2 to the power of 45. The header slice has no spare capacity (it is a composite
  literal), so \<^verbatim>\<open>append\<close> copies it for each chunk. \<^verbatim>\<open>contentBytes\<close> may have spare capacity, but the
  upper bound of the slice is never beyond its length.
\<close>

function split_loop :: "byte list \<Rightarrow> gostring \<Rightarrow> nat \<Rightarrow> nat \<Rightarrow> byte list list \<Rightarrow> byte list list option" where
  "split_loop tpUdhiHeader content num i chunks =
     (if i < num then do {
        let chunk = tpUdhiHeader @ [of_nat (i + 1)];
        let bodyLen = 140 - 6;
        let offset = i * bodyLen;
        let max = offset + bodyLen;
        let max = (if max > length content then length content else max);
        part \<leftarrow> go_slice content offset max;
        split_loop tpUdhiHeader content num (i + 1) (chunks @ [chunk @ part])
      } else Some chunks)"
  by pat_completeness auto
termination
  by (relation "measure (\<lambda>(h, c, num, i, cs). num - i)") auto

declare split_loop.simps [simp del]

definition SplitLongSms :: "byte \<Rightarrow> gostring \<Rightarrow> (byte list list \<times> byte) option" where
  "SplitLongSms TpUdhiSeq content =
     (let smsLength = 140; smsHeaderLength = 6; smsBodyLen = smsLength - smsHeaderLength :: nat;
          num = (if length content > 140
                 then nat \<lceil>rat_of_nat (length content) / rat_of_nat smsBodyLen\<rceil> else 1)
      in if num = 1 then Some ([content], TpUdhiSeq)
         else do {
           chunks \<leftarrow> split_loop [0x05, 0x00, 0x03, TpUdhiSeq, of_nat num] content num 0 [];
           Some (chunks, TpUdhiSeq + 1)
         })"

text \<open>The packets that \<open>GetMsgPkgs\<close> makes for the chunks, from the \<open>i\<close>-th on.\<close>

definition msg_pkg :: "SmgpSubmitReqPkt \<Rightarrow> byte \<Rightarrow> nat \<Rightarrow> nat \<Rightarrow> byte list \<Rightarrow> SmgpSubmitReqPkt" where
  "msg_pkg pkg tpUdhi num i chunk =
     SmgpSubmitReqPkt.make (MsgType pkg) (NeedReport pkg) (Priority pkg) (ServiceID pkg) (FeeType pkg)
       (FeeCode pkg) (FixedFee pkg) UCS2 (ValidTime pkg) (AtTime pkg) (SrcTermID pkg) (ChargeTermID pkg)
       (DestTermIDCount pkg) (DestTermID pkg) (of_nat (length chunk)) chunk (Reserve pkg)
       [TAG_TP_pid \<mapsto> NewTLV TAG_TP_pid [0],
        TAG_TP_udhi \<mapsto> NewTLV TAG_TP_udhi [tpUdhi],
        TAG_PkTotal \<mapsto> NewTLV TAG_PkTotal [of_nat num],
        TAG_PkNumber \<mapsto> NewTLV TAG_PkNumber [of_nat (i + 1)]]
       0"

fun msg_pkgs :: "SmgpSubmitReqPkt \<Rightarrow> byte \<Rightarrow> nat \<Rightarrow> nat \<Rightarrow> byte list list \<Rightarrow> SmgpSubmitReqPkt list" where
  "msg_pkgs pkg tpUdhi num i [] = []"
| "msg_pkgs pkg tpUdhi num i (chunk # chunks) =
     msg_pkg pkg tpUdhi num i chunk # msg_pkgs pkg tpUdhi num (i + 1) chunks"

definition GetMsgPkgs ::
  "transformer \<Rightarrow> byte \<Rightarrow> SmgpSubmitReqPkt \<Rightarrow> ((error + SmgpSubmitReqPkt list) \<times> byte) option" where
  "GetMsgPkgs utf16_encoder TpUdhiSeq pkg =
     (case Utf8ToUcs2 utf16_encoder (MsgContent pkg) of
        Inl e \<Rightarrow> Some (Inl e, TpUdhiSeq)
      | Inr content \<Rightarrow> do {
          (chunks, TpUdhiSeq) \<leftarrow> SplitLongSms TpUdhiSeq content;
          let tpUdhi = (if length chunks > 1 then 1 else 0);
          Some (Inr (msg_pkgs pkg tpUdhi (length chunks) 0 chunks), TpUdhiSeq)
        })"

section \<open>The chunks\<close>

text \<open>The number of parts in integer arithmetic.\<close>

definition parts :: "nat \<Rightarrow> nat" where
  "parts n = (if n > 140 then (n + 133) div 134 else 1)"

lemma ceiling_div:
  assumes "0 < b"
  shows "nat \<lceil>rat_of_nat a / rat_of_nat b\<rceil> = (a + b - 1) div b"
proof -
  let ?q = "(a + b - 1) div b"
  have "?q * b + (a + b - 1) mod b = a + b - 1" "(a + b - 1) mod b < b"
    using assms by simp_all
  then have low: "?q * b < a + b" and up: "a \<le> ?q * b"
    using assms by linarith+
  have "rat_of_nat (?q * b) < rat_of_nat (a + b)" "rat_of_nat a \<le> rat_of_nat (?q * b)"
    using low up by (simp_all only: of_nat_less_iff of_nat_le_iff)
  then have "\<lceil>rat_of_nat a / rat_of_nat b\<rceil> = int ?q"
    using assms by (intro ceiling_unique) (simp_all add: field_simps)
  then show ?thesis by simp
qed

definition chunk_of :: "byte \<Rightarrow> gostring \<Rightarrow> nat \<Rightarrow> byte list" where
  "chunk_of seq content i =
     [0x05, 0x00, 0x03, seq, of_nat (parts (length content)), of_nat (i + 1)] @ take 134 (drop (i * 134) content)"

lemma split_loop_eq:
  assumes "\<forall>i < num. i * 134 \<le> length content"
  shows "split_loop h content num i cs =
    Some (cs @ map (\<lambda>i. h @ [of_nat (i + 1)] @ take 134 (drop (i * 134) content)) [i..<num])"
proof (induction "num - i" arbitrary: i cs)
  case 0
  then show ?case by (simp add: split_loop.simps [of h content num i])
next
  case (Suc n)
  then have "i < num" and IH: "split_loop h content num (Suc i) (cs @ [x]) =
      Some ((cs @ [x]) @ map (\<lambda>i. h @ [of_nat (i + 1)] @ take 134 (drop (i * 134) content)) [Suc i..<num])" for x
    by auto
  with assms show ?case
    by (subst split_loop.simps) (auto simp: go_slice_def Let_def upt_conv_Cons min_def)
qed

lemma parts_offsets: "i < parts n \<Longrightarrow> i * 134 \<le> n"
  by (auto simp: parts_def split: if_splits)

lemma parts_bounds: "140 < n \<Longrightarrow> 2 \<le> parts n" "140 < n \<Longrightarrow> n \<le> parts n * 134"
  "140 < n \<Longrightarrow> parts n * 134 < n + 134"
  by (simp_all add: parts_def; presburger)+

lemma SplitLongSms_eq:
  "SplitLongSms seq content =
   Some (if length content \<le> 140 then ([content], seq)
         else (map (chunk_of seq content) [0..<parts (length content)], seq + 1))"
proof (cases "length content \<le> 140")
  case False
  then have "nat \<lceil>rat_of_nat (length content) / rat_of_nat 134\<rceil> = parts (length content)"
    using ceiling_div [of 134 "length content"] by (simp add: parts_def)
  with False parts_bounds(1) [of "length content"] show ?thesis
    using split_loop_eq [of "parts (length content)" content] parts_offsets
    by (simp add: SplitLongSms_def Let_def chunk_of_def [abs_def])
qed (simp add: SplitLongSms_def)

lemma length_chunk_of: "140 < length content \<Longrightarrow> i < parts (length content) \<Longrightarrow>
   6 < length (chunk_of seq content i) \<and> length (chunk_of seq content i) \<le> 140"
  using parts_bounds [of "length content"] by (auto simp: chunk_of_def)

lemma concat_chunks: "concat (map (\<lambda>i. take m (drop (i * m) xs)) [0..<n]) = take (n * m) xs"
  by (induction n) (simp_all add: take_add add.commute [of m])

lemma drop_chunk_of: "map (drop 6) (map (chunk_of seq content) is) = map (\<lambda>i. take 134 (drop (i * 134) content)) is"
  by (simp add: chunk_of_def)

lemma concat_chunk_of:
  "140 < length content \<Longrightarrow>
   concat (map (drop 6) (map (chunk_of seq content) [0..<parts (length content)])) = content"
  unfolding drop_chunk_of using parts_bounds(2) [of "length content"] by (simp add: concat_chunks)

text \<open>
  What a receiver does with the parts of one message, which may arrive in any order: it sorts them
  by the part number in the last byte of the header and joins the texts.
\<close>

definition reassemble :: "byte list list \<Rightarrow> gostring" where
  "reassemble cs = concat (map (drop 6) (sort_key (\<lambda>c. c ! 5) cs))"

lemma part_number: "i < 255 \<Longrightarrow> unat (chunk_of seq content i ! 5) = i + 1"
  using unat_of_nat [of "i + 1", where ?'a = 8] by (simp add: chunk_of_def)

lemma reassemble_chunks:
  assumes "140 < length content" "length content \<le> 255 * 134"
    and "mset cs = mset (map (chunk_of seq content) [0..<parts (length content)])"
  shows "reassemble cs = content"
proof -
  let ?cs = "map (chunk_of seq content) [0..<parts (length content)]"
  have n: "parts (length content) \<le> 255"
    using assms(1,2) by (simp add: parts_def)
  have key: "unat (chunk_of seq content i ! 5) = i + 1" if "i < parts (length content)" for i
    using that n by (simp add: part_number)
  have "set cs = set ?cs"
    using assms(3) by (metis set_mset_mset)
  then have "inj_on (\<lambda>c. c ! 5) (set cs)"
    by (auto intro!: inj_onI) (metis key add_right_cancel)
  moreover have "sorted (map (\<lambda>c. c ! 5) ?cs)"
    using key by (auto simp: sorted_iff_nth_mono word_le_nat_alt)
  ultimately have "sort_key (\<lambda>c. c ! 5) cs = ?cs"
    using assms(3) by (intro sort_key_inj_key_eq) auto
  then show ?thesis
    unfolding reassemble_def using concat_chunk_of [OF assms(1)] by simp
qed

section \<open>The packets\<close>

lemma msg_pkgs_eq: "msg_pkgs pkg u num i cs = map (\<lambda>(j, c). msg_pkg pkg u num j c) (enumerate i cs)"
  by (induction cs arbitrary: i) simp_all

lemma length_msg_pkgs: "length (msg_pkgs pkg u num i cs) = length cs"
  by (simp add: msg_pkgs_eq)

lemma contents_msg_pkgs: "map MsgContent (msg_pkgs pkg u num i cs) = cs"
  by (induction cs arbitrary: i) (simp_all add: msg_pkg_def SmgpSubmitReqPkt.defs)

lemma set_msg_pkgs: "p \<in> set (msg_pkgs pkg u num i cs) \<Longrightarrow> \<exists>j c. c \<in> set cs \<and> p = msg_pkg pkg u num j c"
  by (force simp: msg_pkgs_eq in_set_enumerate_eq)

text \<open>A packet that may serve as the template: its text and its optional parameters are replaced.\<close>

definition template_wf :: "SmgpSubmitReqPkt \<Rightarrow> bool" where
  "template_wf pkg \<longleftrightarrow> submit_wf (pkg\<lparr>MsgLength := 0, MsgContent := [], Options := Map.empty\<rparr>)"

lemma msg_pkg_wf: "template_wf pkg \<Longrightarrow> length c < 256 \<Longrightarrow> submit_wf (msg_pkg pkg u num j c)"
  by (auto simp: template_wf_def submit_wf_def msg_pkg_def SmgpSubmitReqPkt.defs options_wf_def tlv_wf_NewTLV
      unat_of_nat tag_defs split: if_splits)

lemma chunks_short:
  assumes "SplitLongSms seq content = Some (chunks, seq')" "c \<in> set chunks"
  shows "length c \<le> 140"
  using assms length_chunk_of [of content _ seq] by (auto simp: SplitLongSms_eq split: if_splits)

lemma GetMsgPkgs_chunks:
  assumes "GetMsgPkgs enc seq pkg = Some (Inr ps, seq')"
  obtains content chunks u where "Utf8ToUcs2 enc (MsgContent pkg) = Inr content"
    "SplitLongSms seq content = Some (chunks, seq')" "ps = msg_pkgs pkg u (length chunks) 0 chunks"
  using assms by (auto simp: GetMsgPkgs_def Let_def split: sum.splits bind_splits)

lemma GetMsgPkgs_wf:
  assumes "GetMsgPkgs enc seq pkg = Some (Inr ps, seq')" "template_wf pkg" "p \<in> set ps"
  shows "submit_wf p \<and> length (MsgContent p) \<le> 140"
proof -
  obtain content chunks u where "SplitLongSms seq content = Some (chunks, seq')"
    and ps: "ps = msg_pkgs pkg u (length chunks) 0 chunks"
    using assms(1) by (rule GetMsgPkgs_chunks)
  moreover from ps assms(3) obtain j c where "c \<in> set chunks" "p = msg_pkg pkg u (length chunks) j c"
    by (auto dest: set_msg_pkgs)
  ultimately show ?thesis
    using assms(2) chunks_short [of seq content chunks seq' c]
    by (simp add: msg_pkg_wf) (simp add: msg_pkg_def SmgpSubmitReqPkt.defs)
qed

lemma GetMsgPkgs_no_panic: "GetMsgPkgs enc seq pkg \<noteq> None"
  by (auto simp: GetMsgPkgs_def SplitLongSms_eq Let_def split: sum.splits)

end
