(* ===== verification/Msg_Id.thy ===== *)
theory Msg_Id
  imports Auth
begin

text \<open>
  The message identifiers of \<^verbatim>\<open>pkg/utils.go\<close>: \<open>GenMsgID\<close> prints gateway code, time and sequence
  number as twenty hexadecimal places, \<open>UnpackMsgId\<close> reads such a string for display.
\<close>

text \<open>
  The error of \<^verbatim>\<open>ParseInt\<close> is dropped, as in the code; the value it comes with is printed. The
  error result of \<^verbatim>\<open>GenMsgID\<close> is always nil and is left out.
\<close>

definition GenMsgID :: "Time \<Rightarrow> gostring \<Rightarrow> u32 \<Rightarrow> gostring" where
  "GenMsgID now spId sequenceNum =
     (let spIdInt = fst (ParseInt spId 10 24)
      in Sprintf_0x 6 spIdInt @ Sprintf_0d 2 (month now) @ Sprintf_0d 2 (day now) @
         Sprintf_0d 2 (hour now) @ Sprintf_0d 2 (minute now) @ Sprintf_0x 6 (uint sequenceNum))"

definition UnpackMsgId :: "gostring \<Rightarrow> gostring option" where
  "UnpackMsgId msgId = do {
     s \<leftarrow> go_slice msgId 0 6; let spId = fst (ParseUint s 16 24);
     s \<leftarrow> go_slice msgId 6 8; let mon = fst (ParseUint s 10 8);
     s \<leftarrow> go_slice msgId 8 10; let dy = fst (ParseUint s 10 8);
     s \<leftarrow> go_slice msgId 10 12; let hr = fst (ParseUint s 10 8);
     s \<leftarrow> go_slice msgId 12 14; let mi = fst (ParseUint s 10 8);
     s \<leftarrow> go_slice_from msgId 14; let seqNum = fst (ParseUint s 16 24);
     Some (bytes_of ''spId: '' @ OctetString_FixedString (Itoa (int spId)) 6 @
       bytes_of '', month: '' @ digits 10 mon @ bytes_of '', day: '' @ digits 10 dy @
       bytes_of '', hour: '' @ digits 10 hr @ bytes_of '', min: '' @ digits 10 mi @
       bytes_of '', seqNum: '' @ digits 10 seqNum @ bytes_of '', '')
   }"

section \<open>Shape of the identifiers\<close>

lemma ParseUint_loop_bound: "n \<le> m \<Longrightarrow> fst (ParseUint_loop b m n s) \<le> m"
  by (induction b m n s rule: ParseUint_loop.induct) (auto split: option.splits)

text \<open>The gateway code has at most 23 bits, whatever the configured string is.\<close>

lemma ParseInt_24_bounds: "- (2 ^ 23) \<le> fst (ParseInt s 10 24) \<and> fst (ParseInt s 10 24) < 2 ^ 23"
proof -
  have "fst (ParseUint t 10 24) \<le> 2 ^ 24 - 1" for t
    using ParseUint_loop_bound [of 0 "2 ^ 24 - 1" 10 t] by (simp add: ParseUint_def)
  then show ?thesis
    by (auto simp: ParseInt_def Let_def split: prod.splits)
qed

lemma length_Sprintf_06x: "0 \<le> i \<Longrightarrow> i < 2 ^ 24 \<Longrightarrow> length (Sprintf_0x 6 i) = 6"
  by (simp add: Sprintf_0x_def length_pad0_digits nat_less_iff)

lemma hex_string_Sprintf: "hex_string (Sprintf_0d w n)" "0 \<le> i \<Longrightarrow> hex_string (Sprintf_0x w i)"
  by (simp_all add: Sprintf_0d_def Sprintf_0x_def hex_string_pad0 hex_string_digits)

lemma uint_nat_less: "uint w < numeral n \<longleftrightarrow> unat w < numeral n"
  using nat_less_iff [of "uint w" "numeral n"]
  by (simp only: unat_eq_nat_uint unsigned_greater_eq of_nat_numeral)

definition gateway_code :: "gostring \<Rightarrow> int" where
  "gateway_code spId = fst (ParseInt spId 10 24)"

lemma length_GenMsgID:
  assumes "valid_time now" "0 \<le> gateway_code spId" "unat seq < 2 ^ 24"
  shows "length (GenMsgID now spId seq) = 20"
proof -
  have "length (Sprintf_0x 6 (gateway_code spId)) = 6"
    using ParseInt_24_bounds [of spId] assms(2)
    by (intro length_Sprintf_06x) (auto simp: gateway_code_def)
  moreover have "length (Sprintf_0x 6 (uint seq)) = 6"
    using assms(3) by (intro length_Sprintf_06x) (simp_all add: uint_nat_less)
  moreover have "length (Sprintf_0d 2 n) = 2" if "n < 100" for n
    using that by (simp add: length_Sprintf_0d)
  moreover have "month now < 100" "day now < 100" "hour now < 100" "minute now < 100"
    using assms(1) by (auto simp: valid_time_def)
  ultimately show ?thesis
    unfolding GenMsgID_def Let_def gateway_code_def [symmetric] length_append by simp
qed

lemma hex_string_GenMsgID: "0 \<le> gateway_code spId \<Longrightarrow> hex_string (GenMsgID now spId seq)"
  by (simp add: GenMsgID_def gateway_code_def hex_string_Sprintf)

lemma UnpackMsgId_panics_iff: "UnpackMsgId s = None \<longleftrightarrow> length s < 14"
  by (auto simp: UnpackMsgId_def go_slice_def go_slice_from_eq Let_def split: bind_splits if_splits)

lemma ParseUint_Sprintf:
  "n < 2 ^ 8 \<Longrightarrow> fst (ParseUint (Sprintf_0d w n) 10 8) = n"
  "i < 2 ^ 24 \<Longrightarrow> 0 \<le> i \<Longrightarrow> fst (ParseUint (Sprintf_0x w i) 16 24) = nat i"
  by (simp_all add: Sprintf_0d_def Sprintf_0x_def ParseUint_pad0_digits nat_less_iff)

lemma UnpackMsgId_pieces:
  assumes "length a = 6" "length b = 2" "length c = 2" "length d = 2" "length e = 2"
  shows "UnpackMsgId (a @ b @ c @ d @ e @ f) =
    Some (bytes_of ''spId: '' @ OctetString_FixedString (Itoa (int (fst (ParseUint a 16 24)))) 6 @
       bytes_of '', month: '' @ digits 10 (fst (ParseUint b 10 8)) @
       bytes_of '', day: '' @ digits 10 (fst (ParseUint c 10 8)) @
       bytes_of '', hour: '' @ digits 10 (fst (ParseUint d 10 8)) @
       bytes_of '', min: '' @ digits 10 (fst (ParseUint e 10 8)) @
       bytes_of '', seqNum: '' @ digits 10 (fst (ParseUint f 16 24)) @ bytes_of '', '')"
  using assms by (simp add: UnpackMsgId_def go_slice_def go_slice_from_eq)

end
