(* ===== verification/Codec_Properties.thy ===== *)
theory Codec_Properties
  imports Packets Long_Sms Msg_Id
begin

text \<open>
  The properties of the packet types and of the values in them, with a witness for each that has a
  hypothesis. The records at the top are the concrete packets that the witnesses use.
\<close>

section \<open>Concrete packets\<close>

definition submit_sample :: SmgpSubmitReqPkt where
  "submit_sample = SmgpSubmitReqPkt.make 6 1 1 [] (bytes_of ''00'') (bytes_of ''0'') (bytes_of ''0'') 15 [] []
     (bytes_of ''123456'') [] 2 [bytes_of ''8618012345678'', bytes_of ''8618012345679''] 3 [1, 0, 2] []
     [TAG_PkTotal \<mapsto> NewTLV TAG_PkTotal [1], TAG_PkNumber \<mapsto> NewTLV TAG_PkNumber [1]] 0"

definition report_sample :: SmgpDeliverMsgContent where
  "report_sample = SmgpDeliverMsgContent.make (bytes_of ''01e24001161700012345'') (bytes_of ''001'')
     (bytes_of ''001'') (bytes_of ''0301161700'') (bytes_of ''0301161700'') (bytes_of ''DELIVRD'')
     (bytes_of ''000'') (bytes_of ''0'')"

definition deliver_sample :: SmgpDeliverReqPkt where
  "deliver_sample = SmgpDeliverReqPkt.make (bytes_of ''01e24001161700012345'') 1 0 (bytes_of ''20030116170000'')
     (bytes_of ''8618012345678'') (bytes_of ''123456'') 103 (Encode report_sample) [] Map.empty 0 None"

definition clock_sample :: Time where
  "clock_sample = \<lparr>year = 2003, month = 1, day = 16, hour = 17, minute = 0, second = 30\<rparr>"

lemma bytes_of_char: "bytes_of [] = []" "bytes_of (c # s) = of_char c # bytes_of s"
  by (simp_all add: bytes_of_def)

lemma clock_sample_valid: "valid_time clock_sample"
  by (simp add: clock_sample_def valid_time_def)

lemma submit_sample_wf: "submit_wf submit_sample"
  by (simp add: submit_sample_def SmgpSubmitReqPkt.defs submit_wf_def fits_def bytes_of_char options_wf_def
      tlv_wf_NewTLV tag_defs)

lemma submit_sample_order:
  "iterates [TAG_PkNumber, TAG_PkTotal] (SmgpSubmitReqPkt.Options submit_sample)"
  "iterates [TAG_PkTotal, TAG_PkNumber] (SmgpSubmitReqPkt.Options submit_sample)"
  by (auto simp: submit_sample_def SmgpSubmitReqPkt.defs iterates_def tag_defs)

lemma hex_string_map: "\<forall>d \<in> set ds. d < 16 \<Longrightarrow> hex_string (map digit_char ds)"
  by (auto simp: hex_string_def)

lemma report_sample_wf: "report_wf report_sample"
proof -
  have "bytes_of ''01e24001161700012345'' =
      map digit_char [0, 1, 14, 2, 4, 0, 0, 1, 1, 6, 1, 7, 0, 0, 0, 1, 2, 3, 4, 5]"
    by (simp add: bytes_of_char digit_char_def)
  then have "hex_string (bytes_of ''01e24001161700012345'')"
    using hex_string_map [of "[0, 1, 14, 2, 4, 0, 0, 1, 1, 6, 1, 7, 0, 0, 0, 1, 2, 3, 4, 5]"] by simp
  then show ?thesis by (simp add: report_wf_def report_sample_def SmgpDeliverMsgContent.defs)
qed

lemma deliver_sample_wf: "deliver_wf deliver_sample"
proof -
  have "length (Encode report_sample) = 103"
    by (simp add: length_Encode [OF report_sample_wf]) (simp add: report_sample_def SmgpDeliverMsgContent.defs)
  then show ?thesis
    by (simp add: deliver_sample_def SmgpDeliverReqPkt.defs deliver_wf_def fits_def bytes_of_char options_wf_def)
qed

section \<open>Round trips of the packets\<close>

text \<open>
  C1: A submit request with well-formed fields packs, whatever orders Go ranges over its optional
  parameters in, to bytes whose header gives their number, and unpacking the part after the header
  gives the packet back, receivers, content and all optional parameters included.
\<close>

theorem submit_round_trip:
  assumes "submit_wf p" "iterates lenOrd (SmgpSubmitReqPkt.Options p)" "iterates wrOrd (SmgpSubmitReqPkt.Options p)"
  shows "\<exists>bs. snd (SmgpSubmitReqPkt_Pack lenOrd wrOrd seq p) = Inr bs \<and>
    take 4 bs = PutUint32 (of_nat (length bs)) \<and> take 4 (drop 4 bs) = PutUint32 SMGP_SUBMIT \<and>
    take 4 (drop 8 bs) = PutUint32 seq \<and>
    SmgpSubmitReqPkt_Unpack (SmgpSubmitReqPkt_new s) (drop 12 bs) =
      Some (p\<lparr>SmgpSubmitReqPkt.SequenceID := s\<rparr>, None)"
proof -
  note wf = assms(1) conjI [OF assms(2,3)]
  obtain bs where bs: "snd (SmgpSubmitReqPkt_Pack lenOrd wrOrd seq p) = Inr bs"
    using submit_req.pack_wf [OF conjI [OF wf]] by blast
  then show ?thesis
    using submit_req.pack_header [OF conjI [OF wf] bs] submit_req.unpack_pack [OF conjI [OF wf] bs] by auto
qed

theorem submit_round_trip_witness:
  "\<exists>bs. snd (SmgpSubmitReqPkt_Pack [TAG_PkNumber, TAG_PkTotal] [TAG_PkTotal, TAG_PkNumber] 7 submit_sample) = Inr bs \<and>
    SmgpSubmitReqPkt_Unpack (SmgpSubmitReqPkt_new 7) (drop 12 bs) =
      Some (submit_sample\<lparr>SmgpSubmitReqPkt.SequenceID := 7\<rparr>, None)"
  using submit_round_trip [OF submit_sample_wf submit_sample_order] by blast

text \<open>
  C2: A deliver request arrives with all its fields and optional parameters, except that its message
  identifier is cut at its first zero byte; a status report in it arrives decoded.
\<close>

theorem deliver_round_trip:
  assumes "deliver_wf p" "iterates lenOrd (SmgpDeliverReqPkt.Options p)" "iterates wrOrd (SmgpDeliverReqPkt.Options p)"
  shows "\<exists>bs. snd (SmgpDeliverReqPkt_Pack lenOrd wrOrd seq p) = Inr bs \<and>
    take 4 bs = PutUint32 (of_nat (length bs)) \<and>
    SmgpDeliverReqPkt_Unpack (SmgpDeliverReqPkt_new s) (drop 12 bs) =
      Some (p\<lparr>SmgpDeliverReqPkt.MsgID := msg_id_cut (SmgpDeliverReqPkt.MsgID p),
        SmgpDeliverReqPkt.SequenceID := s,
        MsgStatContent := (if IsReport p = 1 then DecodeDeliverMsgContent (SmgpDeliverReqPkt.MsgContent p) else None)\<rparr>, None)"
proof -
  note wf = conjI [OF assms(1) conjI [OF assms(2,3)]]
  obtain bs where bs: "snd (SmgpDeliverReqPkt_Pack lenOrd wrOrd seq p) = Inr bs"
    using deliver_req.pack_wf [OF wf] by blast
  then show ?thesis
    using deliver_req.pack_header [OF wf bs] deliver_req.unpack_pack [OF wf bs]
    by (auto simp: deliver_sent_def)
qed

theorem deliver_round_trip_witness:
  "\<exists>bs p'. snd (SmgpDeliverReqPkt_Pack [] [] 7 deliver_sample) = Inr bs \<and>
    SmgpDeliverReqPkt_Unpack (SmgpDeliverReqPkt_new 7) (drop 12 bs) = Some (p', None) \<and>
    SmgpDeliverReqPkt.SrcTermID p' = bytes_of ''8618012345678''"
proof -
  have "iterates [] (SmgpDeliverReqPkt.Options deliver_sample)"
    by (simp add: deliver_sample_def SmgpDeliverReqPkt.defs iterates_def)
  from deliver_round_trip [OF deliver_sample_wf this this, of 7 7] show ?thesis
    by (auto simp: deliver_sample_def SmgpDeliverReqPkt.defs)
qed

text \<open>
  C24: Every login request packs to a frame of 42 bytes, and the receiver finds in it the identifier
  padded to eight bytes, the authenticator over the identifier as given and the time stamp as given,
  the time stamp (the current time if it was zero), the mode and the version.
\<close>

theorem login_request_round_trip:
  "\<exists>bs. snd (SmgpLoginReqPkt_Pack now seq p) = Inr bs \<and> length bs = 42 \<and>
    take 4 bs = PutUint32 42 \<and>
    SmgpLoginReqPkt_Unpack (SmgpLoginReqPkt_new s) (drop 12 bs) =
      Some (SmgpLoginReqPkt.make (OctetString_Byte (ClientID p) 8)
        (md5_Sum (ClientID p @ replicate 7 0 @ SmgpLoginReqPkt.Secret p @ Sprintf_0d 10 (unat (TimeStamp p))))
        (LoginMode p) (if TimeStamp p = 0 then GenTimestamp now else TimeStamp p) (ClientVersion p) s [], None)"
proof -
  obtain bs where bs: "snd (SmgpLoginReqPkt_Pack now seq p) = Inr bs"
    using login_req.pack_wf by blast
  have "length bs = 42"
    using login_req.pack_length [OF TrueI bs] by (simp add: login_req_body_def login_auth_def)
  with bs show ?thesis
    using login_req.pack_header [OF TrueI bs] login_req.unpack_pack [OF TrueI bs]
    by (simp add: login_req_sent_def login_auth_def auth_client_def login_timestamp_def)
qed

lemma rejection_hashes_differ:
  "md5_Sum (21 # replicate 16 0 @ [49, 50, 51, 52, 53, 54, 55, 56]) \<noteq>
   md5_Sum (21 # replicate 7 0 @ replicate 16 0 @ [49, 50, 51, 52, 53, 54, 55, 56])"
  by code_simp

text \<open>
  C25: Every login response packs to a frame of 33 bytes. The receiver gets the status and the version as
  they were set, and as the authenticator sixteen bytes that \<^verbatim>\<open>Pack\<close> computes itself over the lowest byte
  of the status, the client's authenticator in sixteen bytes and the secret; an authenticator that the caller
  has set has no influence. This departs from the comment on \<open>GenAuthenticatorServer\<close> in two ways: the item is
  not empty in a rejection either, and its value is not the one of that function, which hashes eight bytes of
  status: there is a rejection of status 21 for which the two values differ.
\<close>

theorem login_response_round_trip:
  "(\<exists>bs auth. snd (SmgpLoginRespPkt_Pack seq p) = Inr bs \<and> length bs = 33 \<and> take 4 bs = PutUint32 33 \<and>
     take 4 (drop 4 bs) = PutUint32 SMGP_LOGIN_RESP \<and> take 4 (drop 8 bs) = PutUint32 seq \<and>
     snd (SmgpLoginRespPkt_Pack seq (p\<lparr>AuthenticatorServer := a\<rparr>)) = Inr bs \<and>
     auth = md5_Sum (ucast (SmgpLoginRespPkt.Status p) # OctetString_Byte (SmgpLoginRespPkt.AuthenticatorClient p) 16 @
       SmgpLoginRespPkt.Secret p) \<and> length auth = 16 \<and>
     SmgpLoginRespPkt_Unpack (SmgpLoginRespPkt_new s) (drop 12 bs) =
       Some (SmgpLoginRespPkt.make (SmgpLoginRespPkt.Status p) auth (ServerVersion p) [] [] s, None)) \<and>
   (\<exists>q bs q' auth. SmgpLoginRespPkt.Status q = 21 \<and> snd (SmgpLoginRespPkt_Pack seq q) = Inr bs \<and>
     SmgpLoginRespPkt_Unpack (SmgpLoginRespPkt_new s) (drop 12 bs) = Some (q', None) \<and>
     GenAuthenticatorServer (SmgpLoginRespPkt.Status q) (SmgpLoginRespPkt.Secret q) (SmgpLoginRespPkt.AuthenticatorClient q) = Inr auth \<and>
     AuthenticatorServer q' \<noteq> auth \<and> AuthenticatorServer q' \<noteq> [])"
  (is "?first \<and> ?second")
proof -
  have arrives: "\<exists>bs. snd (SmgpLoginRespPkt_Pack seq p) = Inr bs \<and> length bs = 33 \<and> take 4 bs = PutUint32 33 \<and>
      take 4 (drop 4 bs) = PutUint32 SMGP_LOGIN_RESP \<and> take 4 (drop 8 bs) = PutUint32 seq \<and>
      snd (SmgpLoginRespPkt_Pack seq (p\<lparr>AuthenticatorServer := a\<rparr>)) = Inr bs \<and>
      SmgpLoginRespPkt_Unpack (SmgpLoginRespPkt_new s) (drop 12 bs) = Some (login_resp_sent s p, None)" for p
  proof -
    have bs: "snd (SmgpLoginRespPkt_Pack seq p) = Inr (frame SMGP_LOGIN_RESP seq (login_resp_body p))"
      "snd (SmgpLoginRespPkt_Pack seq (p\<lparr>AuthenticatorServer := a\<rparr>)) = Inr (frame SMGP_LOGIN_RESP seq (login_resp_body p))"
      using login_resp.pack_wf by (simp_all add: login_resp_body_def login_resp_auth_def)
    have "length (frame SMGP_LOGIN_RESP seq (login_resp_body p)) = 33"
      using login_resp.pack_length [OF TrueI bs(1)] by (simp add: login_resp_body_def login_resp_auth_def)
    with bs show ?thesis
      using login_resp.pack_header [OF TrueI bs(1)] login_resp.unpack_pack [OF TrueI bs(1)] by auto
  qed
  let ?q = "SmgpLoginRespPkt.make 21 [] 0 [49, 50, 51, 52, 53, 54, 55, 56] (replicate 16 0) 0"
  have "LE32 21 = [21, 0, 0, 0]"
    by (simp add: LE32_def)
  moreover have "replicate 7 (0 :: byte) = [0, 0, 0] @ replicate 4 0"
    by (simp add: eval_nat_numeral)
  ultimately have "LE32 21 @ replicate 4 0 @ xs = 21 # replicate 7 0 @ xs" for xs
    by simp
  moreover have "login_resp_auth ?q = md5_Sum (21 # replicate 16 0 @ [49, 50, 51, 52, 53, 54, 55, 56])"
    by (simp add: login_resp_auth_def SmgpLoginRespPkt.defs)
  ultimately have differ: "login_resp_auth ?q \<noteq> md5_Sum (LE32 21 @ replicate 4 0 @ replicate 16 0 @ [49, 50, 51, 52, 53, 54, 55, 56])"
    using rejection_hashes_differ by metis
  have filled: "length (login_resp_auth q) = 16" for q
    by (simp add: login_resp_auth_def)
  from arrives [of p] filled [of p] have "?first"
    by (simp add: login_resp_sent_def login_resp_auth_def [of p])
  moreover have "GenAuthenticatorServer 21 [49, 50, 51, 52, 53, 54, 55, 56] (replicate 16 0) =
      Inr (md5_Sum (LE32 21 @ replicate 4 0 @ replicate 16 0 @ [49, 50, 51, 52, 53, 54, 55, 56]))"
    by (simp add: GenAuthenticatorServer_def)
  with arrives [of ?q] differ filled [of ?q] have "?second"
    by (intro exI [of _ ?q]) (auto simp: login_resp_sent_def SmgpLoginRespPkt.defs)
  ultimately show ?thesis ..
qed

text \<open>
  C26: Query requests and query responses with well-formed strings arrive unchanged.
\<close>

theorem query_round_trip:
  assumes "query_req_wf p" "query_resp_wf q"
  shows "\<exists>bs cs. snd (SmgpQueryReqPkt_Pack seq p) = Inr bs \<and> snd (SmgpQueryRespPkt_Pack seq q) = Inr cs \<and>
    SmgpQueryReqPkt_Unpack (SmgpQueryReqPkt_new s) (drop 12 bs) = Some (p\<lparr>SmgpQueryReqPkt.SequenceID := s\<rparr>, None) \<and>
    SmgpQueryRespPkt_Unpack (SmgpQueryRespPkt_new s) (drop 12 cs) = Some (q\<lparr>SmgpQueryRespPkt.SequenceID := s\<rparr>, None)"
  using assms query_req.pack_wf query_req.unpack_pack query_resp.pack_wf query_resp.unpack_pack by blast

theorem query_round_trip_witness:
  "\<exists>bs. snd (SmgpQueryReqPkt_Pack 3 (SmgpQueryReqPkt.make (bytes_of ''20030116'') 1 (bytes_of ''mc'') 0)) = Inr bs \<and>
    SmgpQueryReqPkt_Unpack (SmgpQueryReqPkt_new 3) (drop 12 bs) =
      Some (SmgpQueryReqPkt.make (bytes_of ''20030116'') 1 (bytes_of ''mc'') 3, None)"
proof -
  have "query_req_wf (SmgpQueryReqPkt.make (bytes_of ''20030116'') 1 (bytes_of ''mc'') 0)"
    "query_resp_wf (SmgpQueryRespPkt.make (bytes_of ''20030116'') 1 [] 1 2 3 4 5 6 7 8 [] 0)"
    by (simp_all add: query_req_wf_def query_resp_wf_def SmgpQueryReqPkt.defs SmgpQueryRespPkt.defs fits_def bytes_of_char)
  from query_round_trip [OF this, of 3 3] show ?thesis
    by (auto simp: SmgpQueryReqPkt.defs)
qed

section \<open>Errors and panics of the packets\<close>

text \<open>
  C34: Packing a submit, deliver or query packet fails exactly when one of its strings is longer than its
  field, with the error for invalid parameters, whatever the other fields hold.
\<close>

theorem pack_errors:
  "(snd (SmgpSubmitReqPkt_Pack lenOrd wrOrd seq p) = Inl e \<longleftrightarrow>
      \<not> submit_strings_fit p \<and> e = ErrMethodParamsInvalid) \<and>
   (snd (SmgpDeliverReqPkt_Pack lenOrd wrOrd seq q) = Inl e \<longleftrightarrow>
      \<not> (length (RecvTime q) \<le> 14 \<and> length (SmgpDeliverReqPkt.SrcTermID q) \<le> 21 \<and>
         length (SmgpDeliverReqPkt.DestTermID q) \<le> 21 \<and> length (SmgpDeliverReqPkt.Reserve q) \<le> 8) \<and>
      e = ErrMethodParamsInvalid) \<and>
   (snd (SmgpQueryReqPkt_Pack seq r) = Inl e \<longleftrightarrow>
      \<not> (length (SmgpQueryReqPkt.QueryTime r) \<le> 8 \<and> length (SmgpQueryReqPkt.QueryCode r) \<le> 10) \<and>
      e = ErrMethodParamsInvalid)"
  by (simp only: SmgpSubmitReqPkt_Pack_Inl SmgpDeliverReqPkt_Pack_Inl SmgpQueryReqPkt_Pack_Inl simp_thms)

text \<open>
  C18: Unpacking a submit body of any content: a panic exactly when it is shorter than the lengths in it
  demand; otherwise the error of the optional parameters after that point, or none and those parameters.
\<close>

theorem submit_unpack_outcome:
  "case SmgpSubmitReqPkt_Unpack p data of
     None \<Rightarrow> length data < submit_need data
   | Some (p', e) \<Rightarrow> submit_need data \<le> length data \<and>
       (case ParseOptions (drop (submit_need data) data) of
          Inl e' \<Rightarrow> e = Some e'
        | Inr ops \<Rightarrow> e = None \<and> SmgpSubmitReqPkt.Options p' = ops)"
  using SmgpSubmitReqPkt_Unpack_outcome [of data p] by (simp only: outcome_def)

text \<open>
  C19: The same for a deliver body, which also panics when it claims to be a status report and has less
  than 102 bytes of content.
\<close>

theorem deliver_unpack_outcome:
  "case SmgpDeliverReqPkt_Unpack p data of
     None \<Rightarrow> byte_at data 10 = 1 \<and> unat (byte_at data 68) < 102 \<or> length data < 77 + unat (byte_at data 68)
   | Some (p', e) \<Rightarrow> \<not> (byte_at data 10 = 1 \<and> unat (byte_at data 68) < 102) \<and>
       77 + unat (byte_at data 68) \<le> length data \<and>
       (case ParseOptions (drop (77 + unat (byte_at data 68)) data) of
          Inl e' \<Rightarrow> e = Some e'
        | Inr ops \<Rightarrow> e = None \<and> SmgpDeliverReqPkt.Options p' = ops)"
  using SmgpDeliverReqPkt_Unpack_outcome [of data p] by (simp only: outcome_def short_report_def deliver_need_def)

definition error_below :: "nat \<Rightarrow> byte list \<Rightarrow> ('p \<times> error option) option \<Rightarrow> bool" where
  "error_below n data m \<longleftrightarrow> (\<exists>p e. m = Some (p, e) \<and> (e = None \<longleftrightarrow> n \<le> length data))"

text \<open>
  C35: The fixed-size packets: unpacking never panics, and reports an error exactly when the body is
  shorter than the packet.
\<close>

theorem fixed_unpack_outcome:
  "error_below 30 data (SmgpLoginReqPkt_Unpack p1 data) \<and> error_below 21 data (SmgpLoginRespPkt_Unpack p2 data) \<and>
   error_below 19 data (SmgpQueryReqPkt_Unpack p3 data) \<and> error_below 59 data (SmgpQueryRespPkt_Unpack p4 data) \<and>
   error_below 14 data (SmgpSubmitRespPkt_Unpack p5 data) \<and> error_below 14 data (SmgpDeliverRespPkt_Unpack p6 data)"
  using SmgpLoginReqPkt_Unpack_outcome [of data p1] SmgpLoginRespPkt_Unpack_outcome [of data p2]
    SmgpQueryReqPkt_Unpack_outcome [of data p3] SmgpQueryRespPkt_Unpack_outcome [of data p4]
    SmgpSubmitRespPkt_Unpack_outcome [of data p5] SmgpDeliverRespPkt_Unpack_outcome [of data p6]
  unfolding error_below_def outcome_def by (intro conjI)

text \<open>
  C38: The exit packets are written byte for byte as the active test packets, so the receiver takes them
  for those: no exit packet ever arrives from this implementation.
\<close>

theorem exit_packed_as_active_test:
  "snd (SmgpExitReqPkt_Pack seq p) = snd (SmgpActiveTestReqPkt_Pack seq q) \<and>
   snd (SmgpExitRespPkt_Pack seq p') = snd (SmgpActiveTestRespPkt_Pack seq q') \<and>
   snd (SmgpExitReqPkt_Pack seq p) = Inr (frame SMGP_ACTIVE_TEST seq []) \<and>
   decode_packet SMGP_ACTIVE_TEST seq [] = Some (Inr (ActiveTestReq (SmgpActiveTestReqPkt.make seq)))"
proof -
  have "decode_packet SMGP_ACTIVE_TEST seq [] = Some (Inr (ActiveTestReq (SmgpActiveTestReqPkt.make seq)))"
    using decode_packet_body [of undefined "ActiveTestReq undefined" seq] by simp
  then show ?thesis
    by (simp add: exit_req.pack_wf exit_resp.pack_wf active_req.pack_wf active_resp.pack_wf)
qed

section \<open>Optional parameters\<close>

text \<open>
  C14: \<open>ParseOptions\<close> accepts exactly the concatenations of well-formed parameters, of which a later one
  replaces an earlier one with the same tag; it refuses everything else with the error for a wrong length.
\<close>

theorem ParseOptions_iff:
  "(ParseOptions raw = Inr ops \<longleftrightarrow>
     (\<exists>vs. raw = concat (map tlv_bytes vs) \<and> list_all tlv_wf vs \<and> ops = map_of (rev (map (\<lambda>v. (Tag v, v)) vs)))) \<and>
   (ParseOptions raw = Inl e \<longleftrightarrow> e = ErrLength \<and> \<not> (\<exists>vs. raw = concat (map tlv_bytes vs) \<and> list_all tlv_wf vs))"
proof -
  have fold: "fold store_tlv vs m = m ++ map_of (rev (map (\<lambda>v. (Tag v, v)) vs))" for vs m
    by (induction vs arbitrary: m) (auto simp: store_tlv_def map_add_upd_left map_add_def fun_eq_iff split: option.split)
  have sound: "\<exists>vs. raw = concat (map tlv_bytes vs) \<and> list_all tlv_wf vs \<and> ops = fold store_tlv vs Map.empty"
    if "ParseOptions raw = Inr ops" for ops
    using parse_tlvs_sound [of raw Map.empty ops] that by (auto simp: ParseOptions_eq list_all_iff)
  have complete: "ParseOptions (concat (map tlv_bytes vs)) = Inr (fold store_tlv vs Map.empty)"
    if "list_all tlv_wf vs" for vs
    using parse_tlvs_all [of vs "[]" Map.empty] that by (simp add: ParseOptions_eq list_all_iff)
  have error: "parse_tlvs r m = Inl e' \<Longrightarrow> e' = ErrLength" for r m e'
    by (induction r m rule: parse_tlvs.induct) (auto simp: Let_def split: if_splits)
  show ?thesis
  proof (intro conjI iffI)
    assume "ParseOptions raw = Inr ops"
    from sound [OF this] show "\<exists>vs. raw = concat (map tlv_bytes vs) \<and> list_all tlv_wf vs \<and>
        ops = map_of (rev (map (\<lambda>v. (Tag v, v)) vs))"
      by (simp add: fold)
  next
    assume "ParseOptions raw = Inl e"
    then show "e = ErrLength" "\<not> (\<exists>vs. raw = concat (map tlv_bytes vs) \<and> list_all tlv_wf vs)"
      using error complete by (auto simp: ParseOptions_eq)
  next
    assume "e = ErrLength \<and> \<not> (\<exists>vs. raw = concat (map tlv_bytes vs) \<and> list_all tlv_wf vs)"
    then show "ParseOptions raw = Inl e"
      using sound error [of raw Map.empty] by (cases "ParseOptions raw") (auto simp: ParseOptions_eq)
  qed (use complete in \<open>auto simp: fold\<close>)
qed

text \<open>
  C15: Whatever orders Go ranges over the map in, the length announced is the number of bytes written,
  and parsing the bytes gives the map back.
\<close>

theorem options_round_trip:
  assumes "options_wf ops" "iterates lenOrd ops" "iterates wrOrd ops"
  shows "\<exists>bs. WriteOptions wrOrd ops (newPkgWriter n) = \<lparr>w_b = bs, w_err = None\<rparr> \<and>
    int (length bs) = Options_Len lenOrd ops \<and> ParseOptions bs = Inr ops"
  using length_options_bytes [OF assms(3,2,1)] ParseOptions_ranged [OF assms(3,1)]
  by (simp add: wire_simps del: length_concat)

theorem options_round_trip_witness:
  "\<exists>bs. int (length bs) = Options_Len [TAG_PkNumber, TAG_PkTotal] (SmgpSubmitReqPkt.Options submit_sample) \<and>
    ParseOptions bs = Inr (SmgpSubmitReqPkt.Options submit_sample)"
  using options_round_trip [OF _ submit_sample_order] submit_sample_wf unfolding submit_wf_def by blast

section \<open>Long messages\<close>

text \<open>
  C16: A text of more than 140 bytes is split without a panic into as many parts as 134-byte pieces
  cover it. No part is longer than 140 bytes, all carry the same reference number, which the next message
  does not use, and a receiver who sorts the parts by their numbers gets the text back, in whatever order
  they arrive. The bound is what the part number of one byte can count.
\<close>

theorem long_sms_reassembly:
  assumes "140 < length content" "length content \<le> 34170"
  shows "\<exists>chunks. SplitLongSms ref content = Some (chunks, ref + 1) \<and> length chunks = (length content + 133) div 134 \<and>
    list_all (\<lambda>c. length c \<le> 140 \<and> take 4 c = [5, 0, 3, ref] \<and> c ! 4 = of_nat (length chunks)) chunks \<and>
    (\<forall>cs. mset cs = mset chunks \<longrightarrow> reassemble cs = content)"
proof -
  let ?cs = "map (chunk_of ref content) [0..<parts (length content)]"
  have "SplitLongSms ref content = Some (?cs, ref + 1)"
    using assms(1) by (simp add: SplitLongSms_eq)
  moreover have "length ?cs = (length content + 133) div 134"
    using assms(1) by (simp add: parts_def)
  moreover have "list_all (\<lambda>c. length c \<le> 140 \<and> take 4 c = [5, 0, 3, ref] \<and> c ! 4 = of_nat (length ?cs)) ?cs"
    using length_chunk_of [OF assms(1)] by (auto simp: list_all_iff chunk_of_def)
  moreover have "\<forall>cs. mset cs = mset ?cs \<longrightarrow> reassemble cs = content"
    using reassemble_chunks [OF assms(1)] assms(2) by simp
  ultimately show ?thesis by blast
qed

theorem long_sms_reassembly_witness:
  "\<exists>chunks. SplitLongSms 0 (replicate 300 65) = Some (chunks, 1) \<and> length chunks = 3 \<and>
    reassemble (rev chunks) = replicate 300 65"
  using long_sms_reassembly [of "replicate 300 65" 0] by fastforce

text \<open>
  C17: The packets that \<open>GetMsgPkgs\<close> makes of a template with well-formed fields carry the parts of the
  converted text, in order; each has at most 140 bytes of content in the 16-bit encoding, says so in its
  length field, and is well-formed: it packs and arrives.
\<close>

theorem long_sms_packets:
  assumes "GetMsgPkgs utf16_encoder ref pkg = Some (Inr ps, ref')" "template_wf pkg"
  shows "\<exists>content. Utf8ToUcs2 utf16_encoder (SmgpSubmitReqPkt.MsgContent pkg) = Inr content \<and>
    SplitLongSms ref content = Some (map SmgpSubmitReqPkt.MsgContent ps, ref') \<and>
    list_all (\<lambda>p. submit_wf p \<and> length (SmgpSubmitReqPkt.MsgContent p) \<le> 140 \<and>
      SmgpSubmitReqPkt.MsgFormat p = UCS2 \<and>
      SmgpSubmitReqPkt.DestTermID p = SmgpSubmitReqPkt.DestTermID pkg) ps"
proof -
  obtain content chunks u where c: "Utf8ToUcs2 utf16_encoder (SmgpSubmitReqPkt.MsgContent pkg) = Inr content"
    "SplitLongSms ref content = Some (chunks, ref')" and ps: "ps = msg_pkgs pkg u (length chunks) 0 chunks"
    using assms(1) by (rule GetMsgPkgs_chunks)
  have "list_all (\<lambda>p. submit_wf p \<and> length (SmgpSubmitReqPkt.MsgContent p) \<le> 140 \<and>
      SmgpSubmitReqPkt.MsgFormat p = UCS2 \<and>
      SmgpSubmitReqPkt.DestTermID p = SmgpSubmitReqPkt.DestTermID pkg) ps"
    using GetMsgPkgs_wf [OF assms]
    by (auto simp: list_all_iff ps msg_pkg_def SmgpSubmitReqPkt.defs dest: set_msg_pkgs)
  with c ps show ?thesis by (simp add: contents_msg_pkgs)
qed

theorem long_sms_packets_witness:
  "\<exists>ps. GetMsgPkgs (\<lambda>s. Inr (concat (map (\<lambda>b. [0, b]) s))) 0
      (submit_sample\<lparr>SmgpSubmitReqPkt.MsgContent := replicate 100 65\<rparr>) = Some (Inr ps, 1) \<and>
    list_all submit_wf ps \<and> length ps = 2"
proof -
  let ?pkg = "submit_sample\<lparr>SmgpSubmitReqPkt.MsgContent := replicate 100 65\<rparr>"
  let ?enc = "\<lambda>s. Inr (concat (map (\<lambda>b. [0, b]) s)) :: error + byte list"
  have valid: "ValidString (replicate n 65)" for n
    by (induction n) simp_all
  have wf: "template_wf ?pkg"
    using submit_sample_wf by (simp add: template_wf_def submit_wf_def options_wf_def)
  have "length (concat (map (\<lambda>b. [0, b]) (replicate 100 65)) :: byte list) = 200"
    by (simp add: length_concat comp_def sum_list_replicate)
  then obtain ps where ps: "GetMsgPkgs ?enc 0 ?pkg = Some (Inr ps, 1)" "length ps = 2"
    by (auto simp: GetMsgPkgs_def Utf8ToUcs2_def valid SplitLongSms_eq length_msg_pkgs parts_def Let_def
        simp del: concat_map_singleton map_replicate)
  from long_sms_packets [OF ps(1) wf] ps show ?thesis
    by (auto simp: list_all_iff)
qed

section \<open>Identifiers and time stamps\<close>

text \<open>
  C28: A message identifier made at a valid time, with a sequence number below \<^verbatim>\<open>2 ^ 24\<close> and a gateway
  code that is not negative, has twenty hexadecimal places. A submit response that carries it packs, and
  unpacking the part after the header gives the identifier and the status back unchanged; \<open>UnpackMsgId\<close> prints
  the numbers the identifier was made of.
\<close>

theorem msg_id_round_trip:
  assumes "valid_time now" "0 \<le> gateway_code sp" "unat num < 2 ^ 24" "SmgpSubmitRespPkt.MsgID p = GenMsgID now sp num"
  shows "length (GenMsgID now sp num) = 20 \<and>
    (\<exists>bs. snd (SmgpSubmitRespPkt_Pack seq p) = Inr bs \<and>
      SmgpSubmitRespPkt_Unpack (SmgpSubmitRespPkt_new s) (drop 12 bs) =
        Some (SmgpSubmitRespPkt.make (GenMsgID now sp num) (SmgpSubmitRespPkt.Status p) s, None)) \<and>
    UnpackMsgId (GenMsgID now sp num) = Some (bytes_of ''spId: '' @
       OctetString_FixedString (Itoa (gateway_code sp)) 6 @
       bytes_of '', month: '' @ digits 10 (month now) @ bytes_of '', day: '' @ digits 10 (day now) @
       bytes_of '', hour: '' @ digits 10 (hour now) @ bytes_of '', min: '' @ digits 10 (minute now) @
       bytes_of '', seqNum: '' @ digits 10 (unat num) @ bytes_of '', '')"
proof (intro conjI)
  show len: "length (GenMsgID now sp num) = 20"
    using assms by (intro length_GenMsgID)
  have "msg_id_sent (GenMsgID now sp num) = GenMsgID now sp num"
    using assms(2) len by (intro msg_id_sent_id hex_string_GenMsgID)
  moreover obtain bs where "snd (SmgpSubmitRespPkt_Pack seq p) = Inr bs"
    using submit_resp.pack_wf by blast
  ultimately show "\<exists>bs. snd (SmgpSubmitRespPkt_Pack seq p) = Inr bs \<and>
      SmgpSubmitRespPkt_Unpack (SmgpSubmitRespPkt_new s) (drop 12 bs) =
        Some (SmgpSubmitRespPkt.make (GenMsgID now sp num) (SmgpSubmitRespPkt.Status p) s, None)"
    using submit_resp.unpack_pack [OF TrueI] assms(4) by (simp add: submit_resp_sent_def)
  have range: "gateway_code sp < 2 ^ 24" "uint num < 2 ^ 24" "nat (uint num) = unat num"
    using ParseInt_24_bounds [of sp] assms(3) by (auto simp: gateway_code_def uint_nat_less)
  have two: "length (Sprintf_0d 2 n) = 2" if "n < 100" for n
    using that by (simp add: length_Sprintf_0d)
  show "UnpackMsgId (GenMsgID now sp num) = Some (bytes_of ''spId: '' @
       OctetString_FixedString (Itoa (gateway_code sp)) 6 @
       bytes_of '', month: '' @ digits 10 (month now) @ bytes_of '', day: '' @ digits 10 (day now) @
       bytes_of '', hour: '' @ digits 10 (hour now) @ bytes_of '', min: '' @ digits 10 (minute now) @
       bytes_of '', seqNum: '' @ digits 10 (unat num) @ bytes_of '', '')"
    unfolding GenMsgID_def Let_def gateway_code_def [symmetric]
    using assms range
    by (subst UnpackMsgId_pieces) (auto simp: length_Sprintf_06x two ParseUint_Sprintf valid_time_def)
qed

lemma gateway_code_sample: "gateway_code (bytes_of ''10061'') = 10061"
  by (simp add: bytes_of_char gateway_code_def ParseInt_def ParseUint_def digit_val_def)

theorem msg_id_round_trip_witness:
  "\<exists>bs. snd (SmgpSubmitRespPkt_Pack 7 (SmgpSubmitRespPkt.make (GenMsgID clock_sample (bytes_of ''10061'') 12345) 0 0)) = Inr bs \<and>
    SmgpSubmitRespPkt_Unpack (SmgpSubmitRespPkt_new 7) (drop 12 bs) =
      Some (SmgpSubmitRespPkt.make (GenMsgID clock_sample (bytes_of ''10061'') 12345) 0 7, None)"
  using msg_id_round_trip [OF clock_sample_valid, of "bytes_of ''10061''" 12345
      "SmgpSubmitRespPkt.make (GenMsgID clock_sample (bytes_of ''10061'') 12345) 0 0" 7 7]
  by (simp add: gateway_code_sample SmgpSubmitRespPkt.defs)

lemma DecodeString_append: "even (length s) \<Longrightarrow> hex_string s \<Longrightarrow> DecodeString (s @ t) = DecodeString s @ DecodeString t"
  by (induction s rule: DecodeString.induct) (auto simp: hex_string_def)

lemma length_takeWhile_le: "length (takeWhile P (xs @ x # ys)) \<le> length xs" if "\<not> P x"
  using that by (induction xs) auto

text \<open>An identifier of the first hour of a day, cut at its first zero byte.\<close>

lemma msg_id_cut_midnight:
  assumes "valid_time now" "hour now = 0" "0 \<le> gateway_code sp" "unat seq < 2 ^ 24"
  shows "length (GenMsgID now sp seq) = 20 \<and> length (msg_id_cut (GenMsgID now sp seq)) \<le> 10"
proof
  show len: "length (GenMsgID now sp seq) = 20"
    using assms by (intro length_GenMsgID)
  let ?front = "Sprintf_0x 6 (gateway_code sp) @ Sprintf_0d 2 (month now) @ Sprintf_0d 2 (day now)"
  let ?rest = "Sprintf_0d 2 (minute now) @ Sprintf_0x 6 (uint seq)"
  have "gateway_code sp < 2 ^ 24"
    using ParseInt_24_bounds [of sp] by (simp add: gateway_code_def)
  then have front: "length ?front = 10" "hex_string ?front"
    using assms by (simp_all add: length_Sprintf_06x length_Sprintf_0d valid_time_def hex_string_Sprintf)
  have zero: "Sprintf_0d 2 (hour now) = [48, 48]"
    using assms(2) by (simp add: Sprintf_0d_def pad0_def digits.simps digit_char_def)
  have "GenMsgID now sp seq = ?front @ [48, 48] @ ?rest"
    by (simp add: GenMsgID_def gateway_code_def [symmetric] zero Let_def)
  moreover have "even (length ?front)"
    unfolding front(1) by simp
  ultimately have "DecodeString (GenMsgID now sp seq) = DecodeString ?front @ DecodeString ([48, 48] @ ?rest)"
    using DecodeString_append [of ?front "[48, 48] @ ?rest"] front(2) by (simp only:)
  also have "DecodeString ([48, 48] @ ?rest) = 0 # DecodeString ?rest"
    by (simp add: fromHexChar_def digit_val_def)
  finally have eq: "DecodeString (GenMsgID now sp seq) = DecodeString ?front @ 0 # DecodeString ?rest" .
  have "length (DecodeString (GenMsgID now sp seq)) = 10"
    using len hex_string_GenMsgID [OF assms(3)] by (simp add: length_DecodeString_hex)
  then show "length (msg_id_cut (GenMsgID now sp seq)) \<le> 10"
    using length_takeWhile_le [of "\<lambda>b. b \<noteq> 0" 0 "DecodeString ?front" "DecodeString ?rest"] front
    by (simp add: msg_id_cut_def eq [symmetric] length_DecodeString_hex)
qed

text \<open>
  C29: A message identifier made in the first hour of a day does not survive a deliver request: the packet
  packs and unpacks without an error, and the receiver is left with at most ten of the twenty hexadecimal places,
  those in front of the zero byte for the hour.
\<close>

theorem deliver_cuts_msg_id:
  assumes "valid_time now" "hour now = 0" "0 \<le> gateway_code sp" "unat num < 2 ^ 24"
    "deliver_wf p" "iterates lenOrd (SmgpDeliverReqPkt.Options p)" "iterates wrOrd (SmgpDeliverReqPkt.Options p)"
    "SmgpDeliverReqPkt.MsgID p = GenMsgID now sp num"
  shows "length (SmgpDeliverReqPkt.MsgID p) = 20 \<and>
    (\<exists>bs p'. snd (SmgpDeliverReqPkt_Pack lenOrd wrOrd seq p) = Inr bs \<and>
      SmgpDeliverReqPkt_Unpack (SmgpDeliverReqPkt_new s) (drop 12 bs) = Some (p', None) \<and>
      length (SmgpDeliverReqPkt.MsgID p') \<le> 10)"
proof -
  note wf = conjI [OF assms(5) conjI [OF assms(6,7)]]
  obtain bs where bs: "snd (SmgpDeliverReqPkt_Pack lenOrd wrOrd seq p) = Inr bs"
    using deliver_req.pack_wf [OF wf] by blast
  from deliver_req.unpack_pack [OF wf bs] bs msg_id_cut_midnight [OF assms(1-4)] assms(8) show ?thesis
    by (auto simp: deliver_sent_def)
qed

theorem deliver_cuts_msg_id_witness:
  "\<exists>bs p'. snd (SmgpDeliverReqPkt_Pack [] [] 7 (deliver_sample\<lparr>SmgpDeliverReqPkt.MsgID :=
      GenMsgID (clock_sample\<lparr>hour := 0\<rparr>) (bytes_of ''10061'') 12345\<rparr>)) = Inr bs \<and>
    SmgpDeliverReqPkt_Unpack (SmgpDeliverReqPkt_new 7) (drop 12 bs) = Some (p', None) \<and>
    SmgpDeliverReqPkt.MsgID p' \<noteq> GenMsgID (clock_sample\<lparr>hour := 0\<rparr>) (bytes_of ''10061'') 12345"
proof -
  let ?id = "GenMsgID (clock_sample\<lparr>hour := 0\<rparr>) (bytes_of ''10061'') 12345"
  let ?p = "deliver_sample\<lparr>SmgpDeliverReqPkt.MsgID := ?id\<rparr>"
  have time: "valid_time (clock_sample\<lparr>hour := 0\<rparr>)"
    by (simp add: clock_sample_def valid_time_def)
  have "deliver_wf ?p" "iterates [] (SmgpDeliverReqPkt.Options ?p)"
    using deliver_sample_wf by (simp_all add: deliver_wf_def deliver_sample_def SmgpDeliverReqPkt.defs iterates_def)
  then obtain bs p' where "length ?id = 20" "snd (SmgpDeliverReqPkt_Pack [] [] 7 ?p) = Inr bs"
    "SmgpDeliverReqPkt_Unpack (SmgpDeliverReqPkt_new 7) (drop 12 bs) = Some (p', None)"
    "length (SmgpDeliverReqPkt.MsgID p') \<le> 10"
    using deliver_cuts_msg_id [OF time, of "bytes_of ''10061''" 12345 ?p "[]" "[]" 7 7] by (auto simp: gateway_code_sample)
  moreover from this have "SmgpDeliverReqPkt.MsgID p' \<noteq> ?id" by auto
  ultimately show ?thesis by blast
qed

text \<open>
  C27: A status report whose pieces have the widths of the protocol is read back as it was written, with
  a text of any length; reading panics exactly on contents of less than 102 bytes.
\<close>

theorem status_report_round_trip:
  assumes "report_wf p"
  shows "DecodeDeliverMsgContent (Encode p) = Some p \<and> length (Encode p) = 102 + length (Txt p) \<and>
    (DecodeDeliverMsgContent data = None \<longleftrightarrow> length data < 102)"
  using DecodeDeliverMsgContent_Encode [OF assms] length_Encode [OF assms] DecodeDeliverMsgContent_panics_iff by simp

theorem status_report_round_trip_witness: "DecodeDeliverMsgContent (Encode report_sample) = Some report_sample"
  using status_report_round_trip [OF report_sample_wf] by simp

text \<open>
  Printing a request identifier panics exactly for zero, for the identifiers 16 up to the first
  response, and for three identifiers behind the last response that has a name.
\<close>

theorem RequestID_String_panics:
  "RequestID_String rid = None \<longleftrightarrow>
   rid = 0 \<or> 16 \<le> rid \<and> rid \<le> 0x80000000 \<or> 0x80000010 \<le> rid \<and> rid \<le> 0x80000012"
  by (simp add: RequestID_String_def go_index_def request_defs word_le_nat_alt word_less_nat_alt unat_eq_0 [symmetric]
      unat_sub_if_size word_size; presburger)

end
