(* ===== verification/Sequence.thy ===== *)
theory Sequence
  imports Prelude
begin

text \<open>
  The two number generators of \<^verbatim>\<open>pkg/connection.go\<close>. Each is a goroutine that offers its current
  number on an unbuffered channel and moves on when a receiver takes it, until the channel \<^verbatim>\<open>done\<close>
  is closed; then it closes its output, from which receivers get zero ever after. Between the
  closing of \<^verbatim>\<open>done\<close> and the exit of the goroutine both cases of its \<^verbatim>\<open>select\<close> may be chosen.

  \<open>gen_step\<close> is the step relation of such a generator with everybody who uses it, and \<open>gen_recv\<close> the
  receive operation as a function, given whether the goroutine has noticed \<^verbatim>\<open>done\<close> by then.
  The locale \<open>generator\<close> is the contract both generators keep.
\<close>

section \<open>The goroutine\<close>

record gen =
  g_next :: u32
  g_done :: bool
  g_closed :: bool

datatype gen_event = Recv u32 | CloseDone | Exit

inductive gen_step :: "(u32 \<Rightarrow> u32) \<Rightarrow> gen \<Rightarrow> gen_event \<Rightarrow> gen \<Rightarrow> bool"
  for advance :: "u32 \<Rightarrow> u32" where
  offer: "\<not> g_closed g \<Longrightarrow> gen_step advance g (Recv (g_next g)) (g\<lparr>g_next := advance (g_next g)\<rparr>)"
| close_done: "\<not> g_done g \<Longrightarrow> gen_step advance g CloseDone (g\<lparr>g_done := True\<rparr>)"
| exit: "g_done g \<Longrightarrow> \<not> g_closed g \<Longrightarrow> gen_step advance g Exit (g\<lparr>g_closed := True\<rparr>)"
| recv_closed: "g_closed g \<Longrightarrow> gen_step advance g (Recv 0) g"

inductive_cases gen_stepE: "gen_step advance g ev g'"

inductive gen_run :: "(u32 \<Rightarrow> u32) \<Rightarrow> gen \<Rightarrow> gen_event list \<Rightarrow> gen \<Rightarrow> bool"
  for advance :: "u32 \<Rightarrow> u32" where
  nil: "gen_run advance g [] g"
| snoc: "gen_run advance g evs g' \<Longrightarrow> gen_step advance g' ev g'' \<Longrightarrow> gen_run advance g (evs @ [ev]) g''"

definition gen_recv :: "(u32 \<Rightarrow> u32) \<Rightarrow> bool \<Rightarrow> gen \<Rightarrow> u32 \<times> gen" where
  "gen_recv advance noticed g =
     (if g_closed g then (0, g)
      else if g_done g \<and> noticed then (0, g\<lparr>g_closed := True\<rparr>)
      else (g_next g, g\<lparr>g_next := advance (g_next g)\<rparr>))"

text \<open>Closing a closed channel is a panic.\<close>

definition gen_close_done :: "gen \<Rightarrow> gen option" where
  "gen_close_done g = (if g_done g then None else Some (g\<lparr>g_done := True\<rparr>))"

text \<open>
  \<^verbatim>\<open>newSequenceIDGenerator\<close> and \<^verbatim>\<open>newSequenceNumGenerator\<close>: the random start value is an argument, and
  so is what the latter's \<^verbatim>\<open>rand.Intn(999999)\<close> returns.
\<close>

definition next_id :: "u32 \<Rightarrow> u32" where
  "next_id i = i + 1"

definition newSequenceIDGenerator :: "u32 \<Rightarrow> gen" where
  "newSequenceIDGenerator rand = \<lparr>g_next = rand, g_done = False, g_closed = False\<rparr>"

definition next_num :: "u32 \<Rightarrow> u32" where
  "next_num i = (i + 1) mod 1000000"

definition newSequenceNumGenerator :: "nat \<Rightarrow> gen" where
  "newSequenceNumGenerator rand = \<lparr>g_next = of_nat rand, g_done = False, g_closed = False\<rparr>"

section \<open>The contract\<close>

lemma gen_recv_run:
  assumes "gen_recv advance noticed g = (v, g')"
  shows "gen_step advance g (Recv v) g' \<or> (\<exists>g1. gen_step advance g Exit g1 \<and> gen_step advance g1 (Recv v) g')"
  using assms
  by (fastforce simp: gen_recv_def split: if_splits intro: gen_step.intros)

fun received :: "gen_event list \<Rightarrow> u32 list" where
  "received [] = []"
| "received (Recv v # evs) = v # received evs"
| "received (CloseDone # evs) = received evs"
| "received (Exit # evs) = received evs"

lemma received_append [simp]: "received (evs @ evs') = received evs @ received evs'"
  by (induction evs rule: received.induct) auto

lemma gen_run_exit_last:
  assumes "gen_run advance g evs g'" "\<not> g_closed g"
  shows "g_closed g' \<longleftrightarrow> Exit \<in> set evs"
  using assms by (induction rule: gen_run.induct) (auto elim: gen_stepE)

lemma mod_add_inj:
  fixes a x y p :: nat
  assumes "(a + x) mod p = (a + y) mod p" "x < p" "y < p"
  shows "x = y"
proof -
  have "int p dvd int x - int y"
    using assms(1) by (metis add_diff_cancel_left mod_eq_dvd_iff of_nat_add of_nat_mod)
  moreover have "\<bar>int x - int y\<bar> < int p"
    using assms(2,3) by simp
  ultimately show ?thesis
    by (metis dvd_imp_le_int abs_of_nat linorder_not_less of_nat_eq_iff right_minus_eq)
qed

text \<open>
  A generator counts: \<open>value\<close> numbers its outputs, and \<open>period\<close> is where it starts again.
\<close>

locale generator =
  fixes advance :: "u32 \<Rightarrow> u32" and period :: nat
  assumes period_pos: "0 < period" and period_le: "period \<le> 2 ^ 32"
    and advance_value: "unat i < period \<Longrightarrow> unat (advance i) = (unat i + 1) mod period"
begin

lemma value_range: "unat i < period \<Longrightarrow> unat (advance i) < period"
  using period_pos by (simp add: advance_value)

lemma value_pow: "unat i < period \<Longrightarrow> unat ((advance ^^ n) i) = (unat i + n) mod period"
  by (induction n) (simp_all add: advance_value period_pos mod_Suc_eq)

text \<open>The outputs of a run up to its exit are the consecutive values from the first one on.\<close>

lemma received_run:
  assumes "gen_run advance g evs g'" "\<not> g_closed g"
  shows "\<exists>n m. received evs = map (\<lambda>k. (advance ^^ k) (g_next g)) [0..<n] @ replicate m 0 \<and>
    (\<not> g_closed g' \<longrightarrow> m = 0) \<and> g_next g' = (advance ^^ n) (g_next g)"
  using assms
proof (induction rule: gen_run.induct)
  case (snoc g evs g' ev g'')
  then obtain n m where IH: "received evs = map (\<lambda>k. (advance ^^ k) (g_next g)) [0..<n] @ replicate m 0"
    "\<not> g_closed g' \<longrightarrow> m = 0" "g_next g' = (advance ^^ n) (g_next g)" by blast
  from snoc.hyps(2) show ?case
  proof cases
    case offer
    with IH show ?thesis by (intro exI [of _ "Suc n"] exI [of _ 0]) auto
  next
    case recv_closed
    with IH show ?thesis
      by (intro exI [of _ n] exI [of _ "Suc m"]) (auto simp: replicate_append_same)
  qed (use IH in \<open>intro exI [of _ n] exI [of _ m]; auto\<close>)+
qed auto

lemma received_distinct:
  assumes "gen_run advance g evs g'" "\<not> g_closed g" "unat (g_next g) < period" "\<not> g_closed g'"
    "length (received evs) \<le> period"
  shows "distinct (received evs)"
proof -
  from received_run [OF assms(1,2)] assms(4) obtain n
    where eq: "received evs = map (\<lambda>k. (advance ^^ k) (g_next g)) [0..<n]" by auto
  have "inj_on (\<lambda>k. (advance ^^ k) (g_next g)) {0..<n}"
  proof (rule inj_onI)
    fix x y
    assume xy: "x \<in> {0..<n}" "y \<in> {0..<n}" and "(advance ^^ x) (g_next g) = (advance ^^ y) (g_next g)"
    then have "(unat (g_next g) + x) mod period = (unat (g_next g) + y) mod period"
      using value_pow [OF assms(3)] by metis
    with xy assms(5) eq show "x = y" by (auto intro: mod_add_inj)
  qed
  then show ?thesis by (simp add: eq distinct_map)
qed

lemma received_range:
  assumes "gen_run advance g evs g'" "\<not> g_closed g" "unat (g_next g) < period" "v \<in> set (received evs)"
  shows "unat v < period"
proof -
  from received_run [OF assms(1,2)] obtain n m where
    "received evs = map (\<lambda>k. (advance ^^ k) (g_next g)) [0..<n] @ replicate m 0" by blast
  with assms(4) show ?thesis
    using value_pow [OF assms(3)] period_pos by auto
qed

end

interpretation seq_id: generator next_id "2 ^ 32"
proof
  fix i :: u32
  show "unat (next_id i) = (unat i + 1) mod 2 ^ 32"
    by (simp add: next_id_def unat_word_ariths)
qed simp_all

interpretation seq_num: generator next_num 1000000
proof
  fix i :: u32
  assume "unat i < 1000000"
  then show "unat (next_num i) = (unat i + 1) mod 1000000"
    by (simp add: next_num_def unat_mod unat_word_ariths)
qed simp_all

lemma newSequenceNumGenerator_range:
  "rand < 999999 \<Longrightarrow> unat (g_next (newSequenceNumGenerator rand)) < 1000000"
  by (simp add: newSequenceNumGenerator_def unat_of_nat)

end
