(* ===== verification/Connection.thy ===== *)
theory Connection
  imports Packets Sequence
begin

text \<open>
  \<^verbatim>\<open>pkg/connection.go\<close>: the connection with its two number generators, the framing of packets on
  the byte stream, and the life cycle from \<^verbatim>\<open>NewConnection\<close> to \<^verbatim>\<open>Close\<close>.

  The operating system's TCP connection behind \<^verbatim>\<open>net.Conn\<close> is the record \<open>net\<close>. Its input is the
  stream of what will happen to the reader: a byte arrives, nothing arrives for as long as the
  longest time-out of the program (\<open>Silence\<close>: a read with a deadline fails with a time-out there, one
  without goes on waiting), or a read fails. The end of the list is the peer's end of file.
  \<open>n_wfail\<close> says how the next writes end: completely, or with an error after some bytes.
\<close>

section \<open>The network connection\<close>

datatype net_item = Data byte | Silence | NetFault gostring

record net =
  n_in :: "net_item list"
  n_out :: "byte list"
  n_wfail :: "(nat \<times> gostring) option list"
  n_closed :: bool
  n_deadline :: bool
  n_keepalive :: bool
  n_tcp :: bool

definition closed_error :: error where
  "closed_error = NetError False (bytes_of ''use of closed network connection'')"

definition timeout_error :: error where
  "timeout_error = NetError True (bytes_of ''i/o timeout'')"

text \<open>\<^verbatim>\<open>io.ReadFull\<close> with \<open>n\<close> bytes to go after \<open>got\<close>; what a failing call has read is lost.\<close>

fun read_full :: "bool \<Rightarrow> nat \<Rightarrow> byte list \<Rightarrow> net_item list \<Rightarrow> (error + byte list) \<times> net_item list" where
  "read_full deadline 0 got inp = (Inr got, inp)"
| "read_full deadline (Suc n) got [] = (Inl (if got = [] then EOF else ErrUnexpectedEOF), [])"
| "read_full deadline (Suc n) got (Data b # inp) = read_full deadline n (got @ [b]) inp"
| "read_full deadline (Suc n) got (Silence # inp) =
     (if deadline then (Inl timeout_error, inp) else read_full deadline (Suc n) got inp)"
| "read_full deadline (Suc n) got (NetFault s # inp) = (Inl (NetError False s), inp)"

definition net_ReadFull :: "nat \<Rightarrow> net \<Rightarrow> (error + byte list) \<times> net" where
  "net_ReadFull n c =
     (if n_closed c then (Inl closed_error, c)
      else let (res, inp) = read_full (n_deadline c) n [] (n_in c) in (res, c\<lparr>n_in := inp\<rparr>))"

definition net_Write :: "byte list \<Rightarrow> net \<Rightarrow> error option \<times> net" where
  "net_Write data c =
     (if n_closed c then (Some closed_error, c)
      else case n_wfail c of
        Some (k, s) # fs \<Rightarrow>
          (Some (NetError False s), c\<lparr>n_out := n_out c @ take k data, n_wfail := fs\<rparr>)
      | None # fs \<Rightarrow> (None, c\<lparr>n_out := n_out c @ data, n_wfail := fs\<rparr>)
      | [] \<Rightarrow> (None, c\<lparr>n_out := n_out c @ data\<rparr>))"

section \<open>The connection\<close>

definition CONNECTION_CLOSED :: byte where "CONNECTION_CLOSED = 0"
definition CONNECTION_CONNECTED :: byte where "CONNECTION_CONNECTED = 1"
definition CONNECTION_AUTHOK :: byte where "CONNECTION_AUTHOK = 2"

lemmas state_defs = CONNECTION_CLOSED_def CONNECTION_CONNECTED_def CONNECTION_AUTHOK_def

record Conn =
  c_net :: net
  State :: byte
  Version :: byte
  c_SequenceID :: gen
  c_SequenceNum :: gen

text \<open>
  The type assertion on the TCP connection is a panic for another one. The state is the zero
  value: the connection counts as closed until \<open>SetState\<close> is called.
\<close>

definition NewConnection :: "u32 \<Rightarrow> nat \<Rightarrow> net \<Rightarrow> byte \<Rightarrow> Conn option" where
  "NewConnection randId randNum conn v =
     (let sequenceID = newSequenceIDGenerator randId;
          sequenceNum = newSequenceNumGenerator randNum;
          c = \<lparr>c_net = conn, State = 0, Version = v, c_SequenceID = sequenceID, c_SequenceNum = sequenceNum\<rparr>
      in if n_tcp conn then Some (c\<lparr>c_net := conn\<lparr>n_keepalive := True\<rparr>\<rparr>) else None)"

text \<open>
  \<open>None\<close> is the panic of closing a closed channel. The test for a nil receiver has no counterpart:
  a connection is a value here.
\<close>

definition Conn_Close :: "Conn \<Rightarrow> Conn option" where
  "Conn_Close c =
     (if State c = CONNECTION_CLOSED then Some c
      else do {
        sid \<leftarrow> gen_close_done (c_SequenceID c); let c = c\<lparr>c_SequenceID := sid\<rparr>;
        snum \<leftarrow> gen_close_done (c_SequenceNum c); let c = c\<lparr>c_SequenceNum := snum\<rparr>;
        let c = c\<lparr>c_net := (c_net c)\<lparr>n_closed := True\<rparr>\<rparr>;
        Some (c\<lparr>State := CONNECTION_CLOSED\<rparr>)
      })"

definition SetState :: "byte \<Rightarrow> Conn \<Rightarrow> Conn" where
  "SetState state c = c\<lparr>State := state\<rparr>"

text \<open>Receiving from the two channels; \<open>noticed\<close> as in \<open>gen_recv\<close>.\<close>

definition recv_SequenceID :: "bool \<Rightarrow> Conn \<Rightarrow> u32 \<times> Conn" where
  "recv_SequenceID noticed c =
     (let (v, g) = gen_recv next_id noticed (c_SequenceID c) in (v, c\<lparr>c_SequenceID := g\<rparr>))"

definition recv_SequenceNum :: "bool \<Rightarrow> Conn \<Rightarrow> u32 \<times> Conn" where
  "recv_SequenceNum noticed c =
     (let (v, g) = gen_recv next_num noticed (c_SequenceNum c) in (v, c\<lparr>c_SequenceNum := g\<rparr>))"

definition SendPkt :: "pack_env \<Rightarrow> packet \<Rightarrow> u32 \<Rightarrow> Conn \<Rightarrow> error option \<times> packet \<times> Conn" where
  "SendPkt env packet seqId c =
     (if State c = CONNECTION_CLOSED then (Some ErrConnIsClosed, packet, c)
      else case Packer_Pack env seqId packet of
        (packet', Inl e) \<Rightarrow> (Some e, packet', c)
      | (packet', Inr data) \<Rightarrow>
          let (e, n) = net_Write data (c_net c) in (e, packet', c\<lparr>c_net := n\<rparr>))"

section \<open>Receiving\<close>

definition SMGP_HEADER_LEN :: u32 where "SMGP_HEADER_LEN = 12"
definition SMGP_PACKET_MAX :: u32 where "SMGP_PACKET_MAX = 2477"
definition SMGP_PACKET_MIN :: u32 where "SMGP_PACKET_MIN = 12"
definition defaultReadBufferSize :: nat where "defaultReadBufferSize = 4096"

text \<open>\<^verbatim>\<open>binary.Read\<close> of the header: its three fields, big-endian.\<close>

definition header_of :: "byte list \<Rightarrow> Header" where
  "header_of bs =
     \<lparr>PacketLength = Uint32 (bs ! 0) (bs ! 1) (bs ! 2) (bs ! 3),
      RequestID = Uint32 (bs ! 4) (bs ! 5) (bs ! 6) (bs ! 7),
      SequenceID = Uint32 (bs ! 8) (bs ! 9) (bs ! 10) (bs ! 11)\<rparr>"

text \<open>
  \<^verbatim>\<open>RecvAndUnpackPkt\<close>, up to the body: the header and the bytes of the body, or the error. \<open>timeout\<close>
  says whether the argument is not zero. The slice of the buffer is a panic when it is too long,
  \<open>None\<close>. A time-out in the body has an error of its own.
\<close>

definition body_error :: "error \<Rightarrow> error" where
  "body_error e = (case e of NetError tmo s \<Rightarrow> if tmo then ErrReadPktBodyTimeout else e | _ \<Rightarrow> e)"

definition recv_body :: "Header \<Rightarrow> net \<Rightarrow> (error + Header \<times> byte list) option \<times> net" where
  "recv_body h n =
     (let left = unat (PacketLength h - 12)
      in if defaultReadBufferSize < left then (None, n)
         else if left > 0 then
           (case net_ReadFull left n of
              (Inl e, n) \<Rightarrow> (Some (Inl (body_error e)), n)
            | (Inr leftData, n) \<Rightarrow> (Some (Inr (h, leftData)), n))
         else (Some (Inr (h, [])), n))"

definition recv_frame :: "bool \<Rightarrow> net \<Rightarrow> (error + Header \<times> byte list) option \<times> net" where
  "recv_frame timeout n =
     (let n = (if timeout then n\<lparr>n_deadline := True\<rparr> else n)
      in case net_ReadFull 12 n of
        (Inl e, n) \<Rightarrow> (Some (Inl e), n)
      | (Inr bs, n) \<Rightarrow>
          let h = header_of bs in
          if PacketLength h < SMGP_PACKET_MIN \<or> PacketLength h > SMGP_PACKET_MAX
          then (Some (Inl ErrTotalLengthInvalid), n)
          else if \<not> request_id_valid (RequestID h) then (Some (Inl ErrRequestIDInvalid), n)
          else recv_body h (if timeout then n\<lparr>n_deadline := True\<rparr> else n))"

text \<open>The result is \<open>None\<close> for a panic; the deferred function clears the deadline in any case.\<close>

definition RecvAndUnpackPkt :: "bool \<Rightarrow> Conn \<Rightarrow> (error + packet) option \<times> Conn" where
  "RecvAndUnpackPkt timeout c =
     (if State c = CONNECTION_CLOSED then (Some (Inl ErrConnIsClosed), c)
      else let (res, n) = recv_frame timeout (c_net c);
               c = c\<lparr>c_net := n\<lparr>n_deadline := False\<rparr>\<rparr>
           in case res of
                None \<Rightarrow> (None, c)
              | Some (Inl e) \<Rightarrow> (Some (Inl e), c)
              | Some (Inr (h, leftData)) \<Rightarrow> (decode_packet (RequestID h) (Header.SequenceID h) leftData, c))"

section \<open>Life cycle\<close>

text \<open>
  The three things that \<open>Conn_Close\<close> closes are closed together, by nothing else. So a close
  panics exactly when the state says that the connection is open and it is not.
\<close>

definition conn_inv :: "Conn \<Rightarrow> bool" where
  "conn_inv c \<longleftrightarrow> g_done (c_SequenceID c) = n_closed (c_net c) \<and> g_done (c_SequenceNum c) = n_closed (c_net c)"

lemma Close_panics_iff:
  "conn_inv c \<Longrightarrow> Conn_Close c = None \<longleftrightarrow> State c \<noteq> CONNECTION_CLOSED \<and> n_closed (c_net c)"
  by (auto simp: Conn_Close_def conn_inv_def gen_close_done_def Let_def)

lemma Close_result:
  assumes "Conn_Close c = Some c'"
  shows "State c' = CONNECTION_CLOSED" "conn_inv c \<Longrightarrow> conn_inv c'" "Conn_Close c' = Some c'"
    "State c \<noteq> CONNECTION_CLOSED \<Longrightarrow> n_closed (c_net c')" "n_out (c_net c') = n_out (c_net c)"
    "n_in (c_net c') = n_in (c_net c)"
  using assms by (auto simp: Conn_Close_def conn_inv_def gen_close_done_def Let_def split: if_splits)

lemma NewConnection_inv:
  "\<not> n_closed n \<Longrightarrow> NewConnection r1 r2 n v = Some c \<Longrightarrow>
   conn_inv c \<and> State c = CONNECTION_CLOSED \<and> \<not> n_closed (c_net c)"
  by (auto simp: NewConnection_def conn_inv_def newSequenceIDGenerator_def newSequenceNumGenerator_def
      state_defs split: if_splits)

lemma gen_recv_done: "gen_recv advance noticed g = (v, g') \<Longrightarrow> g_done g' = g_done g"
  by (auto simp: gen_recv_def split: if_splits)

lemma net_ReadFull_simps:
  "net_ReadFull k n = (res, n') \<Longrightarrow>
   n_closed n' = n_closed n \<and> n_out n' = n_out n \<and> n_wfail n' = n_wfail n \<and> n_deadline n' = n_deadline n \<and>
   n_keepalive n' = n_keepalive n \<and> n_tcp n' = n_tcp n"
  by (auto simp: net_ReadFull_def split: if_splits prod.splits)

lemma net_Write_simps:
  "net_Write data n = (e, n') \<Longrightarrow> n_closed n' = n_closed n \<and> n_in n' = n_in n \<and> n_deadline n' = n_deadline n"
  by (auto simp: net_Write_def split: if_splits list.splits option.splits)

definition same_net :: "net \<Rightarrow> net \<Rightarrow> bool" where
  "same_net n' n \<longleftrightarrow> n_closed n' = n_closed n \<and> n_out n' = n_out n \<and> n_wfail n' = n_wfail n"

lemma same_net_simps [simp]:
  "same_net n n" "same_net n' (n\<lparr>n_deadline := d\<rparr>) \<longleftrightarrow> same_net n' n" "same_net (n'\<lparr>n_deadline := d\<rparr>) n \<longleftrightarrow> same_net n' n"
  by (simp_all add: same_net_def)

lemma net_ReadFull_same: "same_net (snd (net_ReadFull k n)) n"
  by (simp add: same_net_def net_ReadFull_def Let_def split: prod.split)

lemma recv_body_same: "same_net (snd (recv_body h n)) n"
  using net_ReadFull_same [of _ n] by (simp add: recv_body_def Let_def split: prod.split sum.split) (metis snd_conv)

lemma recv_frame_same: "same_net (snd (recv_frame timeout n)) n"
proof (cases "net_ReadFull 12 (if timeout then n\<lparr>n_deadline := True\<rparr> else n)")
  case (Pair r n1)
  then have n1: "same_net n1 n"
    using net_ReadFull_same [of 12 "if timeout then n\<lparr>n_deadline := True\<rparr> else n"] by (simp split: if_splits)
  show ?thesis
  proof (cases r)
    case (Inr bs)
    let ?b = "recv_body (header_of bs) (if timeout then n1\<lparr>n_deadline := True\<rparr> else n1)"
    have "same_net (snd ?b) n"
      using n1 recv_body_same [of "header_of bs" "if timeout then n1\<lparr>n_deadline := True\<rparr> else n1"]
      by (auto simp: same_net_def split: if_splits)
    with n1 Pair Inr show ?thesis by (simp add: recv_frame_def Let_def)
  qed (use n1 Pair in \<open>simp add: recv_frame_def Let_def\<close>)
qed

lemma recv_frame_net:
  "recv_frame timeout n = (res, n') \<Longrightarrow> n_closed n' = n_closed n \<and> n_out n' = n_out n \<and> n_wfail n' = n_wfail n"
  using recv_frame_same [of timeout n] by (simp add: same_net_def)

lemma Recv_conn:
  assumes "RecvAndUnpackPkt timeout c = (res, c')"
  shows "State c' = State c" "c_SequenceID c' = c_SequenceID c" "c_SequenceNum c' = c_SequenceNum c"
    "n_closed (c_net c') = n_closed (c_net c)" "n_out (c_net c') = n_out (c_net c)"
    "n_wfail (c_net c') = n_wfail (c_net c)"
proof -
  obtain r n where "recv_frame timeout (c_net c) = (r, n)"
    by (cases "recv_frame timeout (c_net c)")
  with recv_frame_net [OF this] assms
  show "State c' = State c" "c_SequenceID c' = c_SequenceID c" "c_SequenceNum c' = c_SequenceNum c"
    "n_closed (c_net c') = n_closed (c_net c)" "n_out (c_net c') = n_out (c_net c)"
    "n_wfail (c_net c') = n_wfail (c_net c)"
    by (auto simp: RecvAndUnpackPkt_def Let_def split: if_splits option.splits sum.splits prod.splits)
qed

lemma SendPkt_conn:
  assumes "SendPkt env p seq c = (e, p', c')"
  shows "State c' = State c" "c_SequenceID c' = c_SequenceID c" "c_SequenceNum c' = c_SequenceNum c"
    "n_closed (c_net c') = n_closed (c_net c)" "n_in (c_net c') = n_in (c_net c)"
  using assms
  by (auto simp: SendPkt_def Let_def split: if_splits prod.splits sum.splits dest: net_Write_simps)

text \<open>
  The operations on one connection, and the states it can reach when nobody sets the state of a
  closed connection, which is the discipline of client and server.
\<close>

inductive conn_step :: "Conn \<Rightarrow> Conn \<Rightarrow> bool" where
  set_state: "\<not> n_closed (c_net c) \<Longrightarrow> conn_step c (SetState s c)"
| close: "Conn_Close c = Some c' \<Longrightarrow> conn_step c c'"
| send: "SendPkt env p seq c = (e, p', c') \<Longrightarrow> conn_step c c'"
| recv: "RecvAndUnpackPkt timeout c = (res, c') \<Longrightarrow> conn_step c c'"
| next_id: "recv_SequenceID noticed c = (v, c') \<Longrightarrow> conn_step c c'"
| next_num: "recv_SequenceNum noticed c = (v, c') \<Longrightarrow> conn_step c c'"

inductive conn_reach :: "Conn \<Rightarrow> bool" where
  new: "NewConnection r1 r2 n v = Some c \<Longrightarrow> \<not> n_closed n \<Longrightarrow> conn_reach c"
| step: "conn_reach c \<Longrightarrow> conn_step c c' \<Longrightarrow> conn_reach c'"

definition conn_safe :: "Conn \<Rightarrow> bool" where
  "conn_safe c \<longleftrightarrow> conn_inv c \<and> (n_closed (c_net c) \<longrightarrow> State c = CONNECTION_CLOSED)"

lemma conn_step_safe: "conn_step c c' \<Longrightarrow> conn_safe c \<Longrightarrow> conn_safe c'"
proof (induction rule: conn_step.induct)
  case (close c c')
  then show ?case
    using Close_result [OF close.hyps] by (simp add: conn_safe_def)
qed (auto simp: conn_safe_def conn_inv_def SetState_def recv_SequenceID_def recv_SequenceNum_def gen_recv_done
    SendPkt_conn Recv_conn split: prod.splits)

lemma conn_reach_safe: "conn_reach c \<Longrightarrow> conn_safe c"
  by (induction rule: conn_reach.induct) (auto simp: conn_safe_def dest: NewConnection_inv conn_step_safe)

lemma conn_safe_Close: "conn_safe c \<Longrightarrow> Conn_Close c \<noteq> None"
  by (auto simp: conn_safe_def Close_panics_iff)

text \<open>
  A live connection: its state says closed exactly when it is. Client and server keep every connection
  that they use live from the first \<open>SetState\<close> on.
\<close>

definition conn_live :: "Conn \<Rightarrow> bool" where
  "conn_live k \<longleftrightarrow> conn_safe k \<and> (State k = CONNECTION_CLOSED \<longrightarrow> n_closed (c_net k))"

lemma conn_live_SendPkt: "SendPkt env p seq k = (e, p', k') \<Longrightarrow> conn_live k \<Longrightarrow> conn_live k'"
  using conn_step_safe [OF conn_step.send] SendPkt_conn by (fastforce simp: conn_live_def)

lemma conn_live_Recv: "RecvAndUnpackPkt t k = (r, k') \<Longrightarrow> conn_live k \<Longrightarrow> conn_live k'"
  using conn_step_safe [OF conn_step.recv] Recv_conn by (fastforce simp: conn_live_def)

lemma conn_live_next:
  "recv_SequenceID noticed k = (v, k') \<Longrightarrow> conn_live k \<Longrightarrow> conn_live k'"
  "recv_SequenceNum noticed k = (v, k') \<Longrightarrow> conn_live k \<Longrightarrow> conn_live k'"
  by (auto simp: conn_live_def conn_safe_def conn_inv_def recv_SequenceID_def recv_SequenceNum_def
      dest: gen_recv_done split: prod.splits)

lemma conn_live_SetState:
  "conn_safe k \<Longrightarrow> \<not> n_closed (c_net k) \<Longrightarrow> s \<noteq> CONNECTION_CLOSED \<Longrightarrow> conn_live (SetState s k)"
  by (simp add: conn_live_def conn_safe_def conn_inv_def SetState_def)

text \<open>Closing a live connection ends everything it has: the network connection and both generators.\<close>

definition conn_shut :: "Conn \<Rightarrow> bool" where
  "conn_shut k \<longleftrightarrow> State k = CONNECTION_CLOSED \<and> n_closed (c_net k) \<and> g_done (c_SequenceID k) \<and> g_done (c_SequenceNum k)"

lemma conn_live_Close:
  assumes "conn_live k"
  shows "\<exists>k'. Conn_Close k = Some k' \<and> conn_live k' \<and> conn_shut k' \<and> n_out (c_net k') = n_out (c_net k)"
proof -
  from assms obtain k' where k': "Conn_Close k = Some k'"
    using conn_safe_Close [of k] by (auto simp: conn_live_def)
  have closed: "n_closed (c_net k')"
    using assms k' Close_result(4) [OF k'] by (cases "State k = CONNECTION_CLOSED") (auto simp: conn_live_def Conn_Close_def)
  have "conn_safe k'"
    using conn_step_safe [OF conn_step.close [OF k']] assms by (simp add: conn_live_def)
  with k' closed Close_result(1,5) [OF k'] show ?thesis
    by (auto simp: conn_live_def conn_shut_def conn_safe_def conn_inv_def)
qed

end
