(* ===== verification/Framing.thy ===== *)
theory Framing
  imports Connection
begin

text \<open>
  What sender and receiver of \<^verbatim>\<open>pkg/connection.go\<close> make of the byte stream between them: the
  receiver accepts exactly the frames, a packet sent arrives, and a stream of packets arrives in
  order.
\<close>

section \<open>Reading whole frames\<close>

lemma read_full_data: "read_full d (length bs) got (map Data bs @ rest) = (Inr (got @ bs), rest)"
  by (induction bs arbitrary: got) simp_all

lemma read_full_dataI: "k = length bs \<Longrightarrow> read_full d k got (map Data bs @ rest) = (Inr (got @ bs), rest)"
  by (simp add: read_full_data)

lemma read_full_Inr:
  "read_full True n got inp = (Inr bs, rest) \<Longrightarrow>
   \<exists>ds. bs = got @ ds \<and> length ds = n \<and> inp = map Data ds @ rest"
proof (induction True n got inp rule: read_full.induct)
  case (3 n got b inp)
  then obtain ds where "bs = (got @ [b]) @ ds" "length ds = n" "inp = map Data ds @ rest" by auto
  then show ?case by (intro exI [of _ "b # ds"]) simp
qed auto

lemma PutUint32_Uint32: "PutUint32 (Uint32 b0 b1 b2 b3) = [b0, b1, b2, b3]"
proof -
  have "ucast (drop_bit 24 (Uint32 b0 b1 b2 b3)) = b0" "ucast (drop_bit 16 (Uint32 b0 b1 b2 b3)) = b1"
    "ucast (drop_bit 8 (Uint32 b0 b1 b2 b3)) = b2" "ucast (Uint32 b0 b1 b2 b3) = b3"
    unfolding Uint32_def by (rule bit_word_eqI; auto simp: bit_simps dest: bit_imp_le_length)+
  then show ?thesis by (simp add: PutUint32_def)
qed

definition header_bytes :: "Header \<Rightarrow> byte list" where
  "header_bytes h = PutUint32 (PacketLength h) @ PutUint32 (RequestID h) @ PutUint32 (Header.SequenceID h)"

lemma header_of_bytes: "header_of (header_bytes h) = h"
  by (simp add: header_of_def header_bytes_def PutUint32_def)

lemma length_12: "length bs = 12 \<Longrightarrow> bs = [bs ! 0, bs ! 1, bs ! 2, bs ! 3, bs ! 4, bs ! 5, bs ! 6, bs ! 7,
   bs ! 8, bs ! 9, bs ! 10, bs ! 11]"
  by (rule nth_equalityI) (auto simp: less_Suc_eq nth_Cons' eval_nat_numeral)

lemma header_bytes_of: "length bs = 12 \<Longrightarrow> header_bytes (header_of bs) = bs"
  by (subst (3) length_12, assumption) (simp add: header_bytes_def header_of_def PutUint32_Uint32)

lemma length_header_bytes [simp]: "length (header_bytes h) = 12"
  by (simp add: header_bytes_def)

lemma frame_header: "frame rid seq body =
   header_bytes \<lparr>PacketLength = of_nat (12 + length body), RequestID = rid, SequenceID = seq\<rparr> @ body"
  by (simp add: frame_def header_bytes_def)

text \<open>A header that the receiver accepts, with the size of its body.\<close>

definition header_ok :: "Header \<Rightarrow> bool" where
  "header_ok h \<longleftrightarrow> SMGP_PACKET_MIN \<le> PacketLength h \<and> PacketLength h \<le> SMGP_PACKET_MAX \<and> request_id_valid (RequestID h)"

lemma header_ok_left:
  assumes "header_ok h"
  shows "unat (PacketLength h - 12) = unat (PacketLength h) - 12" "12 \<le> unat (PacketLength h)"
    "unat (PacketLength h) \<le> 2477"
  using assms
  by (auto simp: header_ok_def SMGP_PACKET_MIN_def SMGP_PACKET_MAX_def unat_sub word_le_nat_alt)

lemma recv_body_data:
  assumes "header_ok h" "n_in n = map Data body @ rest" "length body = unat (PacketLength h) - 12"
    "\<not> n_closed n"
  shows "recv_body h n = (Some (Inr (h, body)), n\<lparr>n_in := rest\<rparr>)"
  using assms header_ok_left [OF assms(1)]
  by (auto simp: recv_body_def Let_def defaultReadBufferSize_def net_ReadFull_def read_full_dataI)

lemma recv_frame_data:
  assumes "header_ok h" "n_in n = map Data (header_bytes h @ body) @ rest"
    "length body = unat (PacketLength h) - 12" "\<not> n_closed n"
  shows "recv_frame timeout n =
    (Some (Inr (h, body)), n\<lparr>n_in := rest, n_deadline := timeout \<or> n_deadline n\<rparr>)"
  using assms
  by (simp add: recv_frame_def Let_def net_ReadFull_def read_full_dataI header_of_bytes recv_body_data)
     (auto simp: header_ok_def)

lemma header_ok_frame:
  assumes "12 + length body \<le> 2477" "request_id_valid rid"
  shows "header_ok \<lparr>PacketLength = of_nat (12 + length body), RequestID = rid, SequenceID = seq\<rparr>"
    "unat (of_nat (12 + length body) :: u32) = 12 + length body"
proof -
  show "unat (of_nat (12 + length body) :: u32) = 12 + length body"
    using assms(1) unat_of_nat [of "12 + length body", where ?'a = 32] by (simp del: of_nat_add)
  then show "header_ok \<lparr>PacketLength = of_nat (12 + length body), RequestID = rid, SequenceID = seq\<rparr>"
    using assms by (simp add: header_ok_def SMGP_PACKET_MIN_def SMGP_PACKET_MAX_def word_le_nat_alt del: of_nat_add)
qed

lemma recv_frame_frame:
  assumes "12 + length body \<le> 2477" "request_id_valid rid" "n_in n = map Data (frame rid seq body) @ rest"
    "\<not> n_closed n"
  shows "recv_frame timeout n =
    (Some (Inr (\<lparr>PacketLength = of_nat (12 + length body), RequestID = rid, SequenceID = seq\<rparr>, body)),
     n\<lparr>n_in := rest, n_deadline := timeout \<or> n_deadline n\<rparr>)"
  using assms header_ok_frame [OF assms(1,2)]
  by (intro recv_frame_data) (simp_all add: frame_header del: of_nat_add)

text \<open>The converse: with a time-out set, nothing but a frame is accepted.\<close>

lemma net_ReadFull_Inr:
  "net_ReadFull k n = (Inr bs, n') \<Longrightarrow> n_deadline n \<Longrightarrow>
   length bs = k \<and> n_in n = map Data bs @ n_in n' \<and> n_deadline n' \<and> \<not> n_closed n"
  by (auto simp: net_ReadFull_def split: if_splits prod.splits dest!: read_full_Inr)

lemma recv_body_Inr:
  assumes "recv_body h n = (Some (Inr (h', body)), n')" "n_deadline n" "header_ok h"
  shows "h' = h \<and> length body = unat (PacketLength h) - 12 \<and> n_in n = map Data body @ n_in n'"
  using assms header_ok_left [OF assms(3)]
  by (auto simp: recv_body_def Let_def split: if_splits prod.splits sum.splits dest!: net_ReadFull_Inr)

lemma recv_frame_Inr:
  assumes "recv_frame True n = (Some (Inr (h, body)), n')"
  shows "header_ok h \<and> length body = unat (PacketLength h) - 12 \<and>
    n_in n = map Data (header_bytes h @ body) @ n_in n'"
proof -
  obtain r n1 where 1: "net_ReadFull 12 (n\<lparr>n_deadline := True\<rparr>) = (r, n1)" by fastforce
  with assms obtain bs where r: "r = Inr bs" and ok: "header_ok (header_of bs)"
    and body: "recv_body (header_of bs) (n1\<lparr>n_deadline := True\<rparr>) = (Some (Inr (h, body)), n')"
    by (auto simp: recv_frame_def Let_def header_ok_def not_less split: sum.splits if_splits)
  from net_ReadFull_Inr [OF 1 [unfolded r]] have bs: "length bs = 12" "n_in n = map Data bs @ n_in n1"
    by simp_all
  from recv_body_Inr [OF body] ok bs show ?thesis
    by (auto simp: header_bytes_of)
qed

section \<open>Sending and receiving packets\<close>

definition open_conn :: "Conn \<Rightarrow> bool" where
  "open_conn c \<longleftrightarrow> State c \<noteq> CONNECTION_CLOSED \<and> \<not> n_closed (c_net c)"

lemma RecvAndUnpackPkt_frame:
  assumes "open_conn c" "12 + length body \<le> 2477" "request_id_valid rid"
    "n_in (c_net c) = map Data (frame rid seq body) @ rest"
  shows "RecvAndUnpackPkt timeout c =
    (decode_packet rid seq body, c\<lparr>c_net := (c_net c)\<lparr>n_in := rest, n_deadline := False\<rparr>\<rparr>)"
  using assms recv_frame_frame [OF assms(2-4)]
  by (simp add: RecvAndUnpackPkt_def open_conn_def del: of_nat_add)

definition packet_ok :: "pack_env \<Rightarrow> packet \<Rightarrow> bool" where
  "packet_ok env p \<longleftrightarrow> packet_wf env p \<and> 12 + length (packet_body env p) \<le> 2477"

definition packet_frame :: "pack_env \<Rightarrow> u32 \<Rightarrow> packet \<Rightarrow> byte list" where
  "packet_frame env seq p = frame (packet_reqId p) seq (packet_body env p)"

lemma SendPkt_ok:
  assumes "open_conn c" "n_wfail (c_net c) = []" "packet_wf env p" "SendPkt env p seq c = (e, p', c')"
  shows "e = None" "n_out (c_net c') = n_out (c_net c) @ packet_frame env seq p"
    "open_conn c'" "n_wfail (c_net c') = []"
  using assms Packer_Pack_wf [OF assms(3), of seq]
  by (auto simp: SendPkt_def open_conn_def net_Write_def packet_frame_def split: prod.splits)

lemma Recv_sent:
  assumes "open_conn c" "packet_ok env p" "n_in (c_net c) = map Data (packet_frame env seq p) @ rest"
  shows "RecvAndUnpackPkt timeout c =
    (Some (Inr (packet_sent env seq p)), c\<lparr>c_net := (c_net c)\<lparr>n_in := rest, n_deadline := False\<rparr>\<rparr>)"
  using assms RecvAndUnpackPkt_frame [of c "packet_body env p" "packet_reqId p" seq rest timeout]
  by (simp add: packet_ok_def packet_frame_def request_id_valid_packet decode_packet_body)

text \<open>Sending one packet after the other, and receiving as many.\<close>

fun send_all :: "(pack_env \<times> u32 \<times> packet) list \<Rightarrow> Conn \<Rightarrow> Conn" where
  "send_all [] c = c"
| "send_all ((env, seq, p) # ps) c = send_all ps (snd (snd (SendPkt env p seq c)))"

fun recv_all :: "bool \<Rightarrow> nat \<Rightarrow> Conn \<Rightarrow> (error + packet) option list \<times> Conn" where
  "recv_all timeout 0 c = ([], c)"
| "recv_all timeout (Suc n) c =
     (let (r, c) = RecvAndUnpackPkt timeout c; (rs, c) = recv_all timeout n c in (r # rs, c))"

lemma send_all_out:
  assumes "open_conn c" "n_wfail (c_net c) = []" "\<forall>(env, seq, p) \<in> set ps. packet_wf env p"
  shows "n_out (c_net (send_all ps c)) =
    n_out (c_net c) @ concat (map (\<lambda>(env, seq, p). packet_frame env seq p) ps)"
  using assms
proof (induction ps arbitrary: c)
  case (Cons x ps)
  obtain env seq p where x: "x = (env, seq, p)" by (cases x)
  obtain e p' c' where send: "SendPkt env p seq c = (e, p', c')" by (cases "SendPkt env p seq c")
  from Cons.prems x have "packet_wf env p" by simp
  from SendPkt_ok [OF Cons.prems(1,2) this send] Cons.IH [of c'] Cons.prems(3) x send show ?case by simp
qed simp

lemma recv_all_frames:
  assumes "open_conn c" "\<forall>(env, seq, p) \<in> set ps. packet_ok env p"
    "n_in (c_net c) = map Data (concat (map (\<lambda>(env, seq, p). packet_frame env seq p) ps)) @ rest"
  shows "fst (recv_all timeout (length ps) c) = map (\<lambda>(env, seq, p). Some (Inr (packet_sent env seq p))) ps \<and>
    n_in (c_net (snd (recv_all timeout (length ps) c))) = rest"
  using assms
proof (induction ps arbitrary: c)
  case (Cons x ps)
  obtain env seq p where x: "x = (env, seq, p)" by (cases x)
  let ?rest = "map Data (concat (map (\<lambda>(env, seq, p). packet_frame env seq p) ps)) @ rest"
  let ?c = "c\<lparr>c_net := (c_net c)\<lparr>n_in := ?rest, n_deadline := False\<rparr>\<rparr>"
  have "RecvAndUnpackPkt timeout c = (Some (Inr (packet_sent env seq p)), ?c)"
    using Cons.prems x by (intro Recv_sent) simp_all
  moreover have "open_conn ?c" using Cons.prems(1) by (simp add: open_conn_def)
  ultimately show ?case
    using Cons.IH [of ?c] Cons.prems(2) x
    by (cases "recv_all timeout (length ps) ?c") simp
qed simp

end
