(* ===== verification/Client.thy ===== *)
theory Client
  imports Framing
begin

text \<open>
  \<^verbatim>\<open>client/client.go\<close>: the client, its login handshake, and the calls it passes on to its connection.
  A nil connection is \<open>None\<close> in \<open>cli_conn\<close>. What the outside world contributes is an argument: the
  result of dialling, the random start values of the generators, and the clock.
\<close>

record Client =
  cli_conn :: "Conn option"
  ver :: byte

definition NewClient :: "byte \<Rightarrow> Client" where
  "NewClient version = \<lparr>cli_conn = None, ver = version\<rparr>"

text \<open>
  The deferred function of \<open>Connect\<close> looks at the variable \<^verbatim>\<open>err\<close>, not at the result:
  \<open>connect_end cli er ret c\<close> is a return of \<open>ret\<close> with \<^verbatim>\<open>err\<close> being \<open>er\<close>. A panic is \<open>None\<close>.
\<close>

definition connect_end :: "Client \<Rightarrow> error option \<Rightarrow> error option \<Rightarrow> Conn \<Rightarrow> error option option \<times> Client" where
  "connect_end cli er ret c =
     (if er \<noteq> None then
        (case Conn_Close c of
           None \<Rightarrow> (None, cli\<lparr>cli_conn := Some c\<rparr>)
         | Some c \<Rightarrow> (Some ret, cli\<lparr>cli_conn := Some c\<rparr>))
      else (Some ret, cli\<lparr>cli_conn := Some c\<rparr>))"

definition login_request :: "Time \<Rightarrow> gostring \<Rightarrow> gostring \<Rightarrow> byte \<Rightarrow> byte \<Rightarrow> SmgpLoginReqPkt" where
  "login_request now clientID secret loginMode version =
     SmgpLoginReqPkt.make clientID [] loginMode (GenTimestamp now) version 0 secret"

definition Connect ::
  "pack_env \<Rightarrow> error + net \<Rightarrow> u32 \<Rightarrow> nat \<Rightarrow> gostring \<Rightarrow> gostring \<Rightarrow> byte \<Rightarrow> bool \<Rightarrow> Client
   \<Rightarrow> error option option \<times> Client" where
  "Connect env dialled randId randNum clientID secret loginMode timeout cli =
     (case dialled of
        Inl e \<Rightarrow> (Some (Some e), cli)
      | Inr conn \<Rightarrow> (case NewConnection randId randNum conn (ver cli) of
          None \<Rightarrow> (None, cli)
        | Some c \<Rightarrow>
          let c = SetState CONNECTION_CONNECTED c;
              req = login_request (e_now env) clientID secret loginMode (ver cli);
              (seq, c) = recv_SequenceID False c;
              (er, _, c) = SendPkt env (LoginReq req) seq c
          in if er \<noteq> None then connect_end cli er er c
             else (case RecvAndUnpackPkt timeout c of
               (None, c) \<Rightarrow> (None, cli\<lparr>cli_conn := Some c\<rparr>)
             | (Some (Inl e), c) \<Rightarrow> connect_end cli (Some e) (Some e) c
             | (Some (Inr (LoginResp rsp)), c) \<Rightarrow>
                 if Status_Data (SmgpLoginRespPkt.Status rsp) \<noteq> 0
                 then connect_end cli None (Some (Status_Error (SmgpLoginRespPkt.Status rsp))) c
                 else connect_end cli None None (SetState CONNECTION_AUTHOK c)
             | (Some (Inr p), c) \<Rightarrow> connect_end cli (Some ErrRespNotMatch) (Some ErrRespNotMatch) c)))"

definition Disconnect :: "Client \<Rightarrow> Client option" where
  "Disconnect cli =
     (case cli_conn cli of
        None \<Rightarrow> Some cli
      | Some c \<Rightarrow> do { c \<leftarrow> Conn_Close c; Some (cli\<lparr>cli_conn := Some c\<rparr>) })"

text \<open>The remaining calls dereference the connection: a nil one is a panic.\<close>

definition Client_SendReqPkt ::
  "pack_env \<Rightarrow> bool \<Rightarrow> packet \<Rightarrow> Client \<Rightarrow> (u32 \<times> error option \<times> packet \<times> Client) option" where
  "Client_SendReqPkt env noticed packet cli = do {
     c \<leftarrow> cli_conn cli;
     let (seq, c) = recv_SequenceID noticed c;
     let (e, packet, c) = SendPkt env packet seq c;
     Some (seq, e, packet, cli\<lparr>cli_conn := Some c\<rparr>)
   }"

definition Client_SendRspPkt ::
  "pack_env \<Rightarrow> packet \<Rightarrow> u32 \<Rightarrow> Client \<Rightarrow> (error option \<times> packet \<times> Client) option" where
  "Client_SendRspPkt env packet sequenceID cli = do {
     c \<leftarrow> cli_conn cli;
     let (e, packet, c) = SendPkt env packet sequenceID c;
     Some (e, packet, cli\<lparr>cli_conn := Some c\<rparr>)
   }"

definition Client_RecvAndUnpackPkt :: "bool \<Rightarrow> Client \<Rightarrow> (error + packet) option \<times> Client" where
  "Client_RecvAndUnpackPkt timeout cli =
     (case cli_conn cli of
        None \<Rightarrow> (None, cli)
      | Some c \<Rightarrow> let (res, c) = RecvAndUnpackPkt timeout c in (res, cli\<lparr>cli_conn := Some c\<rparr>))"

section \<open>Live clients\<close>

text \<open>A client's connection, if it has one, is live: its state says closed exactly when it is closed.\<close>

definition client_live :: "Client \<Rightarrow> bool" where
  "client_live cli \<longleftrightarrow> (\<forall>c. cli_conn cli = Some c \<longrightarrow> conn_live c)"

lemma client_live_simps [simp]:
  "client_live (NewClient v)" "client_live (cli\<lparr>cli_conn := Some c\<rparr>) \<longleftrightarrow> conn_live c"
  by (simp_all add: client_live_def NewClient_def)

text \<open>A return from \<open>Connect\<close>: with an error in \<^verbatim>\<open>err\<close> it closes everything, without one it leaves the connection.\<close>

lemma connect_end_error:
  assumes "conn_live c" "connect_end cli (Some e) ret c = (res, cli')"
  shows "res = Some ret \<and> (\<exists>c'. cli' = cli\<lparr>cli_conn := Some c'\<rparr> \<and> conn_live c' \<and> conn_shut c' \<and> n_out (c_net c') = n_out (c_net c))"
  using assms(2) conn_live_Close [OF assms(1)] by (auto simp: connect_end_def)

lemma connect_end_ok: "connect_end cli None ret c = (Some ret, cli\<lparr>cli_conn := Some c\<rparr>)"
  by (simp add: connect_end_def)

section \<open>The handshake\<close>

text \<open>
  The connection with what \<open>Connect\<close> has written of the login request \<open>bs\<close>, and the bytes of that request.
  A network connection as the dialler makes it is fresh when it takes every write; here it is enough that
  it takes the first one.
\<close>

definition fresh_net :: "net \<Rightarrow> bool" where
  "fresh_net n \<longleftrightarrow> n_tcp n \<and> \<not> n_closed n \<and> n_wfail n = []"

definition takes_login :: "net \<Rightarrow> bool" where
  "takes_login n \<longleftrightarrow> n_tcp n \<and> \<not> n_closed n \<and> (case n_wfail n of Some _ # _ \<Rightarrow> False | _ \<Rightarrow> True)"

lemma fresh_takes_login: "fresh_net n \<Longrightarrow> takes_login n"
  by (simp add: fresh_net_def takes_login_def)

definition login_bytes :: "pack_env \<Rightarrow> u32 \<Rightarrow> gostring \<Rightarrow> gostring \<Rightarrow> byte \<Rightarrow> byte \<Rightarrow> byte list" where
  "login_bytes env randId clientID secret loginMode v =
     frame SMGP_LOGIN randId (login_req_body (e_now env) (login_request (e_now env) clientID secret loginMode v))"

definition logging_in :: "pack_env \<Rightarrow> net \<Rightarrow> u32 \<Rightarrow> nat \<Rightarrow> byte \<Rightarrow> byte list \<Rightarrow> Conn" where
  "logging_in env n randId randNum v bs =
     \<lparr>c_net = n\<lparr>n_keepalive := True, n_out := n_out n @ bs, n_wfail := tl (n_wfail n)\<rparr>,
      State = CONNECTION_CONNECTED, Version = v,
      c_SequenceID = \<lparr>g_next = randId + 1, g_done = False, g_closed = False\<rparr>,
      c_SequenceNum = newSequenceNumGenerator randNum\<rparr>"

lemmas Connect_unfold = Connect_def NewConnection_def SetState_def recv_SequenceID_def gen_recv_def
  newSequenceIDGenerator_def SendPkt_def state_defs login_req.pack_wf SmgpLoginReqPkt_Pack_eq net_Write_def
  next_id_def logging_in_def login_bytes_def Let_def

lemma Connect_run:
  assumes "takes_login n"
  shows "Connect env (Inr n) randId randNum clientID secret loginMode timeout cli =
    (case RecvAndUnpackPkt timeout (logging_in env n randId randNum (ver cli)
        (login_bytes env randId clientID secret loginMode (ver cli))) of
       (None, c) \<Rightarrow> (None, cli\<lparr>cli_conn := Some c\<rparr>)
     | (Some (Inl e), c) \<Rightarrow> connect_end cli (Some e) (Some e) c
     | (Some (Inr (LoginResp rsp)), c) \<Rightarrow>
         if Status_Data (SmgpLoginRespPkt.Status rsp) \<noteq> 0
         then connect_end cli None (Some (Status_Error (SmgpLoginRespPkt.Status rsp))) c
         else connect_end cli None None (SetState CONNECTION_AUTHOK c)
     | (Some (Inr p), c) \<Rightarrow> connect_end cli (Some ErrRespNotMatch) (Some ErrRespNotMatch) c)"
proof (cases "n_wfail n")
  case Nil
  with assms show ?thesis by (cases n) (simp add: Connect_unfold takes_login_def)
next
  case (Cons f fs)
  with assms have "f = None" by (simp add: takes_login_def split: option.splits)
  with Cons assms show ?thesis by (simp add: Connect_unfold takes_login_def)
qed

text \<open>A write that fails after \<open>k\<close> bytes.\<close>

lemma Connect_write_error:
  assumes "n_tcp n" "\<not> n_closed n" "n_wfail n = Some (k, s) # fs"
  shows "Connect env (Inr n) randId randNum clientID secret loginMode timeout cli =
    connect_end cli (Some (NetError False s)) (Some (NetError False s))
      (logging_in env n randId randNum (ver cli) (take k (login_bytes env randId clientID secret loginMode (ver cli))))"
  using assms by (simp add: Connect_unfold)

lemma logging_in_simps:
  "takes_login n \<Longrightarrow> open_conn (logging_in env n randId randNum v bs)"
  "\<not> n_closed n \<Longrightarrow> conn_live (logging_in env n randId randNum v bs)"
  "n_in (c_net (logging_in env n randId randNum v bs)) = n_in n"
  "n_out (c_net (logging_in env n randId randNum v bs)) = n_out n @ bs"
  by (simp_all add: logging_in_def open_conn_def conn_live_def conn_safe_def conn_inv_def takes_login_def state_defs
      newSequenceNumGenerator_def)

text \<open>
  All outcomes when the request has been sent: a panic; an error with the connection closed; a rejection
  by the server with the connection left open; or success. Whatever happens, the login request is all
  that was sent.
\<close>

lemma Connect_outcome:
  assumes n: "takes_login n"
    and run: "Connect env (Inr n) randId randNum clientID secret loginMode timeout cli = (res, cli')"
    and bs: "bs = login_bytes env randId clientID secret loginMode (ver cli)"
    and recv: "RecvAndUnpackPkt timeout (logging_in env n randId randNum (ver cli) bs) = (r, c1)"
  shows "\<exists>c. cli' = cli\<lparr>cli_conn := Some c\<rparr> \<and> conn_live c \<and> n_out (c_net c) = n_out n @ bs \<and>
    (case r of
       None \<Rightarrow> res = None \<and> State c = CONNECTION_CONNECTED \<and> \<not> n_closed (c_net c)
     | Some (Inl e) \<Rightarrow> res = Some (Some e) \<and> conn_shut c
     | Some (Inr (LoginResp rsp)) \<Rightarrow>
         if SmgpLoginRespPkt.Status rsp = 0 then res = Some None \<and> State c = CONNECTION_AUTHOK \<and> \<not> n_closed (c_net c)
         else res = Some (Some (Status_Error (SmgpLoginRespPkt.Status rsp))) \<and>
           State c = CONNECTION_CONNECTED \<and> \<not> n_closed (c_net c)
     | Some (Inr p) \<Rightarrow> res = Some (Some ErrRespNotMatch) \<and> conn_shut c)"
proof -
  have c1: "State c1 = CONNECTION_CONNECTED" "\<not> n_closed (c_net c1)" "n_out (c_net c1) = n_out n @ bs" "conn_live c1"
    using Recv_conn [OF recv] conn_live_Recv [OF recv logging_in_simps(2)] n
    by (simp_all add: logging_in_def takes_login_def)
  have auth: "conn_live (SetState CONNECTION_AUTHOK c1)"
    using c1 by (intro conn_live_SetState) (simp_all add: conn_live_def state_defs)
  note run' = run [unfolded Connect_run [OF n] bs [symmetric] recv]
  show ?thesis
  proof (cases r)
    case (Some er)
    then show ?thesis
    proof (cases er)
      case (Inr p)
      with Some run' c1 auth show ?thesis
        by (cases p) (auto simp: connect_end_ok Status_Data_def SetState_def dest!: connect_end_error [OF c1(4)] split: if_splits)
    next
      case (Inl e)
      with Some run' c1 connect_end_error [OF c1(4)] show ?thesis by fastforce
    qed
  qed (use run' c1 in auto)
qed

text \<open>A login response, whatever its status, decides the outcome.\<close>

lemma Connect_reply:
  assumes "takes_login n" "n_in n = map Data (packet_frame env seq (LoginResp resp)) @ rest"
  shows "fst (Connect env' (Inr n) randId randNum clientID secret loginMode timeout cli) =
      Some (if SmgpLoginRespPkt.Status resp = 0 then None else Some (Status_Error (SmgpLoginRespPkt.Status resp)))"
    "\<exists>c. cli_conn (snd (Connect env' (Inr n) randId randNum clientID secret loginMode timeout cli)) = Some c \<and>
      State c = (if SmgpLoginRespPkt.Status resp = 0 then CONNECTION_AUTHOK else CONNECTION_CONNECTED) \<and>
      \<not> n_closed (c_net c)"
proof -
  let ?bs = "login_bytes env' randId clientID secret loginMode (ver cli)"
  let ?c = "logging_in env' n randId randNum (ver cli) ?bs"
  obtain res cli' where run: "Connect env' (Inr n) randId randNum clientID secret loginMode timeout cli = (res, cli')"
    by fastforce
  have "packet_ok env (LoginResp resp)"
    by (simp add: packet_ok_def login_resp_body_def login_resp_auth_def)
  from Recv_sent [OF logging_in_simps(1) [OF assms(1)] this]
  have "RecvAndUnpackPkt timeout ?c = (Some (Inr (LoginResp (login_resp_sent seq resp))),
      ?c\<lparr>c_net := (c_net ?c)\<lparr>n_in := rest, n_deadline := False\<rparr>\<rparr>)"
    using assms(2) by (simp add: logging_in_simps)
  from Connect_outcome [OF assms(1) run refl this] run
  show "fst (Connect env' (Inr n) randId randNum clientID secret loginMode timeout cli) =
      Some (if SmgpLoginRespPkt.Status resp = 0 then None else Some (Status_Error (SmgpLoginRespPkt.Status resp)))"
    "\<exists>c. cli_conn (snd (Connect env' (Inr n) randId randNum clientID secret loginMode timeout cli)) = Some c \<and>
      State c = (if SmgpLoginRespPkt.Status resp = 0 then CONNECTION_AUTHOK else CONNECTION_CONNECTED) \<and>
      \<not> n_closed (c_net c)"
    by (auto simp: login_resp_sent_def SmgpLoginRespPkt.defs split: if_splits)
qed

section \<open>All calls\<close>

lemma Connect_live:
  assumes "client_live cli" "\<And>n. dialled = Inr n \<Longrightarrow> \<not> n_closed n"
    "Connect env dialled randId randNum clientID secret loginMode timeout cli = (res, cli')"
  shows "client_live cli'"
proof (cases dialled)
  case (Inr n)
  note open' = assms(2) [OF Inr] and run = assms(3) [unfolded Inr]
  let ?bs = "login_bytes env randId clientID secret loginMode (ver cli)"
  consider "\<not> n_tcp n" | "takes_login n" | k s fs where "n_tcp n" "n_wfail n = Some (k, s) # fs"
    using open' by (cases "n_wfail n"; cases "hd (n_wfail n)") (auto simp: takes_login_def)
  then show ?thesis
  proof cases
    case 1
    with run assms(1) show ?thesis by (simp add: Connect_def NewConnection_def)
  next
    case 2
    obtain r c1 where "RecvAndUnpackPkt timeout (logging_in env n randId randNum (ver cli) ?bs) = (r, c1)" by fastforce
    from Connect_outcome [OF 2 run refl this] show ?thesis by auto
  next
    case (3 k s fs)
    from connect_end_error [OF logging_in_simps(2) [OF open'] run [unfolded Connect_write_error [OF 3(1) open' 3(2)]]]
    show ?thesis by auto
  qed
qed (use assms in \<open>simp add: Connect_def\<close>)

text \<open>\<open>Disconnect\<close> never panics; it ends all a connection has, and a second call changes nothing.\<close>

lemma Disconnect_live:
  assumes "client_live cli" "cli_conn cli = Some c"
  shows "\<exists>c'. Disconnect cli = Some (cli\<lparr>cli_conn := Some c'\<rparr>) \<and> conn_live c' \<and> conn_shut c' \<and>
    n_out (c_net c') = n_out (c_net c) \<and> Disconnect (cli\<lparr>cli_conn := Some c'\<rparr>) = Some (cli\<lparr>cli_conn := Some c'\<rparr>)"
proof -
  obtain c' where "Conn_Close c = Some c'" "conn_live c'" "conn_shut c'" "n_out (c_net c') = n_out (c_net c)"
    using conn_live_Close [of c] assms by (auto simp: client_live_def)
  with assms(2) Close_result(3) [of c c'] show ?thesis by (auto simp: Disconnect_def)
qed

lemma Client_calls_live:
  "client_live cli \<Longrightarrow> Client_SendReqPkt env noticed p cli = Some (seq, e, p', cli') \<Longrightarrow> client_live cli'"
  "client_live cli \<Longrightarrow> Client_SendRspPkt env p seq cli = Some (e, p', cli') \<Longrightarrow> client_live cli'"
  "client_live cli \<Longrightarrow> Client_RecvAndUnpackPkt timeout cli = (r, cli') \<Longrightarrow> client_live cli'"
  by (auto simp: Client_SendReqPkt_def Client_SendRspPkt_def Client_RecvAndUnpackPkt_def client_live_def
      dest: conn_live_SendPkt conn_live_Recv conn_live_next split: option.splits prod.splits bind_splits)

text \<open>A program that uses a client: any calls, in any order, on connections as the dialler makes them.\<close>

inductive client_reach :: "Client \<Rightarrow> bool" where
  new: "client_reach (NewClient v)"
| connect: "client_reach cli \<Longrightarrow> (\<And>n. dialled = Inr n \<Longrightarrow> \<not> n_closed n) \<Longrightarrow>
    Connect env dialled randId randNum clientID secret loginMode timeout cli = (res, cli') \<Longrightarrow> client_reach cli'"
| disconnect: "client_reach cli \<Longrightarrow> Disconnect cli = Some cli' \<Longrightarrow> client_reach cli'"
| send_req: "client_reach cli \<Longrightarrow> Client_SendReqPkt env noticed p cli = Some (seq, e, p', cli') \<Longrightarrow> client_reach cli'"
| send_rsp: "client_reach cli \<Longrightarrow> Client_SendRspPkt env p seq cli = Some (e, p', cli') \<Longrightarrow> client_reach cli'"
| receive: "client_reach cli \<Longrightarrow> Client_RecvAndUnpackPkt timeout cli = (r, cli') \<Longrightarrow> client_reach cli'"

lemma client_reach_live: "client_reach cli \<Longrightarrow> client_live cli"
proof (induction rule: client_reach.induct)
  case (connect cli dialled env randId randNum clientID secret loginMode timeout res cli')
  then show ?case using Connect_live by blast
next
  case (disconnect cli cli')
  then show ?case
    using Disconnect_live [of cli] by (cases "cli_conn cli") (auto simp: Disconnect_def [of cli])
qed (auto intro: Client_calls_live)

end
