(* ===== verification/Server.thy ===== *)
theory Server
  imports Framing
begin

text \<open>
  \<^verbatim>\<open>server/server.go\<close>: the accept loop, the reading and answering of requests, the active test, and
  the chain of handlers. The two goroutines of a connection, the serve loop and the ticker, are put
  together in theory \<open>Serve_Loop\<close>. Logging is left out; \<open>sharpv\<close> stands for what \<^verbatim>\<open>%#v\<close> prints of a
  packet in an error text.
\<close>

section \<open>Requests and responses\<close>

text \<open>
  A \<^verbatim>\<open>Response\<close> with its embedded \<^verbatim>\<open>Packet\<close>: the packet received, the packet to answer with (nil is
  \<open>None\<close>), and its sequence number. The connection that \<^verbatim>\<open>Packet\<close> carries is passed next to it.
\<close>

record Response =
  r_Packet :: packet
  r_Packer :: "packet option"
  r_SequenceID :: u32

text \<open>A handler may change the response and the connection; \<open>None\<close> is a panic.\<close>

type_synonym handler = "Response \<Rightarrow> Conn \<Rightarrow> (bool \<times> error option) option \<times> Response \<times> Conn"

record Server =
  Addr :: gostring
  srv_Version :: byte
  srv_N :: "32 word"

datatype ticker = NotStarted | Ticking | Exceeding | Stopped

text \<open>
  The record \<^verbatim>\<open>conn\<close> of the server. The channel \<^verbatim>\<open>exceed\<close> and the goroutine that sends on it are
  \<open>s_ticker\<close>: \<open>Exceeding\<close> while it is blocked in that send.
\<close>

record sconn =
  s_conn :: Conn
  s_server :: Server
  s_n :: "32 word"
  s_counter :: "32 word"
  s_done :: bool
  s_ticker :: ticker

definition newConn :: "u32 \<Rightarrow> nat \<Rightarrow> Server \<Rightarrow> net \<Rightarrow> sconn option" where
  "newConn randId randNum srv rwc = do {
     k \<leftarrow> NewConnection randId randNum rwc (srv_Version srv);
     let k = SetState CONNECTION_CONNECTED k;
     Some \<lparr>s_conn = k, s_server = srv, s_n = srv_N srv, s_counter = 0, s_done = False, s_ticker = NotStarted\<rparr>
   }"

text \<open>The type switch of \<^verbatim>\<open>readPacket\<close>.\<close>

definition with_response :: "packet \<Rightarrow> packet \<Rightarrow> u32 \<Rightarrow> error + Response" where
  "with_response p resp seq = Inr \<lparr>r_Packet = p, r_Packer = Some resp, r_SequenceID = seq\<rparr>"

definition without_response :: "packet \<Rightarrow> error + Response" where
  "without_response p = Inr \<lparr>r_Packet = p, r_Packer = None, r_SequenceID = 0\<rparr>"

fun response_to :: "(packet \<Rightarrow> gostring) \<Rightarrow> byte \<Rightarrow> packet \<Rightarrow> error + Response" where
  "response_to sharpv ver (LoginReq p) =
     (if ClientVersion p \<noteq> ver then
        Inl (OpErr (NewOpError ErrUnsupportedVersion
          (bytes_of ''readPacket: receive unsupported version: '' @ sharpv (LoginReq p))))
      else with_response (LoginReq p) (LoginResp (SmgpLoginRespPkt_new (SmgpLoginReqPkt.SequenceID p)))
             (SmgpLoginReqPkt.SequenceID p))"
| "response_to sharpv ver (SubmitReq p) =
     with_response (SubmitReq p) (SubmitResp (SmgpSubmitRespPkt_new (SmgpSubmitReqPkt.SequenceID p)))
       (SmgpSubmitReqPkt.SequenceID p)"
| "response_to sharpv ver (DeliverReq p) =
     with_response (DeliverReq p) (DeliverResp (SmgpDeliverRespPkt_new (SmgpDeliverReqPkt.SequenceID p)))
       (SmgpDeliverReqPkt.SequenceID p)"
| "response_to sharpv ver (DeliverResp p) = without_response (DeliverResp p)"
| "response_to sharpv ver (ActiveTestReq p) =
     with_response (ActiveTestReq p) (ActiveTestResp (SmgpActiveTestRespPkt.make (SmgpActiveTestReqPkt.SequenceID p)))
       (SmgpActiveTestReqPkt.SequenceID p)"
| "response_to sharpv ver (ActiveTestResp p) = without_response (ActiveTestResp p)"
| "response_to sharpv ver (ExitReq p) =
     with_response (ExitReq p) (ExitResp (SmgpExitRespPkt.make (SmgpExitReqPkt.SequenceID p)))
       (SmgpExitReqPkt.SequenceID p)"
| "response_to sharpv ver (ExitResp p) = without_response (ExitResp p)"
| "response_to sharpv ver (QueryReq p) =
     with_response (QueryReq p) (QueryResp (SmgpQueryRespPkt_new (SmgpQueryReqPkt.SequenceID p)))
       (SmgpQueryReqPkt.SequenceID p)"
| "response_to sharpv ver (QueryResp p) = without_response (QueryResp p)"
| "response_to sharpv ver p =
     Inl (OpErr (NewOpError ErrUnsupportedPkt
       (bytes_of ''readPacket: receive unsupported packet type: '' @ sharpv p)))"

definition readPacket :: "(packet \<Rightarrow> gostring) \<Rightarrow> sconn \<Rightarrow> (error + Response) option \<times> sconn" where
  "readPacket sharpv c =
     (let (res, k) = RecvAndUnpackPkt True (s_conn c); c = c\<lparr>s_conn := k\<rparr>
      in case res of
           None \<Rightarrow> (None, c)
         | Some (Inl e) \<Rightarrow> (Some (Inl e), c)
         | Some (Inr p) \<Rightarrow> (Some (response_to sharpv (srv_Version (s_server c)) p), c))"

definition finishPacket :: "pack_env \<Rightarrow> Response \<Rightarrow> sconn \<Rightarrow> error option \<times> sconn" where
  "finishPacket env r c =
     (case r_Packet r of
        ActiveTestResp _ \<Rightarrow> (None, c\<lparr>s_counter := s_counter c - 1\<rparr>)
      | _ \<Rightarrow> (case r_Packer r of
          None \<Rightarrow> (None, c)
        | Some p \<Rightarrow> let (e, _, k) = SendPkt env p (r_SequenceID r) (s_conn c) in (e, c\<lparr>s_conn := k\<rparr>)))"

text \<open>
  \<^verbatim>\<open>close\<close>: whether it panics, and the connection it leaves. Closing the channel \<^verbatim>\<open>done\<close> is a panic when
  it is nil (before \<^verbatim>\<open>startActiveTest\<close>) or closed.
\<close>

definition server_close :: "pack_env \<Rightarrow> bool \<Rightarrow> sconn \<Rightarrow> bool \<times> sconn" where
  "server_close env noticed c =
     (let (seq, k) = recv_SequenceID noticed (s_conn c);
          (_, _, k) = SendPkt env (ExitReq (SmgpExitReqPkt.make 0)) seq k;
          c = c\<lparr>s_conn := k\<rparr>
      in if s_ticker c = NotStarted \<or> s_done c then (True, c)
         else let c = c\<lparr>s_done := True\<rparr> in
           case Conn_Close (s_conn c) of None \<Rightarrow> (True, c) | Some k \<Rightarrow> (False, c\<lparr>s_conn := k\<rparr>))"

section \<open>The active test\<close>

definition startActiveTest :: "sconn \<Rightarrow> sconn" where
  "startActiveTest c = c\<lparr>s_done := False, s_ticker := Ticking\<rparr>"

text \<open>What the goroutine does at a tick. The comparison is signed.\<close>

definition tick :: "pack_env \<Rightarrow> bool \<Rightarrow> sconn \<Rightarrow> sconn" where
  "tick env noticed c =
     (if sint (s_counter c) \<ge> sint (s_n c) then c\<lparr>s_ticker := Exceeding\<rparr>
      else let (seq, k) = recv_SequenceID noticed (s_conn c);
               (e, _, k) = SendPkt env (ActiveTestReq (SmgpActiveTestReqPkt.make 0)) seq k;
               c = c\<lparr>s_conn := k\<rparr>
           in if e \<noteq> None then c else c\<lparr>s_counter := s_counter c + 1\<rparr>)"

section \<open>The chain of handlers\<close>

text \<open>The handler that \<^verbatim>\<open>ListenAndServe\<close> makes of its arguments.\<close>

fun handler_chain :: "handler list \<Rightarrow> handler" where
  "handler_chain [] r k = (Some (False, None), r, k)"
| "handler_chain (h # hs) r k =
     (case h r k of
        (None, r, k) \<Rightarrow> (None, r, k)
      | (Some (next, e), r, k) \<Rightarrow>
          if e \<noteq> None \<or> \<not> next then (Some (next, e), r, k) else handler_chain hs r k)"

section \<open>The accept loop\<close>

text \<open>
  What \<^verbatim>\<open>Accept\<close> returns, call by call. The loop serves the connections accepted and sleeps after
  temporary errors; the result is the error that ends it (\<open>None\<close> while the list lasts), the sleeps
  in nanoseconds and the connections. A time of 64 bits holds all of them.
\<close>

datatype accept_result = Accepted net | TemporaryError error | PermanentError error

definition next_delay :: "nat \<Rightarrow> nat" where
  "next_delay tempDelay =
     (let tempDelay = (if tempDelay = 0 then 5 * 1000000 else tempDelay * 2);
          max = 1 * 1000000000
      in if tempDelay > max then max else tempDelay)"

fun Serve :: "nat \<Rightarrow> accept_result list \<Rightarrow> error option \<times> nat list \<times> net list" where
  "Serve tempDelay [] = (None, [], [])"
| "Serve tempDelay (Accepted rw # rest) =
     (let (e, sleeps, conns) = Serve 0 rest in (e, sleeps, rw # conns))"
| "Serve tempDelay (TemporaryError e0 # rest) =
     (let tempDelay = next_delay tempDelay;
          (e, sleeps, conns) = Serve tempDelay rest
      in (e, tempDelay # sleeps, conns))"
| "Serve tempDelay (PermanentError e # rest) = (Some e, [], [])"

text \<open>The listener wraps \<^verbatim>\<open>AcceptTCP\<close> to turn keep-alive on; the period that it sets is left out.\<close>

fun tcpKeepAliveListener_Accept :: "accept_result \<Rightarrow> accept_result" where
  "tcpKeepAliveListener_Accept (Accepted tc) = Accepted (tc\<lparr>n_keepalive := True\<rparr>)"
| "tcpKeepAliveListener_Accept (TemporaryError e) = TemporaryError e"
| "tcpKeepAliveListener_Accept (PermanentError e) = PermanentError e"

definition listenAndServe :: "error + accept_result list \<Rightarrow> Server \<Rightarrow> error option \<times> nat list \<times> net list" where
  "listenAndServe listened srv =
     (if Addr srv = [] then (Some ErrEmptyServerAddr, [], [])
      else case listened of
             Inl e \<Rightarrow> (Some e, [], [])
           | Inr accepts \<Rightarrow> Serve 0 (map tcpKeepAliveListener_Accept accepts))"

text \<open>The server that \<^verbatim>\<open>ListenAndServe\<close> sets up, with its handler; nil handlers are \<open>None\<close>.\<close>

definition make_server :: "gostring \<Rightarrow> byte \<Rightarrow> 32 word \<Rightarrow> handler list option \<Rightarrow> error + Server \<times> handler" where
  "make_server addr version n handlers =
     (if addr = [] then Inl ErrEmptyServerAddr
      else case handlers of
        None \<Rightarrow> Inl ErrNoHandlers
      | Some hs \<Rightarrow> Inr (\<lparr>Addr = addr, srv_Version = version, srv_N = n\<rparr>, handler_chain hs))"

definition ListenAndServe ::
  "error + accept_result list \<Rightarrow> gostring \<Rightarrow> byte \<Rightarrow> 32 word \<Rightarrow> handler list option \<Rightarrow> error option \<times> nat list \<times> net list" where
  "ListenAndServe listened addr version n handlers =
     (case make_server addr version n handlers of
        Inl e \<Rightarrow> (Some e, [], [])
      | Inr (server, handler) \<Rightarrow> listenAndServe listened server)"

section \<open>Delays\<close>

lemma next_delay_bounds: "5000000 \<le> d \<or> d = 0 \<Longrightarrow> 5000000 \<le> next_delay d \<and> next_delay d \<le> 1000000000"
  by (auto simp: next_delay_def Let_def)

text \<open>The delay after the \<open>k\<close>-th temporary error in a row.\<close>

definition backoff :: "nat \<Rightarrow> nat" where
  "backoff k = (if k = 0 then 0 else min (5000000 * 2 ^ (k - 1)) 1000000000)"

lemma next_delay_backoff: "next_delay (backoff k) = backoff (k + 1)"
  by (cases k) (auto simp: next_delay_def backoff_def Let_def min_def)

lemma Serve_temporary:
  "Serve (backoff k) (map TemporaryError es @ rest) =
   (let (e, sleeps, conns) = Serve (backoff (k + length es)) rest
    in (e, map backoff [k + 1..<k + 1 + length es] @ sleeps, conns))"
proof (induction es arbitrary: k)
  case (Cons a es)
  then show ?case
    using Cons.IH [of "k + 1"] by (simp add: next_delay_backoff upt_conv_Cons split_beta Let_def del: upt_Suc)
qed (simp add: split_beta)


section \<open>Responses\<close>

text \<open>A response carries the number of its request and the identifier that belongs to the request's.\<close>

lemma response_to_Packet: "response_to sharpv ver p = Inr r \<Longrightarrow> r_Packet r = p"
  by (cases p) (auto simp: with_response_def without_response_def split: if_splits)

lemmas packet_new_defs = SmgpActiveTestReqPkt.defs SmgpActiveTestRespPkt.defs SmgpExitReqPkt.defs SmgpExitRespPkt.defs
  SmgpLoginRespPkt_new_def SmgpLoginRespPkt.defs SmgpSubmitRespPkt_new_def SmgpSubmitRespPkt.defs
  SmgpDeliverRespPkt_new_def SmgpDeliverRespPkt.defs SmgpQueryRespPkt_new_def SmgpQueryRespPkt.defs

lemma response_to_seq:
  "response_to sharpv ver p = Inr r \<Longrightarrow> r_Packer r = Some q \<Longrightarrow>
   r_SequenceID r = packet_seq p \<and> packet_seq q = packet_seq p"
  by (cases p) (auto simp: with_response_def without_response_def packet_new_defs split: if_splits)

lemma response_id:
  "SMGP_LOGIN_RESP = (SMGP_LOGIN OR 0x80000000)" "SMGP_SUBMIT_RESP = (SMGP_SUBMIT OR 0x80000000)"
  "SMGP_DELIVER_RESP = (SMGP_DELIVER OR 0x80000000)" "SMGP_ACTIVE_TEST_RESP = (SMGP_ACTIVE_TEST OR 0x80000000)"
  "SMGP_EXIT_RESP = (SMGP_EXIT OR 0x80000000)" "SMGP_QUERY_RESP = (SMGP_QUERY OR 0x80000000)"
  by (simp_all add: request_defs)

lemma response_to_id:
  "response_to sharpv ver p = Inr r \<Longrightarrow> r_Packer r = Some q \<Longrightarrow> packet_id q = (packet_id p OR 0x80000000)"
  by (cases p) (auto simp: with_response_def without_response_def response_id split: if_splits)

text \<open>There is a response to every request, and none to a response.\<close>

lemma response_to_None:
  "response_to sharpv ver p = Inr r \<Longrightarrow> r_Packer r = None \<longleftrightarrow> 0x80000000 \<le> packet_id p"
  by (cases p; simp add: with_response_def without_response_def request_defs split: if_splits; auto simp: word_le_nat_alt)

lemma response_to_Inl:
  "(\<exists>e. response_to sharpv ver p = Inl e) \<longleftrightarrow>
   (\<exists>q. p = LoginResp q) \<or> (\<exists>q. p = SubmitResp q) \<or> (\<exists>q. p = LoginReq q \<and> ClientVersion q \<noteq> ver)"
  by (cases p) (auto simp: with_response_def without_response_def)

text \<open>One request frame in, one response frame out.\<close>

lemma readPacket_frame:
  assumes "open_conn (s_conn c)" "12 + length body \<le> 2477" "request_id_valid rid"
    "n_in (c_net (s_conn c)) = map Data (frame rid seq body) @ rest"
    "decode_packet rid seq body = Some (Inr p)"
  shows "readPacket sharpv c = (Some (response_to sharpv (srv_Version (s_server c)) p),
    c\<lparr>s_conn := (s_conn c)\<lparr>c_net := (c_net (s_conn c))\<lparr>n_in := rest, n_deadline := False\<rparr>\<rparr>\<rparr>)"
  using assms(5) RecvAndUnpackPkt_frame [OF assms(1-4), of True] by (simp add: readPacket_def)

lemma finishPacket_answer:
  assumes "open_conn (s_conn c)" "n_wfail (c_net (s_conn c)) = []" "\<forall>p. r_Packet r \<noteq> ActiveTestResp p"
    "r_Packer r = Some q" "packet_wf env q" "finishPacket env r c = (e, c')"
  shows "e = None \<and> n_out (c_net (s_conn c')) = n_out (c_net (s_conn c)) @ packet_frame env (r_SequenceID r) q"
  using assms(3,4,6) SendPkt_ok(1,2) [OF assms(1,2,5), of "r_SequenceID r"]
  by (cases "SendPkt env q (r_SequenceID r) (s_conn c)"; cases "r_Packet r") (auto simp: finishPacket_def)

section \<open>Detecting a dead peer\<close>

text \<open>A tick on a working connection: one active test more, or the signal.\<close>

lemma tick_send:
  assumes "open_conn (s_conn c)" "n_wfail (c_net (s_conn c)) = []" "sint (s_counter c) < sint (s_n c)"
  shows "open_conn (s_conn (tick env noticed c))" "n_wfail (c_net (s_conn (tick env noticed c))) = []"
    "s_counter (tick env noticed c) = s_counter c + 1" "s_ticker (tick env noticed c) = s_ticker c"
    "s_n (tick env noticed c) = s_n c"
    "\<exists>seq. n_out (c_net (s_conn (tick env noticed c))) =
       n_out (c_net (s_conn c)) @ frame SMGP_ACTIVE_TEST seq []"
proof -
  let ?p = "ActiveTestReq (SmgpActiveTestReqPkt.make 0)"
  obtain seq k where seq: "recv_SequenceID noticed (s_conn c) = (seq, k)" by fastforce
  then have k: "open_conn k" "n_wfail (c_net k) = []" "c_net k = c_net (s_conn c)"
    using assms(1,2) by (auto simp: recv_SequenceID_def open_conn_def split: prod.splits)
  obtain e p' k' where send: "SendPkt env ?p seq k = (e, p', k')" by (cases "SendPkt env ?p seq k")
  note SendPkt_ok [OF k(1,2) _ send]
  then show "open_conn (s_conn (tick env noticed c))" "n_wfail (c_net (s_conn (tick env noticed c))) = []"
    "s_counter (tick env noticed c) = s_counter c + 1" "s_ticker (tick env noticed c) = s_ticker c"
    "s_n (tick env noticed c) = s_n c"
    "\<exists>seq. n_out (c_net (s_conn (tick env noticed c))) =
       n_out (c_net (s_conn c)) @ frame SMGP_ACTIVE_TEST seq []"
    using assms(3) seq send k(3) by (auto simp: tick_def packet_frame_def)
qed

lemma sint_Suc:
  fixes v w :: "32 word"
  assumes "sint w < sint v"
  shows "sint (w + 1) = sint w + 1"
proof -
  have "sint v \<le> 2 ^ 31 - 1" "- (2 ^ 31) \<le> sint w"
    using sint_lt [of v] sint_ge [of w] by simp_all
  with assms show ?thesis
    by (simp add: sint_word_ariths signed_take_bit_int_eq_self)
qed

text \<open>While the generator runs, the test carries its next number.\<close>

lemma tick_number:
  assumes "open_conn (s_conn c)" "n_wfail (c_net (s_conn c)) = []" "sint (s_counter c) < sint (s_n c)"
    "c_SequenceID (s_conn c) = \<lparr>g_next = i, g_done = False, g_closed = False\<rparr>"
  shows "n_out (c_net (s_conn (tick env noticed c))) = n_out (c_net (s_conn c)) @ frame SMGP_ACTIVE_TEST i []"
    "c_SequenceID (s_conn (tick env noticed c)) = \<lparr>g_next = i + 1, g_done = False, g_closed = False\<rparr>"
proof -
  let ?p = "ActiveTestReq (SmgpActiveTestReqPkt.make 0)"
  let ?k = "(s_conn c)\<lparr>c_SequenceID := \<lparr>g_next = i + 1, g_done = False, g_closed = False\<rparr>\<rparr>"
  have seq: "recv_SequenceID noticed (s_conn c) = (i, ?k)"
    by (simp add: recv_SequenceID_def gen_recv_def assms(4) next_id_def)
  have k: "open_conn ?k" "n_wfail (c_net ?k) = []"
    using assms(1,2) by (simp_all add: open_conn_def)
  obtain e p' k' where send: "SendPkt env ?p i ?k = (e, p', k')" by (cases "SendPkt env ?p i ?k")
  note sent = SendPkt_ok [OF k _ send] SendPkt_conn(2) [OF send]
  show "n_out (c_net (s_conn (tick env noticed c))) = n_out (c_net (s_conn c)) @ frame SMGP_ACTIVE_TEST i []"
    "c_SequenceID (s_conn (tick env noticed c)) = \<lparr>g_next = i + 1, g_done = False, g_closed = False\<rparr>"
    using assms(3) seq send sent by (simp_all add: tick_def packet_frame_def)
qed

text \<open>The ticks of a ticker that nobody answers.\<close>

lemma ticks_count:
  assumes "open_conn (s_conn c)" "n_wfail (c_net (s_conn c)) = []" "s_counter c = 0" "int k \<le> sint (s_n c)"
    "c_SequenceID (s_conn c) = \<lparr>g_next = i, g_done = False, g_closed = False\<rparr>"
  shows "sint (s_counter ((tick env noticed ^^ k) c)) = int k \<and> s_ticker ((tick env noticed ^^ k) c) = s_ticker c \<and>
    s_n ((tick env noticed ^^ k) c) = s_n c \<and> open_conn (s_conn ((tick env noticed ^^ k) c)) \<and>
    n_wfail (c_net (s_conn ((tick env noticed ^^ k) c))) = [] \<and>
    c_SequenceID (s_conn ((tick env noticed ^^ k) c)) = \<lparr>g_next = i + of_nat k, g_done = False, g_closed = False\<rparr> \<and>
    n_out (c_net (s_conn ((tick env noticed ^^ k) c))) =
      n_out (c_net (s_conn c)) @ concat (map (\<lambda>j. frame SMGP_ACTIVE_TEST (i + of_nat j) []) [0..<k])"
  using assms
proof (induction k)
  case (Suc k)
  let ?c = "(tick env noticed ^^ k) c"
  have IH: "sint (s_counter ?c) = int k" "s_ticker ?c = s_ticker c" "s_n ?c = s_n c" "open_conn (s_conn ?c)"
    "n_wfail (c_net (s_conn ?c)) = []"
    "c_SequenceID (s_conn ?c) = \<lparr>g_next = i + of_nat k, g_done = False, g_closed = False\<rparr>"
    "n_out (c_net (s_conn ?c)) =
      n_out (c_net (s_conn c)) @ concat (map (\<lambda>j. frame SMGP_ACTIVE_TEST (i + of_nat j) []) [0..<k])"
    using Suc by simp_all
  have less: "sint (s_counter ?c) < sint (s_n ?c)"
    using IH Suc.prems(4) by simp
  show ?case
    using IH tick_send(1-5) [OF IH(4,5) less, of env noticed] tick_number [OF IH(4,5) less IH(6), of env noticed] sint_Suc [OF less]
    by (simp add: add_ac)
qed simp

text \<open>A tick reads nothing.\<close>

lemma tick_in: "n_in (c_net (s_conn (tick env noticed c))) = n_in (c_net (s_conn c))"
  by (auto simp: tick_def recv_SequenceID_def Let_def dest: SendPkt_conn(5) split: prod.split)

end
