(* ===== verification/Serve_Loop.thy ===== *)
theory Serve_Loop
  imports Server
begin

text \<open>
  The two goroutines of a server connection (\<^verbatim>\<open>server/server.go\<close>, \<^verbatim>\<open>serve\<close> and \<^verbatim>\<open>startActiveTest\<close>) as
  a transition system. The serve loop is cut into the pieces between which the ticker can run, one
  for each call; \<open>serve_step\<close> executes the piece that is due. A panic in a piece leads to the
  deferred functions, as the end of the loop does.
\<close>

section \<open>The serve loop\<close>

datatype phase = Starting | Polling | Reading | Handling Response | Finishing Response "error option" | Leaving | Ended

record srv =
  v_conn :: sconn
  v_phase :: phase
  v_panicked :: bool

definition is_timeout :: "error \<Rightarrow> bool" where
  "is_timeout e = (case e of NetError tmo s \<Rightarrow> tmo | _ \<Rightarrow> False)"

text \<open>\<open>v_panicked\<close> records a panic of the deferred \<^verbatim>\<open>close\<close> itself.\<close>

definition serve_step :: "(packet \<Rightarrow> gostring) \<Rightarrow> handler \<Rightarrow> pack_env \<Rightarrow> bool \<Rightarrow> srv \<Rightarrow> srv" where
  "serve_step sharpv h env noticed v =
     (let c = v_conn v in
      case v_phase v of
        Starting \<Rightarrow> v\<lparr>v_conn := startActiveTest c, v_phase := Polling\<rparr>
      | Polling \<Rightarrow>
          if s_ticker c = Exceeding then v\<lparr>v_conn := c\<lparr>s_ticker := Ticking\<rparr>, v_phase := Leaving\<rparr>
          else v\<lparr>v_phase := Reading\<rparr>
      | Reading \<Rightarrow>
          (case readPacket sharpv c of
             (None, c) \<Rightarrow> v\<lparr>v_conn := c, v_phase := Leaving\<rparr>
           | (Some (Inl e), c) \<Rightarrow> v\<lparr>v_conn := c, v_phase := (if is_timeout e then Polling else Leaving)\<rparr>
           | (Some (Inr r), c) \<Rightarrow> v\<lparr>v_conn := c, v_phase := Handling r\<rparr>)
      | Handling r \<Rightarrow>
          (case h r (s_conn c) of
             (None, r, k) \<Rightarrow> v\<lparr>v_conn := c\<lparr>s_conn := k\<rparr>, v_phase := Leaving\<rparr>
           | (Some (_, e), r, k) \<Rightarrow> v\<lparr>v_conn := c\<lparr>s_conn := k\<rparr>, v_phase := Finishing r e\<rparr>)
      | Finishing r e \<Rightarrow>
          (let (e1, c) = finishPacket env r c
           in v\<lparr>v_conn := c, v_phase := (if e1 \<noteq> None \<or> e \<noteq> None then Leaving else Polling)\<rparr>)
      | Leaving \<Rightarrow>
          (let (panicked, c) = server_close env noticed c
           in v\<lparr>v_conn := c, v_phase := Ended, v_panicked := panicked\<rparr>)
      | Ended \<Rightarrow> v)"

section \<open>Both goroutines\<close>

text \<open>
  The steps: the serve loop; a tick; the ticker seeing \<^verbatim>\<open>done\<close> closed, which its \<^verbatim>\<open>select\<close> may prefer to
  a tick or not; and packets that other goroutines send on the connection, as handlers may start them.
\<close>

inductive srv_step :: "(packet \<Rightarrow> gostring) \<Rightarrow> handler \<Rightarrow> srv \<Rightarrow> srv \<Rightarrow> bool"
  for sharpv h where
  serve: "v_phase v \<noteq> Ended \<Longrightarrow> srv_step sharpv h v (serve_step sharpv h env noticed v)"
| ticks: "s_ticker (v_conn v) = Ticking \<Longrightarrow> srv_step sharpv h v (v\<lparr>v_conn := tick env noticed (v_conn v)\<rparr>)"
| ticker_done: "s_ticker (v_conn v) = Ticking \<Longrightarrow> s_done (v_conn v) \<Longrightarrow>
    srv_step sharpv h v (v\<lparr>v_conn := (v_conn v)\<lparr>s_ticker := Stopped\<rparr>\<rparr>)"
| others: "SendPkt env p seq (s_conn (v_conn v)) = (e, p', k) \<Longrightarrow>
    srv_step sharpv h v (v\<lparr>v_conn := (v_conn v)\<lparr>s_conn := k\<rparr>\<rparr>)"

inductive srv_reach :: "(packet \<Rightarrow> gostring) \<Rightarrow> handler \<Rightarrow> srv \<Rightarrow> bool"
  for sharpv h where
  start: "newConn randId randNum server n = Some c \<Longrightarrow> \<not> n_closed n \<Longrightarrow>
    srv_reach sharpv h \<lparr>v_conn = c, v_phase = Starting, v_panicked = False\<rparr>"
| step: "srv_reach sharpv h v \<Longrightarrow> srv_step sharpv h v v' \<Longrightarrow> srv_reach sharpv h v'"

section \<open>The contract of a handler\<close>

text \<open>A handler must leave a live connection live; it may close it, but not play with its state.\<close>

definition srv_inv :: "srv \<Rightarrow> bool" where
  "srv_inv v \<longleftrightarrow> conn_live (s_conn (v_conn v)) \<and> \<not> v_panicked v \<and>
     (s_ticker (v_conn v) = NotStarted \<longleftrightarrow> v_phase v = Starting) \<and>
     (v_phase v = Starting \<longrightarrow> \<not> s_done (v_conn v)) \<and>
     (s_done (v_conn v) \<longleftrightarrow> v_phase v = Ended) \<and>
     (v_phase v = Ended \<longrightarrow> n_closed (c_net (s_conn (v_conn v))))"

lemma server_close_live:
  assumes "conn_live (s_conn c)" "s_ticker c \<noteq> NotStarted" "\<not> s_done c" "server_close env noticed c = (p, c')"
  shows "\<not> p" "conn_live (s_conn c')" "s_done c'" "n_closed (c_net (s_conn c'))" "s_ticker c' = s_ticker c"
proof -
  let ?p = "ExitReq (SmgpExitReqPkt.make 0)"
  obtain seq k where seq: "recv_SequenceID noticed (s_conn c) = (seq, k)" by fastforce
  obtain e p' k1 where send: "SendPkt env ?p seq k = (e, p', k1)" by (cases "SendPkt env ?p seq k")
  have live: "conn_live k1"
    using conn_live_SendPkt [OF send conn_live_next(1) [OF seq assms(1)]] .
  obtain k2 where close: "Conn_Close k1 = Some k2" and k2: "conn_live k2" "conn_shut k2"
    using conn_live_Close [OF live] by blast
  have eq: "(p, c') = (False, c\<lparr>s_done := True, s_conn := k2\<rparr>)"
    using assms(2-4) seq send close by (auto simp: server_close_def Let_def)
  then show "\<not> p" "conn_live (s_conn c')" "s_done c'" "n_closed (c_net (s_conn c'))" "s_ticker c' = s_ticker c"
    using k2 by (simp_all add: conn_shut_def)
qed

lemma tick_live:
  assumes "conn_live (s_conn c)"
  shows "conn_live (s_conn (tick env noticed c))" "s_done (tick env noticed c) = s_done c"
    "s_ticker (tick env noticed c) = s_ticker c \<or> s_ticker (tick env noticed c) = Exceeding"
    "n_closed (c_net (s_conn (tick env noticed c))) = n_closed (c_net (s_conn c))"
proof -
  let ?p = "ActiveTestReq (SmgpActiveTestReqPkt.make 0)"
  obtain seq k where seq: "recv_SequenceID noticed (s_conn c) = (seq, k)" by fastforce
  obtain e p' k1 where send: "SendPkt env ?p seq k = (e, p', k1)" by (cases "SendPkt env ?p seq k")
  have live: "conn_live k1"
    using conn_live_SendPkt [OF send conn_live_next(1) [OF seq assms(1)]] .
  have "n_closed (c_net k1) = n_closed (c_net (s_conn c))"
    using SendPkt_conn(4) [OF send] seq by (auto simp: recv_SequenceID_def split: prod.splits)
  with live seq send assms
  show "conn_live (s_conn (tick env noticed c))" "s_done (tick env noticed c) = s_done c"
    "s_ticker (tick env noticed c) = s_ticker c \<or> s_ticker (tick env noticed c) = Exceeding"
    "n_closed (c_net (s_conn (tick env noticed c))) = n_closed (c_net (s_conn c))"
    by (auto simp: tick_def Let_def)
qed

lemma readPacket_live:
  assumes "readPacket sharpv c = (r, c')" "conn_live (s_conn c)"
  shows "conn_live (s_conn c')" "s_done c' = s_done c" "s_ticker c' = s_ticker c"
  using assms
  by (auto simp: readPacket_def Let_def dest: conn_live_Recv split: prod.splits option.splits sum.splits)

lemma finishPacket_live:
  assumes "finishPacket env r c = (e, c')" "conn_live (s_conn c)"
  shows "conn_live (s_conn c')" "s_done c' = s_done c" "s_ticker c' = s_ticker c"
  using assms
  by (auto simp: finishPacket_def Let_def dest: conn_live_SendPkt split: prod.splits option.splits packet.splits)

locale handler_contract =
  fixes h :: handler
  assumes keeps_live: "h r k = (res, r', k') \<Longrightarrow> conn_live k \<Longrightarrow> conn_live k'"
begin

lemma serve_step_inv:
  assumes "srv_inv v" "v_phase v \<noteq> Ended"
  shows "srv_inv (serve_step sharpv h env noticed v)"
proof (cases "v_phase v")
  case Starting
  with assms show ?thesis by (auto simp: serve_step_def srv_inv_def Let_def startActiveTest_def)
next
  case Polling
  with assms show ?thesis by (auto simp: serve_step_def srv_inv_def Let_def)
next
  case Reading
  obtain res c' where rp: "readPacket sharpv (v_conn v) = (res, c')" by fastforce
  have "conn_live (s_conn (v_conn v))" using assms(1) by (simp add: srv_inv_def)
  from readPacket_live [OF rp this] assms Reading rp show ?thesis
    by (auto simp: serve_step_def srv_inv_def split: option.split sum.split)
next
  case (Handling r)
  obtain res r' k where h: "h r (s_conn (v_conn v)) = (res, r', k)" by (cases "h r (s_conn (v_conn v))")
  have "conn_live (s_conn (v_conn v))" using assms(1) by (simp add: srv_inv_def)
  from keeps_live [OF h this] assms Handling h show ?thesis
    by (auto simp: serve_step_def srv_inv_def Let_def split: option.split)
next
  case (Finishing r e)
  obtain e1 c' where fp: "finishPacket env r (v_conn v) = (e1, c')" by fastforce
  have "conn_live (s_conn (v_conn v))" using assms(1) by (simp add: srv_inv_def)
  from finishPacket_live [OF fp this] assms Finishing fp show ?thesis
    by (auto simp: serve_step_def srv_inv_def)
next
  case Leaving
  obtain p c' where cl: "server_close env noticed (v_conn v) = (p, c')" by fastforce
  have "conn_live (s_conn (v_conn v))" "s_ticker (v_conn v) \<noteq> NotStarted" "\<not> s_done (v_conn v)"
    using assms Leaving by (simp_all add: srv_inv_def)
  from server_close_live [OF this cl] assms Leaving cl show ?thesis
    by (auto simp: serve_step_def srv_inv_def)
qed (use assms in simp)

lemma srv_step_inv: "srv_step sharpv h v v' \<Longrightarrow> srv_inv v \<Longrightarrow> srv_inv v'"
proof (induction rule: srv_step.induct)
  case (serve v env noticed)
  then show ?case using serve_step_inv by blast
next
  case (ticks v env noticed)
  then show ?case
    using tick_live [of "v_conn v" env noticed] by (auto simp: srv_inv_def)
next
  case (others env p seq v e p' k)
  then show ?case
    using conn_live_SendPkt SendPkt_conn(4) by (fastforce simp: srv_inv_def)
qed (auto simp: srv_inv_def)

lemma srv_reach_inv: "srv_reach sharpv h v \<Longrightarrow> srv_inv v"
proof (induction rule: srv_reach.induct)
  case (start randId randNum server n c)
  then show ?case
    using NewConnection_inv [of n randId randNum "srv_Version server"]
    by (auto simp: newConn_def srv_inv_def conn_live_def conn_safe_def conn_inv_def SetState_def state_defs
        split: bind_splits)
qed (rule srv_step_inv)

end

text \<open>A chain keeps the contract when its members do.\<close>

lemma handler_chain_contract: "\<forall>h \<in> set hs. handler_contract h \<Longrightarrow> handler_contract (handler_chain hs)"
proof (induction hs)
  case (Cons h hs)
  then have h: "handler_contract h" and hs: "handler_contract (handler_chain hs)" by simp_all
  show ?case
  proof (rule handler_contract.intro)
    fix r k res r' k'
    assume run: "handler_chain (h # hs) r k = (res, r', k')" and "conn_live k"
    obtain res1 r1 k1 where 1: "h r k = (res1, r1, k1)" by (cases "h r k")
    with handler_contract.keeps_live [OF h 1] \<open>conn_live k\<close> have "conn_live k1" by simp
    with run 1 show "conn_live k'"
      by (auto dest: handler_contract.keeps_live [OF hs] split: option.splits prod.splits if_splits)
  qed
qed (auto intro: handler_contract.intro)

interpretation empty_chain: handler_contract "handler_chain []"
  by (rule handler_chain_contract) simp

section \<open>A ticker that never ends\<close>

text \<open>
  The ticker that has found the counter exceeded waits for the serve loop to take its signal. If the
  loop has ended by then, nobody ever does.
\<close>

lemma ticker_stuck:
  assumes "(srv_step sharpv h)\<^sup>*\<^sup>* v v'" "v_phase v = Ended" "s_ticker (v_conn v) = Exceeding"
  shows "v_phase v' = Ended \<and> s_ticker (v_conn v') = Exceeding"
  using assms by (induction rule: rtranclp_induct) (auto elim: srv_step.cases)

end
