(* ===== verification/Example_Server.thy ===== *)
theory Example_Server
  imports Serve_Loop Msg_Id
begin

text \<open>
  \<^verbatim>\<open>examples/server/main.go\<close>: the two handlers of the example server, the only handlers in the
  repository. \<open>clock i\<close> is what the \<open>i\<close>-th call of \<^verbatim>\<open>time.Now\<close> in a run of the submit handler returns.
  The logging is left out.
\<close>

definition user :: gostring where "user = bytes_of ''100''"
definition password :: gostring where "password = bytes_of ''12345678''"
definition spId :: gostring where "spId = bytes_of ''123456''"

section \<open>Login\<close>

text \<open>A handler that is given a response of another type than it asserts panics.\<close>

definition handleLogin :: handler where
  "handleLogin r k =
     (case r_Packet r of
        LoginReq req \<Rightarrow>
          (case r_Packer r of
             Some (LoginResp resp) \<Rightarrow>
               let resp = resp\<lparr>ServerVersion := VERSION\<rparr>;
                   reject = (let resp = resp\<lparr>SmgpLoginRespPkt.Status := 21\<rparr>
                     in (Some (False, Some (Status_Error (SmgpLoginRespPkt.Status resp))),
                         r\<lparr>r_Packer := Some (LoginResp resp)\<rparr>, k))
               in if ClientID req \<noteq> OctetString_Byte user 8 then reject
                  else (case GenAuthenticatorClient (ClientID req) password (TimeStamp req) of
                    Inl e \<Rightarrow> reject
                  | Inr auth \<Rightarrow>
                      if SmgpLoginReqPkt.AuthenticatorClient req \<noteq> auth then reject
                      else (case GenAuthenticatorServer (SmgpLoginRespPkt.Status resp) password auth of
                        Inl e \<Rightarrow> reject
                      | Inr authServer \<Rightarrow>
                          (Some (False, None),
                           r\<lparr>r_Packer := Some (LoginResp (resp\<lparr>AuthenticatorServer := authServer\<rparr>))\<rparr>, k)))
           | _ \<Rightarrow> (None, r, k))
      | _ \<Rightarrow> (Some (True, None), r, k))"

section \<open>Submit\<close>

text \<open>The status report for one receiver, and the deliver packet that carries it.\<close>

definition status_report :: "gostring \<Rightarrow> gostring \<Rightarrow> SmgpDeliverMsgContent" where
  "status_report msgId t =
     \<lparr>SubmitMsgID = msgId, Sub = bytes_of ''001'', Dlvrd = bytes_of ''001'', SubmitDate = t, DoneDate = t,
      Stat = bytes_of ''DELIVRD'', Err = bytes_of ''000'', Txt = bytes_of ''00000000000000000000''\<rparr>"

definition report_packet :: "gostring \<Rightarrow> gostring \<Rightarrow> gostring \<Rightarrow> gostring \<Rightarrow> gostring \<Rightarrow> u32 \<Rightarrow> SmgpDeliverReqPkt" where
  "report_packet msgId t recvTime d src seq =
     (let msgContent = Encode (status_report msgId t)
      in SmgpDeliverReqPkt.make msgId IS_REPORT ASCII recvTime d src (of_nat (length msgContent)) msgContent []
           [TAG_TP_udhi \<mapsto> NewTLV TAG_TP_udhi [0], TAG_TP_pid \<mapsto> NewTLV TAG_TP_pid [1]] seq None)"

fun report_packets ::
  "(nat \<Rightarrow> Time) \<Rightarrow> bool \<Rightarrow> gostring \<Rightarrow> gostring \<Rightarrow> nat \<Rightarrow> gostring list \<Rightarrow> Conn \<Rightarrow> SmgpDeliverReqPkt list \<times> Conn" where
  "report_packets clock noticed msgId src i [] k = ([], k)"
| "report_packets clock noticed msgId src i (d # ds) k =
     (let t = GenNowTimeYYStr (clock (2 * i + 1));
          (seq, k) = recv_SequenceID noticed k;
          p = report_packet msgId t (GenNowTimeYYYYStr (clock (2 * i + 2))) d src seq;
          (ps, k) = report_packets clock noticed msgId src (i + 1) ds k
      in (p # ps, k))"

text \<open>
  The handler together with the packets that it hands to the goroutine \<open>mockDeliver\<close>.
\<close>

definition handleSubmit_delivers ::
  "(nat \<Rightarrow> Time) \<Rightarrow> bool \<Rightarrow> Response \<Rightarrow> Conn
   \<Rightarrow> ((bool \<times> error option) option \<times> Response \<times> Conn) \<times> SmgpDeliverReqPkt list" where
  "handleSubmit_delivers clock noticed r k =
     (case r_Packet r of
        SubmitReq req \<Rightarrow>
          (case r_Packer r of
             Some (SubmitResp resp) \<Rightarrow>
               let (n, k) = recv_SequenceNum noticed k;
                   resp = resp\<lparr>SmgpSubmitRespPkt.MsgID := GenMsgID (clock 0) spId n\<rparr>;
                   (deliverPkgs, k) = report_packets clock noticed (SmgpSubmitRespPkt.MsgID resp)
                     (SmgpSubmitReqPkt.SrcTermID req) 0 (SmgpSubmitReqPkt.DestTermID req) k
               in ((Some (False, None), r\<lparr>r_Packer := Some (SubmitResp resp)\<rparr>, k), deliverPkgs)
           | _ \<Rightarrow> ((None, r, k), []))
      | _ \<Rightarrow> ((Some (True, None), r, k), []))"

definition handleSubmit :: "(nat \<Rightarrow> Time) \<Rightarrow> bool \<Rightarrow> handler" where
  "handleSubmit clock noticed r k = fst (handleSubmit_delivers clock noticed r k)"

text \<open>What \<open>mockDeliver\<close> does at its tick: it sends the packets until one fails.\<close>

fun mockDeliver :: "pack_env \<Rightarrow> SmgpDeliverReqPkt list \<Rightarrow> Conn \<Rightarrow> Conn" where
  "mockDeliver env [] k = k"
| "mockDeliver env (p # pkgs) k =
     (let (e, _, k) = SendPkt env (DeliverReq p) (SmgpDeliverReqPkt.SequenceID p) k
      in if e \<noteq> None then k else mockDeliver env pkgs k)"

text \<open>
  \<^verbatim>\<open>main\<close>: the port, version and limit it passes, and its handlers; \<open>listened\<close> is the network's part.
\<close>

definition server_main :: "(nat \<Rightarrow> Time) \<Rightarrow> bool \<Rightarrow> error + accept_result list \<Rightarrow> error option \<times> nat list \<times> net list" where
  "server_main clock noticed listened =
     (let handlers = [handleLogin, handleSubmit clock noticed]
      in ListenAndServe listened (bytes_of '':8890'') VERSION 3 (Some handlers))"

section \<open>The handlers keep their contract\<close>

lemma handleLogin_conn: "snd (snd (handleLogin r k)) = k"
  by (simp add: handleLogin_def Let_def split: packet.split option.split sum.split)

interpretation login_handler: handler_contract handleLogin
proof
  fix r k res r' k'
  assume "handleLogin r k = (res, r', k')" "conn_live k"
  with handleLogin_conn [of r k] show "conn_live k'" by simp
qed

lemma report_packets_live:
  "report_packets clock noticed msgId src i ds k = (ps, k') \<Longrightarrow> conn_live k \<Longrightarrow> conn_live k'"
  by (induction ds arbitrary: i k ps) (auto simp: Let_def dest: conn_live_next split: prod.splits)

lemma handleSubmit_delivers_request:
  assumes "r_Packet r = SubmitReq req" "r_Packer r = Some (SubmitResp resp)"
    "recv_SequenceNum noticed k = (n, k1)"
    "report_packets clock noticed (GenMsgID (clock 0) spId n) (SmgpSubmitReqPkt.SrcTermID req) 0
       (SmgpSubmitReqPkt.DestTermID req) k1 = (ps, k2)"
  shows "handleSubmit_delivers clock noticed r k =
    ((Some (False, None),
      r\<lparr>r_Packer := Some (SubmitResp (resp\<lparr>SmgpSubmitRespPkt.MsgID := GenMsgID (clock 0) spId n\<rparr>))\<rparr>, k2), ps)"
  using assms by (simp add: handleSubmit_delivers_def)

lemma handleSubmit_other:
  "(\<forall>req resp. r_Packet r = SubmitReq req \<longrightarrow> r_Packer r \<noteq> Some (SubmitResp resp)) \<Longrightarrow>
   snd (snd (handleSubmit clock noticed r k)) = k"
  by (simp add: handleSubmit_def handleSubmit_delivers_def split: packet.split option.split)

lemma handleSubmit_live: "conn_live k \<Longrightarrow> conn_live (snd (snd (handleSubmit clock noticed r k)))"
proof (cases "\<exists>req resp. r_Packet r = SubmitReq req \<and> r_Packer r = Some (SubmitResp resp)")
  case True
  assume k: "conn_live k"
  from True obtain req resp where r: "r_Packet r = SubmitReq req" "r_Packer r = Some (SubmitResp resp)" by blast
  obtain n k1 where n: "recv_SequenceNum noticed k = (n, k1)" by fastforce
  obtain ps k2 where ps: "report_packets clock noticed (GenMsgID (clock 0) spId n) (SmgpSubmitReqPkt.SrcTermID req) 0
       (SmgpSubmitReqPkt.DestTermID req) k1 = (ps, k2)" by fastforce
  from report_packets_live [OF ps conn_live_next(2) [OF n k]] show ?thesis
    by (simp add: handleSubmit_def handleSubmit_delivers_request [OF r n ps])
qed (use handleSubmit_other in auto)

interpretation submit_handler: handler_contract "handleSubmit clock noticed" for clock noticed
proof
  fix r k res r' k'
  assume "handleSubmit clock noticed r k = (res, r', k')" "conn_live k"
  with handleSubmit_live [of k clock noticed r] show "conn_live k'" by simp
qed

text \<open>The handler that the example's \<^verbatim>\<open>main\<close> installs.\<close>

interpretation example_handler: handler_contract "handler_chain [handleLogin, handleSubmit clock noticed]"
  for clock noticed
  by (rule handler_chain_contract)
    (simp add: login_handler.handler_contract_axioms submit_handler.handler_contract_axioms)

section \<open>Login\<close>

text \<open>
  The handler accepts a login exactly when the identifier is its user's, padded to eight bytes, and
  the authenticator is the hash over the padded identifier.
\<close>

lemma handleLogin_result:
  assumes "r_Packet r = LoginReq req" "r_Packer r = Some (LoginResp resp)"
  shows "fst (handleLogin r k) =
    (if ClientID req = OctetString_Byte user 8 \<and>
        SmgpLoginReqPkt.AuthenticatorClient req = auth_client (OctetString_Byte user 8) password (TimeStamp req)
     then Some (False, None) else Some (False, Some (Status_Error 21)))"
  using assms
  by (auto simp: handleLogin_def GenAuthenticatorClient_eq GenAuthenticatorServer_def Let_def)

section \<open>Status reports\<close>

lemma gateway_code_spId: "gateway_code spId = 123456"
  by (simp add: spId_def bytes_of_def gateway_code_def ParseInt_def ParseUint_def digit_val_def)

lemma status_report_wf:
  assumes "hex_string msgId" "length msgId = 20" "length t = 10"
  shows "report_wf (status_report msgId t)" "length (Encode (status_report msgId t)) = 122"
proof -
  show "report_wf (status_report msgId t)"
    using assms by (simp add: report_wf_def status_report_def)
  from length_Encode [OF this] show "length (Encode (status_report msgId t)) = 122"
    by (simp add: status_report_def)
qed

lemma report_packet_wf:
  assumes "hex_string msgId" "length msgId = 20" "length t = 10" "fits 14 recvTime" "fits 21 d" "fits 21 src"
  shows "deliver_wf (report_packet msgId t recvTime d src seq)"
  using assms status_report_wf(2) [OF assms(1-3)]
  by (auto simp: deliver_wf_def report_packet_def SmgpDeliverReqPkt.defs Let_def IS_REPORT_def fits_def
      options_wf_def tlv_wf_NewTLV tag_defs split: if_splits)

lemma report_packet_fields:
  assumes "hex_string msgId" "length msgId = 20" "length t = 10"
  shows "IsReport (report_packet msgId t recvTime d src seq) = 1"
    "DecodeDeliverMsgContent (SmgpDeliverReqPkt.MsgContent (report_packet msgId t recvTime d src seq)) =
     Some (status_report msgId t)"
  using DecodeDeliverMsgContent_Encode [OF status_report_wf(1) [OF assms]]
  by (simp_all add: report_packet_def SmgpDeliverReqPkt.defs Let_def IS_REPORT_def)

end
