(* ===== verification/Channel.thy ===== *)
theory Channel
  imports Framing
begin

text \<open>
  Two connections joined by the network, as a queue of packets: what one end writes is what the other
  has to read. The locale \<open>fifo_channel\<close> is the contract of such a queue, for any operations and any
  relation between the states and the packets in transit; it gives the behaviour of all runs. The
  interpretation discharges it for \<open>SendPkt\<close> and \<open>RecvAndUnpackPkt\<close>.
\<close>

section \<open>The abstract queue\<close>

datatype 'm chan_op = Put 'm | Get

text \<open>A run of the queue, with the results of its receives; receiving from the empty queue has to wait.\<close>

fun queue_run :: "('m \<Rightarrow> 'r) \<Rightarrow> 'm chan_op list \<Rightarrow> 'm list \<Rightarrow> ('r list \<times> 'm list) option" where
  "queue_run deliver [] q = Some ([], q)"
| "queue_run deliver (Put m # ops) q = queue_run deliver ops (q @ [m])"
| "queue_run deliver (Get # ops) [] = None"
| "queue_run deliver (Get # ops) (m # q) =
     do { (rs, q') \<leftarrow> queue_run deliver ops q; Some (deliver m # rs, q') }"

text \<open>The same operations on a state.\<close>

fun state_run :: "('m \<Rightarrow> 'c \<Rightarrow> 'c) \<Rightarrow> ('c \<Rightarrow> 'r \<times> 'c) \<Rightarrow> 'm chan_op list \<Rightarrow> 'c \<Rightarrow> 'r list \<times> 'c" where
  "state_run put get [] c = ([], c)"
| "state_run put get (Put m # ops) c = state_run put get ops (put m c)"
| "state_run put get (Get # ops) c =
     (let (r, c) = get c; (rs, c) = state_run put get ops c in (r # rs, c))"

fun puts :: "'m chan_op list \<Rightarrow> 'm list" where
  "puts [] = []"
| "puts (Put m # ops) = m # puts ops"
| "puts (Get # ops) = puts ops"

locale fifo_channel =
  fixes put :: "'m \<Rightarrow> 'c \<Rightarrow> 'c" and get :: "'c \<Rightarrow> 'r \<times> 'c" and deliver :: "'m \<Rightarrow> 'r"
    and ok :: "'m \<Rightarrow> bool" and carries :: "'m list \<Rightarrow> 'c \<Rightarrow> bool"
  assumes put_law: "carries q c \<Longrightarrow> ok m \<Longrightarrow> carries (q @ [m]) (put m c)"
    and get_law: "carries (m # q) c \<Longrightarrow> \<exists>c'. get c = (deliver m, c') \<and> carries q c'"
begin

lemma run_refines:
  "carries q c \<Longrightarrow> \<forall>m \<in> set (puts ops). ok m \<Longrightarrow> queue_run deliver ops q = Some (rs, q') \<Longrightarrow>
   \<exists>c'. state_run put get ops c = (rs, c') \<and> carries q' c'"
proof (induction deliver\<equiv>deliver ops q arbitrary: c rs rule: queue_run.induct)
  case (2 m ops q)
  with put_law [of q c m] show ?case by auto
next
  case (4 ops m q)
  then obtain rs0 where run: "queue_run deliver ops q = Some (rs0, q')" "rs = deliver m # rs0"
    by (auto split: bind_splits)
  from get_law [OF 4(2)] obtain c1 where "get c = (deliver m, c1)" "carries q c1" by blast
  with 4(1) [of c1 rs0] 4(3) run show ?case by auto
qed auto

end

section \<open>Two connections\<close>

text \<open>
  The state: the sending and the receiving end. The network moves what a send writes to the receiver's input.
\<close>

type_synonym message = "pack_env \<times> u32 \<times> packet"

definition link_send :: "message \<Rightarrow> Conn \<times> Conn \<Rightarrow> Conn \<times> Conn" where
  "link_send = (\<lambda>(env, seq, p) (s, r).
     let (e, p', s') = SendPkt env p seq s;
         written = drop (length (n_out (c_net s))) (n_out (c_net s'))
     in (s', r\<lparr>c_net := (c_net r)\<lparr>n_in := n_in (c_net r) @ map Data written\<rparr>\<rparr>))"

definition link_recv :: "bool \<Rightarrow> Conn \<times> Conn \<Rightarrow> (error + packet) option \<times> (Conn \<times> Conn)" where
  "link_recv timeout = (\<lambda>(s, r). let (res, r') = RecvAndUnpackPkt timeout r in (res, (s, r')))"

definition link_deliver :: "message \<Rightarrow> (error + packet) option" where
  "link_deliver = (\<lambda>(env, seq, p). Some (Inr (packet_sent env seq p)))"

definition link_ok :: "message \<Rightarrow> bool" where
  "link_ok = (\<lambda>(env, seq, p). packet_ok env p)"

definition in_transit :: "message list \<Rightarrow> Conn \<times> Conn \<Rightarrow> bool" where
  "in_transit q = (\<lambda>(s, r). open_conn s \<and> n_wfail (c_net s) = [] \<and> open_conn r \<and> list_all link_ok q \<and>
     n_in (c_net r) = map Data (concat (map (\<lambda>(env, seq, p). packet_frame env seq p) q)))"

lemma link_send_law:
  assumes "in_transit q c" "link_ok m"
  shows "in_transit (q @ [m]) (link_send m c)"
proof -
  obtain s r env seq p where c: "c = (s, r)" "m = (env, seq, p)" by (metis prod.exhaust)
  obtain e p' s' where send: "SendPkt env p seq s = (e, p', s')" by (cases "SendPkt env p seq s")
  have "open_conn s" "n_wfail (c_net s) = []" "packet_wf env p"
    using assms by (simp_all add: c in_transit_def link_ok_def packet_ok_def)
  from SendPkt_ok [OF this send] assms send show ?thesis
    by (simp add: c in_transit_def link_send_def open_conn_def)
qed

lemma link_recv_law:
  assumes "in_transit (m # q) c"
  shows "\<exists>c'. link_recv timeout c = (link_deliver m, c') \<and> in_transit q c'"
proof -
  obtain s r env seq p where c: "c = (s, r)" "m = (env, seq, p)" by (metis prod.exhaust)
  have "open_conn r" "packet_ok env p"
    "n_in (c_net r) = map Data (packet_frame env seq p) @ map Data (concat (map (\<lambda>(env, seq, p). packet_frame env seq p) q))"
    using assms by (simp_all add: c in_transit_def link_ok_def)
  from Recv_sent [OF this, of timeout] assms show ?thesis
    by (simp add: c in_transit_def link_recv_def link_deliver_def open_conn_def)
qed

interpretation link: fifo_channel link_send "link_recv timeout" link_deliver link_ok in_transit for timeout
  by unfold_locales (rule link_send_law, assumption+, rule link_recv_law)

end
