(* ===== verification/Session_Properties.thy ===== *)
theory Session_Properties
  imports Client Example_Server Codec_Properties Channel
begin

text \<open>
  The properties of connections, clients and servers, with a witness for each that has a hypothesis.
  The network connection and the connection at the top are the concrete ones that the witnesses use.
\<close>

section \<open>Concrete connections\<close>

definition net_sample :: "net_item list \<Rightarrow> net" where
  "net_sample items = \<lparr>n_in = items, n_out = [], n_wfail = [], n_closed = False, n_deadline = False,
     n_keepalive = False, n_tcp = True\<rparr>"

definition conn_sample :: "net_item list \<Rightarrow> Conn" where
  "conn_sample items = \<lparr>c_net = net_sample items, State = CONNECTION_CONNECTED, Version = VERSION,
     c_SequenceID = newSequenceIDGenerator 41, c_SequenceNum = newSequenceNumGenerator 0\<rparr>"

definition env_sample :: pack_env where
  "env_sample = \<lparr>e_now = \<lparr>year = 2003, month = 3, day = 1, hour = 0, minute = 0, second = 0\<rparr>,
     e_lenOrd = [], e_wrOrd = []\<rparr>"

definition sconn_sample :: "net_item list \<Rightarrow> 32 word \<Rightarrow> sconn" where
  "sconn_sample items n = \<lparr>s_conn = conn_sample items,
     s_server = \<lparr>Addr = bytes_of '':8890'', srv_Version = VERSION, srv_N = n\<rparr>,
     s_n = n, s_counter = 0, s_done = False, s_ticker = Ticking\<rparr>"

lemma sample_simps [simp]:
  "open_conn (conn_sample items)" "n_wfail (c_net (conn_sample items)) = []"
  "n_out (c_net (conn_sample items)) = []" "n_in (c_net (conn_sample items)) = items"
  "s_conn (sconn_sample items n) = conn_sample items" "s_counter (sconn_sample items n) = 0"
  "s_n (sconn_sample items n) = n" "s_ticker (sconn_sample items n) = Ticking"
  "fresh_net (net_sample items)"
  by (simp_all add: open_conn_def conn_sample_def net_sample_def sconn_sample_def state_defs fresh_net_def)

section \<open>Packets on the stream\<close>

text \<open>
  C3: Packets sent one after the other on a working connection arrive in the same order, each as the
  receiver is to see it, when the receiver reads the bytes the sender wrote; the bytes after them stay.
\<close>

theorem stream_round_trip:
  assumes "open_conn s" "n_wfail (c_net s) = []" "open_conn r"
    "\<forall>(env, seq, p) \<in> set ps. packet_ok env p"
    "n_in (c_net r) = map Data (drop (length (n_out (c_net s))) (n_out (c_net (send_all ps s)))) @ rest"
  shows "fst (recv_all timeout (length ps) r) = map (\<lambda>(env, seq, p). Some (Inr (packet_sent env seq p))) ps \<and>
    n_in (c_net (snd (recv_all timeout (length ps) r))) = rest"
proof -
  have "\<forall>(env, seq, p) \<in> set ps. packet_wf env p"
    using assms(4) by (auto simp: packet_ok_def)
  from send_all_out [OF assms(1,2) this] assms(5)
  have "n_in (c_net r) = map Data (concat (map (\<lambda>(env, seq, p). packet_frame env seq p) ps)) @ rest"
    by simp
  from recv_all_frames [OF assms(3,4) this] show ?thesis .
qed

theorem stream_round_trip_witness:
  "let ps = [(env_sample, 41, ActiveTestReq (SmgpActiveTestReqPkt.make 0)), (env_sample, 42, ExitReq (SmgpExitReqPkt.make 0))];
       bytes = n_out (c_net (send_all ps (conn_sample [])))
   in fst (recv_all True 2 (conn_sample (map Data bytes))) =
     [Some (Inr (ActiveTestReq (SmgpActiveTestReqPkt.make 41))), Some (Inr (ActiveTestReq (SmgpActiveTestReqPkt.make 42)))]"
  using stream_round_trip [of "conn_sample []"
      "conn_sample (map Data (n_out (c_net (send_all
         [(env_sample, 41, ActiveTestReq (SmgpActiveTestReqPkt.make 0)), (env_sample, 42, ExitReq (SmgpExitReqPkt.make 0))]
         (conn_sample [])))))"
      "[(env_sample, 41, ActiveTestReq (SmgpActiveTestReqPkt.make 0)), (env_sample, 42, ExitReq (SmgpExitReqPkt.make 0))]"
      "[]" True]
  by (simp add: packet_ok_def Let_def numeral_2_eq_2)

text \<open>
  C31: Two connections implement a queue of packets. In every interleaving of sends at one end and receives at
  the other that the abstract queue allows, the receives return what the queue delivers, and the bytes that
  are left in the network are the frames of what is left in the queue.
\<close>

theorem link_refines_queue:
  assumes "open_conn s" "n_wfail (c_net s) = []" "open_conn r" "n_in (c_net r) = []"
    "\<forall>(env, seq, p) \<in> set (puts ops). packet_ok env p" "queue_run link_deliver ops [] = Some (rs, q)"
  shows "\<exists>s' r'. state_run link_send (link_recv timeout) ops (s, r) = (rs, s', r') \<and>
    n_in (c_net r') = map Data (concat (map (\<lambda>(env, seq, p). packet_frame env seq p) q))"
proof -
  have "in_transit [] (s, r)" "\<forall>m \<in> set (puts ops). link_ok m"
    using assms(1-5) by (auto simp: in_transit_def link_ok_def)
  from link.run_refines [OF this assms(6), of timeout] show ?thesis
    by (auto simp: in_transit_def)
qed

theorem link_refines_queue_witness:
  "let send = (\<lambda>n. Put (env_sample, n, ActiveTestReq (SmgpActiveTestReqPkt.make 0)))
   in fst (state_run link_send (link_recv True) [send 1, send 2, Get, send 3, Get] (conn_sample [], conn_sample [])) =
     [Some (Inr (ActiveTestReq (SmgpActiveTestReqPkt.make 1))), Some (Inr (ActiveTestReq (SmgpActiveTestReqPkt.make 2)))]"
proof -
  let ?send = "\<lambda>n. Put (env_sample, n, ActiveTestReq (SmgpActiveTestReqPkt.make 0))"
  let ?ops = "[?send 1, ?send 2, Get, ?send 3, Get]"
  have "queue_run link_deliver ?ops [] = Some ([Some (Inr (ActiveTestReq (SmgpActiveTestReqPkt.make 1))),
      Some (Inr (ActiveTestReq (SmgpActiveTestReqPkt.make 2)))], [(env_sample, 3, ActiveTestReq (SmgpActiveTestReqPkt.make 0))])"
    by (simp add: link_deliver_def)
  moreover have "\<forall>(env, seq, p) \<in> set (puts ?ops). packet_ok env p"
    by (simp add: packet_ok_def)
  ultimately show ?thesis
    using link_refines_queue [of "conn_sample []" "conn_sample []" ?ops _ _ True] by (auto simp: Let_def)
qed

text \<open>
  C4: With a time-out set, the receiver takes off the stream exactly one frame: twelve header bytes that
  announce between 12 and 2477 bytes and a request identifier in range, and the body they announce.
\<close>

theorem receives_exactly_frames:
  assumes "\<not> n_closed n"
  shows "(\<exists>n'. recv_frame True n = (Some (Inr (h, body)), n') \<and> n_in n' = rest) \<longleftrightarrow>
    header_ok h \<and> length body + 12 = unat (PacketLength h) \<and> n_in n = map Data (header_bytes h @ body) @ rest"
proof
  assume "\<exists>n'. recv_frame True n = (Some (Inr (h, body)), n') \<and> n_in n' = rest"
  then obtain n' where n': "recv_frame True n = (Some (Inr (h, body)), n')" "n_in n' = rest" by blast
  from recv_frame_Inr [OF n'(1)] n'(2) header_ok_left(2) [of h]
  show "header_ok h \<and> length body + 12 = unat (PacketLength h) \<and> n_in n = map Data (header_bytes h @ body) @ rest"
    by auto
next
  assume "header_ok h \<and> length body + 12 = unat (PacketLength h) \<and> n_in n = map Data (header_bytes h @ body) @ rest"
  then show "\<exists>n'. recv_frame True n = (Some (Inr (h, body)), n') \<and> n_in n' = rest"
    using recv_frame_data [of h n body rest True] assms by auto
qed

theorem receives_exactly_frames_witness:
  "\<nexists>n'. recv_frame True (net_sample (map Data (replicate 12 0))) =
     (Some (Inr (\<lparr>PacketLength = 0, RequestID = 0, SequenceID = 0\<rparr>, [])), n') \<and> n_in n' = []"
  using receives_exactly_frames [of "net_sample (map Data (replicate 12 0))"
      "\<lparr>PacketLength = 0, RequestID = 0, SequenceID = 0\<rparr>" "[]" "[]"]
  by (simp add: net_sample_def header_ok_def SMGP_PACKET_MIN_def)

text \<open>
  C21: A packet that is received is of the type that the identifier of its header stands for and keeps
  the sequence number of its header.
\<close>

theorem received_type:
  assumes "RecvAndUnpackPkt timeout c = (Some (Inr p), c')"
  shows "\<exists>h body. fst (recv_frame timeout (c_net c)) = Some (Inr (h, body)) \<and>
    packet_id p = RequestID h \<and> packet_seq p = Header.SequenceID h"
proof -
  obtain r n where frame: "recv_frame timeout (c_net c) = (r, n)" by fastforce
  with assms obtain h body where "r = Some (Inr (h, body))"
    "decode_packet (RequestID h) (Header.SequenceID h) body = Some (Inr p)"
    by (auto simp: RecvAndUnpackPkt_def Let_def split: if_splits option.splits sum.splits)
  with frame decode_packet_id decode_packet_seq show ?thesis by auto
qed

lemma sample_recv:
  "RecvAndUnpackPkt True (conn_sample (map Data (frame SMGP_ACTIVE_TEST 9 []))) =
   (Some (Inr (ActiveTestReq (SmgpActiveTestReqPkt.make 9))), conn_sample [])"
proof -
  have "request_id_valid SMGP_ACTIVE_TEST" "decode_packet SMGP_ACTIVE_TEST 9 [] =
      Some (Inr (ActiveTestReq (SmgpActiveTestReqPkt.make 9)))"
    using request_id_valid_packet [of "ActiveTestReq undefined"] decode_packet_body [of undefined "ActiveTestReq undefined" 9]
    by simp_all
  moreover have "(conn_sample xs)\<lparr>c_net := (c_net (conn_sample xs))\<lparr>n_in := ys, n_deadline := False\<rparr>\<rparr> = conn_sample ys"
    for xs ys by (simp add: conn_sample_def net_sample_def)
  ultimately show ?thesis
    using RecvAndUnpackPkt_frame [of "conn_sample (map Data (frame SMGP_ACTIVE_TEST 9 []))" "[]" SMGP_ACTIVE_TEST 9 "[]" True]
    by simp
qed

theorem received_type_witness:
  "\<exists>h body. fst (recv_frame True (c_net (conn_sample (map Data (frame SMGP_ACTIVE_TEST 9 []))))) = Some (Inr (h, body)) \<and>
    RequestID h = SMGP_ACTIVE_TEST \<and> Header.SequenceID h = 9"
  using received_type [OF sample_recv] by (auto simp: SmgpActiveTestReqPkt.defs)

text \<open>
  C20: Receiving panics exactly when a complete frame arrives whose body is a submit or deliver request
  that is shorter than its own lengths say, or a status report with less than 102 bytes of content.
\<close>

theorem receive_panics:
  "fst (RecvAndUnpackPkt timeout c) = None \<longleftrightarrow>
   State c \<noteq> CONNECTION_CLOSED \<and>
   (\<exists>h body. fst (recv_frame timeout (c_net c)) = Some (Inr (h, body)) \<and>
     (RequestID h = SMGP_SUBMIT \<and> length body < submit_need body \<or>
      RequestID h = SMGP_DELIVER \<and> (short_report body \<or> length body < deliver_need body)))"
proof -
  have "fst (recv_body h n) \<noteq> None" if "header_ok h" for h n
    using header_ok_left [OF that]
    by (auto simp: recv_body_def Let_def defaultReadBufferSize_def split: prod.split sum.split)
  then have never: "fst (recv_frame timeout n) \<noteq> None" for n
    by (auto simp: recv_frame_def Let_def header_ok_def not_less split: prod.split sum.split)
  obtain r n where "recv_frame timeout (c_net c) = (r, n)" by fastforce
  with never [of "c_net c"] show ?thesis
    by (auto simp: RecvAndUnpackPkt_def decode_packet_panics panicking_body_def Let_def
        split: option.splits sum.splits)
qed

text \<open>
  C36: A time-out inside a header loses the bytes already read: the serve loop goes on polling as after
  any time-out, and takes the rest of that header for the next one.
\<close>

theorem header_timeout_loses_bytes:
  assumes "open_conn (s_conn (v_conn v))" "v_phase v = Reading" "length bs < 12"
    "n_in (c_net (s_conn (v_conn v))) = map Data bs @ Silence # rest"
  shows "v_phase (serve_step sharpv h env noticed v) = Polling \<and>
    n_in (c_net (s_conn (v_conn (serve_step sharpv h env noticed v)))) = rest"
proof -
  have part: "length bs < k \<Longrightarrow> read_full True k got (map Data bs @ Silence # rest) = (Inl timeout_error, rest)" for k got
  proof (induction bs arbitrary: k got)
    case Nil
    then show ?case by (cases k) simp_all
  next
    case (Cons b bs)
    then show ?case by (cases k) simp_all
  qed
  then show ?thesis
    using assms part [of 12 "[]"]
    by (simp add: serve_step_def readPacket_def RecvAndUnpackPkt_def open_conn_def recv_frame_def net_ReadFull_def
        timeout_error_def is_timeout_def Let_def)
qed

theorem header_timeout_loses_bytes_witness:
  "v_phase (serve_step (\<lambda>p. []) handleLogin env_sample False
     \<lparr>v_conn = sconn_sample (map Data [0, 0, 0, 12] @ Silence # map Data [0, 0, 0, 4, 0, 0, 0, 9]) 3,
      v_phase = Reading, v_panicked = False\<rparr>) = Polling"
  using header_timeout_loses_bytes [of
      "\<lparr>v_conn = sconn_sample (map Data [0, 0, 0, 12] @ Silence # map Data [0, 0, 0, 4, 0, 0, 0, 9]) 3,
        v_phase = Reading, v_panicked = False\<rparr>" "[0, 0, 0, 12]" "map Data [0, 0, 0, 4, 0, 0, 0, 9]"]
  by simp

section \<open>The client\<close>

lemma takes_login_case:
  "takes_login n \<Longrightarrow> (case n_wfail n of Some (k, s) # fs \<Rightarrow> A k s fs | _ \<Rightarrow> B) = B"
  by (cases "n_wfail n") (auto simp: takes_login_def split: option.splits)

text \<open>
  C10: Every outcome of \<open>Connect\<close>. An error of the dialler is returned with the client as it was, and a
  connection that is not a TCP connection is a panic. A write error is returned with the connection closed. Once
  the login request is written, it is all that was sent, and what is received decides: an error of the
  receiver, or \<open>ErrRespNotMatch\<close> for a packet of another type, is returned with the connection closed; a login response with
  status zero makes the call succeed and the connection authenticated; one with another status returns the
  error of that status, and the connection stays open; a panic of the receiver leaves it open, too.
\<close>

theorem connect_outcome:
  assumes "\<forall>n. dialled = Inr n \<longrightarrow> \<not> n_closed n"
    "Connect env dialled randId randNum clientID secret loginMode timeout cli = (res, cli')"
    "bs = login_bytes env randId clientID secret loginMode (ver cli)"
  shows "case dialled of
      Inl e \<Rightarrow> res = Some (Some e) \<and> cli' = cli
    | Inr n \<Rightarrow> if \<not> n_tcp n then res = None \<and> cli' = cli
      else (\<exists>c. cli' = cli\<lparr>cli_conn := Some c\<rparr> \<and>
        (case n_wfail n of
           Some (k, s) # fs \<Rightarrow> res = Some (Some (NetError False s)) \<and> conn_shut c \<and> n_out (c_net c) = n_out n @ take k bs
         | _ \<Rightarrow> n_out (c_net c) = n_out n @ bs \<and>
           (case fst (RecvAndUnpackPkt timeout (logging_in env n randId randNum (ver cli) bs)) of
              None \<Rightarrow> res = None \<and> State c = CONNECTION_CONNECTED \<and> \<not> n_closed (c_net c)
            | Some (Inl e) \<Rightarrow> res = Some (Some e) \<and> conn_shut c
            | Some (Inr (LoginResp rsp)) \<Rightarrow>
                if SmgpLoginRespPkt.Status rsp = 0 then res = Some None \<and> State c = CONNECTION_AUTHOK \<and> \<not> n_closed (c_net c)
                else res = Some (Some (Status_Error (SmgpLoginRespPkt.Status rsp))) \<and>
                  State c = CONNECTION_CONNECTED \<and> \<not> n_closed (c_net c)
            | Some (Inr p) \<Rightarrow> res = Some (Some ErrRespNotMatch) \<and> conn_shut c)))"
proof (cases dialled)
  case (Inl e)
  with assms(2) show ?thesis by (simp add: Connect_def)
next
  case (Inr n)
  note open' = assms(1) [rule_format, OF Inr] and run = assms(2) [unfolded Inr]
  consider "\<not> n_tcp n" | "takes_login n" "n_tcp n" | k s fs where "n_tcp n" "n_wfail n = Some (k, s) # fs"
    using open' by (cases "n_wfail n"; cases "hd (n_wfail n)") (auto simp: takes_login_def)
  then show ?thesis
  proof cases
    case 1
    with run Inr show ?thesis by (simp add: Connect_def NewConnection_def)
  next
    case 2
    obtain r c1 where recv: "RecvAndUnpackPkt timeout (logging_in env n randId randNum (ver cli) bs) = (r, c1)" by fastforce
    from Connect_outcome [OF 2(1) run assms(3) recv] 2(2) show ?thesis
      by (simp only: Inr recv takes_login_case [OF 2(1)] sum.case not_True_eq_False if_False fst_conv) blast
  next
    case (3 k s fs)
    from connect_end_error [OF logging_in_simps(2) [OF open'] run [unfolded Connect_write_error [OF 3(1) open' 3(2)]]] 3
    show ?thesis by (auto simp: Inr assms(3) logging_in_simps)
  qed
qed

theorem connect_outcome_witness:
  "\<exists>cli' c. Connect env_sample (Inr (net_sample [])) 41 0 (bytes_of ''10000001'') (bytes_of ''12345678'') 0 True
     (NewClient VERSION) = (Some (Some EOF), cli') \<and> cli_conn cli' = Some c \<and> conn_shut c"
proof -
  let ?bs = "login_bytes env_sample 41 (bytes_of ''10000001'') (bytes_of ''12345678'') 0 (ver (NewClient VERSION))"
  obtain res cli' where run: "Connect env_sample (Inr (net_sample [])) 41 0 (bytes_of ''10000001'') (bytes_of ''12345678'')
      0 True (NewClient VERSION) = (res, cli')" by fastforce
  have "fst (RecvAndUnpackPkt True (logging_in env_sample (net_sample []) 41 0 (ver (NewClient VERSION)) ?bs)) = Some (Inl EOF)"
    by (simp add: RecvAndUnpackPkt_def logging_in_def net_sample_def recv_frame_def net_ReadFull_def state_defs
        eval_nat_numeral split: prod.splits)
  with connect_outcome [OF _ run refl] run show ?thesis by (auto simp: net_sample_def)
qed

text \<open>
  C32: However the calls of a client follow one another, \<open>Disconnect\<close> does not panic, closing a closed channel
  included. If the client has a connection, it is shut down afterwards: its state, its network connection and
  both number generators; nothing is written, and a second call changes nothing.
\<close>

theorem disconnect_safe:
  assumes "client_reach cli"
  shows "case cli_conn cli of
      None \<Rightarrow> Disconnect cli = Some cli
    | Some c \<Rightarrow> \<exists>c'. Disconnect cli = Some (cli\<lparr>cli_conn := Some c'\<rparr>) \<and>
        State c' = CONNECTION_CLOSED \<and> n_closed (c_net c') \<and> g_done (c_SequenceID c') \<and> g_done (c_SequenceNum c') \<and>
        n_out (c_net c') = n_out (c_net c) \<and> Disconnect (cli\<lparr>cli_conn := Some c'\<rparr>) = Some (cli\<lparr>cli_conn := Some c'\<rparr>)"
proof (cases "cli_conn cli")
  case (Some c)
  from Disconnect_live [OF client_reach_live [OF assms] Some] Some show ?thesis by (auto simp: conn_shut_def)
qed (simp add: Disconnect_def)

text \<open>The witness: a client that has logged in, with its connection open, disconnects.\<close>

theorem disconnect_safe_witness:
  "\<exists>cli c cli' c'. Connect env_sample (Inr (net_sample (map Data (packet_frame env_sample 41 (LoginResp (SmgpLoginRespPkt_new 41)))))) 41 0
      (bytes_of ''10000001'') (bytes_of ''12345678'') 0 True (NewClient VERSION) = (Some None, cli) \<and>
    cli_conn cli = Some c \<and> State c = CONNECTION_AUTHOK \<and> \<not> n_closed (c_net c) \<and>
    Disconnect cli = Some cli' \<and> cli_conn cli' = Some c' \<and> State c' = CONNECTION_CLOSED \<and> n_closed (c_net c')"
proof -
  let ?n = "net_sample (map Data (packet_frame env_sample 41 (LoginResp (SmgpLoginRespPkt_new 41))))"
  have n: "takes_login ?n" "\<not> n_closed ?n" "n_in ?n = map Data (packet_frame env_sample 41 (LoginResp (SmgpLoginRespPkt_new 41))) @ []"
    by (simp_all add: net_sample_def takes_login_def)
  obtain res cli where run: "Connect env_sample (Inr ?n) 41 0 (bytes_of ''10000001'') (bytes_of ''12345678'') 0 True (NewClient VERSION) = (res, cli)"
    by fastforce
  from Connect_reply [OF n(1,3), of env_sample 41 0 "bytes_of ''10000001''" "bytes_of ''12345678''" 0 True "NewClient VERSION"] run
  obtain c where c: "res = Some None" "cli_conn cli = Some c" "State c = CONNECTION_AUTHOK" "\<not> n_closed (c_net c)"
    by (auto simp: SmgpLoginRespPkt_new_def SmgpLoginRespPkt.defs)
  have "client_reach cli"
    using client_reach.connect [OF client_reach.new _ run] n(2) by auto
  from disconnect_safe [OF this] c run show ?thesis by fastforce
qed

text \<open>
  C33: A connection whose state is only set while it is open never closes a channel twice. Without that
  discipline, closing panics exactly when the state says open and the connection has been closed.
\<close>

theorem close_safe:
  assumes "conn_reach c"
  shows "Conn_Close c \<noteq> None \<and>
    (Conn_Close (SetState s c) = None \<longleftrightarrow> s \<noteq> CONNECTION_CLOSED \<and> n_closed (c_net c))"
proof -
  have safe: "conn_safe c" by (rule conn_reach_safe [OF assms])
  then have "conn_inv (SetState s c)" by (simp add: conn_safe_def conn_inv_def SetState_def)
  with safe show ?thesis
    using conn_safe_Close [OF safe] Close_panics_iff [of "SetState s c"] by (simp add: SetState_def)
qed

theorem close_safe_witness:
  "\<exists>c c'. NewConnection 5 0 (net_sample []) VERSION = Some c \<and>
    Conn_Close (SetState CONNECTION_CONNECTED c) = Some c' \<and> Conn_Close (SetState CONNECTION_CONNECTED c') = None"
proof -
  obtain c where c: "NewConnection 5 0 (net_sample []) VERSION = Some c"
    by (simp add: NewConnection_def net_sample_def)
  have net: "\<not> n_closed (net_sample [])" by (simp add: net_sample_def)
  then have reach: "conn_reach c" using c by (rule conn_reach.new [rotated])
  have open': "\<not> n_closed (c_net c)" using NewConnection_inv [OF net c] by simp
  have step: "conn_reach (SetState CONNECTION_CONNECTED c)"
    using conn_reach.step [OF reach conn_step.set_state [OF open']] .
  obtain c' where c': "Conn_Close (SetState CONNECTION_CONNECTED c) = Some c'"
    using close_safe [OF step] by auto
  moreover have "n_closed (c_net c')"
    using Close_result(4) [OF c'] by (simp add: SetState_def state_defs)
  ultimately have "Conn_Close (SetState CONNECTION_CONNECTED c') = None"
    using close_safe [OF conn_reach.step [OF step conn_step.close [OF c']], of CONNECTION_CONNECTED]
    by (simp add: state_defs)
  with c c' show ?thesis by blast
qed

section \<open>The number generators\<close>

lemma sequence_ids_consecutive:
  assumes "gen_run next_id (newSequenceIDGenerator rand) evs g" "\<not> g_closed g" "length (received evs) \<le> 2 ^ 32"
  shows "distinct (received evs) \<and> received evs = map (\<lambda>k. rand + of_nat k) [0..<length (received evs)]"
proof
  have range: "unat (g_next (newSequenceIDGenerator rand)) < 2 ^ 32"
    using unsigned_less [of rand, where ?'a = nat] by (simp add: newSequenceIDGenerator_def)
  have start: "\<not> g_closed (newSequenceIDGenerator rand)"
    by (simp add: newSequenceIDGenerator_def)
  show "distinct (received evs)"
    by (rule seq_id.received_distinct [OF assms(1) start range assms(2,3)])
  have pow: "(next_id ^^ k) i = i + of_nat k" for k i
    by (induction k) (simp_all add: next_id_def)
  from seq_id.received_run [OF assms(1) start] assms(2)
  show "received evs = map (\<lambda>k. rand + of_nat k) [0..<length (received evs)]"
    by (auto simp: pow newSequenceIDGenerator_def)
qed

text \<open>
  C30: The two kinds of numbers of a connection, in any interleaving of receives with the end of their
  generators. Sequence numbers: up to \<^verbatim>\<open>2 ^ 32\<close> receives before the generator exits give consecutive numbers
  from the random start on, with wrap-around, all different. Numbers for message identifiers: always
  below a million, and up to a million of them all different.
\<close>

theorem sequence_numbers:
  assumes "gen_run next_id (newSequenceIDGenerator rand) evs g" "\<not> g_closed g" "length (received evs) \<le> 2 ^ 32"
    "gen_run next_num (newSequenceNumGenerator start) evs' g'" "start < 999999"
  shows "distinct (received evs) \<and> received evs = map (\<lambda>k. rand + of_nat k) [0..<length (received evs)] \<and>
    list_all (\<lambda>v. unat v < 1000000) (received evs') \<and>
    (\<not> g_closed g' \<and> length (received evs') \<le> 1000000 \<longrightarrow> distinct (received evs'))"
proof -
  have start: "\<not> g_closed (newSequenceNumGenerator start)"
    by (simp add: newSequenceNumGenerator_def)
  note range = newSequenceNumGenerator_range [OF assms(5)]
  show ?thesis
    using sequence_ids_consecutive [OF assms(1-3)] seq_num.received_range [OF assms(4) start range]
      seq_num.received_distinct [OF assms(4) start range]
    by (auto simp: list_all_iff)
qed

theorem sequence_numbers_witness:
  "\<exists>g g'. gen_run next_id (newSequenceIDGenerator 0xFFFFFFFF) [Recv 0xFFFFFFFF, Recv 0] g \<and>
     distinct (received [Recv 0xFFFFFFFF, Recv 0]) \<and>
     gen_run next_num (newSequenceNumGenerator 999998) [Recv 999998] g' \<and> list_all (\<lambda>v. unat v < 1000000) (received [Recv 999998])"
proof -
  let ?g0 = "newSequenceIDGenerator 0xFFFFFFFF"
  have wrap: "(4294967296 :: u32) = 0" by code_simp
  have "gen_step next_id ?g0 (Recv (g_next ?g0)) (?g0\<lparr>g_next := next_id (g_next ?g0)\<rparr>)"
    by (rule gen_step.offer) (simp add: newSequenceIDGenerator_def)
  from gen_run.snoc [OF gen_run.nil this]
  have 1: "gen_run next_id ?g0 [Recv 0xFFFFFFFF] \<lparr>g_next = 0, g_done = False, g_closed = False\<rparr>"
    by (simp add: newSequenceIDGenerator_def next_id_def wrap)
  have "gen_step next_id \<lparr>g_next = 0, g_done = False, g_closed = False\<rparr> (Recv 0) \<lparr>g_next = 1, g_done = False, g_closed = False\<rparr>"
    using gen_step.offer [of "\<lparr>g_next = 0, g_done = False, g_closed = False\<rparr>" next_id] by (simp add: next_id_def)
  from gen_run.snoc [OF 1 this]
  have run: "gen_run next_id ?g0 [Recv 0xFFFFFFFF, Recv 0] \<lparr>g_next = 1, g_done = False, g_closed = False\<rparr>"
    by simp
  let ?n0 = "newSequenceNumGenerator 999998"
  have "gen_step next_num ?n0 (Recv (g_next ?n0)) (?n0\<lparr>g_next := next_num (g_next ?n0)\<rparr>)"
    by (rule gen_step.offer) (simp add: newSequenceNumGenerator_def)
  from gen_run.snoc [OF gen_run.nil this]
  have run': "gen_run next_num ?n0 [Recv 999998] (?n0\<lparr>g_next := next_num (g_next ?n0)\<rparr>)"
    by (simp add: newSequenceNumGenerator_def)
  from sequence_numbers [OF run _ _ run'] run run' show ?thesis by auto
qed

section \<open>The server\<close>

text \<open>The identifier in the header of a response packet.\<close>

lemma packet_reqId_response:
  assumes "packet_id q = (rid OR 0x80000000)" "rid < 0x80000000"
  shows "packet_reqId q = (if rid = SMGP_EXIT then SMGP_ACTIVE_TEST_RESP else rid OR 0x80000000)"
proof (cases "rid = SMGP_EXIT")
  case True
  with assms(1) show ?thesis by (cases q) (simp_all add: request_defs)
next
  case False
  have "take_bit 31 rid = rid"
    using assms(2) by (simp add: word_unat_eq_iff unsigned_take_bit_eq take_bit_nat_eq_self_iff word_less_nat_alt)
  then have "take_bit 31 (packet_id q) = rid"
    by (simp add: assms(1) take_bit_or)
  with False assms(1) show ?thesis by (cases q) (auto simp: request_defs)
qed

text \<open>
  C9: The serve loop answers: from a request frame it reads, over a handler that keeps the type of the response,
  leaves it well-formed and returns no error, to the one frame it writes, with the sequence number of the request and, in
  its header, the request's identifier with the highest bit set. The exception is an exit request, whose answer goes
  out with the identifier of an active test response, since that is what \<^verbatim>\<open>Pack\<close> writes for the exit response. Then the loop polls again.
\<close>

theorem server_answers:
  assumes "v_phase v = Reading" "open_conn (s_conn (v_conn v))" "n_wfail (c_net (s_conn (v_conn v))) = []"
    "n_in (c_net (s_conn (v_conn v))) = map Data (frame rid seq body) @ rest"
    "12 + length body \<le> 2477" "request_id_valid rid" "rid < 0x80000000"
    "decode_packet rid seq body = Some (Inr p)"
    "response_to sharpv (srv_Version (s_server (v_conn v))) p = Inr r" "r_Packer r = Some q"
    "\<And>k. h r k = (Some (go_on, None), r\<lparr>r_Packer := Some q'\<rparr>, k)" "packet_id q' = packet_id q" "packet_wf env q'"
  shows "v_phase ((serve_step sharpv h env noticed ^^ 3) v) = Polling \<and>
    n_out (c_net (s_conn (v_conn ((serve_step sharpv h env noticed ^^ 3) v)))) =
      n_out (c_net (s_conn (v_conn v))) @
      frame (if rid = SMGP_EXIT then SMGP_ACTIVE_TEST_RESP else rid OR 0x80000000) seq (packet_body env q') \<and>
    packet_id q' = (rid OR 0x80000000) \<and>
    n_in (c_net (s_conn (v_conn ((serve_step sharpv h env noticed ^^ 3) v)))) = rest"
proof -
  let ?k = "(s_conn (v_conn v))\<lparr>c_net := (c_net (s_conn (v_conn v)))\<lparr>n_in := rest, n_deadline := False\<rparr>\<rparr>"
  let ?c = "(v_conn v)\<lparr>s_conn := ?k\<rparr>"
  have pkt: "r_Packet r = p" "packet_seq p = seq" "packet_id p = rid" "r_SequenceID r = seq"
    "packet_id q = (rid OR 0x80000000)"
    using response_to_Packet [OF assms(9)] decode_packet_seq [OF assms(8)] decode_packet_id [OF assms(8)]
      response_to_seq [OF assms(9,10)] response_to_id [OF assms(9,10)] by auto
  have read: "readPacket sharpv (v_conn v) = (Some (Inr r), ?c)"
    using readPacket_frame [OF assms(2,5,6,4,8)] assms(9) by simp
  have not_resp: "\<forall>x. r_Packet (r\<lparr>r_Packer := Some q'\<rparr>) \<noteq> ActiveTestResp x"
    using pkt assms(7) by (auto simp: request_defs word_less_nat_alt)
  have k: "open_conn (s_conn ?c)" "n_wfail (c_net (s_conn ?c)) = []"
    using assms(2,3) by (simp_all add: open_conn_def)
  obtain e c' where fin: "finishPacket env (r\<lparr>r_Packer := Some q'\<rparr>) ?c = (e, c')" by fastforce
  have "r_Packer (r\<lparr>r_Packer := Some q'\<rparr>) = Some q'" by simp
  from finishPacket_answer [OF k not_resp this assms(13) fin]
  have out: "e = None" "n_out (c_net (s_conn c')) = n_out (c_net (s_conn (v_conn v))) @ packet_frame env seq q'"
    by (simp_all add: pkt(4))
  have "n_in (c_net (s_conn c')) = rest"
    using fin not_resp SendPkt_conn(5) [of env q' seq ?k]
    by (cases "r_Packet r") (auto simp: finishPacket_def pkt(4) split: prod.splits)
  moreover have "packet_frame env seq q' =
      frame (if rid = SMGP_EXIT then SMGP_ACTIVE_TEST_RESP else rid OR 0x80000000) seq (packet_body env q')"
    using pkt(5) assms(7,12) by (simp add: packet_frame_def packet_reqId_response)
  ultimately show ?thesis
    using out read fin assms(1,11,12) pkt(5) by (simp add: numeral_3_eq_3 serve_step_def Let_def)
qed

text \<open>The witness: an exit request, whose answer carries the identifier of an active test response.\<close>

lemma decode_exit:
  "request_id_valid SMGP_EXIT" "decode_packet SMGP_EXIT seq [] = Some (Inr (ExitReq (SmgpExitReqPkt.make seq)))"
  by (simp_all add: request_id_valid_def request_defs decode_packet_def new_packet_simps [unfolded request_defs]
      unpacked_def active_exit_defs)

theorem server_answers_witness:
  "n_out (c_net (s_conn (v_conn ((serve_step (\<lambda>p. []) (handler_chain []) env_sample False ^^ 3)
     \<lparr>v_conn = sconn_sample (map Data (frame SMGP_EXIT 9 [])) 3, v_phase = Reading, v_panicked = False\<rparr>)))) =
   frame SMGP_ACTIVE_TEST_RESP 9 []"
proof -
  let ?v = "\<lparr>v_conn = sconn_sample (map Data (frame SMGP_EXIT 9 [])) 3, v_phase = Reading, v_panicked = False\<rparr>"
  let ?p = "ExitReq (SmgpExitReqPkt.make 9)"
  let ?q = "ExitResp (SmgpExitRespPkt.make 9)"
  let ?r = "\<lparr>r_Packet = ?p, r_Packer = Some ?q, r_SequenceID = 9\<rparr>"
  have "SMGP_EXIT < 0x80000000"
    by (simp add: request_defs word_less_nat_alt)
  moreover have "response_to (\<lambda>p. []) (srv_Version (s_server (v_conn ?v))) ?p = Inr ?r"
    by (simp add: with_response_def SmgpExitReqPkt.defs)
  ultimately show ?thesis
    using server_answers [where v = ?v and rid = SMGP_EXIT and body = "[]" and rest = "[]" and p = ?p
        and q = ?q and q' = ?q and h = "handler_chain []" and r = ?r and seq = 9 and sharpv = "\<lambda>p. []"
        and env = env_sample and noticed = False and go_on = False] decode_exit
    by simp
qed

text \<open>
  C11: Whatever ends the serve loop of a connection (an error, a panic in decoding or in a handler, an
  error of a handler, a peer that does not answer) and however the ticker and other senders interleave,
  the loop's end leaves the connection closed, and the deferred close itself never panics. The handlers
  have to leave the connection's state consistent, as those of the example server do.
\<close>

theorem server_closes:
  assumes "handler_contract h" "srv_reach sharpv h v" "v_phase v = Ended"
  shows "n_closed (c_net (s_conn (v_conn v))) \<and> State (s_conn (v_conn v)) = CONNECTION_CLOSED \<and>
    s_done (v_conn v) \<and> \<not> v_panicked v"
  using handler_contract.srv_reach_inv [OF assms(1,2)] assms(3)
  by (auto simp: srv_inv_def conn_live_def conn_safe_def)

lemma srv_reach_serve:
  assumes "srv_reach sharpv h v" "v_phase v \<noteq> Ended"
  shows "srv_reach sharpv h (serve_step sharpv h env noticed v)"
  using srv_reach.step [OF assms(1) srv_step.serve [OF assms(2)]] .

theorem server_closes_witness:
  "\<exists>v. srv_reach (\<lambda>p. []) (handler_chain [handleLogin, handleSubmit (\<lambda>i. clock_sample) False]) v \<and>
     v_phase v = Ended \<and> n_closed (c_net (s_conn (v_conn v)))"
proof -
  let ?h = "handler_chain [handleLogin, handleSubmit (\<lambda>i. clock_sample) False]"
  let ?step = "serve_step (\<lambda>p. []) ?h env_sample False"
  let ?srv = "\<lparr>Addr = bytes_of '':8890'', srv_Version = VERSION, srv_N = 3\<rparr>"
  obtain c where c: "newConn 41 0 ?srv (net_sample []) = Some c" "n_in (c_net (s_conn c)) = []"
    "open_conn (s_conn c)"
    by (simp add: newConn_def NewConnection_def net_sample_def SetState_def open_conn_def state_defs)
  let ?v = "\<lparr>v_conn = c, v_phase = Starting, v_panicked = False\<rparr>"
  let ?v3 = "?step (?step (?step ?v))"
  have 0: "srv_reach (\<lambda>p. []) ?h ?v"
    using c(1) by (rule srv_reach.start) (simp add: net_sample_def)
  have p1: "v_phase (?step ?v) = Polling" and p2: "v_phase (?step (?step ?v)) = Reading"
    by (simp_all add: serve_step_def startActiveTest_def Let_def)
  have "fst (readPacket (\<lambda>p. []) (startActiveTest c)) = Some (Inl EOF)"
    using c(2,3)
    by (simp add: readPacket_def RecvAndUnpackPkt_def startActiveTest_def open_conn_def recv_frame_def
        net_ReadFull_def eval_nat_numeral Let_def)
  then have p3: "v_phase ?v3 = Leaving"
    by (cases "readPacket (\<lambda>p. []) (startActiveTest c)")
      (simp add: serve_step_def startActiveTest_def is_timeout_def Let_def)
  have r3: "srv_reach (\<lambda>p. []) ?h ?v3"
    using srv_reach_serve [OF srv_reach_serve [OF srv_reach_serve [OF 0]]] p1 p2 by simp
  from srv_reach_serve [OF this] p3 have r4: "srv_reach (\<lambda>p. []) ?h (?step ?v3)" by simp
  have p4: "v_phase (?step ?v3) = Ended"
    using p3 by (simp add: serve_step_def [where v = ?v3] Let_def split: prod.split)
  from server_closes [OF example_handler.handler_contract_axioms r4 p4] r4 p4 show ?thesis by blast
qed

text \<open>
  C13: A peer that answers nothing is detected. On a working connection whose number generator runs, the ticker writes at
  the first \<open>N\<close> ticks exactly \<open>N\<close> active test requests, with the next \<open>N\<close> sequence numbers of the generator;
  at the next tick it writes nothing and signals, upon which the serve loop leaves.
\<close>

theorem dead_peer_detected:
  assumes "open_conn (s_conn c)" "n_wfail (c_net (s_conn c)) = []" "s_counter c = 0" "s_ticker c = Ticking"
    "sint (s_n c) = int N" "c_SequenceID (s_conn c) = \<lparr>g_next = i, g_done = False, g_closed = False\<rparr>"
  shows "s_ticker ((tick env noticed ^^ N) c) = Ticking \<and>
    n_out (c_net (s_conn ((tick env noticed ^^ N) c))) =
      n_out (c_net (s_conn c)) @ concat (map (\<lambda>k. frame SMGP_ACTIVE_TEST (i + of_nat k) []) [0..<N]) \<and>
    s_ticker ((tick env noticed ^^ (N + 1)) c) = Exceeding \<and>
    n_out (c_net (s_conn ((tick env noticed ^^ (N + 1)) c))) = n_out (c_net (s_conn ((tick env noticed ^^ N) c))) \<and>
    v_phase (serve_step sharpv h env noticed
      \<lparr>v_conn = (tick env noticed ^^ (N + 1)) c, v_phase = Polling, v_panicked = False\<rparr>) = Leaving"
proof -
  have "int N \<le> sint (s_n c)" using assms(5) by simp
  note count = ticks_count [OF assms(1-3) this assms(6), of env noticed]
  have "tick env noticed ((tick env noticed ^^ N) c) = ((tick env noticed ^^ N) c)\<lparr>s_ticker := Exceeding\<rparr>"
    using count assms(5) by (simp add: tick_def)
  then show ?thesis
    using count assms(4,5) by (simp add: serve_step_def Let_def)
qed

theorem dead_peer_detected_witness:
  "n_out (c_net (s_conn ((tick env_sample False ^^ 3) (sconn_sample [] 3)))) =
     frame SMGP_ACTIVE_TEST 41 [] @ frame SMGP_ACTIVE_TEST 42 [] @ frame SMGP_ACTIVE_TEST 43 [] \<and>
   s_ticker ((tick env_sample False ^^ 4) (sconn_sample [] 3)) = Exceeding"
proof -
  have "c_SequenceID (s_conn (sconn_sample [] 3)) = \<lparr>g_next = 41, g_done = False, g_closed = False\<rparr>"
    by (simp add: conn_sample_def newSequenceIDGenerator_def)
  moreover have "concat (map (\<lambda>k. frame SMGP_ACTIVE_TEST (41 + of_nat k) []) [0..<3]) =
      frame SMGP_ACTIVE_TEST 41 [] @ frame SMGP_ACTIVE_TEST 42 [] @ frame SMGP_ACTIVE_TEST 43 []"
    by (simp add: upt_rec)
  ultimately show ?thesis
    using dead_peer_detected [of "sconn_sample [] 3" 3 41 env_sample False] by simp
qed

text \<open>A step of the serve loop and ticks, as steps of the transition system.\<close>

lemma serve_steps:
  "(srv_step sharpv h)\<^sup>*\<^sup>* v v1 \<Longrightarrow> v_phase v1 \<noteq> Ended \<Longrightarrow> (srv_step sharpv h)\<^sup>*\<^sup>* v (serve_step sharpv h env noticed v1)"
  by (rule rtranclp.rtrancl_into_rtrancl) (auto intro: srv_step.serve)

lemma tick_steps:
  assumes "\<And>j. j < k \<Longrightarrow> s_ticker ((tick env noticed ^^ j) (v_conn v)) = Ticking"
  shows "(srv_step sharpv h)\<^sup>*\<^sup>* v (v\<lparr>v_conn := (tick env noticed ^^ k) (v_conn v)\<rparr>)"
  using assms
proof (induction k)
  case (Suc k)
  let ?v = "v\<lparr>v_conn := (tick env noticed ^^ k) (v_conn v)\<rparr>"
  have "s_ticker (v_conn ?v) = Ticking" using Suc.prems [of k] by simp
  from srv_step.ticks [OF this, of sharpv h env noticed] show ?case
    using Suc by (auto intro: rtranclp.rtrancl_into_rtrancl)
qed simp

lemma server_close_ticker: "s_ticker (snd (server_close env noticed c)) = s_ticker c"
  by (simp add: server_close_def Let_def split: prod.split option.split)

text \<open>A read at the end of the stream ends the loop and leaves the ticker as it is.\<close>

lemma serve_last_read:
  assumes "v_phase v = Reading" "open_conn (s_conn (v_conn v))" "n_in (c_net (s_conn (v_conn v))) = []"
  shows "v_phase (serve_step sharpv h env noticed v) = Leaving"
    "v_phase (serve_step sharpv h env noticed (serve_step sharpv h env noticed v)) = Ended"
    "s_ticker (v_conn (serve_step sharpv h env noticed (serve_step sharpv h env noticed v))) = s_ticker (v_conn v)"
proof -
  let ?v = "serve_step sharpv h env noticed v"
  obtain c' where "readPacket sharpv (v_conn v) = (Some (Inl EOF), c')" "s_ticker c' = s_ticker (v_conn v)"
    using assms(2,3) by (simp add: readPacket_def RecvAndUnpackPkt_def open_conn_def recv_frame_def net_ReadFull_def
        eval_nat_numeral Let_def)
  with assms(1) have leave: "v_phase ?v = Leaving" "s_ticker (v_conn ?v) = s_ticker (v_conn v)"
    by (simp_all add: serve_step_def is_timeout_def)
  then show "v_phase ?v = Leaving" "v_phase (serve_step sharpv h env noticed ?v) = Ended"
    "s_ticker (v_conn (serve_step sharpv h env noticed ?v)) = s_ticker (v_conn v)"
    by (simp_all add: serve_step_def [where v = ?v] server_close_ticker Let_def split_beta)
qed

text \<open>The ticks up to the signal, seen from the serve loop.\<close>

lemma ticks_exceed:
  assumes "open_conn (s_conn c)" "n_wfail (c_net (s_conn c)) = []" "s_counter c = 0" "s_ticker c = Ticking"
    "sint (s_n c) = int N" "c_SequenceID (s_conn c) = \<lparr>g_next = i, g_done = False, g_closed = False\<rparr>"
  shows "j < N + 1 \<Longrightarrow> s_ticker ((tick env noticed ^^ j) c) = Ticking"
    "open_conn (s_conn ((tick env noticed ^^ (N + 1)) c))" "s_ticker ((tick env noticed ^^ (N + 1)) c) = Exceeding"
    "n_in (c_net (s_conn ((tick env noticed ^^ k) c))) = n_in (c_net (s_conn c))"
proof -
  have count: "int j \<le> sint (s_n c) \<Longrightarrow> s_ticker ((tick env noticed ^^ j) c) = Ticking \<and> open_conn (s_conn ((tick env noticed ^^ j) c)) \<and>
      sint (s_counter ((tick env noticed ^^ j) c)) = int j \<and> s_n ((tick env noticed ^^ j) c) = s_n c" for j
    using ticks_count [OF assms(1-3) _ assms(6), of j env noticed] assms(4) by simp
  have "tick env noticed ((tick env noticed ^^ N) c) = ((tick env noticed ^^ N) c)\<lparr>s_ticker := Exceeding\<rparr>"
    using count [of N] assms(5) by (simp add: tick_def)
  then show "open_conn (s_conn ((tick env noticed ^^ (N + 1)) c))" "s_ticker ((tick env noticed ^^ (N + 1)) c) = Exceeding"
    using count [of N] assms(5) by simp_all
  show "j < N + 1 \<Longrightarrow> s_ticker ((tick env noticed ^^ j) c) = Ticking"
    using count [of j] assms(5) by simp
  show "n_in (c_net (s_conn ((tick env noticed ^^ k) c))) = n_in (c_net (s_conn c))"
    by (induction k) (simp_all add: tick_in)
qed

lemma newConn_fresh:
  assumes "fresh_net n" "newConn randId randNum server n = Some c"
  shows "open_conn (s_conn c)" "n_wfail (c_net (s_conn c)) = []" "s_counter c = 0" "s_n c = srv_N server"
    "n_in (c_net (s_conn c)) = n_in n" "c_SequenceID (s_conn c) = \<lparr>g_next = randId, g_done = False, g_closed = False\<rparr>"
  using assms
  by (auto simp: newConn_def NewConnection_def fresh_net_def SetState_def open_conn_def state_defs
      newSequenceIDGenerator_def split: bind_splits if_splits)

lemma srv_reach_steps: "(srv_step sharpv h)\<^sup>*\<^sup>* v v' \<Longrightarrow> srv_reach sharpv h v \<Longrightarrow> srv_reach sharpv h v'"
  by (induction rule: rtranclp_induct) (auto intro: srv_reach.step)

text \<open>
  C39: The ticker can be left blocked for ever. On a new connection over which the peer sends nothing and then
  closes, there is an execution in which the counter reaches its limit and the ticker signals while the serve loop is in
  its last read: the loop ends and closes the connection with the ticker blocked in its send, and in every
  continuation the ticker stays there.
\<close>

theorem ticker_never_released:
  assumes "handler_contract h" "fresh_net n" "n_in n = []" "sint (srv_N server) = int N"
    "newConn randId randNum server n = Some c"
  shows "\<exists>v. (srv_step sharpv h)\<^sup>*\<^sup>* \<lparr>v_conn = c, v_phase = Starting, v_panicked = False\<rparr> v \<and>
    v_phase v = Ended \<and> n_closed (c_net (s_conn (v_conn v))) \<and> s_done (v_conn v) \<and> s_ticker (v_conn v) = Exceeding \<and>
    (\<forall>v'. (srv_step sharpv h)\<^sup>*\<^sup>* v v' \<longrightarrow> v_phase v' = Ended \<and> s_ticker (v_conn v') = Exceeding)"
proof -
  fix env
  let ?v0 = "\<lparr>v_conn = c, v_phase = Starting, v_panicked = False\<rparr>"
  let ?step = "serve_step sharpv h env False"
  let ?c = "startActiveTest c"
  let ?v2 = "?step (?step ?v0)"
  let ?v3 = "?v2\<lparr>v_conn := (tick env False ^^ (N + 1)) ?c\<rparr>"
  note new = newConn_fresh [OF assms(2,5)]
  have "open_conn (s_conn ?c)" "n_wfail (c_net (s_conn ?c)) = []" "s_counter ?c = 0" "s_ticker ?c = Ticking"
    "sint (s_n ?c) = int N" "c_SequenceID (s_conn ?c) = \<lparr>g_next = randId, g_done = False, g_closed = False\<rparr>"
    "n_in (c_net (s_conn ?c)) = []"
    using new assms(3,4) by (simp_all add: startActiveTest_def)
  note ticks = ticks_exceed [OF this(1-6)] this(7)
  have v2: "v_phase ?v2 = Reading" "v_conn ?v2 = ?c" "v_phase (?step ?v0) = Polling"
    by (simp_all add: serve_step_def startActiveTest_def Let_def)
  have "(srv_step sharpv h)\<^sup>*\<^sup>* ?v0 ?v2"
    using serve_steps [OF serve_steps [OF rtranclp.rtrancl_refl]] v2(3) by simp
  also have "(srv_step sharpv h)\<^sup>*\<^sup>* ?v2 ?v3"
    using tick_steps [of "N + 1" env False ?v2 sharpv h] ticks(1) by (simp only: v2(2))
  finally have 3: "(srv_step sharpv h)\<^sup>*\<^sup>* ?v0 ?v3" .
  have v3: "v_phase ?v3 = Reading" "open_conn (s_conn (v_conn ?v3))" "n_in (c_net (s_conn (v_conn ?v3))) = []"
    "s_ticker (v_conn ?v3) = Exceeding"
    using ticks(2-5) v2(1) by (simp_all del: funpow.simps add_Suc_right One_nat_def)
  note last = serve_last_read [OF v3(1-3), of sharpv h env False, unfolded v3(4)]
  have 5: "(srv_step sharpv h)\<^sup>*\<^sup>* ?v0 (?step (?step ?v3))"
    using serve_steps [OF serve_steps [OF 3]] v3(1) last(1) by simp
  have "srv_reach sharpv h ?v0"
    using assms(2,5) by (intro srv_reach.start) (auto simp: fresh_net_def)
  from handler_contract.srv_reach_inv [OF assms(1) srv_reach_steps [OF 5 this]] 5 last(2,3) ticker_stuck [OF _ last(2,3)]
  show ?thesis by (auto simp: srv_inv_def)
qed

theorem ticker_never_released_witness:
  "let h = handler_chain [handleLogin, handleSubmit (\<lambda>i. clock_sample) False];
       c = the (newConn 41 0 \<lparr>Addr = bytes_of '':8890'', srv_Version = VERSION, srv_N = 3\<rparr> (net_sample []))
   in \<exists>v v'. (srv_step (\<lambda>p. []) h)\<^sup>*\<^sup>* \<lparr>v_conn = c, v_phase = Starting, v_panicked = False\<rparr> v \<and> v_phase v = Ended \<and>
     n_closed (c_net (s_conn (v_conn v))) \<and> srv_step (\<lambda>p. []) h v v' \<and> s_ticker (v_conn v') = Exceeding"
proof -
  let ?h = "handler_chain [handleLogin, handleSubmit (\<lambda>i. clock_sample) False]"
  let ?srv = "\<lparr>Addr = bytes_of '':8890'', srv_Version = VERSION, srv_N = 3\<rparr>"
  obtain c where c: "newConn 41 0 ?srv (net_sample []) = Some c"
    by (simp add: newConn_def NewConnection_def net_sample_def)
  have "sint (srv_N ?srv) = int 3" "n_in (net_sample []) = []"
    by (simp_all add: net_sample_def)
  with ticker_never_released [OF example_handler.handler_contract_axioms _ _ _ c, of 3] obtain v where v:
    "(srv_step (\<lambda>p. []) ?h)\<^sup>*\<^sup>* \<lparr>v_conn = c, v_phase = Starting, v_panicked = False\<rparr> v"
    "v_phase v = Ended" "n_closed (c_net (s_conn (v_conn v)))"
    "\<forall>v'. (srv_step (\<lambda>p. []) ?h)\<^sup>*\<^sup>* v v' \<longrightarrow> v_phase v' = Ended \<and> s_ticker (v_conn v') = Exceeding"
    by (metis sample_simps(9))
  obtain e p' k where "SendPkt env_sample (ExitReq (SmgpExitReqPkt.make 0)) 7 (s_conn (v_conn v)) = (e, p', k)"
    by (metis prod.exhaust)
  from srv_step.others [OF this] have step: "srv_step (\<lambda>p. []) ?h v (v\<lparr>v_conn := (v_conn v)\<lparr>s_conn := k\<rparr>\<rparr>)" .
  have "s_ticker (v_conn (v\<lparr>v_conn := (v_conn v)\<lparr>s_conn := k\<rparr>\<rparr>)) = Exceeding"
    using v(4) r_into_rtranclp [of "srv_step (\<lambda>p. []) ?h", OF step] by blast
  with v step c show ?thesis by (auto simp: Let_def)
qed

text \<open>
  C40: After temporary errors of \<^verbatim>\<open>Accept\<close> in a row the server sleeps 5 milliseconds, then twice as long
  each time, and never more than a second; an accepted connection starts the count again, and any other
  error ends the loop.
\<close>

theorem accept_backoff:
  "Serve 0 (map TemporaryError es @ rest) =
     (let (e, sleeps, conns) = Serve (if es = [] then 0 else min (5000000 * 2 ^ (length es - 1)) 1000000000) rest
      in (e, map (\<lambda>k. min (5000000 * 2 ^ k) 1000000000) [0..<length es] @ sleeps, conns)) \<and>
   Serve d (Accepted rw # rest) = (let (e, sleeps, conns) = Serve 0 rest in (e, sleeps, rw # conns)) \<and>
   Serve d (PermanentError e1 # rest) = (Some e1, [], [])"
proof -
  have "map backoff [1..<1 + length es] = map (\<lambda>k. min (5000000 * 2 ^ k) 1000000000) [0..<length es]"
    by (rule nth_equalityI) (simp_all add: backoff_def del: upt_Suc)
  moreover have "backoff (length es) = (if es = [] then 0 else min (5000000 * 2 ^ (length es - 1)) 1000000000)"
    by (simp add: backoff_def)
  ultimately show ?thesis
    using Serve_temporary [of 0 es rest] by (simp add: backoff_def [of 0] Let_def split_beta)
qed

end
