(* ===== verification/Printing.thy ===== *)
theory Printing
  imports Connection
begin

text \<open>
  The \<^verbatim>\<open>String\<close> methods of the packets, of the header, of the optional parameters and of the status report,
  which the programs use in their logs. Each line of the output is a call of \<^verbatim>\<open>fmt.Fprintln\<close>. Indexing
  a missing receiver and printing a missing status report are panics. \<open>order\<close> is the order in which Go ranges
  over the optional parameters.
\<close>

section \<open>Lines\<close>

text \<open>\<^verbatim>\<open>fmt.Fprintln\<close> with the texts of its operands: a space between any two, a newline at the end.\<close>

fun spaced :: "gostring list \<Rightarrow> gostring" where
  "spaced [] = []"
| "spaced [x] = x"
| "spaced (x # xs) = x @ [32] @ spaced xs"

definition Fprintln :: "gostring list \<Rightarrow> gostring" where
  "Fprintln xs = spaced xs @ [10]"

text \<open>How \<^verbatim>\<open>fmt\<close> prints unsigned numbers and byte slices.\<close>

definition decimal :: "'a::len word \<Rightarrow> gostring" where
  "decimal n = digits 10 (unat n)"

definition byte_slice :: "byte list \<Rightarrow> gostring" where
  "byte_slice bs = [91] @ spaced (map decimal bs) @ [93]"

section \<open>Header, options, status report\<close>

definition Header_String :: "Header \<Rightarrow> gostring" where
  "Header_String p =
     Fprintln [bytes_of ''--- Header ---''] @
     Fprintln [bytes_of ''Length: '', decimal (PacketLength p)] @
     (bytes_of ''RequestID: 0x'' @ digits 16 (unat (RequestID p)) @ [10]) @
     Fprintln [bytes_of ''SequenceID: '', decimal (Header.SequenceID p)]"

definition TLV_String :: "TLV \<Rightarrow> gostring" where
  "TLV_String t = []"

definition Options_String :: "u16 list \<Rightarrow> Options \<Rightarrow> gostring" where
  "Options_String order ops =
     concat (map (\<lambda>v.
       Fprintln [bytes_of ''--- Options ---''] @
       Fprintln [bytes_of ''Tag: '', decimal (Tag v)] @
       Fprintln [bytes_of ''Length: '', decimal (Length v)] @
       Fprintln [bytes_of ''Value: '', byte_slice (Value v)]) (ranged order ops))"

definition SmgpDeliverMsgContent_String :: "SmgpDeliverMsgContent \<Rightarrow> gostring" where
  "SmgpDeliverMsgContent_String p =
     Fprintln [[]] @
     Fprintln [9 # bytes_of ''ID(SubmitMsgID): '', SubmitMsgID p] @
     Fprintln [9 # bytes_of ''Sub: '', Sub p] @
     Fprintln [9 # bytes_of ''Dlvrd: '', Dlvrd p] @
     Fprintln [9 # bytes_of ''SubmitDate: '', SubmitDate p] @
     Fprintln [9 # bytes_of ''DoneDate: '', DoneDate p] @
     Fprintln [9 # bytes_of ''Stat: '', Stat p] @
     Fprintln [9 # bytes_of ''Err: '', Err p] @
     Fprintln [9 # bytes_of ''Txt: '', Txt p]"

section \<open>The packets\<close>

definition SmgpActiveTestReqPkt_String :: "SmgpActiveTestReqPkt \<Rightarrow> gostring" where
  "SmgpActiveTestReqPkt_String p = Fprintln [bytes_of ''--- SMGP ActiveTest Req ---'']"

definition SmgpActiveTestRespPkt_String :: "SmgpActiveTestRespPkt \<Rightarrow> gostring" where
  "SmgpActiveTestRespPkt_String p = Fprintln [bytes_of ''--- SMGP ActiveTest Resp ---'']"

definition SmgpExitReqPkt_String :: "SmgpExitReqPkt \<Rightarrow> gostring" where
  "SmgpExitReqPkt_String p = Fprintln [bytes_of ''--- SMGP Exit Req ---'']"

definition SmgpExitRespPkt_String :: "SmgpExitRespPkt \<Rightarrow> gostring" where
  "SmgpExitRespPkt_String p = Fprintln [bytes_of ''--- SMGP Exit Resp ---'']"

definition SmgpLoginReqPkt_String :: "SmgpLoginReqPkt \<Rightarrow> gostring" where
  "SmgpLoginReqPkt_String p =
     Fprintln [bytes_of ''--- SMGP Login Req ---''] @
     Fprintln [bytes_of ''ClientID: '', ClientID p] @
     Fprintln [bytes_of ''Secret: '', SmgpLoginReqPkt.Secret p] @
     Fprintln [bytes_of ''AuthenticatorClient: '', SmgpLoginReqPkt.AuthenticatorClient p] @
     Fprintln [bytes_of ''LoginMode: '', decimal (LoginMode p)] @
     Fprintln [bytes_of ''TimeStamp: '', decimal (TimeStamp p)] @
     Fprintln [bytes_of ''ClientVersion: '', decimal (ClientVersion p)]"

definition SmgpLoginRespPkt_String :: "SmgpLoginRespPkt \<Rightarrow> gostring" where
  "SmgpLoginRespPkt_String p =
     Fprintln [bytes_of ''--- SMGP Login Resp ---''] @
     Fprintln [bytes_of ''Status: '', Status_String (SmgpLoginRespPkt.Status p)] @
     Fprintln [bytes_of ''AuthenticatorServer: '', AuthenticatorServer p] @
     Fprintln [bytes_of ''ServerVersion: '', decimal (ServerVersion p)]"

definition SmgpQueryReqPkt_String :: "SmgpQueryReqPkt \<Rightarrow> gostring" where
  "SmgpQueryReqPkt_String p =
     Fprintln [bytes_of ''--- SMGP Query Req ---''] @
     Fprintln [bytes_of ''QueryTime: '', SmgpQueryReqPkt.QueryTime p] @
     Fprintln [bytes_of ''QueryType: '', decimal (SmgpQueryReqPkt.QueryType p)] @
     Fprintln [bytes_of ''QueryCode: '', SmgpQueryReqPkt.QueryCode p]"

definition SmgpQueryRespPkt_String :: "SmgpQueryRespPkt \<Rightarrow> gostring" where
  "SmgpQueryRespPkt_String p =
     Fprintln [bytes_of ''--- SMGP Query Resp ---''] @
     Fprintln [bytes_of ''QueryTime: '', SmgpQueryRespPkt.QueryTime p] @
     Fprintln [bytes_of ''QueryType: '', decimal (SmgpQueryRespPkt.QueryType p)] @
     Fprintln [bytes_of ''QueryCode: '', SmgpQueryRespPkt.QueryCode p] @
     Fprintln [bytes_of ''MT_TLMsg: '', decimal (MT_TLMsg p)] @
     Fprintln [bytes_of ''MT_Tlusr: '', decimal (MT_Tlusr p)] @
     Fprintln [bytes_of ''MT_Scs: '', decimal (MT_Scs p)] @
     Fprintln [bytes_of ''MT_WT: '', decimal (MT_WT p)] @
     Fprintln [bytes_of ''MT_FL: '', decimal (MT_FL p)] @
     Fprintln [bytes_of ''MO_Scs: '', decimal (MO_Scs p)] @
     Fprintln [bytes_of ''MO_WT: '', decimal (MO_WT p)] @
     Fprintln [bytes_of ''MO_FL: '', decimal (MO_FL p)] @
     Fprintln [bytes_of ''Reserve: '', SmgpQueryRespPkt.Reserve p]"

text \<open>The loop over the receivers, by index up to the count.\<close>

fun DestTermID_lines :: "gostring list \<Rightarrow> nat \<Rightarrow> nat \<Rightarrow> gostring option" where
  "DestTermID_lines ds i 0 = Some []"
| "DestTermID_lines ds i (Suc n) = do {
     d \<leftarrow> go_index ds i;
     rest \<leftarrow> DestTermID_lines ds (i + 1) n;
     Some (Fprintln [bytes_of ''DestTermID: '', d] @ rest)
   }"

definition SmgpSubmitReqPkt_String :: "u16 list \<Rightarrow> SmgpSubmitReqPkt \<Rightarrow> gostring option" where
  "SmgpSubmitReqPkt_String order p = do {
     let b = Fprintln [bytes_of ''--- SMGP Submit Req ---''] @
       Fprintln [bytes_of ''MsgType: '', decimal (MsgType p)] @
       Fprintln [bytes_of ''NeedReport: '', decimal (NeedReport p)] @
       Fprintln [bytes_of ''Priority: '', decimal (Priority p)] @
       Fprintln [bytes_of ''ServiceID: '', ServiceID p] @
       Fprintln [bytes_of ''FeeType: '', FeeType p] @
       Fprintln [bytes_of ''FeeCode: '', FeeCode p] @
       Fprintln [bytes_of ''FixedFee: '', FixedFee p] @
       Fprintln [bytes_of ''MsgFormat: '', decimal (SmgpSubmitReqPkt.MsgFormat p)] @
       Fprintln [bytes_of ''ValidTime: '', ValidTime p] @
       Fprintln [bytes_of ''AtTime: '', AtTime p] @
       Fprintln [bytes_of ''SrcTermID: '', SmgpSubmitReqPkt.SrcTermID p] @
       Fprintln [bytes_of ''ChargeTermID: '', ChargeTermID p] @
       Fprintln [bytes_of ''DestTermIDCount: '', decimal (DestTermIDCount p)];
     ds \<leftarrow> DestTermID_lines (SmgpSubmitReqPkt.DestTermID p) 0 (unat (DestTermIDCount p));
     Some (b @ ds @
       Fprintln [bytes_of ''MsgLength: '', decimal (SmgpSubmitReqPkt.MsgLength p)] @
       Fprintln [bytes_of ''MsgContent: '', SmgpSubmitReqPkt.MsgContent p] @
       Fprintln [bytes_of ''Options: '', Options_String order (SmgpSubmitReqPkt.Options p)])
   }"

definition SmgpSubmitRespPkt_String :: "SmgpSubmitRespPkt \<Rightarrow> gostring" where
  "SmgpSubmitRespPkt_String p =
     Fprintln [bytes_of ''--- SMGP Submit Resp ---''] @
     Fprintln [bytes_of ''MsgID: '', SmgpSubmitRespPkt.MsgID p] @
     Fprintln [bytes_of ''Status: '', Status_String (SmgpSubmitRespPkt.Status p)]"

definition SmgpDeliverReqPkt_String :: "u16 list \<Rightarrow> SmgpDeliverReqPkt \<Rightarrow> gostring option" where
  "SmgpDeliverReqPkt_String order p = do {
     let b = Fprintln [bytes_of ''--- SMGP Deliver Req ---''] @
       Fprintln [bytes_of ''MsgID: '', SmgpDeliverReqPkt.MsgID p] @
       Fprintln [bytes_of ''IsReport: '', decimal (IsReport p)] @
       Fprintln [bytes_of ''MsgFormat: '', decimal (SmgpDeliverReqPkt.MsgFormat p)] @
       Fprintln [bytes_of ''RecvTime: '', RecvTime p] @
       Fprintln [bytes_of ''SrcTermID: '', SmgpDeliverReqPkt.SrcTermID p] @
       Fprintln [bytes_of ''DestTermID: '', SmgpDeliverReqPkt.DestTermID p] @
       Fprintln [bytes_of ''MsgLength: '', decimal (SmgpDeliverReqPkt.MsgLength p)];
     content \<leftarrow> (if IsReport p = 1
       then do { c \<leftarrow> MsgStatContent p; Some (Fprintln [bytes_of ''MsgContent: '', SmgpDeliverMsgContent_String c]) }
       else Some (Fprintln [bytes_of ''MsgContent: '', SmgpDeliverReqPkt.MsgContent p]));
     Some (b @ content @ Fprintln [bytes_of ''Options: '', Options_String order (SmgpDeliverReqPkt.Options p)])
   }"

definition SmgpDeliverRespPkt_String :: "SmgpDeliverRespPkt \<Rightarrow> gostring" where
  "SmgpDeliverRespPkt_String p =
     Fprintln [bytes_of ''--- SMGP Deliver Resp ---''] @
     Fprintln [bytes_of ''MsgID: '', SmgpDeliverRespPkt.MsgID p] @
     Fprintln [bytes_of ''Status: '', Status_String (SmgpDeliverRespPkt.Status p)]"

primrec Packer_String :: "u16 list \<Rightarrow> packet \<Rightarrow> gostring option" where
  "Packer_String order (ActiveTestReq p) = Some (SmgpActiveTestReqPkt_String p)"
| "Packer_String order (ActiveTestResp p) = Some (SmgpActiveTestRespPkt_String p)"
| "Packer_String order (LoginReq p) = Some (SmgpLoginReqPkt_String p)"
| "Packer_String order (LoginResp p) = Some (SmgpLoginRespPkt_String p)"
| "Packer_String order (SubmitReq p) = SmgpSubmitReqPkt_String order p"
| "Packer_String order (SubmitResp p) = Some (SmgpSubmitRespPkt_String p)"
| "Packer_String order (DeliverReq p) = SmgpDeliverReqPkt_String order p"
| "Packer_String order (DeliverResp p) = Some (SmgpDeliverRespPkt_String p)"
| "Packer_String order (ExitReq p) = Some (SmgpExitReqPkt_String p)"
| "Packer_String order (ExitResp p) = Some (SmgpExitRespPkt_String p)"
| "Packer_String order (QueryReq p) = Some (SmgpQueryReqPkt_String p)"
| "Packer_String order (QueryResp p) = Some (SmgpQueryRespPkt_String p)"

section \<open>When printing panics\<close>

primrec printable :: "packet \<Rightarrow> bool" where
  "printable (ActiveTestReq p) = True"
| "printable (ActiveTestResp p) = True"
| "printable (LoginReq p) = True"
| "printable (LoginResp p) = True"
| "printable (SubmitReq p) = (unat (DestTermIDCount p) \<le> length (SmgpSubmitReqPkt.DestTermID p))"
| "printable (SubmitResp p) = True"
| "printable (DeliverReq p) = (\<not> (IsReport p = 1 \<and> MsgStatContent p = None))"
| "printable (DeliverResp p) = True"
| "printable (ExitReq p) = True"
| "printable (ExitResp p) = True"
| "printable (QueryReq p) = True"
| "printable (QueryResp p) = True"

lemma DestTermID_lines_panics: "DestTermID_lines ds i n = None \<longleftrightarrow> \<not> (n = 0 \<or> i + n \<le> length ds)"
  by (induction ds i n rule: DestTermID_lines.induct) (auto simp: go_index_def split: bind_splits)

lemma DestTermID_lines_0:
  "DestTermID_lines ds 0 n = None \<longleftrightarrow> length ds < n" "DestTermID_lines ds 0 n = Some v \<Longrightarrow> n \<le> length ds"
  using DestTermID_lines_panics [of ds 0 n] by auto

lemma Packer_String_panics: "Packer_String order p = None \<longleftrightarrow> \<not> printable p"
  by (cases p)
    (auto simp: SmgpSubmitReqPkt_String_def SmgpDeliverReqPkt_String_def Let_def DestTermID_lines_0
      dest: DestTermID_lines_0(2) split: bind_splits if_splits)

section \<open>Received packets can be printed\<close>

lemma length_read_times: "read_times get n xs r = Some (ys, r') \<Longrightarrow> length ys = length xs + n"
  by (induction get n xs r rule: read_times.induct) (auto split: bind_splits)

lemma outcome_read_term_ids_length:
  "pos data k r \<Longrightarrow>
   (\<And>x r'. pos data (k + n * 21) r' \<Longrightarrow> length x = length xs + n \<Longrightarrow> outcome Q (f x r')) \<Longrightarrow>
   outcome Q (Option.bind (read_times (ReadCString 21) n xs r) (\<lambda>(x, r). f x r))"
  using term_id.get_all_total [of n xs r] term_id.get_all_pos [of n xs r _ _ data k]
    length_read_times [of "ReadCString 21" n xs r] by force

lemma submit_receivers:
  assumes "SmgpSubmitReqPkt_Unpack p data = Some (p', e)"
  shows "length (SmgpSubmitReqPkt.DestTermID p') = length (SmgpSubmitReqPkt.DestTermID p) + unat (DestTermIDCount p')"
proof -
  have "outcome (\<lambda>m. \<forall>p' e. m = Some (p', e) \<longrightarrow>
      length (SmgpSubmitReqPkt.DestTermID p') = length (SmgpSubmitReqPkt.DestTermID p) + unat (DestTermIDCount p'))
    (SmgpSubmitReqPkt_Unpack p data)"
    unfolding SmgpSubmitReqPkt_Unpack_def Let_def
    by (rule outcome_newPkgReader,
        ((rule outcome_ReadCString, assumption, simp) | (rule outcome_read_term_ids_length, assumption) |
          (rule outcome_rules, assumption))+)
       (auto simp: outcome_def go_slice_from_eq split: sum.splits if_splits)
  with assms show ?thesis by (simp add: outcome_def)
qed

lemma deliver_report:
  assumes "SmgpDeliverReqPkt_Unpack p data = Some (p', e)"
  shows "IsReport p' = 1 \<longrightarrow> MsgStatContent p' \<noteq> None"
proof -
  have report: "outcome Q (Option.bind (if isRep = 1 then do { c \<leftarrow> DecodeDeliverMsgContent content;
      Some (q\<lparr>MsgStatContent := Some c\<rparr>) } else Some q) f)"
    if "\<And>q'. IsReport q' = IsReport q \<Longrightarrow> (isRep = 1 \<longrightarrow> MsgStatContent q' \<noteq> None) \<Longrightarrow> outcome Q (f q')" "Q None"
    for Q :: "(SmgpDeliverReqPkt \<times> error option) option \<Rightarrow> bool" and isRep content q f
    using that by (cases "DecodeDeliverMsgContent content") (auto simp: outcome_def)
  have "outcome (\<lambda>m. \<forall>p' e. m = Some (p', e) \<longrightarrow> IsReport p' = 1 \<longrightarrow> MsgStatContent p' \<noteq> None)
    (SmgpDeliverReqPkt_Unpack p data)"
    unfolding SmgpDeliverReqPkt_Unpack_def Let_def
    by (rule outcome_newPkgReader,
        ((rule outcome_ReadCString, assumption, simp) | (rule outcome_rules, assumption) | (rule report))+)
      (auto simp: outcome_def go_slice_from_eq split: sum.splits if_splits)
  with assms show ?thesis by (simp add: outcome_def)
qed

lemma decode_packet_printable:
  assumes "decode_packet rid seq data = Some (Inr p)"
  shows "printable p"
proof -
  from assms obtain p0 e where p0: "new_packet rid seq = Some p0" "Packer_Unpack p0 data = Some (p, e)"
    by (auto simp: decode_packet_def split: option.splits)
  from p0(1) show ?thesis
    by (rule new_packet_cases)
      (use p0(2) in \<open>auto simp: unpacked_def SmgpSubmitReqPkt_new_def SmgpSubmitReqPkt.defs
        dest: submit_receivers deliver_report\<close>)
qed

lemma Recv_printable: "RecvAndUnpackPkt timeout c = (Some (Inr p), c') \<Longrightarrow> printable p"
  by (auto simp: RecvAndUnpackPkt_def Let_def decode_packet_printable split: if_splits option.splits sum.splits prod.splits)

end
