(* ===== verification/Example_Client.thy ===== *)
theory Example_Client
  imports Client Long_Sms Printing
begin

text \<open>
  \<^verbatim>\<open>examples/client/main.go\<close>: the goroutine \<^verbatim>\<open>startAClient\<close>, which logs in, submits one message at the first tick of
  its ticker, and answers what it receives. The command line flags are arguments. For a text of more than
  140 bytes the code calls \<^verbatim>\<open>pkg.GetLongMsgPkgs\<close>, a function that the package does not have; it is the
  parameter \<open>getLong\<close>. The encoder of \<^verbatim>\<open>golang.org/x/text\<close> is the parameter \<open>gb18030_encoder\<close>. Logging is
  left out. A panic is \<open>None\<close>.
\<close>

section \<open>The message\<close>

text \<open>\<^verbatim>\<open>strings.Split\<close> at a separator of one byte.\<close>

fun Split :: "byte \<Rightarrow> gostring \<Rightarrow> gostring list" where
  "Split sep [] = [[]]"
| "Split sep (c # s) =
     (if c = sep then [] # Split sep s
      else case Split sep s of d # ds \<Rightarrow> (c # d) # ds | [] \<Rightarrow> [[c]])"

definition client_submit :: "gostring \<Rightarrow> gostring \<Rightarrow> gostring \<Rightarrow> SmgpSubmitReqPkt" where
  "client_submit spCode phone cont =
     (let destStrArr = Split 44 phone
      in SmgpSubmitReqPkt.make MT NEED_REPORT NORMAL_PRIORITY [] (bytes_of ''00'') (bytes_of ''0'') (bytes_of ''0'')
           GB18030 [] [] spCode [] (of_nat (length destStrArr)) destStrArr (of_nat (length cont)) cont []
           Map.empty 0)"

definition client_pkgs ::
  "(SmgpSubmitReqPkt \<Rightarrow> error + SmgpSubmitReqPkt list) \<Rightarrow> gostring \<Rightarrow> gostring \<Rightarrow> gostring
   \<Rightarrow> error + SmgpSubmitReqPkt list" where
  "client_pkgs getLong spCode phone cont =
     (let p = client_submit spCode phone cont
      in if length cont > 140 then getLong p
         else Inr [p\<lparr>SmgpSubmitReqPkt.Options :=
           [TAG_PkTotal \<mapsto> NewTLV TAG_PkTotal [1],
            TAG_PkNumber \<mapsto> NewTLV TAG_PkNumber [1],
            TAG_TP_udhi \<mapsto> NewTLV TAG_TP_udhi [0],
            TAG_TP_pid \<mapsto> NewTLV TAG_TP_pid [1]]\<rparr>])"

text \<open>The sending loop: the error that remains is that of the last packet.\<close>

fun send_pkgs :: "(nat \<Rightarrow> pack_env) \<Rightarrow> nat \<Rightarrow> SmgpSubmitReqPkt list \<Rightarrow> error option \<Rightarrow> Client
    \<Rightarrow> (error option \<times> Client) option" where
  "send_pkgs envs i [] e cli = Some (e, cli)"
| "send_pkgs envs i (req # pkgs) e cli = do {
     (_, e, _, cli) \<leftarrow> Client_SendReqPkt (envs i) False (SubmitReq req) cli;
     send_pkgs envs (i + 1) pkgs e cli
   }"

section \<open>The loop\<close>

record example_client =
  x_cli :: Client
  x_count :: nat
  x_running :: bool

text \<open>What the branch of a tick leads to: the next iteration, the receiving part, or the end.\<close>

datatype branch = Next_Iteration | Receiving | Return

definition client_tick ::
  "(SmgpSubmitReqPkt \<Rightarrow> error + SmgpSubmitReqPkt list) \<Rightarrow> transformer \<Rightarrow> gostring \<Rightarrow> gostring \<Rightarrow> gostring
   \<Rightarrow> (nat \<Rightarrow> pack_env) \<Rightarrow> example_client \<Rightarrow> (branch \<times> example_client) option" where
  "client_tick getLong gb18030_encoder spCode phone msg envs x =
     (let maxSubmit = 1 in
      if x_count x \<ge> maxSubmit then Some (Next_Iteration, x)
      else case Utf8ToGB18030 gb18030_encoder msg of
        Inl e \<Rightarrow> Some (Return, x)
      | Inr cont \<Rightarrow> (case client_pkgs getLong spCode phone cont of
          Inl e \<Rightarrow> Some (Next_Iteration, x)
        | Inr pkgs \<Rightarrow> do {
            (e, cli) \<leftarrow> send_pkgs envs 0 pkgs None (x_cli x);
            let x = x\<lparr>x_cli := cli\<rparr>;
            if e \<noteq> None then Some (Return, x)
            else Some (Receiving, x\<lparr>x_count := x_count x + 1\<rparr>)
          }))"

text \<open>
  The answers. Whether the answer could be sent is only logged: the \<^verbatim>\<open>break\<close> there leaves the \<^verbatim>\<open>switch\<close>.
\<close>

definition client_answer :: "pack_env \<Rightarrow> packet \<Rightarrow> u32 \<Rightarrow> Client \<Rightarrow> Client option" where
  "client_answer env rsp seq cli = do { (_, _, cli) \<leftarrow> Client_SendRspPkt env rsp seq cli; Some cli }"

fun client_react :: "pack_env \<Rightarrow> packet \<Rightarrow> Client \<Rightarrow> Client option" where
  "client_react env (DeliverReq p) cli =
     client_answer env (DeliverResp (SmgpDeliverRespPkt.make (SmgpDeliverReqPkt.MsgID p) 0 0))
       (SmgpDeliverReqPkt.SequenceID p) cli"
| "client_react env (ActiveTestReq p) cli =
     client_answer env (ActiveTestResp (SmgpActiveTestRespPkt.make 0)) (SmgpActiveTestReqPkt.SequenceID p) cli"
| "client_react env (ExitReq p) cli =
     client_answer env (ExitResp (SmgpExitRespPkt.make 0)) (SmgpExitReqPkt.SequenceID p) cli"
| "client_react env p cli = Some cli"

definition client_receive :: "pack_env \<Rightarrow> example_client \<Rightarrow> example_client option" where
  "client_receive env x =
     (case Client_RecvAndUnpackPkt False (x_cli x) of
        (None, cli) \<Rightarrow> None
      | (Some (Inl e), cli) \<Rightarrow> Some (x\<lparr>x_cli := cli, x_running := False\<rparr>)
      | (Some (Inr p), cli) \<Rightarrow> do { cli \<leftarrow> client_react env p cli; Some (x\<lparr>x_cli := cli\<rparr>) })"

text \<open>One iteration; \<open>ticked\<close> says whether the \<^verbatim>\<open>select\<close> takes a tick.\<close>

definition client_round ::
  "(SmgpSubmitReqPkt \<Rightarrow> error + SmgpSubmitReqPkt list) \<Rightarrow> transformer \<Rightarrow> gostring \<Rightarrow> gostring \<Rightarrow> gostring
   \<Rightarrow> bool \<Rightarrow> (nat \<Rightarrow> pack_env) \<Rightarrow> pack_env \<Rightarrow> example_client \<Rightarrow> example_client option" where
  "client_round getLong gb18030_encoder spCode phone msg ticked envs env x =
     (if ticked then do {
        (b, x) \<leftarrow> client_tick getLong gb18030_encoder spCode phone msg envs x;
        case b of
          Next_Iteration \<Rightarrow> Some x
        | Return \<Rightarrow> Some (x\<lparr>x_running := False\<rparr>)
        | Receiving \<Rightarrow> client_receive env x
      }
      else client_receive env x)"

fun client_loop ::
  "(SmgpSubmitReqPkt \<Rightarrow> error + SmgpSubmitReqPkt list) \<Rightarrow> transformer \<Rightarrow> gostring \<Rightarrow> gostring \<Rightarrow> gostring
   \<Rightarrow> (bool \<times> (nat \<Rightarrow> pack_env) \<times> pack_env) list \<Rightarrow> example_client \<Rightarrow> example_client option" where
  "client_loop getLong gb18030_encoder spCode phone msg [] x = Some x"
| "client_loop getLong gb18030_encoder spCode phone msg ((ticked, envs, env) # rounds) x =
     (if \<not> x_running x then Some x
      else do {
        x \<leftarrow> client_round getLong gb18030_encoder spCode phone msg ticked envs env x;
        client_loop getLong gb18030_encoder spCode phone msg rounds x
      })"

text \<open>
  The goroutine up to the end of the list of rounds, with the deferred \<^verbatim>\<open>Disconnect\<close> when it has ended. The
  error of \<^verbatim>\<open>strconv.Atoi\<close> is dropped.
\<close>

definition startAClient ::
  "(SmgpSubmitReqPkt \<Rightarrow> error + SmgpSubmitReqPkt list) \<Rightarrow> transformer \<Rightarrow> gostring \<Rightarrow> gostring \<Rightarrow> gostring
   \<Rightarrow> pack_env \<Rightarrow> error + net \<Rightarrow> u32 \<Rightarrow> nat \<Rightarrow> gostring \<Rightarrow> gostring \<Rightarrow> gostring
   \<Rightarrow> (bool \<times> (nat \<Rightarrow> pack_env) \<times> pack_env) list \<Rightarrow> Client option" where
  "startAClient getLong gb18030_encoder spCode phone msg env dialled randId randNum clientID secret loginMode rounds =
     (let c = NewClient VERSION;
          mode = fst (ParseInt loginMode 10 64)
      in case Connect env dialled randId randNum clientID secret (word_of_int mode) True c of
           (None, c) \<Rightarrow> None
         | (Some (Some e), c) \<Rightarrow> Disconnect c
         | (Some None, c) \<Rightarrow> do {
             x \<leftarrow> client_loop getLong gb18030_encoder spCode phone msg rounds
               \<lparr>x_cli = c, x_count = 0, x_running = True\<rparr>;
             if x_running x then Some (x_cli x) else Disconnect (x_cli x)
           })"

section \<open>Answers\<close>

text \<open>The answer that a received packet calls for.\<close>

fun client_reply :: "packet \<Rightarrow> packet option" where
  "client_reply (DeliverReq p) = Some (DeliverResp (SmgpDeliverRespPkt.make (SmgpDeliverReqPkt.MsgID p) 0 0))"
| "client_reply (ActiveTestReq p) = Some (ActiveTestResp (SmgpActiveTestRespPkt.make 0))"
| "client_reply (ExitReq p) = Some (ExitResp (SmgpExitRespPkt.make 0))"
| "client_reply p = None"

lemma client_answer_out:
  assumes "cli_conn cli = Some c" "open_conn c" "n_wfail (c_net c) = []" "packet_wf env rsp"
  shows "\<exists>cli' c'. client_answer env rsp seq cli = Some cli' \<and> cli_conn cli' = Some c' \<and>
    n_out (c_net c') = n_out (c_net c) @ packet_frame env seq rsp \<and> n_in (c_net c') = n_in (c_net c) \<and>
    open_conn c' \<and> n_wfail (c_net c') = []"
proof -
  obtain e p' c' where send: "SendPkt env rsp seq c = (e, p', c')" by (cases "SendPkt env rsp seq c")
  from SendPkt_ok [OF assms(2-4) send] SendPkt_conn(5) [OF send] assms(1) send show ?thesis
    by (simp add: client_answer_def Client_SendRspPkt_def)
qed

lemma client_react_out:
  assumes "cli_conn cli = Some c" "open_conn c" "n_wfail (c_net c) = []"
  shows "\<exists>cli' c'. client_react env p cli = Some cli' \<and> cli_conn cli' = Some c' \<and>
    n_out (c_net c') = n_out (c_net c) @
      (case client_reply p of None \<Rightarrow> [] | Some q \<Rightarrow> packet_frame env (packet_seq p) q) \<and>
    n_in (c_net c') = n_in (c_net c) \<and> open_conn c' \<and> n_wfail (c_net c') = []"
  using assms client_answer_out [OF assms, of env] by (cases p) simp_all

lemma client_receive_answer:
  assumes "cli_conn (x_cli x) = Some c" "open_conn c" "n_wfail (c_net c) = []"
    "packet_ok env p" "n_in (c_net c) = map Data (packet_frame env seq p) @ rest"
  shows "\<exists>x' c'. client_receive env' x = Some x' \<and> x_running x' = x_running x \<and> x_count x' = x_count x \<and>
    cli_conn (x_cli x') = Some c' \<and> n_in (c_net c') = rest \<and> open_conn c' \<and> n_wfail (c_net c') = [] \<and>
    n_out (c_net c') = n_out (c_net c) @ (case client_reply (packet_sent env seq p) of
      None \<Rightarrow> [] | Some q \<Rightarrow> packet_frame env' (packet_seq (packet_sent env seq p)) q)"
proof -
  let ?c = "c\<lparr>c_net := (c_net c)\<lparr>n_in := rest, n_deadline := False\<rparr>\<rparr>"
  have "Client_RecvAndUnpackPkt False (x_cli x) = (Some (Inr (packet_sent env seq p)), (x_cli x)\<lparr>cli_conn := Some ?c\<rparr>)"
    using assms(1) Recv_sent [OF assms(2,4,5)] by (simp add: Client_RecvAndUnpackPkt_def)
  moreover have "open_conn ?c" "n_wfail (c_net ?c) = []"
    using assms(2,3) by (simp_all add: open_conn_def)
  ultimately show ?thesis
    using client_react_out [of "(x_cli x)\<lparr>cli_conn := Some ?c\<rparr>" ?c env' "packet_sent env seq p"]
    by (auto simp: client_receive_def)
qed

text \<open>The sequence number of an answer is that of the frame received.\<close>

lemma packet_sent_seq: "packet_seq (packet_sent env seq p) = seq"
  by (cases p) (simp_all add: SmgpActiveTestReqPkt.defs SmgpActiveTestRespPkt.defs login_req_sent_def login_resp_sent_def
      submit_resp_sent_def deliver_sent_def deliver_resp_sent_def SmgpLoginReqPkt.defs SmgpLoginRespPkt.defs
      SmgpSubmitRespPkt.defs SmgpDeliverRespPkt.defs)

end
