(* ===== verification/Example_Properties.thy ===== *)
theory Example_Properties
  imports Session_Properties Example_Client
begin

text \<open>
  Properties of the example client, alone and together with the example server, and of the log output.
\<close>

section \<open>Printing\<close>

text \<open>
  C22: Printing a packet panics exactly for a submit request that counts more receivers than it has and for a
  deliver request that is marked as a status report but has none; no packet that is received is of either kind.
\<close>

theorem received_prints:
  assumes "RecvAndUnpackPkt timeout c = (Some (Inr p), c')"
  shows "Packer_String order p \<noteq> None \<and>
    (Packer_String order q = None \<longleftrightarrow>
      (case q of SubmitReq s \<Rightarrow> length (SmgpSubmitReqPkt.DestTermID s) < unat (DestTermIDCount s)
       | DeliverReq d \<Rightarrow> IsReport d = 1 \<and> MsgStatContent d = None
       | _ \<Rightarrow> False))"
  using Recv_printable [OF assms] unfolding Packer_String_panics by (cases q) auto

theorem received_prints_witness:
  "Packer_String [] (ActiveTestReq (SmgpActiveTestReqPkt.make 9)) \<noteq> None"
  using received_prints [OF sample_recv] by blast

section \<open>The answers of the client\<close>

lemma client_receive_frame:
  assumes "cli_conn (x_cli x) = Some c" "open_conn c" "n_wfail (c_net c) = []"
    "request_id_valid rid" "12 + length body \<le> 2477" "n_in (c_net c) = map Data (frame rid seq body) @ rest"
    "decode_packet rid seq body = Some (Inr p)"
  shows "\<exists>x' c'. client_receive env x = Some x' \<and> x_running x' = x_running x \<and> x_count x' = x_count x \<and>
    cli_conn (x_cli x') = Some c' \<and> n_in (c_net c') = rest \<and>
    n_out (c_net c') = n_out (c_net c) @ (case client_reply p of None \<Rightarrow> [] | Some q \<Rightarrow> packet_frame env seq q)"
proof -
  let ?c = "c\<lparr>c_net := (c_net c)\<lparr>n_in := rest, n_deadline := False\<rparr>\<rparr>"
  have "Client_RecvAndUnpackPkt False (x_cli x) = (Some (Inr p), (x_cli x)\<lparr>cli_conn := Some ?c\<rparr>)"
    using assms(1,7) RecvAndUnpackPkt_frame [OF assms(2,5,4,6), of False] by (simp add: Client_RecvAndUnpackPkt_def)
  moreover have "open_conn ?c" "n_wfail (c_net ?c) = []"
    using assms(2,3) by (simp_all add: open_conn_def)
  ultimately show ?thesis
    using client_react_out [of "(x_cli x)\<lparr>cli_conn := Some ?c\<rparr>" ?c env p] decode_packet_seq [OF assms(7)]
    by (auto simp: client_receive_def)
qed

text \<open>
  C23: What the example client does with any complete frame with a valid identifier. If decoding it panics, so does
  the client; if decoding fails, the client writes nothing and ends its loop. A packet leaves the loop running and is answered as
  follows, with the sequence number of the frame: a deliver request with a deliver response that carries its message
  identifier and status zero, an active test request with an active test response, and an exit request with an
  exit response, which goes out with the identifier of an active test response; every other packet with nothing.
\<close>

theorem client_answers:
  assumes "cli_conn (x_cli x) = Some c" "open_conn c" "n_wfail (c_net c) = []"
    "request_id_valid rid" "12 + length body \<le> 2477" "n_in (c_net c) = map Data (frame rid seq body) @ rest"
  shows "case decode_packet rid seq body of
      None \<Rightarrow> client_receive env x = None
    | Some (Inl e) \<Rightarrow> \<exists>x' c'. client_receive env x = Some x' \<and> \<not> x_running x' \<and>
        cli_conn (x_cli x') = Some c' \<and> n_in (c_net c') = rest \<and> n_out (c_net c') = n_out (c_net c)
    | Some (Inr p) \<Rightarrow> \<exists>x' c'. client_receive env x = Some x' \<and> x_running x' = x_running x \<and>
        cli_conn (x_cli x') = Some c' \<and> n_in (c_net c') = rest \<and>
        n_out (c_net c') = n_out (c_net c) @
          (case p of
             DeliverReq q \<Rightarrow> frame SMGP_DELIVER_RESP seq
               (OctetString_Byte (DecodeString (SmgpDeliverReqPkt.MsgID q)) 10 @ [0, 0, 0, 0])
           | ActiveTestReq q \<Rightarrow> frame SMGP_ACTIVE_TEST_RESP seq []
           | ExitReq q \<Rightarrow> frame SMGP_ACTIVE_TEST_RESP seq []
           | _ \<Rightarrow> [])"
proof (cases "decode_packet rid seq body")
  case None
  with assms(1) RecvAndUnpackPkt_frame [OF assms(2,5,4,6), of False] show ?thesis
    by (simp add: client_receive_def Client_RecvAndUnpackPkt_def)
next
  case (Some res)
  show ?thesis
  proof (cases res)
    case (Inl e)
    with Some assms(1) RecvAndUnpackPkt_frame [OF assms(2,5,4,6), of False] show ?thesis
      by (simp add: client_receive_def Client_RecvAndUnpackPkt_def)
  next
    case (Inr p)
    have "PutUint32 0 = [0, 0, 0, 0]" by (simp add: PutUint32_def)
    with client_receive_frame [OF assms Some [unfolded Inr], of env] Some Inr show ?thesis
      by (cases p) (auto simp: packet_frame_def deliver_resp_body_def SmgpDeliverRespPkt.defs)
  qed
qed

theorem client_answers_witness:
  "\<exists>x' c'. client_receive env_sample \<lparr>x_cli = \<lparr>cli_conn = Some (conn_sample (map Data (frame SMGP_EXIT 9 []))), ver = VERSION\<rparr>,
      x_count = 0, x_running = True\<rparr> = Some x' \<and> x_running x' \<and>
    cli_conn (x_cli x') = Some c' \<and> n_out (c_net c') = frame SMGP_ACTIVE_TEST_RESP 9 []"
  using client_answers [where x = "\<lparr>x_cli = \<lparr>cli_conn = Some (conn_sample (map Data (frame SMGP_EXIT 9 []))), ver = VERSION\<rparr>,
        x_count = 0, x_running = True\<rparr>" and rid = SMGP_EXIT and body = "[]" and seq = 9 and rest = "[]" and env = env_sample
      and c = "conn_sample (map Data (frame SMGP_EXIT 9 []))"] decode_exit
  by fastforce

text \<open>
  C8: A round of the active test. The ticker of a server below its limit sends a test; the example client reads it
  and answers; the serve loop, with the handlers of the example server, reads the answer, writes nothing,
  and polls again with the counter back at the value it had before the tick.
\<close>

theorem active_test_round:
  assumes "open_conn (s_conn s)" "n_wfail (c_net (s_conn s)) = []" "sint (s_counter s) < sint (s_n s)"
    "cli_conn (x_cli x) = Some c" "open_conn c" "n_wfail (c_net c) = []"
    "n_in (c_net c) = map Data (drop (length (n_out (c_net (s_conn s)))) (n_out (c_net (s_conn (tick env noticed s))))) @ rest"
    "client_receive env' x = Some x'" "cli_conn (x_cli x') = Some c'"
    "v_phase v = Reading" "open_conn (s_conn (v_conn v))" "s_counter (v_conn v) = s_counter (tick env noticed s)"
    "n_in (c_net (s_conn (v_conn v))) = map Data (drop (length (n_out (c_net c))) (n_out (c_net c'))) @ rest'"
    "v' = (serve_step sharpv (handler_chain [handleLogin, handleSubmit clock noticed']) env'' noticed'' ^^ 3) v"
  shows "s_counter (tick env noticed s) = s_counter s + 1 \<and> x_running x' = x_running x \<and>
    v_phase v' = Polling \<and> s_counter (v_conn v') = s_counter s \<and>
    n_in (c_net (s_conn (v_conn v'))) = rest' \<and> n_out (c_net (s_conn (v_conn v'))) = n_out (c_net (s_conn (v_conn v)))"
proof -
  let ?req = "ActiveTestReq (SmgpActiveTestReqPkt.make 0)"
  note ticked = tick_send [OF assms(1-3), of env noticed]
  obtain seq where sent: "n_out (c_net (s_conn (tick env noticed s))) = n_out (c_net (s_conn s)) @ frame SMGP_ACTIVE_TEST seq []"
    using ticked(6) by blast
  then have "n_in (c_net c) = map Data (packet_frame env seq ?req) @ rest" "packet_ok env ?req"
    using assms(7) by (simp_all add: packet_frame_def packet_ok_def)
  from client_receive_answer [OF assms(4-6) this(2,1), of env'] assms(8,9)
  have client: "x_running x' = x_running x" "n_out (c_net c') = n_out (c_net c) @ frame SMGP_ACTIVE_TEST_RESP seq []"
    by (auto simp: packet_frame_def SmgpActiveTestReqPkt.defs)
  let ?p = "ActiveTestResp (SmgpActiveTestRespPkt.make seq)"
  let ?k = "(s_conn (v_conn v))\<lparr>c_net := (c_net (s_conn (v_conn v)))\<lparr>n_in := rest', n_deadline := False\<rparr>\<rparr>"
  have "n_in (c_net (s_conn (v_conn v))) = map Data (frame SMGP_ACTIVE_TEST_RESP seq []) @ rest'"
    using assms(13) client(2) by simp
  moreover have "request_id_valid SMGP_ACTIVE_TEST_RESP" "decode_packet SMGP_ACTIVE_TEST_RESP seq [] = Some (Inr ?p)"
    using request_id_valid_packet [of "ActiveTestResp undefined"] decode_packet_body [of undefined "ActiveTestResp undefined" seq]
    by simp_all
  ultimately have "readPacket sharpv (v_conn v) = (Some (Inr \<lparr>r_Packet = ?p, r_Packer = None, r_SequenceID = 0\<rparr>), (v_conn v)\<lparr>s_conn := ?k\<rparr>)"
    using readPacket_frame [OF assms(11), of "[]" SMGP_ACTIVE_TEST_RESP seq rest' ?p sharpv] by (simp add: without_response_def)
  moreover have "handler_chain [handleLogin, handleSubmit clock noticed'] \<lparr>r_Packet = ?p, r_Packer = None, r_SequenceID = 0\<rparr> k =
      (Some (False, None), \<lparr>r_Packet = ?p, r_Packer = None, r_SequenceID = 0\<rparr>, k)" for k
    by (simp add: handleLogin_def handleSubmit_def handleSubmit_delivers_def)
  ultimately show ?thesis
    using assms(10,12,14) ticked(3) client(1)
    by (simp add: numeral_3_eq_3 serve_step_def finishPacket_def Let_def)
qed

theorem active_test_round_witness:
  "let s = sconn_sample [] 3;
       x = \<lparr>x_cli = \<lparr>cli_conn = Some (conn_sample (map Data (n_out (c_net (s_conn (tick env_sample False s)))))), ver = VERSION\<rparr>,
         x_count = 0, x_running = True\<rparr>;
       x' = the (client_receive env_sample x);
       v = \<lparr>v_conn = (sconn_sample (map Data (n_out (c_net (the (cli_conn (x_cli x')))))) 3)\<lparr>s_counter := s_counter (tick env_sample False s)\<rparr>,
         v_phase = Reading, v_panicked = False\<rparr>
   in s_counter (v_conn ((serve_step (\<lambda>p. []) (handler_chain [handleLogin, handleSubmit (\<lambda>i. clock_sample) False])
       env_sample False ^^ 3) v)) = 0"
proof -
  let ?s = "sconn_sample [] 3"
  let ?c = "conn_sample (map Data (n_out (c_net (s_conn (tick env_sample False ?s)))))"
  let ?x = "\<lparr>x_cli = \<lparr>cli_conn = Some ?c, ver = VERSION\<rparr>, x_count = 0, x_running = True\<rparr>"
  obtain seq where "n_out (c_net (s_conn (tick env_sample False ?s))) = frame SMGP_ACTIVE_TEST seq []"
    using tick_send(6) [of ?s env_sample False] by auto
  then have "n_in (c_net ?c) = map Data (packet_frame env_sample seq (ActiveTestReq (SmgpActiveTestReqPkt.make 0))) @ []"
    "packet_ok env_sample (ActiveTestReq (SmgpActiveTestReqPkt.make 0))"
    by (simp_all add: packet_frame_def packet_ok_def)
  from client_receive_answer [of ?x ?c, OF _ _ _ this(2,1), of env_sample] obtain x' c'
    where x': "client_receive env_sample ?x = Some x'" "cli_conn (x_cli x') = Some c'" by auto
  let ?v = "\<lparr>v_conn = (sconn_sample (map Data (n_out (c_net c'))) 3)\<lparr>s_counter := s_counter (tick env_sample False ?s)\<rparr>,
      v_phase = Reading, v_panicked = False\<rparr>"
  have run: "s_counter (v_conn ((serve_step (\<lambda>p. []) (handler_chain [handleLogin, handleSubmit (\<lambda>i. clock_sample) False])
      env_sample False ^^ 3) ?v)) = s_counter ?s"
    by (rule active_test_round [of ?s ?x ?c env_sample False "[]" env_sample x' c' ?v "[]", OF _ _ _ _ _ _ _ x' _ _ _ _ refl,
        THEN conjunct2, THEN conjunct2, THEN conjunct2, THEN conjunct1]) simp_all
  show ?thesis
    using run by (simp only: Let_def x' option.sel sample_simps)
qed

section \<open>The submission of the client\<close>

lemma options_bytes_length:
  assumes "iterates ks ops" "options_wf ops" "iterates ks' ops" "Options_Len ks' ops = int n"
  shows "length (concat (map tlv_bytes (ranged ks ops))) = n"
  using length_options_bytes [OF assms(1,3,2)] assms(4) by simp

lemma client_packet:
  assumes "client_pkgs getLong spCode phone cont = Inr pkgs" "length cont \<le> 140" "fits 21 spCode"
    "\<forall>d \<in> set (Split 44 phone). fits 21 d" "length (Split 44 phone) \<le> 100"
    "\<forall>p \<in> set pkgs. iterates (e_lenOrd env) (SmgpSubmitReqPkt.Options p) \<and> iterates (e_wrOrd env) (SmgpSubmitReqPkt.Options p)"
  shows "\<exists>p. pkgs = [p] \<and> packet_ok env (SubmitReq p) \<and> SmgpSubmitReqPkt.DestTermID p = Split 44 phone \<and>
    SmgpSubmitReqPkt.MsgContent p = cont \<and> SmgpSubmitReqPkt.SrcTermID p = spCode"
proof -
  let ?ops = "[TAG_PkTotal \<mapsto> NewTLV TAG_PkTotal [1], TAG_PkNumber \<mapsto> NewTLV TAG_PkNumber [1],
    TAG_TP_udhi \<mapsto> NewTLV TAG_TP_udhi [0], TAG_TP_pid \<mapsto> NewTLV TAG_TP_pid [1]]"
  let ?p = "(client_submit spCode phone cont)\<lparr>SmgpSubmitReqPkt.Options := ?ops\<rparr>"
  have pkgs: "pkgs = [?p]"
    using assms(1,2) by (simp add: client_pkgs_def Let_def)
  have fields: "SmgpSubmitReqPkt.Options ?p = ?ops" "SmgpSubmitReqPkt.DestTermID ?p = Split 44 phone"
    "SmgpSubmitReqPkt.MsgContent ?p = cont" "SmgpSubmitReqPkt.SrcTermID ?p = spCode"
    by (simp_all add: client_submit_def SmgpSubmitReqPkt.defs Let_def)
  have wf: "options_wf ?ops"
    by (auto simp: options_wf_def tlv_wf_NewTLV tag_defs split: if_splits)
  have "submit_wf ?p"
    using assms(2-5) wf
    by (simp add: submit_wf_def client_submit_def SmgpSubmitReqPkt.defs fits_def bytes_of_char Let_def unat_of_nat)
  moreover have "length (concat (map tlv_bytes (ranged (e_wrOrd env) ?ops))) = 20"
  proof (rule options_bytes_length [OF _ wf])
    show "iterates (e_wrOrd env) ?ops" using assms(6) fields(1) by (simp add: pkgs)
    show "iterates [TAG_TP_pid, TAG_TP_udhi, TAG_PkTotal, TAG_PkNumber] ?ops"
      by (auto simp: iterates_def tag_defs)
    show "Options_Len [TAG_TP_pid, TAG_TP_udhi, TAG_PkTotal, TAG_PkNumber] ?ops = int 20"
      by (simp add: Options_Len_sum_list ranged_def map_filter_simps tag_defs)
  qed
  ultimately have "packet_ok env (SubmitReq ?p)"
    using assms(2,5,6) length_submit_body [of ?p "e_wrOrd env"] fields
    by (simp add: packet_ok_def pkgs del: length_concat)
  with pkgs fields show ?thesis by blast
qed

text \<open>A tick of a connected client returns, with the client connected.\<close>

lemma send_pkgs_total:
  "cli_conn cli = Some c \<Longrightarrow> \<exists>e cli' c'. send_pkgs envs i pkgs e0 cli = Some (e, cli') \<and> cli_conn cli' = Some c'"
  by (induction pkgs arbitrary: i e0 cli c) (auto simp: Client_SendReqPkt_def Let_def split: prod.split)

lemma client_tick_total:
  assumes "cli_conn (x_cli x) = Some c"
  shows "\<exists>b x' c'. client_tick getLong gb18030_encoder spCode phone msg envs x = Some (b, x') \<and> cli_conn (x_cli x') = Some c'"
proof -
  consider "x_count x \<ge> 1" | e where "Utf8ToGB18030 gb18030_encoder msg = Inl e"
    | cont e where "Utf8ToGB18030 gb18030_encoder msg = Inr cont" "client_pkgs getLong spCode phone cont = Inl e"
    | cont pkgs where "Utf8ToGB18030 gb18030_encoder msg = Inr cont" "client_pkgs getLong spCode phone cont = Inr pkgs"
    by (meson sum.exhaust)
  then show ?thesis
  proof cases
    case (4 cont pkgs)
    obtain e cli' c' where "send_pkgs envs 0 pkgs None (x_cli x) = Some (e, cli')" "cli_conn cli' = Some c'"
      using send_pkgs_total [OF assms] by blast
    with 4 assms show ?thesis by (cases e) (simp_all add: client_tick_def Let_def)
  qed (simp_all add: client_tick_def assms)
qed

text \<open>
  C7: At its first tick the example client submits a text of at most 140 encoded bytes to up to 100 receivers in
  one submit request, which arrives with the receivers of the command line in their order, the encoded text and
  the sender; at every later tick it submits nothing.
\<close>

theorem submission_arrives:
  assumes "x_count x = 0" "cli_conn (x_cli x) = Some c" "open_conn c" "n_wfail (c_net c) = []"
    "Utf8ToGB18030 gb18030_encoder msg = Inr cont" "length cont \<le> 140" "fits 21 spCode"
    "\<forall>d \<in> set (Split 44 phone). fits 21 d" "length (Split 44 phone) \<le> 100"
    "client_pkgs getLong spCode phone cont = Inr pkgs"
    "\<forall>p \<in> set pkgs. iterates (e_lenOrd (envs 0)) (SmgpSubmitReqPkt.Options p) \<and> iterates (e_wrOrd (envs 0)) (SmgpSubmitReqPkt.Options p)"
    "client_tick getLong gb18030_encoder spCode phone msg envs x = Some (b, x')" "cli_conn (x_cli x') = Some c'"
    "open_conn r" "n_in (c_net r) = map Data (drop (length (n_out (c_net c))) (n_out (c_net c'))) @ rest"
  shows "b = Receiving \<and> client_tick getLong gb18030_encoder spCode phone msg envs' x' = Some (Next_Iteration, x') \<and>
    (\<exists>q r'. RecvAndUnpackPkt timeout r = (Some (Inr (SubmitReq q)), r') \<and> n_in (c_net r') = rest \<and>
      SmgpSubmitReqPkt.DestTermID q = Split 44 phone \<and> unat (DestTermIDCount q) = length (Split 44 phone) \<and>
      SmgpSubmitReqPkt.MsgContent q = cont \<and> SmgpSubmitReqPkt.SrcTermID q = spCode)"
proof -
  obtain p where p: "pkgs = [p]" "packet_ok (envs 0) (SubmitReq p)" "SmgpSubmitReqPkt.DestTermID p = Split 44 phone"
    "SmgpSubmitReqPkt.MsgContent p = cont" "SmgpSubmitReqPkt.SrcTermID p = spCode"
    using client_packet [OF assms(10,6-9,11)] by blast
  obtain seq k where seq: "recv_SequenceID False c = (seq, k)" by fastforce
  then have k: "open_conn k" "n_wfail (c_net k) = []" "c_net k = c_net c"
    using assms(3,4) by (auto simp: recv_SequenceID_def open_conn_def split: prod.splits)
  obtain e p' k' where send: "SendPkt (envs 0) (SubmitReq p) seq k = (e, p', k')"
    by (cases "SendPkt (envs 0) (SubmitReq p) seq k")
  from p(2) have wf: "packet_wf (envs 0) (SubmitReq p)" by (simp only: packet_ok_def)
  have tick: "b = Receiving" "x_count x' = 1" "c' = k'"
    using assms(1,2,5,10,12,13) p(1) seq send SendPkt_ok(1) [OF k(1,2) wf send]
    by (auto simp: client_tick_def Client_SendReqPkt_def Let_def)
  have "n_in (c_net r) = map Data (packet_frame (envs 0) seq (SubmitReq p)) @ rest"
    using assms(15) SendPkt_ok(2) [OF k(1,2) wf send] by (simp add: tick(3) k(3))
  note Recv_sent [OF assms(14) p(2) this, of timeout]
  moreover have "unat (DestTermIDCount p) = length (SmgpSubmitReqPkt.DestTermID p)"
    using wf by (simp add: submit_wf_def)
  ultimately show ?thesis
    using p(3-5) tick(1,2) by (simp add: client_tick_def)
qed

theorem submission_arrives_witness:
  "let opts = [TAG_TP_pid, TAG_TP_udhi, TAG_PkTotal, TAG_PkNumber];
       envs = (\<lambda>i. env_sample\<lparr>e_lenOrd := opts, e_wrOrd := rev opts\<rparr>);
       x = \<lparr>x_cli = \<lparr>cli_conn = Some (conn_sample []), ver = VERSION\<rparr>, x_count = 0, x_running = True\<rparr>;
       phone = bytes_of ''8618012345678,8618012345679''
   in \<exists>x' c'. client_tick (\<lambda>p. Inl EOF) Inr (bytes_of ''123456'') phone [65, 66] envs x = Some (Receiving, x') \<and>
     cli_conn (x_cli x') = Some c' \<and>
     (\<exists>q r'. RecvAndUnpackPkt True (conn_sample (map Data (n_out (c_net c')))) = (Some (Inr (SubmitReq q)), r') \<and>
       SmgpSubmitReqPkt.DestTermID q = [bytes_of ''8618012345678'', bytes_of ''8618012345679''])"
proof -
  let ?opts = "[TAG_TP_pid, TAG_TP_udhi, TAG_PkTotal, TAG_PkNumber]"
  let ?envs = "\<lambda>i::nat. env_sample\<lparr>e_lenOrd := ?opts, e_wrOrd := rev ?opts\<rparr>"
  let ?x = "\<lparr>x_cli = \<lparr>cli_conn = Some (conn_sample []), ver = VERSION\<rparr>, x_count = 0, x_running = True\<rparr>"
  let ?phone = "bytes_of ''8618012345678,8618012345679''"
  have split: "Split 44 ?phone = [bytes_of ''8618012345678'', bytes_of ''8618012345679'']"
    by (simp add: bytes_of_char)
  obtain pkgs where pkgs: "client_pkgs (\<lambda>p. Inl EOF) (bytes_of ''123456'') ?phone [65, 66] = Inr pkgs"
    by (simp add: client_pkgs_def Let_def)
  then have orders: "\<forall>p \<in> set pkgs. iterates (e_lenOrd (?envs 0)) (SmgpSubmitReqPkt.Options p) \<and>
      iterates (e_wrOrd (?envs 0)) (SmgpSubmitReqPkt.Options p)"
    by (auto simp: client_pkgs_def Let_def iterates_def tag_defs split: if_splits)
  have strings: "fits 21 (bytes_of ''123456'')" "\<forall>d \<in> set (Split 44 ?phone). fits 21 d" "length (Split 44 ?phone) \<le> 100"
    by (simp_all add: split fits_def bytes_of_char)
  obtain b x' c' where tick: "client_tick (\<lambda>p. Inl EOF) Inr (bytes_of ''123456'') ?phone [65, 66] ?envs ?x = Some (b, x')"
    "cli_conn (x_cli x') = Some c'"
    using client_tick_total [of ?x "conn_sample []"] by fastforce
  have short: "Utf8ToGB18030 Inr [65, 66] = Inr [65, 66]" "length [65, 66 :: byte] \<le> 140"
    by (simp_all add: Utf8ToGB18030_def)
  show ?thesis
    using submission_arrives [of ?x "conn_sample []", OF _ _ _ _ short strings pkgs orders tick,
        where r = "conn_sample (map Data (n_out (c_net c')))" and rest = "[]" and timeout = True and envs' = "\<lambda>i. env_sample"] tick
    by (auto simp: split Let_def)
qed

end
