(* ===== verification/Login_Session.thy ===== *)
theory Login_Session
  imports Session_Properties
begin

text \<open>
  The login of a client at the example server, from \<open>Connect\<close> over the bytes of both directions to the
  state of both connections.
\<close>

section \<open>The handler on a login request\<close>

definition login_accepted :: "SmgpLoginReqPkt \<Rightarrow> bool" where
  "login_accepted req \<longleftrightarrow> ClientID req = OctetString_Byte user 8 \<and>
     SmgpLoginReqPkt.AuthenticatorClient req = auth_client (OctetString_Byte user 8) password (TimeStamp req)"

definition login_reply :: "SmgpLoginReqPkt \<Rightarrow> SmgpLoginRespPkt" where
  "login_reply req =
     (let resp = (SmgpLoginRespPkt_new (SmgpLoginReqPkt.SequenceID req))\<lparr>ServerVersion := VERSION\<rparr>
      in if login_accepted req
         then resp\<lparr>AuthenticatorServer := md5_Sum (LE32 0 @ replicate 4 0 @ SmgpLoginReqPkt.AuthenticatorClient req @ password)\<rparr>
         else resp\<lparr>SmgpLoginRespPkt.Status := 21\<rparr>)"

lemma handleLogin_login:
  "handleLogin \<lparr>r_Packet = LoginReq req,
      r_Packer = Some (LoginResp (SmgpLoginRespPkt_new (SmgpLoginReqPkt.SequenceID req))), r_SequenceID = s\<rparr> k =
   (Some (False, if login_accepted req then None else Some (Status_Error 21)),
    \<lparr>r_Packet = LoginReq req, r_Packer = Some (LoginResp (login_reply req)), r_SequenceID = s\<rparr>, k)"
  by (auto simp: handleLogin_def login_reply_def login_accepted_def GenAuthenticatorClient_eq GenAuthenticatorServer_def
      SmgpLoginRespPkt_new_def SmgpLoginRespPkt.defs Let_def)

lemma login_reply_Status: "SmgpLoginRespPkt.Status (login_reply req) = (if login_accepted req then 0 else 21)"
  by (simp add: login_reply_def SmgpLoginRespPkt_new_def SmgpLoginRespPkt.defs Let_def)

text \<open>The handler on a login request that \<^verbatim>\<open>Pack\<close> has written and \<^verbatim>\<open>Unpack\<close> has read.\<close>

lemma handleLogin_packed:
  "\<exists>bs req. snd (SmgpLoginReqPkt_Pack now seq p) = Inr bs \<and>
     SmgpLoginReqPkt_Unpack (SmgpLoginReqPkt_new s) (drop 12 bs) = Some (req, None) \<and>
     fst (handleLogin \<lparr>r_Packet = LoginReq req, r_Packer = Some (LoginResp resp), r_SequenceID = s\<rparr> k) =
       (if OctetString_Byte (ClientID p) 8 = OctetString_Byte user 8 \<and>
           auth_client (ClientID p) (SmgpLoginReqPkt.Secret p) (TimeStamp p) =
           auth_client (OctetString_Byte user 8) password (login_timestamp now p)
        then Some (False, None) else Some (False, Some (Status_Error 21)))"
proof -
  obtain bs where bs: "snd (SmgpLoginReqPkt_Pack now seq p) = Inr bs"
    using login_req.pack_wf by blast
  with login_req.unpack_pack [OF TrueI bs, of s] show ?thesis
    by (simp add: handleLogin_result login_req_sent_def login_auth_def SmgpLoginReqPkt.defs)
qed

text \<open>The serve loop on a login request of its own version.\<close>

lemma serve_login:
  assumes "v_phase v = Reading" "open_conn (s_conn (v_conn v))" "n_wfail (c_net (s_conn (v_conn v))) = []"
    "n_in (c_net (s_conn (v_conn v))) = map Data (frame SMGP_LOGIN seq body) @ rest" "12 + length body \<le> 2477"
    "decode_packet SMGP_LOGIN seq body = Some (Inr (LoginReq req))"
    "ClientVersion req = srv_Version (s_server (v_conn v))"
  shows "v_phase ((serve_step sharpv handleLogin env noticed ^^ 3) v) = (if login_accepted req then Polling else Leaving)"
    "n_out (c_net (s_conn (v_conn ((serve_step sharpv handleLogin env noticed ^^ 3) v)))) =
     n_out (c_net (s_conn (v_conn v))) @ packet_frame env seq (LoginResp (login_reply req))"
proof -
  let ?k = "(s_conn (v_conn v))\<lparr>c_net := (c_net (s_conn (v_conn v)))\<lparr>n_in := rest, n_deadline := False\<rparr>\<rparr>"
  let ?c = "(v_conn v)\<lparr>s_conn := ?k\<rparr>"
  let ?r = "\<lambda>resp. \<lparr>r_Packet = LoginReq req, r_Packer = Some (LoginResp resp), r_SequenceID = seq\<rparr>"
  have seq: "SmgpLoginReqPkt.SequenceID req = seq"
    using decode_packet_seq [OF assms(6)] by simp
  have valid: "request_id_valid SMGP_LOGIN"
    using request_id_valid_packet [of "LoginReq undefined"] by simp
  have read: "readPacket sharpv (v_conn v) = (Some (Inr (?r (SmgpLoginRespPkt_new seq))), ?c)"
    using readPacket_frame [OF assms(2,5) valid assms(4,6)] assms(7) by (simp add: with_response_def seq)
  have k: "open_conn (s_conn ?c)" "n_wfail (c_net (s_conn ?c)) = []"
    using assms(2,3) by (simp_all add: open_conn_def)
  obtain e c' where fin: "finishPacket env (?r (login_reply req)) ?c = (e, c')" by fastforce
  have "e = None \<and> n_out (c_net (s_conn c')) = n_out (c_net (s_conn ?c)) @ packet_frame env (r_SequenceID (?r (login_reply req))) (LoginResp (login_reply req))"
    by (rule finishPacket_answer [OF k _ _ _ fin]) simp_all
  with read fin handleLogin_login [of req seq ?k] assms(1) seq
  show "v_phase ((serve_step sharpv handleLogin env noticed ^^ 3) v) = (if login_accepted req then Polling else Leaving)"
    "n_out (c_net (s_conn (v_conn ((serve_step sharpv handleLogin env noticed ^^ 3) v)))) =
     n_out (c_net (s_conn (v_conn v))) @ packet_frame env seq (LoginResp (login_reply req))"
    by (simp_all add: numeral_3_eq_3 serve_step_def Let_def)
qed

section \<open>Client and server\<close>

text \<open>What \<open>Connect\<close> sends and what the server sees of it.\<close>

definition seen_login :: "pack_env \<Rightarrow> u32 \<Rightarrow> gostring \<Rightarrow> gostring \<Rightarrow> byte \<Rightarrow> byte \<Rightarrow> SmgpLoginReqPkt" where
  "seen_login env seq clientID secret loginMode v =
     login_req_sent (e_now env) seq (login_request (e_now env) clientID secret loginMode v)"

lemma login_bytes_decode:
  "login_bytes env seq clientID secret loginMode v =
     frame SMGP_LOGIN seq (login_req_body (e_now env) (login_request (e_now env) clientID secret loginMode v))"
  "length (login_req_body (e_now env) (login_request (e_now env) clientID secret loginMode v)) = 30"
  "decode_packet SMGP_LOGIN seq (login_req_body (e_now env) (login_request (e_now env) clientID secret loginMode v)) =
     Some (Inr (LoginReq (seen_login env seq clientID secret loginMode v)))"
  using decode_packet_body [of env "LoginReq (login_request (e_now env) clientID secret loginMode v)" seq]
  by (simp_all add: login_bytes_def login_req_body_def login_auth_def seen_login_def)

lemma seen_login_accepted:
  "login_accepted (seen_login env seq clientID secret loginMode v) \<longleftrightarrow>
   OctetString_Byte clientID 8 = OctetString_Byte user 8 \<and>
   auth_client clientID secret (GenTimestamp (e_now env)) = auth_client (OctetString_Byte user 8) password (GenTimestamp (e_now env))"
  by (simp add: login_accepted_def seen_login_def login_req_sent_def login_request_def login_auth_def
      login_timestamp_def SmgpLoginReqPkt.defs)

section \<open>One login computed\<close>

lemma timestamp_sample: "Sprintf_0d 10 301000000 = [48, 51, 48, 49, 48, 48, 48, 48, 48, 48]"
  by (simp add: Sprintf_0d_def pad0_def digits.simps digit_char_def)

lemma hashes_differ:
  "md5_Sum [49, 48, 48, 0, 0, 0, 0, 0, 0, 0, 49, 50, 51, 52, 53, 54, 55, 56, 48, 51, 48, 49, 48, 48, 48, 48, 48, 48] \<noteq>
   md5_Sum [49, 48, 48, 0, 0, 0, 0, 0, 0, 0, 0, 0, 0, 0, 0, 49, 50, 51, 52, 53, 54, 55, 56, 48, 51, 48, 49, 48, 48, 48, 48, 48, 48]"
  by code_simp

lemma user_password:
  "user = [49, 48, 48]" "password = [49, 50, 51, 52, 53, 54, 55, 56]"
  "OctetString_Byte [49, 48, 48] 8 = [49, 48, 48, 0, 0, 0, 0, 0]"
  by (simp_all add: user_def password_def bytes_of_def OctetString_Byte_def Let_def eval_nat_numeral)

end
