(* ===== verification/Reports.thy ===== *)
theory Reports
  imports Session_Properties
begin

text \<open>
  The status reports of the example server, from the submit handler through \<open>mockDeliver\<close> and the stream
  to the client that receives them.
\<close>

section \<open>Time stamps\<close>

lemma hex_string_fits: "hex_string s \<Longrightarrow> length s \<le> n \<Longrightarrow> fits n s"
  by (auto simp: fits_def hex_string_def digit_char_neq_0)

lemma times_fit:
  assumes "valid_time t"
  shows "length (GenNowTimeYYStr t) = 10" "fits 14 (GenNowTimeYYYYStr t)"
proof -
  show "length (GenNowTimeYYStr t) = 10"
    using assms by (simp add: GenNowTimeYYStr_def length_Format)
  have "hex_string (GenNowTimeYYYYStr t)"
    by (simp add: GenNowTimeYYYYStr_def Format_YYYYMMDDhhmmss_def Format_MMDDhhmmss_def hex_string_Sprintf)
  with assms show "fits 14 (GenNowTimeYYYYStr t)"
    by (intro hex_string_fits) (simp_all add: GenNowTimeYYYYStr_def length_Format)
qed

section \<open>The packets of the handler\<close>

definition report_for :: "gostring \<Rightarrow> gostring \<Rightarrow> gostring \<Rightarrow> SmgpDeliverReqPkt \<Rightarrow> bool" where
  "report_for msgId src d p \<longleftrightarrow>
     (\<exists>t seq recvTime. p = report_packet msgId t recvTime d src seq \<and> length t = 10 \<and> fits 14 recvTime)"

lemma report_packets_for:
  assumes "\<forall>i. valid_time (clock i)" "report_packets clock noticed msgId src i ds k = (ps, k')"
  shows "list_all2 (report_for msgId src) ds ps"
  using assms(2)
proof (induction ds arbitrary: i k ps k')
  case (Cons d ds)
  from Cons.prems obtain seq k1 qs where ps:
    "ps = report_packet msgId (GenNowTimeYYStr (clock (2 * i + 1))) (GenNowTimeYYYYStr (clock (2 * i + 2))) d src seq # qs"
    "report_packets clock noticed msgId src (i + 1) ds k1 = (qs, k')"
    by (auto simp: Let_def split: prod.splits)
  have "report_for msgId src d (hd ps)"
    using times_fit assms(1) unfolding report_for_def ps(1) list.sel by blast
  with Cons.IH [OF ps(2)] ps(1) show ?case by simp
qed simp

lemma report_for_wf:
  assumes "report_for msgId src d p" "hex_string msgId" "length msgId = 20" "fits 21 d" "fits 21 src"
  shows "deliver_wf p"
  using assms report_packet_wf by (auto simp: report_for_def)

lemma report_for_fields:
  assumes "report_for msgId src d p" "hex_string msgId" "length msgId = 20"
  shows "IsReport (deliver_sent seq p) = 1" "SmgpDeliverReqPkt.SrcTermID (deliver_sent seq p) = d"
    "SmgpDeliverReqPkt.DestTermID (deliver_sent seq p) = src"
    "\<exists>c. MsgStatContent (deliver_sent seq p) = Some c \<and> SubmitMsgID c = msgId \<and> Stat c = bytes_of ''DELIVRD''"
proof -
  from assms(1) obtain t s recvTime where p: "p = report_packet msgId t recvTime d src s" "length t = 10"
    by (auto simp: report_for_def)
  note fields = report_packet_fields [OF assms(2,3) p(2), of recvTime d src s]
  show "IsReport (deliver_sent seq p) = 1" using fields by (simp add: p deliver_sent_def)
  show "SmgpDeliverReqPkt.SrcTermID (deliver_sent seq p) = d" "SmgpDeliverReqPkt.DestTermID (deliver_sent seq p) = src"
    by (simp_all add: p deliver_sent_def report_packet_def SmgpDeliverReqPkt.defs Let_def)
  show "\<exists>c. MsgStatContent (deliver_sent seq p) = Some c \<and> SubmitMsgID c = msgId \<and> Stat c = bytes_of ''DELIVRD''"
    using fields by (simp add: p deliver_sent_def status_report_def)
qed

lemma two_elements:
  assumes "distinct xs" "set xs = {a, b}" "a \<noteq> b"
  shows "xs = [a, b] \<or> xs = [b, a]"
proof -
  have "length xs = 2"
    using assms distinct_card [of xs] by simp
  then obtain x y where "xs = [x, y]"
    by (auto simp: numeral_2_eq_2 length_Suc_conv)
  with assms show ?thesis by (auto simp: doubleton_eq_iff)
qed

lemma report_for_ok:
  assumes "report_for msgId src d p" "hex_string msgId" "length msgId = 20" "fits 21 d" "fits 21 src"
    "iterates (e_lenOrd env) (SmgpDeliverReqPkt.Options p)" "iterates (e_wrOrd env) (SmgpDeliverReqPkt.Options p)"
  shows "packet_ok env (DeliverReq p)"
proof -
  from assms(1) obtain t s recvTime where p: "p = report_packet msgId t recvTime d src s" "length t = 10"
    by (auto simp: report_for_def)
  have content: "length (SmgpDeliverReqPkt.MsgContent p) = 122"
    using status_report_wf(2) [OF assms(2,3) p(2)]
    by (simp add: p(1) report_packet_def SmgpDeliverReqPkt.defs Let_def)
  have options: "SmgpDeliverReqPkt.Options p =
      [TAG_TP_udhi \<mapsto> NewTLV TAG_TP_udhi [0], TAG_TP_pid \<mapsto> NewTLV TAG_TP_pid [1]]"
    by (simp add: p(1) report_packet_def SmgpDeliverReqPkt.defs Let_def)
  have "e_wrOrd env = [TAG_TP_udhi, TAG_TP_pid] \<or> e_wrOrd env = [TAG_TP_pid, TAG_TP_udhi]"
    using assms(7) by (intro two_elements) (auto simp: options iterates_def tag_defs)
  then have "length (concat (map tlv_bytes (ranged (e_wrOrd env) (SmgpDeliverReqPkt.Options p)))) = 10"
    by (auto simp: options ranged_def tlv_bytes_def NewTLV_def tag_defs)
  with length_deliver_body [OF report_for_wf [OF assms(1-5)], of "e_wrOrd env"]
  have "length (deliver_body (e_wrOrd env) p) = 209"
    by (simp only: content)
  with report_for_wf [OF assms(1-5)] assms(6,7) show ?thesis
    by (simp add: packet_ok_def)
qed

section \<open>On the stream\<close>

definition report_queue :: "pack_env \<Rightarrow> SmgpDeliverReqPkt list \<Rightarrow> (pack_env \<times> u32 \<times> packet) list" where
  "report_queue env ps = map (\<lambda>p. (env, SmgpDeliverReqPkt.SequenceID p, DeliverReq p)) ps"

text \<open>\<open>mockDeliver\<close> on a working connection sends every packet that packs.\<close>

lemma mockDeliver_send_all:
  assumes "open_conn k" "n_wfail (c_net k) = []" "\<forall>p \<in> set ps. packet_wf env (DeliverReq p)"
  shows "mockDeliver env ps k = send_all (report_queue env ps) k"
  using assms
proof (induction ps arbitrary: k)
  case (Cons p ps)
  obtain e p' k' where send: "SendPkt env (DeliverReq p) (SmgpDeliverReqPkt.SequenceID p) k = (e, p', k')"
    by (cases "SendPkt env (DeliverReq p) (SmgpDeliverReqPkt.SequenceID p) k")
  from Cons.prems(3) have "packet_wf env (DeliverReq p)" by (simp del: packet_wf.simps)
  from SendPkt_ok [OF Cons.prems(1,2) this send] Cons.IH [of k'] Cons.prems(3) send show ?case
    by (simp add: report_queue_def)
qed (simp add: report_queue_def)

lemma mockDeliver_out:
  assumes "open_conn k" "n_wfail (c_net k) = []" "\<forall>p \<in> set ps. packet_ok env (DeliverReq p)"
  shows "n_out (c_net (mockDeliver env ps k)) =
    n_out (c_net k) @ concat (map (\<lambda>(env, seq, p). packet_frame env seq p) (report_queue env ps))"
proof -
  have wf: "\<forall>p \<in> set ps. packet_wf env (DeliverReq p)"
    using assms(3) unfolding packet_ok_def by blast
  then have "\<forall>(env, seq, p) \<in> set (report_queue env ps). packet_wf env p"
    unfolding report_queue_def by auto
  from send_all_out [OF assms(1,2) this] show ?thesis
    by (simp add: mockDeliver_send_all [OF assms(1,2) wf])
qed

text \<open>All the packets of a run of the handler, packet by packet.\<close>

lemma reports_ok:
  assumes "list_all2 (report_for msgId src) ds ps" "hex_string msgId" "length msgId = 20"
    "\<forall>d \<in> set ds. fits 21 d" "fits 21 src"
    "\<forall>p \<in> set ps. iterates (e_lenOrd env) (SmgpDeliverReqPkt.Options p) \<and> iterates (e_wrOrd env) (SmgpDeliverReqPkt.Options p)"
  shows "\<forall>p \<in> set ps. packet_ok env (DeliverReq p)"
  using assms(1,4,6)
  by (induction rule: list_all2_induct) (simp_all add: report_for_ok assms(2,3,5))

lemma reports_fields:
  assumes "list_all2 (report_for msgId src) ds ps" "hex_string msgId" "length msgId = 20"
  shows "map SmgpDeliverReqPkt.SrcTermID (map (\<lambda>p. deliver_sent (SmgpDeliverReqPkt.SequenceID p) p) ps) = ds"
    "list_all (\<lambda>q. IsReport q = 1 \<and> SmgpDeliverReqPkt.DestTermID q = src \<and>
       (\<exists>t. MsgStatContent q = Some t \<and> SubmitMsgID t = msgId \<and> Stat t = bytes_of ''DELIVRD''))
       (map (\<lambda>p. deliver_sent (SmgpDeliverReqPkt.SequenceID p) p) ps)"
  using assms(1)
  by (induction rule: list_all2_induct) (simp_all add: report_for_fields assms(2,3))

end
