(* ===== verification/Serve_End.thy ===== *)
theory Serve_End
  imports Example_Server
begin

text \<open>
  The serve loop ends: what the peer sends is finite, every round of the loop reads some of it, and its
  end is an error that leaves the loop.
\<close>

section \<open>A round reads something\<close>

abbreviation unread :: "net \<Rightarrow> nat" where
  "unread n \<equiv> length (n_in n)"

lemma read_full_consumes:
  "read_full d k got inp = (r, inp') \<Longrightarrow> length inp' \<le> length inp"
  "read_full d k got inp = (Inr bs, inp') \<Longrightarrow> length inp' + k \<le> length inp"
  "read_full d k got inp = (Inl (NetError True s), inp') \<Longrightarrow> length inp' < length inp"
  by (induction d k got inp arbitrary: r inp' rule: read_full.induct) (fastforce split: if_splits)+

text \<open>The results of a read that leave the serve loop going: something arrived, or nothing within the time.\<close>

definition goes_on :: "error + 'a \<Rightarrow> bool" where
  "goes_on r \<longleftrightarrow> (case r of Inr x \<Rightarrow> True | Inl e \<Rightarrow> \<exists>s. e = NetError True s)"

lemma goes_on_simps [simp]: "goes_on (Inr x)" "goes_on (Inl e) \<longleftrightarrow> (\<exists>s. e = NetError True s)"
  by (simp_all add: goes_on_def)

lemma net_ReadFull_consumes:
  assumes "net_ReadFull k n = (r, n')"
  shows "unread n' \<le> unread n" "0 < k \<Longrightarrow> goes_on r \<Longrightarrow> unread n' < unread n"
proof -
  have "unread n' \<le> unread n \<and> (0 < k \<and> goes_on r \<longrightarrow> unread n' < unread n)"
  proof (cases "n_closed n")
    case True
    with assms show ?thesis by (auto simp: net_ReadFull_def closed_error_def)
  next
    case False
    with assms obtain inp' where run: "read_full (n_deadline n) k [] (n_in n) = (r, inp')" "n_in n' = inp'"
      by (auto simp: net_ReadFull_def split: prod.splits)
    then show ?thesis
      using read_full_consumes [of "n_deadline n" k "[]" "n_in n"] by (cases r) fastforce+
  qed
  then show "unread n' \<le> unread n" "0 < k \<Longrightarrow> goes_on r \<Longrightarrow> unread n' < unread n" by blast+
qed

lemma body_error_timeout: "body_error e \<noteq> NetError True s"
  by (auto simp: body_error_def split: error.split)

lemma recv_body_consumes: "recv_body h n = (r, n') \<Longrightarrow> unread n' \<le> unread n"
  using net_ReadFull_consumes(1)
  by (auto simp: recv_body_def Let_def split: if_splits prod.splits sum.splits)

lemma recv_frame_consumes:
  assumes "recv_frame t n = (r, n')"
  shows "unread n' \<le> unread n" "r = Some q \<Longrightarrow> goes_on q \<Longrightarrow> unread n' < unread n"
proof -
  define n0 where "n0 = (if t then n\<lparr>n_deadline := True\<rparr> else n)"
  obtain r1 n1 where head: "net_ReadFull 12 n0 = (r1, n1)" by fastforce
  have n0: "unread n0 = unread n" by (simp add: n0_def)
  note read = net_ReadFull_consumes [OF head, unfolded n0]
  have "unread n' \<le> unread n \<and> (\<forall>q. r = Some q \<and> goes_on q \<longrightarrow> unread n' < unread n)"
  proof (cases r1)
    case (Inl e)
    with assms head have "r = Some (Inl e)" "n' = n1"
      by (simp_all add: recv_frame_def n0_def Let_def)
    with read Inl show ?thesis by simp
  next
    case (Inr bs)
    define n2 where "n2 = (if t then n1\<lparr>n_deadline := True\<rparr> else n1)"
    obtain r3 n3 where body: "recv_body (header_of bs) n2 = (r3, n3)" by fastforce
    have "n' = n1 \<or> n' = n3"
      using assms head Inr body
      by (auto simp: recv_frame_def n0_def [symmetric] n2_def [symmetric] Let_def split: if_splits)
    moreover have "unread n1 = unread n2" by (simp add: n2_def)
    ultimately have "unread n' \<le> unread n1"
      using recv_body_consumes [OF body] by auto
    with read Inr show ?thesis by auto
  qed
  then show "unread n' \<le> unread n" "r = Some q \<Longrightarrow> goes_on q \<Longrightarrow> unread n' < unread n"
    by blast+
qed

lemma readPacket_consumes:
  assumes "readPacket sharpv c = (r, c')"
  shows "unread (c_net (s_conn c')) \<le> unread (c_net (s_conn c))"
    "r = Some q \<Longrightarrow> goes_on q \<Longrightarrow> unread (c_net (s_conn c')) < unread (c_net (s_conn c))"
proof -
  obtain r1 n where frame: "recv_frame True (c_net (s_conn c)) = (r1, n)" by fastforce
  note read = recv_frame_consumes [OF frame]
  have c': "s_conn c' = s_conn c \<and> r = Some (Inl ErrConnIsClosed) \<or>
      c_net (s_conn c') = n\<lparr>n_deadline := False\<rparr> \<and> (\<forall>q. r = Some q \<and> goes_on q \<longrightarrow> (\<exists>q. r1 = Some q \<and> goes_on q))"
    using assms frame
    by (cases r1) (auto simp: readPacket_def RecvAndUnpackPkt_def Let_def split: if_splits option.splits sum.splits prod.splits)
  with read(1) show "unread (c_net (s_conn c')) \<le> unread (c_net (s_conn c))" by auto
  from c' read(2) show "r = Some q \<Longrightarrow> goes_on q \<Longrightarrow> unread (c_net (s_conn c')) < unread (c_net (s_conn c))" by auto
qed

section \<open>Every step of the loop comes nearer to its end\<close>

fun phase_rank :: "phase \<Rightarrow> nat" where
  "phase_rank Starting = 4"
| "phase_rank Polling = 3"
| "phase_rank Reading = 2"
| "phase_rank (Handling r) = 5"
| "phase_rank (Finishing r e) = 4"
| "phase_rank Leaving = 1"
| "phase_rank Ended = 0"

lemma phase_rank_bounds: "phase_rank ph \<le> 5" "phase_rank ph = 0 \<longleftrightarrow> ph = Ended"
  by (cases ph; simp)+

definition distance :: "srv \<Rightarrow> nat" where
  "distance v = (if v_phase v = Ended then 0 else 4 * unread (c_net (s_conn (v_conn v))) + phase_rank (v_phase v))"

lemma distance_bounds: "distance v \<le> 4 * unread (c_net (s_conn (v_conn v))) + 5" "distance v = 0 \<longleftrightarrow> v_phase v = Ended"
  using phase_rank_bounds [of "v_phase v"] by (auto simp: distance_def)

lemma serve_step_Ended: "v_phase v = Ended \<Longrightarrow> serve_step sharpv h env noticed v = v"
  by (simp add: serve_step_def Let_def)

text \<open>Executions of the system, with the number of steps that the serve loop has made.\<close>

inductive srv_run :: "(packet \<Rightarrow> gostring) \<Rightarrow> handler \<Rightarrow> srv \<Rightarrow> nat \<Rightarrow> srv \<Rightarrow> bool"
  for sharpv h v where
  nil: "srv_run sharpv h v 0 v"
| serve: "srv_run sharpv h v n v' \<Longrightarrow> v_phase v' \<noteq> Ended \<Longrightarrow>
    srv_run sharpv h v (Suc n) (serve_step sharpv h env noticed v')"
| other: "srv_run sharpv h v n v' \<Longrightarrow> srv_step sharpv h v' v'' \<Longrightarrow> srv_run sharpv h v n v''"

lemma finishPacket_input:
  "finishPacket env r c = (e, c') \<Longrightarrow> n_in (c_net (s_conn c')) = n_in (c_net (s_conn c))"
  by (auto simp: finishPacket_def dest: SendPkt_conn(5) split: packet.splits option.splits prod.splits)

lemma tick_input: "n_in (c_net (s_conn (tick env noticed c))) = n_in (c_net (s_conn c))"
  by (auto simp: tick_def Let_def recv_SequenceID_def dest: SendPkt_conn(5) split: prod.splits)

text \<open>
  A handler that leaves the stream to the loop: it does not read from the connection it is given, nor
  does it put bytes back.
\<close>

locale input_handler =
  fixes h :: handler
  assumes keeps_input: "h r k = (res, r', k') \<Longrightarrow> n_in (c_net k') = n_in (c_net k)"
begin

lemma serve_step_distance:
  assumes "v_phase v \<noteq> Ended"
  shows "distance (serve_step sharpv h env noticed v) < distance v"
proof (cases "v_phase v")
  case Reading
  obtain r c' where read: "readPacket sharpv (v_conn v) = (r, c')" by fastforce
  show ?thesis
  proof (cases "\<exists>q. r = Some q \<and> goes_on q")
    case True
    with readPacket_consumes(2) [OF read] have "unread (c_net (s_conn c')) < unread (c_net (s_conn (v_conn v)))" by blast
    with read Reading show ?thesis
      by (auto simp: serve_step_def distance_def Let_def split: option.split sum.split)
  next
    case False
    with readPacket_consumes(1) [OF read] read Reading show ?thesis
      by (auto simp: serve_step_def distance_def is_timeout_def Let_def split: option.split sum.split error.split)
  qed
next
  case (Handling r)
  with keeps_input show ?thesis
    by (auto simp: serve_step_def distance_def Let_def split: option.split prod.split)
next
  case (Finishing r e)
  with finishPacket_input show ?thesis
    by (auto simp: serve_step_def distance_def Let_def split: prod.split)
next
  case Leaving
  obtain p c' where close: "server_close env noticed (v_conn v) = (p, c')" by fastforce
  then have "n_in (c_net (s_conn c')) = n_in (c_net (s_conn (v_conn v)))"
    by (auto simp: server_close_def Conn_Close_def recv_SequenceID_def Let_def dest!: SendPkt_conn(5)
        split: prod.splits if_splits option.splits bind_splits)
  with close Leaving show ?thesis
    by (simp add: serve_step_def distance_def)
qed (use assms in \<open>auto simp: serve_step_def distance_def startActiveTest_def Let_def\<close>)

text \<open>The other steps of the system do not move the loop away from its end.\<close>

lemma srv_step_distance: "srv_step sharpv h v v' \<Longrightarrow> distance v' \<le> distance v"
proof (induction rule: srv_step.induct)
  case (serve v env noticed)
  then show ?case using serve_step_distance [of v sharpv env noticed] by simp
qed (auto simp: distance_def tick_input dest: SendPkt_conn(5))

lemma srv_run_distance: "srv_run sharpv h v n v' \<Longrightarrow> n + distance v' \<le> distance v"
proof (induction rule: srv_run.induct)
  case (serve n v' env noticed)
  with serve_step_distance [of v' sharpv env noticed] show ?case by simp
next
  case (other n v' v'')
  with srv_step_distance [of sharpv v' v''] show ?case by simp
qed simp

lemma serve_ends:
  "distance v \<le> length envs \<Longrightarrow>
   v_phase (foldl (\<lambda>v (env, noticed). serve_step sharpv h env noticed v) v envs) = Ended"
proof (induction envs arbitrary: v)
  case Nil
  then show ?case using distance_bounds(2) [of v] by simp
next
  case (Cons e envs)
  obtain env noticed where e: "e = (env, noticed)" by fastforce
  have "distance (serve_step sharpv h env noticed v) \<le> length envs"
  proof (cases "v_phase v = Ended")
    case True
    with serve_step_Ended [OF True] distance_bounds(2) [of v] show ?thesis by simp
  next
    case False
    with serve_step_distance [OF False, of sharpv env noticed] Cons.prems show ?thesis by simp
  qed
  with Cons.IH e show ?case by simp
qed

end

section \<open>The handlers of the example server\<close>

interpretation login_input: input_handler handleLogin
proof
  fix r k res r' k'
  assume "handleLogin r k = (res, r', k')"
  with handleLogin_conn [of r k] show "n_in (c_net k') = n_in (c_net k)" by simp
qed

lemma report_packets_input:
  "report_packets clock noticed msgId src i ds k = (ps, k') \<Longrightarrow> c_net k' = c_net k"
  by (induction ds arbitrary: i k ps) (auto simp: Let_def recv_SequenceID_def split: prod.splits)

interpretation submit_input: input_handler "handleSubmit clock noticed" for clock noticed
proof
  fix r k res r' k'
  assume "handleSubmit clock noticed r k = (res, r', k')"
  then show "n_in (c_net k') = n_in (c_net k)"
    by (auto simp: handleSubmit_def handleSubmit_delivers_def recv_SequenceNum_def Let_def
        dest: report_packets_input split: packet.splits option.splits prod.splits)
qed

lemma handler_chain_input: "\<forall>h \<in> set hs. input_handler h \<Longrightarrow> input_handler (handler_chain hs)"
proof (induction hs)
  case (Cons h hs)
  then have h: "input_handler h" and hs: "input_handler (handler_chain hs)" by simp_all
  show ?case
  proof (rule input_handler.intro)
    fix r k res r' k'
    assume run: "handler_chain (h # hs) r k = (res, r', k')"
    obtain res1 r1 k1 where 1: "h r k = (res1, r1, k1)" by (cases "h r k")
    from input_handler.keeps_input [OF h 1] run 1 show "n_in (c_net k') = n_in (c_net k)"
      by (auto dest: input_handler.keeps_input [OF hs] split: option.splits prod.splits if_splits)
  qed
qed (auto intro: input_handler.intro)

interpretation example_input: input_handler "handler_chain [handleLogin, handleSubmit clock noticed]"
  for clock noticed
  by (rule handler_chain_input) (simp add: login_input.input_handler_axioms submit_input.input_handler_axioms)

end
