(* ===== verification/Spec2Isabelle.thy ===== *)
theory Spec2Isabelle
  imports Codec_Properties Session_Properties Example_Properties Login_Session Reports Serve_End
begin

text \<open>
  A model of \<^verbatim>\<open>gosmgp\<close>, a Go implementation of SMGP 3.0, the protocol between a short message gateway and
  its service providers: twelve packet types, connections that carry them, a client, and a server with
  pluggable handlers.

  Conventions. A Go string and a byte slice are lists of 8-bit words; \<^verbatim>\<open>uint8/16/32\<close> are words, so their
  arithmetic wraps; \<^verbatim>\<open>int\<close> is \<open>nat\<close> or \<open>int\<close> where it cannot overflow. A method that changes its
  receiver returns the changed record. A Go \<^verbatim>\<open>(T, error)\<close> is \<open>error + T\<close>; a call that may panic returns an
  option, with \<open>None\<close> for the panic. Go iterates over a map in an arbitrary order, so whatever ranges over
  optional parameters takes the order as an argument (\<open>lenOrd\<close>, \<open>wrOrd\<close>, packed with the time in
  \<open>pack_env\<close>); \<open>iterates\<close> says that such an order visits every key once.

  Theories and files (under \<^verbatim>\<open>src/pkg\<close> where nothing else is said):

  \<^item> \<open>Prelude\<close>: the named collections, byte order, Go slices. \<open>Go_Text\<close>: what the program uses of
    \<^verbatim>\<open>strconv\<close>, \<^verbatim>\<open>fmt\<close> and \<^verbatim>\<open>encoding/hex\<close>. \<open>Md5\<close>: \<^verbatim>\<open>crypto/md5\<close>. \<open>Errors\<close>: \<^verbatim>\<open>error.go\<close>.
  \<^item> \<open>Wire\<close>: \<^verbatim>\<open>packet.go\<close>, the writer and the reader with their sticky errors, and \<^verbatim>\<open>header.go\<close>; the locale
    \<open>field_codec\<close> is what a field of a packet promises. \<open>Octet\<close>: the fixed-width strings of \<^verbatim>\<open>types.go\<close>.
  \<^item> \<open>Options\<close>: \<^verbatim>\<open>options.go\<close> and the TLVs of \<^verbatim>\<open>types.go\<close>; \<open>parse_tlvs\<close> is the reference parser on lists.
  \<^item> \<open>Request\<close>, \<open>Status\<close>: \<^verbatim>\<open>request.go\<close> and \<^verbatim>\<open>status.go\<close>. \<open>Auth\<close>, \<open>Msg_Id\<close>, \<open>Long_Sms\<close>: \<^verbatim>\<open>utils.go\<close>.
  \<^item> \<open>Active_Exit\<close>, \<open>Login\<close>, \<open>Query\<close>, \<open>Submit\<close>, \<open>Deliver\<close>: the packet types, a record, \<^verbatim>\<open>Pack\<close> and
    \<^verbatim>\<open>Unpack\<close> each, over the locale \<open>packer\<close> of theory \<open>Packer\<close>, which is interpreted for all twelve.
  \<^item> \<open>Packets\<close>: the interface \<^verbatim>\<open>Packer\<close> as a datatype and the switch of \<^verbatim>\<open>RecvAndUnpackPkt\<close>.
  \<^item> \<open>Sequence\<close>, \<open>Connection\<close>, \<open>Framing\<close>: \<^verbatim>\<open>connection.go\<close>; the two generator goroutines, the connection
    and its life cycle, and packets on the byte stream. \<open>Channel\<close>: two connections as the implementation
    of a queue of packets, over the locale \<open>fifo_channel\<close>.
  \<^item> \<open>Printing\<close>: the \<^verbatim>\<open>String\<close> methods of all the files above, with the lines that \<^verbatim>\<open>fmt.Fprintln\<close> writes.
  \<^item> \<open>Client\<close>: \<^verbatim>\<open>client/client.go\<close>. \<open>Server\<close>, \<open>Serve_Loop\<close>: \<^verbatim>\<open>server/server.go\<close>; the operations, and the serve loop
    and the ticker as one transition system. \<open>Example_Server\<close>: the handlers of \<^verbatim>\<open>examples/server/main.go\<close>.
    \<open>Example_Client\<close>: the goroutine of \<^verbatim>\<open>examples/client/main.go\<close>.
    The locales \<open>handler_contract\<close> and \<open>input_handler\<close> are what the serve loop relies on.
  \<^item> \<open>Codec_Properties\<close>, \<open>Session_Properties\<close>, \<open>Example_Properties\<close>, \<open>Login_Session\<close>, \<open>Reports\<close>, \<open>Serve_End\<close>
    and this theory: the properties, and the lemmas that compose client, stream, serve loop and handlers.

  What is shown. For the codecs: round trips of all packet types, exact conditions for errors and for
  panics, the language of the optional parameters, reassembly of long messages in any order of arrival.
  For connections: which bytes are accepted as a frame, the refinement of a queue, the type of what
  arrives, no channel closed twice, distinct sequence numbers, and that what arrives can be printed. For
  client and server: every outcome of \<^verbatim>\<open>Connect\<close>, that \<^verbatim>\<open>Disconnect\<close> shuts the connection down, the answers to
  requests at both ends, an end of the serve loop within a bounded number of steps and with the connection closed,
  detection of a silent peer, a ticker that is left blocked, the sleeps of the accept loop; and from end to end
  a login, a submission, a round of the active test and the delivery of status reports. Where the code
  departs from its comments or from what it means to do, the property states what the code does and its text says so.

  Bounds. Nothing uses fuel: every loop is structural or has a measure, except the serve loop, which is a
  transition system (\<open>distance\<close> bounds its steps). The network is a list of what the reader will meet
  and of how the writes will end, so a run reads finitely many bytes, however many.

  Parameters. The encoders and decoders of \<^verbatim>\<open>golang.org/x/text\<close> are arguments of the conversions that call
  them, as is the \<^verbatim>\<open>%#v\<close> text of a packet in two error messages (\<open>sharpv\<close>), and the function
  \<^verbatim>\<open>pkg.GetLongMsgPkgs\<close> that the example client calls and the package does not have (\<open>getLong\<close>). The
  random start values, the times that \<^verbatim>\<open>time.Now\<close> returns and the choices of a Go \<^verbatim>\<open>select\<close> are arguments
  or steps.

  Not modelled: logging; the durations of timers (a tick is a step, a time-out an item of the input, and the panic of
  \<^verbatim>\<open>time.NewTicker\<close> for an interval that is not positive); nil entries in a map of options; the
  sharing of memory between the pooled read buffer and the option values parsed from it, which a later
  receive may overwrite; data races on the state field of a connection, since the goroutines' steps
  interleave whole; the command line of the example client.
\<close>

section \<open>Properties that span components\<close>

text \<open>
  C5: A client logs in at the example server: the server reads the bytes that \<open>Connect\<close> sends, and
  \<open>Connect\<close> reads the bytes that the serve loop writes. The login succeeds exactly when the padded
  identifier is the server's user and the authenticator of the identifier as the client was given it
  equals the one of the padded identifier that the server computes. On success the server goes on polling
  and the client is authenticated; otherwise the server leaves its loop and \<open>Connect\<close> returns the error
  of status 21, with the client's connection still open.
\<close>

theorem login_end_to_end:
  assumes "fresh_net n" "v_phase v = Reading" "open_conn (s_conn (v_conn v))" "n_wfail (c_net (s_conn (v_conn v))) = []"
    "srv_Version (s_server (v_conn v)) = ver cli"
    "n_in (c_net (s_conn (v_conn v))) = map Data (login_bytes env randId clientID secret loginMode (ver cli)) @ rest"
    "v' = (serve_step sharpv handleLogin env' noticed ^^ 3) v"
    "n_in n = map Data (drop (length (n_out (c_net (s_conn (v_conn v))))) (n_out (c_net (s_conn (v_conn v'))))) @ rest'"
    "Connect env (Inr n) randId randNum clientID secret loginMode timeout cli = (res, cli')"
    "ok = (OctetString_Byte clientID 8 = OctetString_Byte user 8 \<and>
       auth_client clientID secret (GenTimestamp (e_now env)) =
       auth_client (OctetString_Byte user 8) password (GenTimestamp (e_now env)))"
  shows "v_phase v' = (if ok then Polling else Leaving) \<and>
    res = Some (if ok then None else Some (Status_Error 21)) \<and>
    (\<exists>c. cli_conn cli' = Some c \<and> \<not> n_closed (c_net c) \<and>
       State c = (if ok then CONNECTION_AUTHOK else CONNECTION_CONNECTED))"
proof -
  let ?req = "seen_login env randId clientID secret loginMode (ver cli)"
  let ?body = "login_req_body (e_now env) (login_request (e_now env) clientID secret loginMode (ver cli))"
  have ok: "login_accepted ?req = ok"
    by (simp add: seen_login_accepted assms(10))
  have len: "12 + length ?body \<le> 2477"
    by (simp add: login_bytes_decode(2))
  have version: "ClientVersion ?req = srv_Version (s_server (v_conn v))"
    using assms(5) by (simp add: seen_login_def login_req_sent_def login_request_def SmgpLoginReqPkt.defs)
  note server = serve_login [OF assms(2-4) assms(6) [unfolded login_bytes_decode(1)] len login_bytes_decode(3) version,
      of sharpv env' noticed, folded assms(7), unfolded ok]
  have "n_in n = map Data (packet_frame env' randId (LoginResp (login_reply ?req))) @ rest'"
    using assms(8) server(2) by simp
  note client = Connect_reply [OF fresh_takes_login [OF assms(1)] this, of env randId randNum clientID secret loginMode timeout cli,
      unfolded assms(9) login_reply_Status ok]
  from server(1) client show ?thesis by (cases ok) auto
qed

text \<open>
  The witness: the padded identifier and the right password at the example server, at the first of March;
  the bytes of the server's answer are what the serve loop writes.
\<close>

theorem login_end_to_end_witness:
  "let v = \<lparr>v_conn = sconn_sample (map Data (login_bytes env_sample 41 (OctetString_Byte user 8) password 0 VERSION)) 3,
          v_phase = Reading, v_panicked = False\<rparr>;
       v' = (serve_step (\<lambda>p. []) handleLogin env_sample False ^^ 3) v;
       n = net_sample (map Data (n_out (c_net (s_conn (v_conn v')))))
   in v_phase v' = Polling \<and>
      fst (Connect env_sample (Inr n) 41 0 (OctetString_Byte user 8) password 0 True (NewClient VERSION)) = Some None"
proof -
  let ?v = "\<lparr>v_conn = sconn_sample (map Data (login_bytes env_sample 41 (OctetString_Byte user 8) password 0 VERSION)) 3,
          v_phase = Reading, v_panicked = False\<rparr>"
  let ?v' = "(serve_step (\<lambda>p. []) handleLogin env_sample False ^^ 3) ?v"
  let ?n = "net_sample (map Data (n_out (c_net (s_conn (v_conn ?v')))))"
  obtain res cli' where run: "Connect env_sample (Inr ?n) 41 0 (OctetString_Byte user 8) password 0 True (NewClient VERSION) =
      (res, cli')" by fastforce
  have "srv_Version (s_server (v_conn ?v)) = ver (NewClient VERSION)" "n_in ?n = map Data (drop 0 (n_out (c_net (s_conn (v_conn ?v'))))) @ []"
    by (simp_all add: sconn_sample_def NewClient_def net_sample_def)
  then show ?thesis
    using login_end_to_end [of ?n ?v "NewClient VERSION" env_sample 41 "OctetString_Byte user 8" password 0 "[]" ?v'
        "\<lambda>p. []" env_sample False "[]" 0 True res cli' True] run
    by (simp add: Let_def NewClient_def del: funpow.simps)
qed

text \<open>
  C37: The example server's \<open>handleLogin\<close> on what a client has packed. For every login request, the packet that arrives is accepted
  exactly when its identifier, padded to eight bytes, is the server's user, and the hash over the identifier as the client was
  given it, the secret and the time stamp as given equals the hash over the padded user, the password and the time stamp that is
  transmitted, which is the current time if none was given. A client that is configured with the server's own user and
  password, whose user has three characters, is rejected for this reason: shown for the time stamp of midnight on the
  first of March, by computing both hashes.
\<close>

theorem short_identifier_rejected:
  "(\<exists>bs req. snd (SmgpLoginReqPkt_Pack now seq p) = Inr bs \<and>
     SmgpLoginReqPkt_Unpack (SmgpLoginReqPkt_new s) (drop 12 bs) = Some (req, None) \<and>
     fst (handleLogin \<lparr>r_Packet = LoginReq req, r_Packer = Some (LoginResp (SmgpLoginRespPkt_new s)), r_SequenceID = s\<rparr> k) =
       (if OctetString_Byte (ClientID p) 8 = OctetString_Byte user 8 \<and>
           md5_Sum (ClientID p @ replicate 7 0 @ SmgpLoginReqPkt.Secret p @ Sprintf_0d 10 (unat (TimeStamp p))) =
           md5_Sum (OctetString_Byte user 8 @ replicate 7 0 @ password @
             Sprintf_0d 10 (unat (if TimeStamp p = 0 then GenTimestamp now else TimeStamp p)))
        then Some (False, None) else Some (False, Some (Status_Error 21)))) \<and>
   (\<exists>bs req. snd (SmgpLoginReqPkt_Pack now seq (SmgpLoginReqPkt.make user [] loginMode 301000000 version 0 password)) = Inr bs \<and>
     SmgpLoginReqPkt_Unpack (SmgpLoginReqPkt_new s) (drop 12 bs) = Some (req, None) \<and>
     fst (handleLogin \<lparr>r_Packet = LoginReq req, r_Packer = Some (LoginResp (SmgpLoginRespPkt_new s)), r_SequenceID = s\<rparr> k) =
       Some (False, Some (Status_Error 21)))"
proof -
  note handled = handleLogin_packed [of now seq _ s "SmgpLoginRespPkt_new s" k]
  have "replicate 7 (0 :: byte) = [0, 0, 0, 0, 0, 0, 0]"
    by (simp add: eval_nat_numeral)
  then have "auth_client user password 301000000 \<noteq> auth_client (OctetString_Byte user 8) password 301000000"
    using hashes_differ by (simp add: auth_client_def user_password timestamp_sample)
  with handled [of "SmgpLoginReqPkt.make user [] loginMode 301000000 version 0 password"] handled [of p] show ?thesis
    by (simp add: auth_client_def login_timestamp_def SmgpLoginReqPkt.defs)
qed

text \<open>
  C6: Submitting to the example server and its status reports. The handler answers with a message
  identifier; \<open>mockDeliver\<close> then writes one deliver packet for each receiver, in the order of the receivers,
  and a client that reads the bytes gets as many reports, each from its receiver to the sender of the
  message, decoded, and naming the identifier that the submit response carries.
\<close>

theorem reports_delivered:
  assumes "r_Packet r = SubmitReq req" "r_Packer r = Some (SubmitResp resp)"
    "\<forall>i. valid_time (clock i)" "fits 21 (SmgpSubmitReqPkt.SrcTermID req)"
    "\<forall>d \<in> set (SmgpSubmitReqPkt.DestTermID req). fits 21 d"
    "recv_SequenceNum noticed k = (n, k0)" "unat n < 1000000"
    "handleSubmit_delivers clock noticed r k = ((res, r', k'), ps)"
    "\<forall>p \<in> set ps. iterates (e_lenOrd env) (SmgpDeliverReqPkt.Options p) \<and> iterates (e_wrOrd env) (SmgpDeliverReqPkt.Options p)"
    "open_conn k1" "n_wfail (c_net k1) = []" "open_conn c"
    "n_in (c_net c) = map Data (drop (length (n_out (c_net k1))) (n_out (c_net (mockDeliver env ps k1)))) @ rest"
  shows "\<exists>msgId qs. res = Some (False, None) \<and>
    r_Packer r' = Some (SubmitResp (resp\<lparr>SmgpSubmitRespPkt.MsgID := msgId\<rparr>)) \<and> msg_id_sent msgId = msgId \<and>
    fst (recv_all timeout (length ps) c) = map (\<lambda>q. Some (Inr (DeliverReq q))) qs \<and>
    map SmgpDeliverReqPkt.SrcTermID qs = SmgpSubmitReqPkt.DestTermID req \<and>
    list_all (\<lambda>q. IsReport q = 1 \<and> SmgpDeliverReqPkt.DestTermID q = SmgpSubmitReqPkt.SrcTermID req \<and>
      (\<exists>t. MsgStatContent q = Some t \<and> SubmitMsgID t = msgId \<and> Stat t = bytes_of ''DELIVRD'')) qs"
proof -
  let ?id = "GenMsgID (clock 0) spId n"
  let ?src = "SmgpSubmitReqPkt.SrcTermID req"
  let ?qs = "map (\<lambda>p. deliver_sent (SmgpDeliverReqPkt.SequenceID p) p) ps"
  obtain ps' k2 where run: "report_packets clock noticed ?id ?src 0 (SmgpSubmitReqPkt.DestTermID req) k0 = (ps', k2)"
    by fastforce
  from handleSubmit_delivers_request [OF assms(1,2,6) run] assms(8) have
    res: "res = Some (False, None)" "r' = r\<lparr>r_Packer := Some (SubmitResp (resp\<lparr>SmgpSubmitRespPkt.MsgID := ?id\<rparr>))\<rparr>" "ps' = ps"
    by auto
  have code: "0 \<le> gateway_code spId" by (simp add: gateway_code_spId)
  have id: "hex_string ?id" "length ?id = 20"
    using hex_string_GenMsgID [OF code] length_GenMsgID [OF _ code, of "clock 0" n] assms(3,7) by auto
  have reports: "list_all2 (report_for ?id ?src) (SmgpSubmitReqPkt.DestTermID req) ps"
    using report_packets_for [OF assms(3) run] res(3) by simp
  have ok: "\<forall>p \<in> set ps. packet_ok env (DeliverReq p)"
    by (rule reports_ok [OF reports id assms(5,4,9)])
  have "n_in (c_net c) = map Data (concat (map (\<lambda>(env, seq, p). packet_frame env seq p) (report_queue env ps))) @ rest"
    using assms(13) mockDeliver_out [OF assms(10,11) ok] by simp
  from recv_all_frames [OF assms(12) _ this, of timeout] ok
  have "fst (recv_all timeout (length ps) c) = map (\<lambda>q. Some (Inr (DeliverReq q))) ?qs"
    by (auto simp: report_queue_def)
  with res id msg_id_sent_id reports_fields [OF reports id] show ?thesis by fastforce
qed

theorem reports_delivered_witness:
  "let env = env_sample\<lparr>e_lenOrd := [TAG_TP_pid, TAG_TP_udhi], e_wrOrd := [TAG_TP_udhi, TAG_TP_pid]\<rparr>;
       r = \<lparr>r_Packet = SubmitReq submit_sample, r_Packer = Some (SubmitResp (SmgpSubmitRespPkt_new 1)), r_SequenceID = 1\<rparr>;
       ps = snd (handleSubmit_delivers (\<lambda>i. clock_sample) False r (conn_sample []));
       bytes = n_out (c_net (mockDeliver env ps (conn_sample [])))
   in \<exists>qs. fst (recv_all True (length ps) (conn_sample (map Data bytes))) = map (\<lambda>q. Some (Inr (DeliverReq q))) qs \<and>
     map SmgpDeliverReqPkt.SrcTermID qs = [bytes_of ''8618012345678'', bytes_of ''8618012345679'']"
proof -
  let ?env = "env_sample\<lparr>e_lenOrd := [TAG_TP_pid, TAG_TP_udhi], e_wrOrd := [TAG_TP_udhi, TAG_TP_pid]\<rparr>"
  let ?resp = "SmgpSubmitRespPkt_new 1"
  let ?r = "\<lparr>r_Packet = SubmitReq submit_sample, r_Packer = Some (SubmitResp ?resp), r_SequenceID = 1\<rparr>"
  obtain res r' k' ps where run: "handleSubmit_delivers (\<lambda>i. clock_sample) False ?r (conn_sample []) = ((res, r', k'), ps)"
    by (metis prod.exhaust)
  obtain n k0 where n: "recv_SequenceNum False (conn_sample []) = (n, k0)" "unat n < 1000000"
    by (simp add: recv_SequenceNum_def gen_recv_def conn_sample_def newSequenceNumGenerator_def)
  have sample: "SmgpSubmitReqPkt.DestTermID submit_sample = [bytes_of ''8618012345678'', bytes_of ''8618012345679'']"
    "SmgpSubmitReqPkt.SrcTermID submit_sample = bytes_of ''123456''"
    by (simp_all add: submit_sample_def SmgpSubmitReqPkt.defs)
  have "SmgpDeliverReqPkt.Options p = [TAG_TP_udhi \<mapsto> NewTLV TAG_TP_udhi [0], TAG_TP_pid \<mapsto> NewTLV TAG_TP_pid [1]]"
    if "p \<in> set ps" for p
    using run that
    by (auto simp: handleSubmit_delivers_def sample report_packet_def SmgpDeliverReqPkt.defs Let_def split: prod.splits)
  then have orders: "\<forall>p \<in> set ps. iterates (e_lenOrd ?env) (SmgpDeliverReqPkt.Options p) \<and>
      iterates (e_wrOrd ?env) (SmgpDeliverReqPkt.Options p)"
    by (auto simp: iterates_def tag_defs)
  have strings: "fits 21 (SmgpSubmitReqPkt.SrcTermID submit_sample)"
    "\<forall>d \<in> set (SmgpSubmitReqPkt.DestTermID submit_sample). fits 21 d"
    by (simp_all add: sample fits_def bytes_of_char)
  show ?thesis
    using reports_delivered [OF _ _ _ strings n run orders, of ?resp "conn_sample []"
        "conn_sample (map Data (n_out (c_net (mockDeliver ?env ps (conn_sample [])))))" "[]" True]
    by (auto simp: run sample clock_sample_valid Let_def)
qed

text \<open>
  C12: The serve loop ends. Over handlers that leave the stream alone, in every interleaving with the
  ticker and with other senders it makes at most \<open>distance\<close> steps, four for each item of input and five
  more; given that many, whatever the times and the map orders are, it has ended.
\<close>

theorem serve_terminates:
  assumes "input_handler h"
  shows "(srv_run sharpv h v n v' \<longrightarrow> n \<le> distance v) \<and> distance v \<le> 4 * length (n_in (c_net (s_conn (v_conn v)))) + 5 \<and>
    (distance v \<le> length envs \<longrightarrow>
      v_phase (foldl (\<lambda>v (env, noticed). serve_step sharpv h env noticed v) v envs) = Ended)"
  using input_handler.srv_run_distance [OF assms, of sharpv v n v'] distance_bounds(1) [of v]
    input_handler.serve_ends [OF assms, of v envs sharpv] by auto

theorem serve_terminates_witness:
  "v_phase (foldl (\<lambda>v (env, noticed). serve_step (\<lambda>p. []) (handler_chain [handleLogin, handleSubmit (\<lambda>i. clock_sample) False])
     env noticed v) \<lparr>v_conn = sconn_sample [Silence, Data 0] 3, v_phase = Starting, v_panicked = False\<rparr>
     (replicate 13 (env_sample, False))) = Ended"
  using serve_terminates [OF example_input.input_handler_axioms,
      where v = "\<lparr>v_conn = sconn_sample [Silence, Data 0] 3, v_phase = Starting, v_panicked = False\<rparr>"
        and envs = "replicate 13 (env_sample, False)"]
  by simp

end
